(* ===== verification/Prelude.thy ===== *)
theory Prelude
  imports Main
begin

text \<open>
  Shared vocabulary of the development: the pieces of the TypeScript runtime that several
  components use (strings, decimal numbers, calendar dates, JSON values, anonymous spread
  objects) and programs that may throw and that read and write a world.

  Strings are lists of characters, one character per UTF-16 code unit below 256; the string
  operations below agree with ECMAScript on such strings. Points in time are milliseconds
  since the epoch, as \<open>Date.prototype.getTime\<close> returns them.
\<close>

named_theorems prog_simps \<open>unfolding a program one step at a time\<close>
named_theorems text_simps \<open>evaluating the string operations\<close>

type_synonym time = int

section \<open>Strings\<close>

text \<open>White space as in ECMAScript's \<open>trim\<close> and \<open>\s\<close>: TAB, LF, VT, FF, CR, SPACE, NBSP.\<close>

definition is_space :: "char \<Rightarrow> bool" where
  "is_space c \<longleftrightarrow> (of_char c :: nat) \<in> {9, 10, 11, 12, 13, 32, 160}"

definition trim_left :: "string \<Rightarrow> string" where
  "trim_left s = dropWhile is_space s"

definition trim :: "string \<Rightarrow> string" where
  "trim s = rev (trim_left (rev (trim_left s)))"

definition lower_char :: "char \<Rightarrow> char" where
  "lower_char c =
     (let n = (of_char c :: nat)
      in if (65 \<le> n \<and> n \<le> 90) \<or> (192 \<le> n \<and> n \<le> 222 \<and> n \<noteq> 215) then char_of (n + 32) else c)"

definition toLowerCase :: "string \<Rightarrow> string" where
  "toLowerCase s = map lower_char s"

definition startsWith :: "string \<Rightarrow> string \<Rightarrow> bool" where
  "startsWith s p \<longleftrightarrow> take (length p) s = p"

fun containsText :: "string \<Rightarrow> string \<Rightarrow> bool" where
  "containsText [] p \<longleftrightarrow> p = []"
| "containsText (c # s) p \<longleftrightarrow> startsWith (c # s) p \<or> containsText s p"

definition truthy :: "string option \<Rightarrow> bool" where
  "truthy v \<longleftrightarrow> (case v of None \<Rightarrow> False | Some s \<Rightarrow> s \<noteq> [])"

definition is_lower_alnum :: "char \<Rightarrow> bool" where
  "is_lower_alnum c \<longleftrightarrow>
     (let n = (of_char c :: nat) in (97 \<le> n \<and> n \<le> 122) \<or> (48 \<le> n \<and> n \<le> 57))"

definition dash :: char where
  "dash = CHR ''-''"

fun joinWith :: "string \<Rightarrow> string list \<Rightarrow> string" where
  "joinWith sep [] = []"
| "joinWith sep [x] = x"
| "joinWith sep (x # y # ys) = x @ sep @ joinWith sep (y # ys)"

lemma trim_left_Nil [simp]: "trim_left [] = []"
  by (simp add: trim_left_def)

lemma trim_left_idem [simp]: "trim_left (trim_left s) = trim_left s"
  by (induction s) (auto simp: trim_left_def)

lemma trim_left_clean [simp]: "list_all (\<lambda>c. \<not> is_space c) s \<Longrightarrow> trim_left s = s"
  by (cases s) (auto simp: trim_left_def)

lemma trim_left_append_clean:
  "\<not> is_space c \<Longrightarrow> trim_left (s @ [c]) = trim_left s @ [c]"
  by (induction s) (auto simp: trim_left_def)

lemma trim_left_trim: "trim_left (trim s) = trim s"
proof (cases "trim_left s")
  case Nil
  then show ?thesis by (simp add: trim_def)
next
  case (Cons c cs)
  then have c: "\<not> is_space c"
    by (metis hd_dropWhile list.distinct(1) list.sel(1) trim_left_def)
  then have "trim s = c # rev (trim_left (rev cs))"
    by (simp add: trim_def Cons trim_left_append_clean)
  with c show ?thesis by (simp add: trim_left_def)
qed

lemma trim_idem [simp]: "trim (trim s) = trim s"
proof -
  have "trim (trim s) = rev (trim_left (rev (trim s)))"
    by (simp add: trim_def [of "trim s"] trim_left_trim)
  then show ?thesis by (simp add: trim_def [of s])
qed

lemma trim_clean [simp]: "list_all (\<lambda>c. \<not> is_space c) s \<Longrightarrow> trim s = s"
  by (simp add: trim_def list_all_iff)

lemma lower_char_idem [simp]: "lower_char (lower_char c) = lower_char c"
  by (cases "of_char c :: nat" rule: nat.exhaust) (auto simp: lower_char_def Let_def)

lemma toLowerCase_idem [simp]: "toLowerCase (toLowerCase s) = toLowerCase s"
  by (simp add: toLowerCase_def)

lemma is_space_lower [simp]: "is_space (lower_char c) = is_space c"
  by (auto simp: is_space_def lower_char_def Let_def)

lemma toLowerCase_trim_left: "toLowerCase (trim_left s) = trim_left (toLowerCase s)"
  by (induction s) (auto simp: trim_left_def toLowerCase_def)

lemma toLowerCase_rev: "toLowerCase (rev s) = rev (toLowerCase s)"
  by (simp add: toLowerCase_def rev_map)

lemma toLowerCase_trim: "toLowerCase (trim s) = trim (toLowerCase s)"
  by (simp add: trim_def toLowerCase_rev toLowerCase_trim_left)

lemma normalise_idem [simp]:
  "trim (toLowerCase (trim (toLowerCase s))) = trim (toLowerCase s)"
  by (simp add: toLowerCase_trim)

section \<open>Numbers, dates and identifiers as text\<close>

text \<open>Decimal notation of a number, \<open>String(n)\<close>, and \<open>padStart\<close>.\<close>

fun digits :: "nat \<Rightarrow> string" where
  "digits n = (if n < 10 then [char_of (48 + n)] else digits (n div 10) @ [char_of (48 + n mod 10)])"

declare digits.simps [simp del]

definition show_int :: "int \<Rightarrow> string" where
  "show_int i = (if i < 0 then ''-'' @ digits (nat (- i)) else digits (nat i))"

definition padStart :: "nat \<Rightarrow> string \<Rightarrow> string" where
  "padStart n s = replicate (n - length s) (CHR ''0'') @ s"

text \<open>
  The proleptic Gregorian date (year, month 1 to 12, day 1 to 31) of a day number counted
  from 1970-01-01, as \<open>getUTCFullYear\<close>, \<open>getUTCMonth\<close> and \<open>getUTCDate\<close> give it.
\<close>

definition DAY_MS :: int where
  "DAY_MS = 24 * 60 * 60 * 1000"

definition civil :: "int \<Rightarrow> int \<times> int \<times> int" where
  "civil days =
     (let z = days + 719468;
          era = z div 146097;
          doe = z mod 146097;
          yoe = (doe - doe div 1460 + doe div 36524 - doe div 146096) div 365;
          doy = doe - (365 * yoe + yoe div 4 - yoe div 100);
          mp = (5 * doy + 2) div 153;
          d = doy - (153 * mp + 2) div 5 + 1;
          m = (if mp < 10 then mp + 3 else mp - 9);
          y = yoe + era * 400 + (if m \<le> 2 then 1 else 0)
      in (y, m, d))"

definition show_year :: "int \<Rightarrow> string" where
  "show_year y =
     (if 0 \<le> y \<and> y \<le> 9999 then padStart 4 (show_int y)
      else (if y < 0 then ''-'' else ''+'') @ padStart 6 (show_int \<bar>y\<bar>))"

text \<open>\<open>Date.prototype.toISOString\<close>.\<close>

definition toISOString :: "time \<Rightarrow> string" where
  "toISOString t =
     (let (y, m, d) = civil (t div DAY_MS); ms = t mod DAY_MS
      in show_year y @ ''-'' @ padStart 2 (show_int m) @ ''-'' @ padStart 2 (show_int d) @ ''T''
         @ padStart 2 (show_int (ms div 3600000)) @ '':''
         @ padStart 2 (show_int (ms div 60000 mod 60)) @ '':''
         @ padStart 2 (show_int (ms div 1000 mod 60)) @ ''.''
         @ padStart 3 (show_int (ms mod 1000)) @ ''Z'')"

section \<open>JSON values\<close>

text \<open>
  Plain objects (\<open>Record<string, unknown>\<close>) keep their members in order. A member whose
  value is \<open>undefined\<close> is absent.
\<close>

datatype json =
    JNull
  | JBool bool
  | JNum int
  | JStr string
  | JArr "json list"
  | JObj "(string \<times> json) list"

type_synonym object = "(string \<times> json) list"

text \<open>An optional string member: present only when it is not \<open>undefined\<close>.\<close>

definition opt_member :: "string \<Rightarrow> string option \<Rightarrow> object" where
  "opt_member k v = (case v of None \<Rightarrow> [] | Some s \<Rightarrow> [(k, JStr s)])"

text \<open>
  \<open>{ ...base, ...extra }\<close>: members of \<open>extra\<close> replace those of \<open>base\<close> under the same key.
\<close>

definition spread :: "('k \<times> 'v) list \<Rightarrow> ('k \<times> 'v) list \<Rightarrow> ('k \<times> 'v) list" where
  "spread base extra = filter (\<lambda>(k, v). k \<notin> fst ` set extra) base @ extra"

lemma map_of_filter_keys:
  "map_of (filter (\<lambda>(a, v). a \<notin> K) xs) k = (if k \<in> K then None else map_of xs k)"
  by (induction xs) auto

lemma map_of_spread [simp]: "map_of (spread base extra) = map_of base ++ map_of extra"
proof
  fix k
  have "map_of extra k = None" if "k \<notin> fst ` set extra"
    using that by (simp add: map_of_eq_None_iff)
  moreover have "\<exists>v. map_of extra k = Some v" if "k \<in> fst ` set extra"
    using that map_of_eq_None_iff [of extra k] by auto
  ultimately show "map_of (spread base extra) k = (map_of base ++ map_of extra) k"
    by (cases "k \<in> fst ` set extra")
       (auto simp: spread_def map_add_def map_of_filter_keys split: option.split)
qed

lemma spread_Nil [simp]: "spread base [] = base"
  by (simp add: spread_def)

section \<open>Programs that throw and change the world\<close>

text \<open>
  An asynchronous method is a function from the world to a result (\<open>Inl\<close> of what it
  threw, or \<open>Inr\<close> of its value) and the world it leaves. The effects performed before a
  throw stay performed.
\<close>

type_synonym ('e, 'w, 'a) prog = "'w \<Rightarrow> ('e + 'a) \<times> 'w"

definition ret :: "'a \<Rightarrow> ('e, 'w, 'a) prog" where
  "ret x = (\<lambda>w. (Inr x, w))"

definition throw :: "'e \<Rightarrow> ('e, 'w, 'a) prog" where
  "throw e = (\<lambda>w. (Inl e, w))"

definition lift :: "'e + 'a \<Rightarrow> ('e, 'w, 'a) prog" where
  "lift r = (\<lambda>w. (r, w))"

definition andThen :: "('e, 'w, 'a) prog \<Rightarrow> ('a \<Rightarrow> ('e, 'w, 'b) prog) \<Rightarrow> ('e, 'w, 'b) prog" where
  "andThen m f = (\<lambda>w. case m w of (Inl e, w') \<Rightarrow> (Inl e, w') | (Inr x, w') \<Rightarrow> f x w')"

definition try_catch :: "('e, 'w, 'a) prog \<Rightarrow> ('e \<Rightarrow> ('e, 'w, 'a) prog) \<Rightarrow> ('e, 'w, 'a) prog" where
  "try_catch m h = (\<lambda>w. case m w of (Inl e, w') \<Rightarrow> h e w' | (Inr x, w') \<Rightarrow> (Inr x, w'))"

text \<open>\<open>try { m } finally { c }\<close>: what the last block throws replaces the result of the first.\<close>

definition ensuring :: "('e, 'w, 'a) prog \<Rightarrow> ('e, 'w, unit) prog \<Rightarrow> ('e, 'w, 'a) prog" where
  "ensuring m c = (\<lambda>w. case m w of (r, w1) \<Rightarrow> (case c w1 of (Inl e, w2) \<Rightarrow> (Inl e, w2) | (Inr _, w2) \<Rightarrow> (r, w2)))"

fun for_each :: "('a \<Rightarrow> ('e, 'w, unit) prog) \<Rightarrow> 'a list \<Rightarrow> ('e, 'w, unit) prog" where
  "for_each f [] = ret ()"
| "for_each f (x # xs) = andThen (f x) (\<lambda>_. for_each f xs)"

lemma ret_run [simp, prog_simps]: "ret x w = (Inr x, w)"
  by (simp add: ret_def)

lemma ensuring_state: "snd (ensuring m c w) = snd (c (snd (m w)))"
  by (simp add: ensuring_def split: prod.split sum.split)

lemma ensuring_ret [simp]: "ensuring m (ret x) = m"
  by (simp add: ensuring_def fun_eq_iff split: prod.split)

lemma throw_run [simp, prog_simps]: "throw e w = (Inl e, w)"
  by (simp add: throw_def)

lemma lift_run [simp, prog_simps]: "lift r w = (r, w)"
  by (simp add: lift_def)

lemma andThen_ret [simp]: "andThen (ret x) f = f x"
  by (simp add: andThen_def)

lemma andThen_throw [simp]: "andThen (throw e) f = throw e"
  by (simp add: andThen_def throw_def)

lemma andThen_lift_Inl [simp]: "andThen (lift (Inl e)) f = throw e"
  by (simp add: andThen_def throw_def)

lemma andThen_lift_Inr [simp]: "andThen (lift (Inr x)) f = f x"
  by (simp add: andThen_def)

lemma andThen_run [prog_simps]:
  "andThen m f w = (case m w of (Inl e, w') \<Rightarrow> (Inl e, w') | (Inr x, w') \<Rightarrow> f x w')"
  by (simp add: andThen_def)

lemma andThen_run_Inr: "m w = (Inr x, w') \<Longrightarrow> andThen m f w = f x w'"
  by (simp add: andThen_def)

lemma andThen_run_Inl: "m w = (Inl e, w') \<Longrightarrow> andThen m f w = (Inl e, w')"
  by (simp add: andThen_def)

lemma andThen_assoc: "andThen (andThen m f) g = andThen m (\<lambda>x. andThen (f x) g)"
  by (auto simp: andThen_def split: prod.splits sum.splits)

lemma try_catch_run [prog_simps]:
  "try_catch m h w = (case m w of (Inl e, w') \<Rightarrow> h e w' | (Inr x, w') \<Rightarrow> (Inr x, w'))"
  by (simp add: try_catch_def)

lemma andThen_InrE:
  assumes "andThen m f w = (Inr y, w'')"
  obtains x w' where "m w = (Inr x, w')" and "f x w' = (Inr y, w'')"
  using assms by (auto simp: andThen_def split: prod.splits sum.splits)

text \<open>A program keeps a predicate of the world when no run of it, thrown or not, breaks it.\<close>

definition keeps :: "('w \<Rightarrow> bool) \<Rightarrow> ('e, 'w, 'a) prog \<Rightarrow> bool" where
  "keeps P m \<longleftrightarrow> (\<forall>w. P w \<longrightarrow> P (snd (m w)))"

named_theorems keeps_intros \<open>rules showing that a program keeps a predicate\<close>

lemma keepsD: "keeps P m \<Longrightarrow> P w \<Longrightarrow> m w = (r, w') \<Longrightarrow> P w'"
  by (metis keeps_def snd_conv)

lemma keeps_ret [keeps_intros]: "keeps P (ret x)"
  by (simp add: keeps_def)

lemma keeps_throw [keeps_intros]: "keeps P (throw e)"
  by (simp add: keeps_def)

lemma keeps_lift [keeps_intros]: "keeps P (lift r)"
  by (simp add: keeps_def)

lemma keeps_andThen [keeps_intros]:
  "keeps P m \<Longrightarrow> (\<And>x. keeps P (f x)) \<Longrightarrow> keeps P (andThen m f)"
  by (fastforce simp: keeps_def andThen_def split: prod.splits sum.splits)

lemma keeps_try_catch [keeps_intros]:
  "keeps P m \<Longrightarrow> (\<And>e. keeps P (h e)) \<Longrightarrow> keeps P (try_catch m h)"
  by (fastforce simp: keeps_def try_catch_def split: prod.splits sum.splits)

lemma keeps_for_each [keeps_intros]: "(\<And>x. keeps P (f x)) \<Longrightarrow> keeps P (for_each f xs)"
  by (induction xs) (auto intro!: keeps_intros)

text \<open>
  A program that only reads, and reads the same in two worlds: it leaves each as it is and has
  the same result in both.
\<close>

definition agrees :: "'w \<Rightarrow> 'w \<Rightarrow> ('e, 'w, 'a) prog \<Rightarrow> bool" where
  "agrees w w' m \<longleftrightarrow> fst (m w) = fst (m w') \<and> snd (m w) = w \<and> snd (m w') = w'"

named_theorems agrees_intros \<open>rules showing that a program reads the same in two worlds\<close>

lemma agrees_ret [agrees_intros]: "agrees w w' (ret x)"
  by (simp add: agrees_def)

lemma agrees_lift [agrees_intros]: "agrees w w' (lift r)"
  by (simp add: agrees_def)

lemma agrees_andThen [agrees_intros]:
  assumes "agrees w w' m" and "\<And>x. agrees w w' (f x)"
  shows "agrees w w' (andThen m f)"
proof -
  obtain r where "m w = (r, w)" and "m w' = (r, w')"
    using assms(1) unfolding agrees_def by (metis prod.collapse)
  with assms(2) show ?thesis
    by (cases r) (simp_all add: agrees_def andThen_def)
qed

lemma agrees_same: "agrees w w' m \<Longrightarrow> fst (m w) = fst (m w')"
  by (simp add: agrees_def)

end
