(* ===== verification/SharedKernel.thy ===== *)
theory SharedKernel
  imports Prelude
begin

text \<open>
  The shared kernel, \<open>libs/shared-kernel/src\<close>: the enumerations of \<open>types/tenant.types.ts\<close>,
  the exceptions, \<open>Result\<close>, pagination metadata, \<open>isValidUuid\<close>, the entity, aggregate, domain
  event, command and query base classes, and \<open>SystemQueryContext\<close>.

  Values that the code takes from its environment are arguments: identifiers made by
  \<open>uuidv4()\<close> and readings of \<open>new Date()\<close>, in the order the code asks for them.
\<close>

section \<open>Enumerations\<close>

datatype tenant_plan_tier = FREE | STARTER | PRO | ENTERPRISE

primrec tier_text :: "tenant_plan_tier \<Rightarrow> string" where
  "tier_text FREE = ''free''"
| "tier_text STARTER = ''starter''"
| "tier_text PRO = ''pro''"
| "tier_text ENTERPRISE = ''enterprise''"

datatype tenant_status = PROVISIONING | ACTIVE | SUSPENDED | DEPROVISIONING | DELETED

primrec status_text :: "tenant_status \<Rightarrow> string" where
  "status_text PROVISIONING = ''provisioning''"
| "status_text ACTIVE = ''active''"
| "status_text SUSPENDED = ''suspended''"
| "status_text DEPROVISIONING = ''deprovisioning''"
| "status_text DELETED = ''deleted''"

datatype membership_role = OWNER | ADMIN | MEMBER | VIEWER

primrec role_text :: "membership_role \<Rightarrow> string" where
  "role_text OWNER = ''owner''"
| "role_text ADMIN = ''admin''"
| "role_text MEMBER = ''member''"
| "role_text VIEWER = ''viewer''"

datatype project_role = PROJECT_LEAD | PROJECT_CONTRIBUTOR | PROJECT_VIEWER

primrec project_role_text :: "project_role \<Rightarrow> string" where
  "project_role_text PROJECT_LEAD = ''lead''"
| "project_role_text PROJECT_CONTRIBUTOR = ''contributor''"
| "project_role_text PROJECT_VIEWER = ''viewer''"

datatype actor_type = Actor_user | Actor_api_key | Actor_system

primrec actor_type_text :: "actor_type \<Rightarrow> string" where
  "actor_type_text Actor_user = ''user''"
| "actor_type_text Actor_api_key = ''api_key''"
| "actor_type_text Actor_system = ''system''"

section \<open>Exceptions\<close>

text \<open>
  The first five constructors are the subclasses of \<open>DomainException\<close>. The others are what
  the code throws besides: the exceptions of \<open>@nestjs/common\<close>, a plain \<open>Error\<close>, a
  rejection by the database driver or another service, and the error of an aborted request.
\<close>

datatype exn =
    NotFoundException string string
  | ConflictException string
  | UnauthorizedException string
  | ForbiddenException string
  | ValidationException "(string \<times> string list) list"
  | NestUnauthorizedException string
  | NestForbiddenException string
  | NestBadRequestException string
  | PlainError string
  | ServiceError string
  | AbortError string

type_synonym ('w, 'a) io = "(exn, 'w, 'a) prog"

fun is_domain_exception :: "exn \<Rightarrow> bool" where
  "is_domain_exception (NotFoundException _ _) = True"
| "is_domain_exception (ConflictException _) = True"
| "is_domain_exception (UnauthorizedException _) = True"
| "is_domain_exception (ForbiddenException _) = True"
| "is_domain_exception (ValidationException _) = True"
| "is_domain_exception _ = False"

fun exn_message :: "exn \<Rightarrow> string" where
  "exn_message (NotFoundException entity i) = entity @ '' with id '' @ [CHR 0x27] @ i @ [CHR 0x27] @ '' was not found''"
| "exn_message (ConflictException m) = m"
| "exn_message (UnauthorizedException m) = m"
| "exn_message (ForbiddenException m) = m"
| "exn_message (ValidationException vs) = ''Validation failed''"
| "exn_message (NestUnauthorizedException m) = m"
| "exn_message (NestForbiddenException m) = m"
| "exn_message (NestBadRequestException m) = m"
| "exn_message (PlainError m) = m"
| "exn_message (ServiceError m) = m"
| "exn_message (AbortError m) = m"

text \<open>The \<open>code\<close> of a \<open>DomainException\<close>; other errors carry none.\<close>

fun exn_code :: "exn \<Rightarrow> string option" where
  "exn_code (NotFoundException _ _) = Some ''NOT_FOUND''"
| "exn_code (ConflictException _) = Some ''CONFLICT''"
| "exn_code (UnauthorizedException _) = Some ''UNAUTHORIZED''"
| "exn_code (ForbiddenException _) = Some ''FORBIDDEN''"
| "exn_code (ValidationException _) = Some ''VALIDATION_ERROR''"
| "exn_code _ = None"

text \<open>\<open>Result<T>\<close>: what a handler returns, as opposed to what it throws.\<close>

datatype 'a result = Ok (result_value: 'a) | Fail (result_error: exn)

text \<open>\<open>if (!result.success) throw result.error; return result.value;\<close>\<close>

primrec unwrap :: "'a result \<Rightarrow> exn + 'a" where
  "unwrap (Ok x) = Inr x"
| "unwrap (Fail e) = Inl e"

section \<open>Pagination\<close>

text \<open>The quotient of two numbers as the runtime computes it, rounded up by \<open>Math.ceil\<close>.\<close>

datatype js_number = Fin int | PosInf | NegInf | NaN

definition ceil_div :: "int \<Rightarrow> int \<Rightarrow> js_number" where
  "ceil_div a b =
     (if b = 0 then (if a = 0 then NaN else if a > 0 then PosInf else NegInf)
      else Fin (- ((- a) div b)))"

fun js_less :: "int \<Rightarrow> js_number \<Rightarrow> bool" where
  "js_less a (Fin b) \<longleftrightarrow> a < b"
| "js_less a PosInf \<longleftrightarrow> True"
| "js_less a NegInf \<longleftrightarrow> False"
| "js_less a NaN \<longleftrightarrow> False"

record pagination_options =
  opt_page :: "int option"
  opt_limit :: "int option"

record pagination_meta =
  meta_page :: int
  meta_limit :: int
  meta_total :: int
  meta_totalPages :: js_number
  meta_hasNextPage :: bool
  meta_hasPreviousPage :: bool

record 'a paginated_result =
  pr_data :: "'a list"
  pr_meta :: pagination_meta

definition buildPaginationMeta :: "int \<Rightarrow> int \<Rightarrow> int \<Rightarrow> pagination_meta" where
  "buildPaginationMeta page limit rows =
     (let totalPages = ceil_div rows limit
      in \<lparr>meta_page = page, meta_limit = limit, meta_total = rows, meta_totalPages = totalPages,
          meta_hasNextPage = js_less page totalPages, meta_hasPreviousPage = page > 1\<rparr>)"

section \<open>Identifiers\<close>

definition is_hex :: "char \<Rightarrow> bool" where
  "is_hex c \<longleftrightarrow> (let n = (of_char c :: nat)
     in (48 \<le> n \<and> n \<le> 57) \<or> (97 \<le> n \<and> n \<le> 102) \<or> (65 \<le> n \<and> n \<le> 70))"

text \<open>A regular expression that is a fixed sequence of character classes between \<open>^\<close> and \<open>$\<close>.\<close>

definition matches_classes :: "(char \<Rightarrow> bool) list \<Rightarrow> string \<Rightarrow> bool" where
  "matches_classes cs s \<longleftrightarrow> list_all2 (\<lambda>c x. c x) cs s"

definition uuid_pattern :: "(char \<Rightarrow> bool) list" where
  "uuid_pattern =
     replicate 8 is_hex @ [\<lambda>c. c = dash] @ replicate 4 is_hex @ [\<lambda>c. c = dash]
     @ [\<lambda>c. c = CHR ''4''] @ replicate 3 is_hex @ [\<lambda>c. c = dash]
     @ [\<lambda>c. c \<in> set ''89abAB''] @ replicate 3 is_hex @ [\<lambda>c. c = dash] @ replicate 12 is_hex"

definition isValidUuid :: "string \<Rightarrow> bool" where
  "isValidUuid s \<longleftrightarrow> matches_classes uuid_pattern s"

definition isEmpty :: "'a list option \<Rightarrow> bool" where
  "isEmpty v \<longleftrightarrow> (case v of None \<Rightarrow> True | Some xs \<Rightarrow> xs = [])"

section \<open>Entities, aggregates and domain events\<close>

record entity =
  ent_id :: string
  created_at :: time
  updated_at :: time

text \<open>
  The entity constructor: an absent id is a fresh one, absent dates are read from the clock,
  the creation date before the update date.
\<close>

definition new_entity :: "string option \<Rightarrow> time option \<Rightarrow> time option \<Rightarrow> string \<Rightarrow> time \<Rightarrow> time \<Rightarrow> entity" where
  "new_entity i created updated fresh now1 now2 =
     \<lparr>ent_id = (case i of Some x \<Rightarrow> x | None \<Rightarrow> fresh),
      created_at = (case created of Some t \<Rightarrow> t | None \<Rightarrow> now1),
      updated_at = (case updated of Some t \<Rightarrow> t | None \<Rightarrow> now2)\<rparr>"

definition touch :: "time \<Rightarrow> 'a entity_scheme \<Rightarrow> 'a entity_scheme" where
  "touch now e = e\<lparr>updated_at := now\<rparr>"

definition entity_equals :: "'a entity_scheme \<Rightarrow> 'b entity_scheme \<Rightarrow> bool" where
  "entity_equals a b \<longleftrightarrow> ent_id a = ent_id b"

text \<open>
  A value object as \<open>equals\<close> sees it: the name of its class and its members. \<open>stringify\<close> is
  \<open>JSON.stringify\<close>; \<open>None\<close> is a nil argument.
\<close>

record value_object =
  vo_constructor :: string
  vo_props :: object

definition vo_equals :: "(object \<Rightarrow> string) \<Rightarrow> value_object \<Rightarrow> value_object option \<Rightarrow> bool" where
  "vo_equals stringify this vo =
     (case vo of
        None \<Rightarrow> False
      | Some v \<Rightarrow> vo_constructor v = vo_constructor this \<and> stringify (vo_props this) = stringify (vo_props v))"

definition vo_unpack :: "value_object \<Rightarrow> object" where
  "vo_unpack this = vo_props this"

lemma vo_equals_iff: "inj stringify \<Longrightarrow> vo_equals stringify a (Some b) \<longleftrightarrow> a = b"
  by (auto simp: vo_equals_def inj_eq)

record event_metadata =
  md_tenantId :: string
  md_correlationId :: string
  md_actorId :: "string option"
  md_causationId :: "string option"
  md_traceId :: "string option"
  md_sourceService :: "string option"
  md_sourceVersion :: "string option"

record domain_event =
  de_eventId :: string
  de_eventType :: string
  de_eventVersion :: int
  de_tenantId :: string
  de_correlationId :: string
  de_actorId :: "string option"
  de_causationId :: "string option"
  de_traceId :: "string option"
  de_sourceService :: string
  de_sourceVersion :: "string option"
  de_occurredAt :: time
  de_payload :: object

text \<open>
  The event constructor: the event type is the name of the class, the version is 1, the
  source service has a default. The payload is what the subclass's getter returns.
\<close>

definition new_domain_event :: "string \<Rightarrow> event_metadata \<Rightarrow> object \<Rightarrow> string \<Rightarrow> time \<Rightarrow> domain_event" where
  "new_domain_event class_name m payload fresh now =
     \<lparr>de_eventId = fresh, de_eventType = class_name, de_eventVersion = 1,
      de_tenantId = md_tenantId m, de_correlationId = md_correlationId m,
      de_actorId = md_actorId m, de_causationId = md_causationId m, de_traceId = md_traceId m,
      de_sourceService = (case md_sourceService m of Some s \<Rightarrow> s | None \<Rightarrow> ''atlas-saas-platform''),
      de_sourceVersion = md_sourceVersion m, de_occurredAt = now, de_payload = payload\<rparr>"

definition domain_event_toJSON :: "domain_event \<Rightarrow> object" where
  "domain_event_toJSON e =
     [(''eventId'', JStr (de_eventId e)), (''eventType'', JStr (de_eventType e)),
      (''eventVersion'', JNum (de_eventVersion e)), (''tenantId'', JStr (de_tenantId e)),
      (''correlationId'', JStr (de_correlationId e))]
     @ opt_member ''actorId'' (de_actorId e) @ opt_member ''causationId'' (de_causationId e)
     @ opt_member ''traceId'' (de_traceId e)
     @ [(''sourceService'', JStr (de_sourceService e))]
     @ opt_member ''sourceVersion'' (de_sourceVersion e)
     @ [(''occurredAt'', JStr (toISOString (de_occurredAt e))), (''payload'', JObj (de_payload e))]"

record aggregate = entity +
  domain_events :: "domain_event list"

definition addDomainEvent :: "domain_event \<Rightarrow> 'a aggregate_scheme \<Rightarrow> 'a aggregate_scheme" where
  "addDomainEvent e a = a\<lparr>domain_events := domain_events a @ [e]\<rparr>"

definition clearDomainEvents :: "'a aggregate_scheme \<Rightarrow> 'a aggregate_scheme" where
  "clearDomainEvents a = a\<lparr>domain_events := []\<rparr>"

definition hasDomainEvents :: "'a aggregate_scheme \<Rightarrow> bool" where
  "hasDomainEvents a \<longleftrightarrow> length (domain_events a) > 0"

section \<open>Commands, queries and system contexts\<close>

record command =
  cmd_commandId :: string
  cmd_tenantId :: string
  cmd_correlationId :: string
  cmd_actorId :: "string option"
  cmd_issuedAt :: time

definition new_command ::
  "string \<Rightarrow> string option \<Rightarrow> string option \<Rightarrow> string \<Rightarrow> string \<Rightarrow> time \<Rightarrow> command" where
  "new_command tenant corr actor fresh1 fresh2 now =
     \<lparr>cmd_commandId = fresh1, cmd_tenantId = tenant,
      cmd_correlationId = (case corr of Some c \<Rightarrow> c | None \<Rightarrow> fresh2),
      cmd_actorId = actor, cmd_issuedAt = now\<rparr>"

record query_base =
  qry_queryId :: string
  qry_tenantId :: string
  qry_correlationId :: string
  qry_requestedAt :: time

definition new_query :: "string \<Rightarrow> string option \<Rightarrow> string \<Rightarrow> string \<Rightarrow> time \<Rightarrow> query_base" where
  "new_query tenant corr fresh1 fresh2 now =
     \<lparr>qry_queryId = fresh1, qry_tenantId = tenant,
      qry_correlationId = (case corr of Some c \<Rightarrow> c | None \<Rightarrow> fresh2), qry_requestedAt = now\<rparr>"

datatype system_context_type =
    MIGRATION | SCHEDULED_JOB | SUPER_ADMIN | PROVISIONING_CONTEXT | EVENT_CONSUMER | HEALTH_CHECK

record system_query_context =
  sqc_contextType :: system_context_type
  sqc_reason :: string
  sqc_requester :: string
  sqc_createdAt :: time

definition forMigration :: "string \<Rightarrow> time \<Rightarrow> system_query_context" where
  "forMigration migrationName now =
     \<lparr>sqc_contextType = MIGRATION, sqc_reason = ''Migration: '' @ migrationName,
      sqc_requester = ''TypeORM migrator'', sqc_createdAt = now\<rparr>"

definition forScheduledJob :: "string \<Rightarrow> time \<Rightarrow> system_query_context" where
  "forScheduledJob jobName now =
     \<lparr>sqc_contextType = SCHEDULED_JOB, sqc_reason = ''Scheduled job: '' @ jobName,
      sqc_requester = jobName, sqc_createdAt = now\<rparr>"

definition forSuperAdmin :: "string \<Rightarrow> string \<Rightarrow> time \<Rightarrow> system_query_context" where
  "forSuperAdmin adminId reason now =
     \<lparr>sqc_contextType = SUPER_ADMIN, sqc_reason = reason, sqc_requester = adminId,
      sqc_createdAt = now\<rparr>"

definition forProvisioning :: "string \<Rightarrow> time \<Rightarrow> system_query_context" where
  "forProvisioning handlerName now =
     \<lparr>sqc_contextType = PROVISIONING_CONTEXT, sqc_reason = ''Tenant provisioning via '' @ handlerName,
      sqc_requester = handlerName, sqc_createdAt = now\<rparr>"

definition forEventConsumer :: "string \<Rightarrow> string \<Rightarrow> time \<Rightarrow> system_query_context" where
  "forEventConsumer eventName eventId now =
     \<lparr>sqc_contextType = EVENT_CONSUMER,
      sqc_reason = ''Processing '' @ eventName @ '' ['' @ eventId @ '']'',
      sqc_requester = eventId, sqc_createdAt = now\<rparr>"

definition forHealthCheck :: "time \<Rightarrow> system_query_context" where
  "forHealthCheck now =
     \<lparr>sqc_contextType = HEALTH_CHECK, sqc_reason = ''Health check'',
      sqc_requester = ''health-check'', sqc_createdAt = now\<rparr>"

section \<open>Facts about the kernel\<close>

lemma touch_simps [simp]:
  "ent_id (touch t e) = ent_id e" "created_at (touch t e) = created_at e"
  "updated_at (touch t e) = t"
  by (simp_all add: touch_def)

lemma touch_more [simp]: "entity.more (touch t e) = entity.more e"
  by (simp add: touch_def)

lemma addDomainEvent_simps [simp]:
  "domain_events (addDomainEvent e a) = domain_events a @ [e]"
  "ent_id (addDomainEvent e a) = ent_id a" "created_at (addDomainEvent e a) = created_at a"
  "updated_at (addDomainEvent e a) = updated_at a"
  "aggregate.more (addDomainEvent e a) = aggregate.more a"
  by (simp_all add: addDomainEvent_def)

lemma clearDomainEvents_simps [simp]:
  "domain_events (clearDomainEvents a) = []" "ent_id (clearDomainEvents a) = ent_id a"
  "created_at (clearDomainEvents a) = created_at a"
  "updated_at (clearDomainEvents a) = updated_at a"
  "aggregate.more (clearDomainEvents a) = aggregate.more a"
  by (simp_all add: clearDomainEvents_def)

text \<open>\<open>Math.ceil(a / b)\<close> for a positive divisor is the least number of pages that hold all rows.\<close>

lemma ceil_div_pos:
  assumes "0 < b"
  shows "\<exists>k. ceil_div a b = Fin k \<and> (k - 1) * b < a \<and> a \<le> k * b"
proof -
  define q r where "q = (- a) div b" and "r = (- a) mod b"
  have eq: "q * b + r = - a"
    by (simp add: q_def r_def)
  have "0 \<le> r" and "r < b"
    using assms by (simp_all add: r_def)
  with eq have "(- q - 1) * b < a" and "a \<le> - q * b"
    by (simp_all add: left_diff_distrib)
  with assms show ?thesis by (auto simp: ceil_div_def q_def)
qed

lemma isValidUuid_length: "isValidUuid s \<Longrightarrow> length s = 36"
  by (auto simp: isValidUuid_def matches_classes_def uuid_pattern_def dest: list_all2_lengthD)

lemma unwrap_eq_Inr [simp]: "unwrap r = Inr x \<longleftrightarrow> r = Ok x"
  by (cases r) auto

lemma unwrap_eq_Inl [simp]: "unwrap r = Inl e \<longleftrightarrow> r = Fail e"
  by (cases r) auto

end
