(* ===== verification/TenantContext.thy ===== *)
theory TenantContext
  imports SharedKernel
begin

text \<open>
  The ambient tenant context, \<open>apps/api/src/common/tenant-context\<close> and the interface
  \<open>ITenantContextPort\<close> of the shared kernel.

  \<open>AsyncLocalStorage\<close> gives every asynchronous call chain at most one stored value; a chain
  started by \<open>run(context, fn)\<close> sees \<open>context\<close>, any other sees nothing. The model passes that
  value, of type \<open>als\<close>, to the code that reads it.
\<close>

record tenant_context =
  tc_tenantId :: string
  tc_correlationId :: string
  tc_requestId :: string
  tc_actorId :: "string option"
  tc_actorType :: "actor_type option"
  tc_timestamp :: time
  tc_ipAddress :: "string option"
  tc_userAgent :: "string option"

type_synonym als = "tenant_context option"

definition als_run :: "tenant_context \<Rightarrow> (als \<Rightarrow> 'a) \<Rightarrow> 'a" where
  "als_run context fn = fn (Some context)"

definition getContext :: "als \<Rightarrow> exn + tenant_context" where
  "getContext store =
     (case store of
        None \<Rightarrow> Inl (PlainError (''TenantContext not initialized. Ensure TenantContextMiddleware ''
                  @ ''is applied before accessing tenant context.''))
      | Some ctx \<Rightarrow> Inr ctx)"

definition tryGetContext :: "als \<Rightarrow> tenant_context option" where
  "tryGetContext store = store"

definition context_tenantId :: "als \<Rightarrow> exn + string" where
  "context_tenantId store = map_sum id tc_tenantId (getContext store)"

definition context_correlationId :: "als \<Rightarrow> exn + string" where
  "context_correlationId store = map_sum id tc_correlationId (getContext store)"

definition context_actorId :: "als \<Rightarrow> exn + string option" where
  "context_actorId store = map_sum id tc_actorId (getContext store)"

definition tryGetTenantId :: "als \<Rightarrow> string option" where
  "tryGetTenantId store = map_option tc_tenantId store"

definition isInitialized :: "als \<Rightarrow> bool" where
  "isInitialized store \<longleftrightarrow> store \<noteq> None"

section \<open>The port\<close>

text \<open>
  What \<open>ITenantContextPort\<close> promises the repositories: the throwing accessor and
  \<open>tryGetTenantId\<close> agree, and the context is initialised exactly when there is a tenant id.
\<close>

locale tenant_context_port =
  fixes tenantId :: "'c \<Rightarrow> exn + string"
    and tryGet :: "'c \<Rightarrow> string option"
    and initialized :: "'c \<Rightarrow> bool"
  assumes tenantId_Some: "tryGet c = Some t \<Longrightarrow> tenantId c = Inr t"
    and tenantId_None: "tryGet c = None \<Longrightarrow> \<exists>m. tenantId c = Inl (PlainError m)"
    and initialized_iff: "initialized c \<longleftrightarrow> tryGet c \<noteq> None"
begin

lemma tenantId_eq_Inr_iff: "tenantId c = Inr t \<longleftrightarrow> tryGet c = Some t"
  using tenantId_Some [of c] tenantId_None [of c] by (cases "tryGet c") auto

lemma not_initialized_throws: "\<not> initialized c \<Longrightarrow> \<exists>m. tenantId c = Inl (PlainError m)"
  by (simp add: initialized_iff tenantId_None)

end

interpretation als_port: tenant_context_port context_tenantId tryGetTenantId isInitialized
  by unfold_locales
    (auto simp: context_tenantId_def getContext_def tryGetTenantId_def isInitialized_def
       split: option.splits)

section \<open>HTTP requests and the middleware\<close>

text \<open>
  The payload of a verified token (\<open>JwtPayload\<close> of \<open>jwt.strategy.ts\<close>). The \<open>role\<close> is a free
  string, and a token may carry none. A request carries the headers by lower-case name, and
  the user that the authentication guard attached.
\<close>

datatype token_type = Access | Refresh

record jwt_payload =
  jwt_sub :: string
  jwt_email :: "string option"
  jwt_tenantId :: string
  jwt_role :: "string option"
  jwt_type :: token_type

text \<open>
  What \<open>request.user\<close> holds: nothing before a guard ran, a token payload, or the value
  \<open>false\<close>, which the authentication library reports for a failed authentication. Reading a
  member of \<open>false\<close> gives \<open>undefined\<close>; reading one of \<open>undefined\<close> throws.
\<close>

datatype user_value = Absent | JsFalse | User jwt_payload

definition user_member :: "(jwt_payload \<Rightarrow> 'a option) \<Rightarrow> user_value \<Rightarrow> exn + 'a option" where
  "user_member f u =
     (case u of
        Absent \<Rightarrow> Inl (PlainError ''Cannot read properties of undefined'')
      | JsFalse \<Rightarrow> Inr None
      | User p \<Rightarrow> Inr (f p))"

record http_request =
  req_headers :: "string \<Rightarrow> string option"
  req_remoteAddress :: "string option"
  req_user :: user_value

text \<open>
  \<open>TenantContextMiddleware.use\<close>: the store in which \<open>next()\<close> runs, and the response headers
  set before it. Without an \<open>x-tenant-id\<close> header the request goes on in the outer store.
\<close>

definition middleware_use ::
  "http_request \<Rightarrow> als \<Rightarrow> string \<Rightarrow> string \<Rightarrow> time \<Rightarrow> als \<times> (string \<times> string) list" where
  "middleware_use req outer fresh1 fresh2 now =
     (let requestId = fresh1;
          correlationId = (case req_headers req ''x-correlation-id'' of Some c \<Rightarrow> c | None \<Rightarrow> fresh2)
      in case req_headers req ''x-tenant-id'' of
           None \<Rightarrow> (outer, [])
         | Some tenantIdFromHeader \<Rightarrow>
             als_run
               \<lparr>tc_tenantId = tenantIdFromHeader, tc_correlationId = correlationId,
                tc_requestId = requestId, tc_actorId = None, tc_actorType = None,
                tc_timestamp = now, tc_ipAddress = req_remoteAddress req,
                tc_userAgent = req_headers req ''user-agent''\<rparr>
               (\<lambda>store. (store, [(''x-correlation-id'', correlationId), (''x-request-id'', requestId)])))"

text \<open>The parameter decorators \<open>@TenantId()\<close> and \<open>@CurrentUser()\<close>.\<close>

definition TenantId_decorator :: "http_request \<Rightarrow> exn + string" where
  "TenantId_decorator req =
     (case req_headers req ''x-tenant-id'' of
        Some t \<Rightarrow> Inr t
      | None \<Rightarrow>
          (case req_user req of
             User u \<Rightarrow> Inr (jwt_tenantId u)
           | _ \<Rightarrow> Inl (PlainError ''TenantId not found in request context'')))"

definition CurrentUser_decorator :: "http_request \<Rightarrow> user_value" where
  "CurrentUser_decorator req = req_user req"

text \<open>
  \<open>CorrelationIdInterceptor.intercept\<close>: the correlation id and request id it attaches to the
  request, and the response headers it sets.
\<close>

definition correlation_intercept ::
  "http_request \<Rightarrow> string \<Rightarrow> string \<Rightarrow> (string \<times> string) \<times> (string \<times> string) list" where
  "correlation_intercept req fresh1 fresh2 =
     (let correlationId = (case req_headers req ''x-correlation-id'' of Some c \<Rightarrow> c | None \<Rightarrow> fresh1);
          requestId = fresh2
      in ((correlationId, requestId),
          [(''x-correlation-id'', correlationId), (''x-request-id'', requestId)]))"

lemma middleware_tenant [simp]:
  "fst (middleware_use req outer f1 f2 now) =
     (case req_headers req ''x-tenant-id'' of
        None \<Rightarrow> outer
      | Some t \<Rightarrow> Some \<lparr>tc_tenantId = t,
          tc_correlationId = (case req_headers req ''x-correlation-id'' of Some c \<Rightarrow> c | None \<Rightarrow> f2),
          tc_requestId = f1, tc_actorId = None, tc_actorType = None, tc_timestamp = now,
          tc_ipAddress = req_remoteAddress req, tc_userAgent = req_headers req ''user-agent''\<rparr>)"
  by (simp add: middleware_use_def als_run_def Let_def split: option.split)

lemma middleware_tryGetTenantId:
  "tryGetTenantId (fst (middleware_use req None f1 f2 now)) = req_headers req ''x-tenant-id''"
  by (simp add: tryGetTenantId_def split: option.split)

end
