(* ===== verification/Orm.thy ===== *)
theory Orm
  imports SharedKernel
begin

text \<open>
  The database as the repositories see it. TypeORM and PostgreSQL are not part of the
  repository: a table is a record of operations, an argument of every definition that uses
  one. The queries the code builds are data of the model (conditions on columns, an order, a
  page), so what the code asks for is stated without the database; what the database answers
  is constrained only by the hypotheses below, which state the documented meaning of \<open>WHERE\<close>.
\<close>

section \<open>Queries\<close>

datatype sqlval = SNull | SStr string | SInt int | STime time | SJson object

datatype cond =
    CEq string sqlval
  | CIn string "sqlval list"
  | CGe string sqlval
  | CLt string sqlval
  | CBetween string sqlval sqlval
  | CJsonText string string sqlval

record query =
  q_where :: "cond list"
  q_order :: "(string \<times> bool) list"
  q_skip :: "int option"
  q_take :: "int option"

text \<open>\<open>createQueryBuilder(alias)\<close> and the methods chained on it; a \<open>True\<close> in the order is \<open>DESC\<close>.\<close>

definition createQueryBuilder :: query where
  "createQueryBuilder = \<lparr>q_where = [], q_order = [], q_skip = None, q_take = None\<rparr>"

definition qb_where :: "cond \<Rightarrow> query \<Rightarrow> query" where
  "qb_where c q = q\<lparr>q_where := [c]\<rparr>"

definition qb_andWhere :: "cond \<Rightarrow> query \<Rightarrow> query" where
  "qb_andWhere c q = q\<lparr>q_where := q_where q @ [c]\<rparr>"

definition qb_orderBy :: "string \<Rightarrow> bool \<Rightarrow> query \<Rightarrow> query" where
  "qb_orderBy c desc q = q\<lparr>q_order := [(c, desc)]\<rparr>"

definition qb_skip :: "int \<Rightarrow> query \<Rightarrow> query" where
  "qb_skip n q = q\<lparr>q_skip := Some n\<rparr>"

definition qb_take :: "int \<Rightarrow> query \<Rightarrow> query" where
  "qb_take n q = q\<lparr>q_take := Some n\<rparr>"

text \<open>A \<open>FindOptionsWhere\<close> object: one equality per member.\<close>

type_synonym where_options = "(string \<times> sqlval) list"

definition find_options :: "where_options \<Rightarrow> query" where
  "find_options ws = createQueryBuilder\<lparr>q_where := map (\<lambda>(c, v). CEq c v) ws\<rparr>"

lemmas qb_defs = createQueryBuilder_def qb_where_def qb_andWhere_def qb_orderBy_def
  qb_skip_def qb_take_def find_options_def

section \<open>The meaning of conditions\<close>

fun sql_le :: "sqlval \<Rightarrow> sqlval \<Rightarrow> bool" where
  "sql_le (SInt a) (SInt b) \<longleftrightarrow> a \<le> b"
| "sql_le (STime a) (STime b) \<longleftrightarrow> a \<le> b"
| "sql_le _ _ \<longleftrightarrow> False"

text \<open>A comparison with \<open>NULL\<close> is never true.\<close>

fun sat :: "(string \<Rightarrow> sqlval) \<Rightarrow> cond \<Rightarrow> bool" where
  "sat row (CEq c v) \<longleftrightarrow> row c = v \<and> v \<noteq> SNull"
| "sat row (CIn c vs) \<longleftrightarrow> row c \<in> set vs \<and> row c \<noteq> SNull"
| "sat row (CGe c v) \<longleftrightarrow> sql_le v (row c)"
| "sat row (CLt c v) \<longleftrightarrow> sql_le (row c) v \<and> row c \<noteq> v"
| "sat row (CBetween c a b) \<longleftrightarrow> sql_le a (row c) \<and> sql_le (row c) b"
| "sat row (CJsonText c k v) \<longleftrightarrow>
     (case row c of
        SJson ob \<Rightarrow> (case map_of ob k of Some (JStr s) \<Rightarrow> SStr s = v | _ \<Rightarrow> False)
      | _ \<Rightarrow> False)"

definition sat_all :: "(string \<Rightarrow> sqlval) \<Rightarrow> query \<Rightarrow> bool" where
  "sat_all row q \<longleftrightarrow> list_all (sat row) (q_where q)"

lemma sat_all_simps [simp]:
  "sat_all row createQueryBuilder"
  "sat_all row (qb_where c q) \<longleftrightarrow> sat row c"
  "sat_all row (qb_andWhere c q) \<longleftrightarrow> sat_all row q \<and> sat row c"
  "sat_all row (qb_orderBy k d q) \<longleftrightarrow> sat_all row q"
  "sat_all row (qb_skip n q) \<longleftrightarrow> sat_all row q"
  "sat_all row (qb_take n q) \<longleftrightarrow> sat_all row q"
  by (auto simp: sat_all_def qb_defs)

lemma sat_all_find_options [simp]:
  "sat_all row (find_options ws) \<longleftrightarrow> list_all (\<lambda>(c, v). row c = v \<and> v \<noteq> SNull) ws"
  by (induction ws) (auto simp: sat_all_def qb_defs)

section \<open>Tables\<close>

record ('w, 'row) table =
  find_one :: "query \<Rightarrow> ('w, 'row option) io"
  find_many :: "query \<Rightarrow> ('w, 'row list) io"
  find_and_count :: "query \<Rightarrow> ('w, 'row list \<times> nat) io"
  count_rows :: "query \<Rightarrow> ('w, nat) io"
  exists_row :: "query \<Rightarrow> ('w, bool) io"
  save_row :: "'row \<Rightarrow> ('w, 'row) io"
  insert_rows :: "'row list \<Rightarrow> ('w, unit) io"

text \<open>
  Documented behaviour the isolation properties rely on: every row a query returns satisfies
  all its conditions. The function \<open>cols\<close> reads a row's columns.
\<close>

definition where_sound :: "('row \<Rightarrow> string \<Rightarrow> sqlval) \<Rightarrow> ('w, 'row) table \<Rightarrow> bool" where
  "where_sound cols T \<longleftrightarrow>
     (\<forall>q w w' r. find_one T q w = (Inr (Some r), w') \<longrightarrow> sat_all (cols r) q) \<and>
     (\<forall>q w w' rs. find_many T q w = (Inr rs, w') \<longrightarrow> (\<forall>r \<in> set rs. sat_all (cols r) q)) \<and>
     (\<forall>q w w' rs n. find_and_count T q w = (Inr (rs, n), w') \<longrightarrow> (\<forall>r \<in> set rs. sat_all (cols r) q))"

lemma where_sound_one:
  "where_sound cols T \<Longrightarrow> find_one T q w = (Inr (Some r), w') \<Longrightarrow> sat_all (cols r) q"
  by (auto simp: where_sound_def)

lemma where_sound_many:
  "where_sound cols T \<Longrightarrow> find_many T q w = (Inr rs, w') \<Longrightarrow> r \<in> set rs \<Longrightarrow> sat_all (cols r) q"
  unfolding where_sound_def by blast

lemma where_sound_count:
  "where_sound cols T \<Longrightarrow> find_and_count T q w = (Inr (rs, n), w') \<Longrightarrow> r \<in> set rs \<Longrightarrow> sat_all (cols r) q"
  unfolding where_sound_def by blast

section \<open>A list as a table\<close>

text \<open>
  A concrete table to instantiate the parameter with: the world holds the rows in a list,
  reached by \<open>rd\<close> and replaced by \<open>wr\<close>. A write that would leave two rows equal under one
  of the unique keys is rejected. The platform asks for an order only when it lists rows, so
  the lookup of a single row takes the first match.
\<close>

text \<open>
  The rows in the order a query asks for: sorted by its last column first, each sort stable, so
  that the first column decides. The platform orders by points in time only; a row with
  another value counts as time zero.
\<close>

fun order_key :: "bool \<Rightarrow> sqlval \<Rightarrow> int" where
  "order_key desc (STime t) = (if desc then - t else t)"
| "order_key desc (SInt n) = (if desc then - n else n)"
| "order_key desc _ = 0"

definition order_rows :: "('row \<Rightarrow> string \<Rightarrow> sqlval) \<Rightarrow> query \<Rightarrow> 'row list \<Rightarrow> 'row list" where
  "order_rows cols q rs = foldr (\<lambda>(c, desc). sort_key (\<lambda>r. order_key desc (cols r c))) (q_order q) rs"

lemma set_order_rows [simp]: "set (order_rows cols q rs) = set rs"
proof -
  have "set (foldr (\<lambda>(c, desc). sort_key (\<lambda>r. order_key desc (cols r c))) os rs) = set rs" for os
    by (induction os) (simp_all add: split_beta)
  then show ?thesis by (simp add: order_rows_def)
qed

lemma order_rows_none [simp]: "q_order q = [] \<Longrightarrow> order_rows cols q rs = rs"
  by (simp add: order_rows_def)

definition page_rows :: "query \<Rightarrow> 'row list \<Rightarrow> 'row list" where
  "page_rows q rs =
     (let d = (case q_skip q of None \<Rightarrow> rs | Some n \<Rightarrow> drop (nat n) rs)
      in case q_take q of None \<Rightarrow> d | Some n \<Rightarrow> take (nat n) d)"

fun distinct_keys :: "('row \<Rightarrow> string \<Rightarrow> sqlval) \<Rightarrow> string list \<Rightarrow> 'row list \<Rightarrow> bool" where
  "distinct_keys cols ks [] \<longleftrightarrow> True"
| "distinct_keys cols ks (r # rs) \<longleftrightarrow>
     list_all (\<lambda>r'. list_all (\<lambda>k. cols r k \<noteq> cols r' k) ks) rs \<and> distinct_keys cols ks rs"

fun upsert :: "('row \<Rightarrow> string \<Rightarrow> sqlval) \<Rightarrow> 'row \<Rightarrow> 'row list \<Rightarrow> 'row list" where
  "upsert cols r [] = [r]"
| "upsert cols r (x # xs) = (if cols x ''id'' = cols r ''id'' then r # xs else x # upsert cols r xs)"

definition write_rows ::
  "('row \<Rightarrow> string \<Rightarrow> sqlval) \<Rightarrow> string list \<Rightarrow> ('row list \<Rightarrow> 'w \<Rightarrow> 'w) \<Rightarrow> 'row list \<Rightarrow> 'a \<Rightarrow> ('w, 'a) io" where
  "write_rows cols ks wr rs x w =
     (if distinct_keys cols ks rs then (Inr x, wr rs w)
      else (Inl (ServiceError ''duplicate key value violates unique constraint''), w))"

definition list_table ::
  "('row \<Rightarrow> string \<Rightarrow> sqlval) \<Rightarrow> string list \<Rightarrow> ('w \<Rightarrow> 'row list) \<Rightarrow> ('row list \<Rightarrow> 'w \<Rightarrow> 'w)
     \<Rightarrow> ('w, 'row) table" where
  "list_table cols ks rd wr =
     (let hits = (\<lambda>q w. filter (\<lambda>r. sat_all (cols r) q) (rd w))
      in \<lparr>find_one = (\<lambda>q w. (Inr (case hits q w of [] \<Rightarrow> None | r # _ \<Rightarrow> Some r), w)),
          find_many = (\<lambda>q w. (Inr (page_rows q (order_rows cols q (hits q w))), w)),
          find_and_count = (\<lambda>q w. (Inr (page_rows q (order_rows cols q (hits q w)), length (hits q w)), w)),
          count_rows = (\<lambda>q w. (Inr (length (hits q w)), w)),
          exists_row = (\<lambda>q w. (Inr (hits q w \<noteq> []), w)),
          save_row = (\<lambda>r w. write_rows cols ks wr (upsert cols r (rd w)) r w),
          insert_rows = (\<lambda>rs w. write_rows cols ks wr (rd w @ rs) () w)\<rparr>)"

lemma set_page_rows: "set (page_rows q rs) \<subseteq> set rs"
  by (auto simp: page_rows_def Let_def split: option.splits dest: in_set_takeD in_set_dropD)

lemma where_sound_list_table [simp]: "where_sound cols (list_table cols ks rd wr)"
proof -
  have one: "sat_all (cols r) q"
    if "(case filter (\<lambda>r. sat_all (cols r) q) rs of [] \<Rightarrow> None | x # _ \<Rightarrow> Some x) = Some r" for q r rs
    using that by (auto simp: filter_eq_Cons_iff split: list.splits)
  have many: "sat_all (cols r) q"
    if "r \<in> set (page_rows q (order_rows cols q (filter (\<lambda>r. sat_all (cols r) q) rs)))" for q r rs
    using that set_page_rows by fastforce
  show ?thesis
    by (auto simp: where_sound_def list_table_def Let_def dest: one many)
qed

section \<open>Tables that store what they are given\<close>

text \<open>
  Documented behaviour of a table whose columns the database does not fill in itself, with
  \<open>rd w\<close> the rows it holds in the world \<open>w\<close>: reads change no row and return stored rows that
  satisfy the query, at most as many as asked for; a write that succeeds replaces the row of
  the same id or adds the rows, a write that fails changes none.
\<close>

definition finds_stored :: "('row \<Rightarrow> string \<Rightarrow> sqlval) \<Rightarrow> ('w \<Rightarrow> 'row list) \<Rightarrow> ('w, 'row) table \<Rightarrow> bool" where
  "finds_stored cols rd T \<longleftrightarrow> (\<forall>q w. case find_one T q w of
       (Inl _, w') \<Rightarrow> rd w' = rd w
     | (Inr None, w') \<Rightarrow> rd w' = rd w \<and> (\<forall>x \<in> set (rd w). \<not> sat_all (cols x) q)
     | (Inr (Some x), w') \<Rightarrow> rd w' = rd w \<and> x \<in> set (rd w) \<and> sat_all (cols x) q)"

definition lists_stored :: "('row \<Rightarrow> string \<Rightarrow> sqlval) \<Rightarrow> ('w \<Rightarrow> 'row list) \<Rightarrow> ('w, 'row) table \<Rightarrow> bool" where
  "lists_stored cols rd T \<longleftrightarrow> (\<forall>q w. case find_many T q w of
       (Inl _, w') \<Rightarrow> rd w' = rd w
     | (Inr rs, w') \<Rightarrow> rd w' = rd w \<and> set rs \<subseteq> {x \<in> set (rd w). sat_all (cols x) q} \<and>
         (case q_take q of None \<Rightarrow> True | Some n \<Rightarrow> length rs \<le> nat n))"

definition saves_stored :: "('row \<Rightarrow> string \<Rightarrow> sqlval) \<Rightarrow> ('w \<Rightarrow> 'row list) \<Rightarrow> ('w, 'row) table \<Rightarrow> bool" where
  "saves_stored cols rd T \<longleftrightarrow> (\<forall>x w. case save_row T x w of
       (Inl _, w') \<Rightarrow> rd w' = rd w
     | (Inr y, w') \<Rightarrow> y = x \<and> rd w' = upsert cols x (rd w))"

definition inserts_stored :: "('w \<Rightarrow> 'row list) \<Rightarrow> ('w, 'row) table \<Rightarrow> bool" where
  "inserts_stored rd T \<longleftrightarrow> (\<forall>xs w. case insert_rows T xs w of
       (Inl _, w') \<Rightarrow> rd w' = rd w
     | (Inr _, w') \<Rightarrow> rd w' = rd w @ xs)"

definition plain_store :: "('row \<Rightarrow> string \<Rightarrow> sqlval) \<Rightarrow> ('w \<Rightarrow> 'row list) \<Rightarrow> ('w, 'row) table \<Rightarrow> bool" where
  "plain_store cols rd T \<longleftrightarrow>
     finds_stored cols rd T \<and> lists_stored cols rd T \<and> saves_stored cols rd T \<and> inserts_stored rd T"

lemma plain_store_find_one:
  assumes "plain_store cols rd T" and "find_one T q w = (r, w')"
  shows "rd w' = rd w" and "r = Inr (Some x) \<Longrightarrow> x \<in> set (rd w) \<and> sat_all (cols x) q"
    and "r = Inr None \<Longrightarrow> y \<in> set (rd w) \<Longrightarrow> \<not> sat_all (cols y) q"
proof -
  from assms(1) have "finds_stored cols rd T" by (simp add: plain_store_def)
  note this [unfolded finds_stored_def, THEN spec, of q, THEN spec, of w, unfolded assms(2)]
  then show "rd w' = rd w" and "r = Inr (Some x) \<Longrightarrow> x \<in> set (rd w) \<and> sat_all (cols x) q"
    and "r = Inr None \<Longrightarrow> y \<in> set (rd w) \<Longrightarrow> \<not> sat_all (cols y) q"
    by (auto split: sum.splits option.splits)
qed

lemma plain_store_find_many:
  assumes "plain_store cols rd T" and "find_many T q w = (r, w')"
  shows "rd w' = rd w" and "r = Inr rs \<Longrightarrow> set rs \<subseteq> {x \<in> set (rd w). sat_all (cols x) q}"
    and "r = Inr rs \<Longrightarrow> q_take q = Some n \<Longrightarrow> length rs \<le> nat n"
proof -
  from assms(1) have "lists_stored cols rd T" by (simp add: plain_store_def)
  note this [unfolded lists_stored_def, THEN spec, of q, THEN spec, of w, unfolded assms(2)]
  then show "rd w' = rd w" and "r = Inr rs \<Longrightarrow> set rs \<subseteq> {x \<in> set (rd w). sat_all (cols x) q}"
    and "r = Inr rs \<Longrightarrow> q_take q = Some n \<Longrightarrow> length rs \<le> nat n"
    by (auto split: sum.splits)
qed

lemma plain_store_save:
  assumes "plain_store cols rd T" and "save_row T x w = (r, w')"
  shows "r = Inl e \<Longrightarrow> rd w' = rd w" and "r = Inr y \<Longrightarrow> y = x \<and> rd w' = upsert cols x (rd w)"
proof -
  from assms(1) have "saves_stored cols rd T" by (simp add: plain_store_def)
  note this [unfolded saves_stored_def, THEN spec, of x, THEN spec, of w, unfolded assms(2)]
  then show "r = Inl e \<Longrightarrow> rd w' = rd w" and "r = Inr y \<Longrightarrow> y = x \<and> rd w' = upsert cols x (rd w)"
    by (auto split: sum.splits)
qed

lemma plain_store_insert:
  assumes "plain_store cols rd T" and "insert_rows T xs w = (r, w')"
  shows "r = Inl e \<Longrightarrow> rd w' = rd w" and "r = Inr u \<Longrightarrow> rd w' = rd w @ xs"
proof -
  from assms(1) have "inserts_stored rd T" by (simp add: plain_store_def)
  note this [unfolded inserts_stored_def, THEN spec, of xs, THEN spec, of w, unfolded assms(2)]
  then show "r = Inl e \<Longrightarrow> rd w' = rd w" and "r = Inr u \<Longrightarrow> rd w' = rd w @ xs"
    by (auto split: sum.splits)
qed

lemma length_page_rows: "q_take q = Some n \<Longrightarrow> length (page_rows q rs) \<le> nat n"
  by (simp add: page_rows_def Let_def)

lemma plain_store_list_table:
  assumes wr: "\<And>rs w. rd (wr rs w) = rs"
  shows "plain_store cols rd (list_table cols ks rd wr)" (is "plain_store cols rd ?T")
proof -
  have one: "find_one ?T q w
      = (Inr (case filter (\<lambda>r. sat_all (cols r) q) (rd w) of [] \<Rightarrow> None | r # _ \<Rightarrow> Some r), w)" for q w
    by (simp add: list_table_def)
  have many: "find_many ?T q w
      = (Inr (page_rows q (order_rows cols q (filter (\<lambda>r. sat_all (cols r) q) (rd w)))), w)" for q w
    by (simp add: list_table_def)
  have save: "save_row ?T x w = write_rows cols ks wr (upsert cols x (rd w)) x w" for x w
    by (simp add: list_table_def)
  have ins: "insert_rows ?T xs w = write_rows cols ks wr (rd w @ xs) () w" for xs w
    by (simp add: list_table_def)
  have sub: "set (page_rows q (order_rows cols q (filter (\<lambda>r. sat_all (cols r) q) rs)))
      \<subseteq> {x \<in> set rs. sat_all (cols x) q}" for q rs
    using set_page_rows [of q "order_rows cols q (filter (\<lambda>r. sat_all (cols r) q) rs)"] by auto
  have "finds_stored cols rd ?T"
    by (auto simp: finds_stored_def one filter_eq_Cons_iff filter_empty_conv split: list.splits)
  moreover have "lists_stored cols rd ?T"
    using sub by (auto simp: lists_stored_def many length_page_rows split: option.splits)
  moreover have "saves_stored cols rd ?T" and "inserts_stored rd ?T"
    by (auto simp: saves_stored_def inserts_stored_def save ins write_rows_def wr)
  ultimately show ?thesis by (simp add: plain_store_def)
qed

lemma upsert_mem: "x \<in> set (upsert cols r rs) \<Longrightarrow> x = r \<or> x \<in> set rs"
  by (induction rs) (auto split: if_splits)

lemma upsert_new [simp]: "r \<in> set (upsert cols r rs)"
  by (induction rs) auto

section \<open>Tables that answer from the matching rows\<close>

text \<open>
  Documented behaviour of reads: they leave the world as it is, and what they answer depends
  only on the rows that satisfy the conditions of the query.
\<close>

definition matching :: "('row \<Rightarrow> string \<Rightarrow> sqlval) \<Rightarrow> query \<Rightarrow> 'row list \<Rightarrow> 'row list" where
  "matching cols q rs = filter (\<lambda>r. sat_all (cols r) q) rs"

definition reads_matching ::
  "('row \<Rightarrow> string \<Rightarrow> sqlval) \<Rightarrow> ('w \<Rightarrow> 'row list) \<Rightarrow> ('w, 'row) table \<Rightarrow> bool" where
  "reads_matching cols rd T \<longleftrightarrow>
     (\<forall>q w. snd (find_one T q w) = w \<and> snd (find_and_count T q w) = w \<and> snd (count_rows T q w) = w) \<and>
     (\<forall>q w w'. matching cols q (rd w) = matching cols q (rd w') \<longrightarrow>
        fst (find_one T q w) = fst (find_one T q w') \<and>
        fst (find_and_count T q w) = fst (find_and_count T q w') \<and>
        fst (count_rows T q w) = fst (count_rows T q w'))"

lemma reads_matching_list_table [simp]: "reads_matching cols rd (list_table cols ks rd wr)"
  by (auto simp: reads_matching_def list_table_def matching_def Let_def)

text \<open>A query with a condition on the tenant, and the rows of a tenant.\<close>

definition tenant_scoped_query :: "string \<Rightarrow> query \<Rightarrow> bool" where
  "tenant_scoped_query t q \<longleftrightarrow> CEq ''tenantId'' (SStr t) \<in> set (q_where q)"

definition rows_of_tenant :: "('row \<Rightarrow> string \<Rightarrow> sqlval) \<Rightarrow> string \<Rightarrow> 'row list \<Rightarrow> 'row list" where
  "rows_of_tenant cols t rs = filter (\<lambda>r. cols r ''tenantId'' = SStr t) rs"

lemma tenant_scoped_query_simps [simp]:
  "tenant_scoped_query t (qb_where (CEq ''tenantId'' (SStr t)) q)"
  "tenant_scoped_query t q \<Longrightarrow> tenant_scoped_query t (qb_andWhere c q)"
  "tenant_scoped_query t (qb_orderBy k d q) \<longleftrightarrow> tenant_scoped_query t q"
  "tenant_scoped_query t (qb_skip n q) \<longleftrightarrow> tenant_scoped_query t q"
  "tenant_scoped_query t (qb_take n q) \<longleftrightarrow> tenant_scoped_query t q"
  "tenant_scoped_query t (find_options ((''tenantId'', SStr t) # ws))"
  by (simp_all add: tenant_scoped_query_def qb_defs)

lemma matching_of_tenant:
  "tenant_scoped_query t q \<Longrightarrow> matching cols q rs = matching cols q (rows_of_tenant cols t rs)"
  by (auto simp: matching_def rows_of_tenant_def tenant_scoped_query_def sat_all_def list_all_iff
      intro!: filter_cong)

lemma reads_matching_agrees:
  assumes "reads_matching cols rd T" and "matching cols q (rd w) = matching cols q (rd w')"
  shows "agrees w w' (find_one T q)" and "agrees w w' (find_and_count T q)" and "agrees w w' (count_rows T q)"
proof -
  from assms(1) have keep: "snd (find_one T q w) = w \<and> snd (find_and_count T q w) = w \<and> snd (count_rows T q w) = w" for w
    unfolding reads_matching_def by blast
  from assms(1) [unfolded reads_matching_def, THEN conjunct2, THEN spec, THEN spec, THEN spec] assms(2)
  have "fst (find_one T q w) = fst (find_one T q w') \<and> fst (find_and_count T q w) = fst (find_and_count T q w')
      \<and> fst (count_rows T q w) = fst (count_rows T q w')"
    by (rule mp)
  with keep show "agrees w w' (find_one T q)" and "agrees w w' (find_and_count T q)"
    and "agrees w w' (count_rows T q)"
    unfolding agrees_def by blast+
qed

lemma reads_of_tenant_agree:
  assumes "reads_matching cols rd T" and "rows_of_tenant cols t (rd w) = rows_of_tenant cols t (rd w')"
    and "tenant_scoped_query t q"
  shows "agrees w w' (find_one T q)" and "agrees w w' (find_and_count T q)" and "agrees w w' (count_rows T q)"
proof -
  have "matching cols q (rd w) = matching cols q (rd w')"
    using matching_of_tenant [OF assms(3), of cols] assms(2) by metis
  from reads_matching_agrees [OF assms(1) this]
  show "agrees w w' (find_one T q)" and "agrees w w' (find_and_count T q)" and "agrees w w' (count_rows T q)" .
qed

text \<open>A query without a page finds all matching rows.\<close>

definition finds_all :: "('row \<Rightarrow> string \<Rightarrow> sqlval) \<Rightarrow> ('w \<Rightarrow> 'row list) \<Rightarrow> ('w, 'row) table \<Rightarrow> bool" where
  "finds_all cols rd T \<longleftrightarrow>
     (\<forall>q w rs w'. q_skip q = None \<longrightarrow> q_take q = None \<longrightarrow> find_many T q w = (Inr rs, w')
        \<longrightarrow> set rs = set (matching cols q (rd w)))"

lemma finds_all_list_table [simp]: "finds_all cols rd (list_table cols ks rd wr)"
  by (simp add: finds_all_def list_table_def page_rows_def matching_def)

lemma set_matching: "set (matching cols q rs) = {r \<in> set rs. sat_all (cols r) q}"
  by (auto simp: matching_def)

end
