(* ===== verification/TenantRepository.thy ===== *)
theory TenantRepository
  imports TenantContext Orm
begin

text \<open>
  The repository base classes of \<open>libs/shared-kernel/src/infrastructure/tenant-aware.repository.ts\<close>.
  An operation of a repository reads the ambient context through \<open>tryGetTenantId()\<close> only; its
  value is the argument \<open>tid\<close> of every operation, and \<open>cls\<close> is \<open>this.constructor.name\<close>.
\<close>

section \<open>Shared base\<close>

text \<open>\<open>if (!id)\<close> also refuses the empty string.\<close>

definition requireTenantId :: "string \<Rightarrow> string option \<Rightarrow> exn + string" where
  "requireTenantId cls tid =
     (case tid of
        Some i \<Rightarrow> if i \<noteq> [] then Inr i
                 else Inl (PlainError (cls @ '': operation requires an active tenant context. ''
                        @ ''For system-level operations, use a method that accepts SystemQueryContext.''))
      | None \<Rightarrow> Inl (PlainError (cls @ '': operation requires an active tenant context. ''
                        @ ''For system-level operations, use a method that accepts SystemQueryContext.'')))"

definition systemQb :: "system_query_context \<Rightarrow> query" where
  "systemQb ctx = createQueryBuilder"

section \<open>Tenant-scoped repositories\<close>

definition scopedWhere :: "string \<Rightarrow> string option \<Rightarrow> where_options \<Rightarrow> exn + where_options" where
  "scopedWhere cls tid extra =
     map_sum id (\<lambda>t. spread [(''tenantId'', SStr t)] extra) (requireTenantId cls tid)"

definition scopedQb :: "string \<Rightarrow> string option \<Rightarrow> exn + query" where
  "scopedQb cls tid =
     map_sum id (\<lambda>t. qb_where (CEq ''tenantId'' (SStr t)) createQueryBuilder) (requireTenantId cls tid)"

definition guardTenantOwnership :: "string \<Rightarrow> string option \<Rightarrow> string \<Rightarrow> exn + unit" where
  "guardTenantOwnership cls tid entityTenantId =
     (case requireTenantId cls tid of
        Inl e \<Rightarrow> Inl e
      | Inr t \<Rightarrow>
          if entityTenantId \<noteq> t
          then Inl (ForbiddenException (''Tenant isolation violation in '' @ cls @ '': entity.tenantId=''
                 @ entityTenantId @ '' but context.tenantId='' @ t))
          else Inr ())"

section \<open>Tenant-root repositories\<close>

definition guardTenantRoot :: "string \<Rightarrow> string option \<Rightarrow> string \<Rightarrow> exn + unit" where
  "guardTenantRoot cls tid aggregateId =
     (case requireTenantId cls tid of
        Inl e \<Rightarrow> Inl e
      | Inr t \<Rightarrow>
          if aggregateId \<noteq> t
          then Inl (ForbiddenException (cls @ '': cannot access organization '' @ aggregateId
                 @ '' from tenant context '' @ t))
          else Inr ())"

section \<open>What the guards decide\<close>

lemma requireTenantId_Some [simp]: "t \<noteq> [] \<Longrightarrow> requireTenantId cls (Some t) = Inr t"
  by (simp add: requireTenantId_def)

lemma requireTenantId_Inr_iff [simp]:
  "requireTenantId cls tid = Inr t \<longleftrightarrow> tid = Some t \<and> t \<noteq> []"
  by (auto simp: requireTenantId_def split: option.splits)

lemma requireTenantId_fails_iff:
  "(\<exists>e. requireTenantId cls tid = Inl e) \<longleftrightarrow> \<not> truthy tid"
  by (auto simp: requireTenantId_def truthy_def split: option.splits)

lemma requireTenantId_cases [case_names none active]:
  obtains m where "\<not> truthy tid" and "requireTenantId cls tid = Inl (PlainError m)"
    | t where "tid = Some t" and "t \<noteq> []" and "requireTenantId cls tid = Inr t"
  by (cases tid) (auto simp: requireTenantId_def truthy_def)

lemma scopedWhere_Inr_iff:
  "scopedWhere cls tid extra = Inr ws \<longleftrightarrow>
     (\<exists>t. tid = Some t \<and> t \<noteq> [] \<and> ws = spread [(''tenantId'', SStr t)] extra)"
  by (cases tid) (auto simp: scopedWhere_def requireTenantId_def)

lemma scopedQb_Inr_iff:
  "scopedQb cls tid = Inr q \<longleftrightarrow>
     (\<exists>t. tid = Some t \<and> t \<noteq> [] \<and> q = qb_where (CEq ''tenantId'' (SStr t)) createQueryBuilder)"
  by (cases tid) (auto simp: scopedQb_def requireTenantId_def)

lemma guardTenantOwnership_Inr_iff [simp]:
  "guardTenantOwnership cls tid e = Inr u \<longleftrightarrow> tid = Some e \<and> e \<noteq> []"
  by (cases tid) (auto simp: guardTenantOwnership_def requireTenantId_def)

lemma guardTenantRoot_Inr_iff [simp]:
  "guardTenantRoot cls tid i = Inr u \<longleftrightarrow> tid = Some i \<and> i \<noteq> []"
  by (cases tid) (auto simp: guardTenantRoot_def requireTenantId_def)

lemma guard_wrong_tenant:
  assumes "tid = Some t" and "t \<noteq> []" and "e \<noteq> t"
  shows "\<exists>m. guardTenantOwnership cls tid e = Inl (ForbiddenException m)"
    and "\<exists>m. guardTenantRoot cls tid e = Inl (ForbiddenException m)"
  using assms by (auto simp: guardTenantOwnership_def guardTenantRoot_def requireTenantId_def)

lemma guard_no_tenant:
  assumes "\<not> truthy tid"
  shows "\<exists>m. guardTenantOwnership cls tid e = Inl (PlainError m)"
    and "\<exists>m. guardTenantRoot cls tid e = Inl (PlainError m)"
    and "\<exists>m. scopedWhere cls tid ws = Inl (PlainError m)"
    and "\<exists>m. scopedQb cls tid = Inl (PlainError m)"
  using assms
  by (auto simp: guardTenantOwnership_def guardTenantRoot_def scopedWhere_def scopedQb_def
        requireTenantId_def truthy_def split: option.splits)

text \<open>
  The rows a \<open>scopedWhere\<close> object selects. The tenant condition survives the spread exactly
  when the extra members do not bind the column \<open>tenantId\<close> themselves.
\<close>

lemma scopedWhere_sat:
  assumes "scopedWhere cls tid extra = Inr ws" and "''tenantId'' \<notin> fst ` set extra"
    and "sat_all row (find_options ws)"
  shows "\<exists>t. tid = Some t \<and> row ''tenantId'' = SStr t"
  using assms by (auto simp: scopedWhere_Inr_iff spread_def)

lemma scopedQb_sat:
  assumes "scopedQb cls tid = Inr q" and "sat_all row q"
  shows "\<exists>t. tid = Some t \<and> row ''tenantId'' = SStr t"
  using assms by (auto simp: scopedQb_Inr_iff)

text \<open>The guards seen from any provider of the context port: without a context they throw.\<close>

context tenant_context_port
begin

lemma guards_need_context:
  assumes "\<not> initialized c"
  shows "\<exists>m. guardTenantOwnership cls (tryGet c) e = Inl (PlainError m)"
    and "\<exists>m. guardTenantRoot cls (tryGet c) e = Inl (PlainError m)"
  using assms guard_no_tenant [of "tryGet c"] by (simp_all add: initialized_iff truthy_def)

lemma guards_pass_iff:
  "guardTenantOwnership cls (tryGet c) e = Inr () \<longleftrightarrow> tenantId c = Inr e \<and> e \<noteq> []"
  "guardTenantRoot cls (tryGet c) e = Inr () \<longleftrightarrow> tenantId c = Inr e \<and> e \<noteq> []"
  by (simp_all add: tenantId_eq_Inr_iff)

end

section \<open>The contract of a tenant-scoped repository\<close>

text \<open>
  What the three repositories that extend \<open>TenantScopedRepository\<close> share: \<open>findById\<close> asks for
  the row under \<open>scopedWhere({ id })\<close>, the write operation starts with
  \<open>guardTenantOwnership\<close>, and the mapper keeps the tenant column.
\<close>

locale tenant_scoped_repository =
  fixes cls :: string
    and cols :: "'row \<Rightarrow> string \<Rightarrow> sqlval"
    and toDomain :: "'row \<Rightarrow> 'e"
    and tenantOf :: "'e \<Rightarrow> string"
    and find_by_id :: "('w, 'row) table \<Rightarrow> string option \<Rightarrow> string \<Rightarrow> ('w, 'e option) io"
    and store :: "('w, 'row) table \<Rightarrow> string option \<Rightarrow> 'e \<Rightarrow> ('w, 'e) io"
  assumes find_by_id_eq: "find_by_id T tid i =
      andThen (lift (scopedWhere cls tid [(''id'', SStr i)]))
        (\<lambda>ws. andThen (find_one T (find_options ws)) (\<lambda>r. ret (map_option toDomain r)))"
    and write_guarded: "guardTenantOwnership cls tid (tenantOf e) = Inl x \<Longrightarrow> store T tid e w = (Inl x, w)"
    and tenant_column: "cols r ''tenantId'' = SStr t \<Longrightarrow> tenantOf (toDomain r) = t"
begin

lemma find_isolated:
  assumes "where_sound cols T" and "find_by_id T tid i w = (Inr (Some e), w')"
  shows "tid = Some (tenantOf e)"
proof -
  from assms(2) obtain ws r where ws: "scopedWhere cls tid [(''id'', SStr i)] = Inr ws"
    and r: "find_one T (find_options ws) w = (Inr (Some r), w')" and e: "e = toDomain r"
    by (auto simp: find_by_id_eq andThen_run split: sum.splits prod.splits option.splits)
  from where_sound_one [OF assms(1) r] have "sat_all (cols r) (find_options ws)" .
  with scopedWhere_sat [OF ws] obtain t where "tid = Some t" and "cols r ''tenantId'' = SStr t"
    by auto
  with e show ?thesis by (simp add: tenant_column)
qed

lemma find_without_context:
  assumes "\<not> truthy tid"
  shows "\<exists>m. find_by_id T tid i w = (Inl (PlainError m), w)"
  using guard_no_tenant(3) [OF assms, of cls "[(''id'', SStr i)]"]
  by (auto simp: find_by_id_eq andThen_run)

lemma write_foreign:
  assumes "tid = Some t" and "t \<noteq> []" and "tenantOf e \<noteq> t"
  shows "\<exists>m. store T tid e w = (Inl (ForbiddenException m), w)"
  using guard_wrong_tenant(1) [OF assms] write_guarded by blast

lemma write_without_context:
  assumes "\<not> truthy tid"
  shows "\<exists>m. store T tid e w = (Inl (PlainError m), w)"
  using guard_no_tenant(1) [OF assms] write_guarded by blast

lemma write_returns_own_tenant:
  assumes "store T tid e w = (Inr e', w')"
  shows "tid = Some (tenantOf e)"
proof (cases "guardTenantOwnership cls tid (tenantOf e)")
  case (Inl x)
  with write_guarded [OF this, of T w] assms show ?thesis by simp
next
  case (Inr u)
  then show ?thesis by simp
qed

end

end
