(* ===== verification/EventContracts.thy ===== *)
theory EventContracts
  imports SharedKernel
begin

text \<open>
  The event contracts, \<open>libs/event-contracts/src\<close>: the canonical envelope and the event types.
  A payload type is a list of members with their types; the payloads the platform builds are
  functions of their members.
\<close>

record tenant_aware_event =
  te_eventId :: string
  te_eventType :: string
  te_eventVersion :: int
  te_tenantId :: string
  te_correlationId :: string
  te_actorId :: "string option"
  te_causationId :: "string option"
  te_traceId :: "string option"
  te_sourceService :: string
  te_sourceVersion :: "string option"
  te_occurredAt :: string
  te_payload :: object
  te_isReplay :: "bool option"
  te_replayId :: "string option"
  te_replayedAt :: "string option"
  te_replayReason :: "string option"
  te_replaySourceEventId :: "string option"

definition TENANT_CREATED :: string where
  "TENANT_CREATED = ''tenant.created''"

definition TENANT_PROVISIONED :: string where
  "TENANT_PROVISIONED = ''tenant.provisioned''"

definition TENANT_SUSPENDED :: string where
  "TENANT_SUSPENDED = ''tenant.suspended''"

definition USER_REGISTERED :: string where
  "USER_REGISTERED = ''identity.user.registered''"

definition AUDIT_EVENT_RECORDED :: string where
  "AUDIT_EVENT_RECORDED = ''audit.event.recorded''"

definition WORKFLOW_TRIGGERED :: string where
  "WORKFLOW_TRIGGERED = ''workflow.execution.triggered''"

definition SUBSCRIPTION_CHANGED :: string where
  "SUBSCRIPTION_CHANGED = ''tenant.subscription.changed''"

definition USER_INVITED :: string where
  "USER_INVITED = ''identity.user.invited''"

definition USER_JOINED_TENANT :: string where
  "USER_JOINED_TENANT = ''identity.user.joined_tenant''"

definition API_KEY_GENERATED :: string where
  "API_KEY_GENERATED = ''identity.apikey.generated''"

definition ROLE_ASSIGNED :: string where
  "ROLE_ASSIGNED = ''identity.role.assigned''"

definition AUTHENTICATION_SUCCEEDED :: string where
  "AUTHENTICATION_SUCCEEDED = ''identity.auth.succeeded''"

definition AUTHENTICATION_FAILED :: string where
  "AUTHENTICATION_FAILED = ''identity.auth.failed''"

definition RBAC_VIOLATION_DETECTED :: string where
  "RBAC_VIOLATION_DETECTED = ''identity.rbac.violation''"

definition WORKFLOW_COMPLETED :: string where
  "WORKFLOW_COMPLETED = ''workflow.execution.completed''"

definition WORKFLOW_FAILED :: string where
  "WORKFLOW_FAILED = ''workflow.execution.failed''"

lemmas event_type_defs = TENANT_CREATED_def TENANT_PROVISIONED_def TENANT_SUSPENDED_def
  USER_REGISTERED_def AUDIT_EVENT_RECORDED_def WORKFLOW_TRIGGERED_def SUBSCRIPTION_CHANGED_def
  USER_INVITED_def USER_JOINED_TENANT_def API_KEY_GENERATED_def ROLE_ASSIGNED_def
  AUTHENTICATION_SUCCEEDED_def AUTHENTICATION_FAILED_def RBAC_VIOLATION_DETECTED_def
  WORKFLOW_COMPLETED_def WORKFLOW_FAILED_def

text \<open>Payloads by event type, in the order of the members.\<close>

definition tenant_created_payload :: "string \<Rightarrow> string \<Rightarrow> string \<Rightarrow> string \<Rightarrow> string \<Rightarrow> object" where
  "tenant_created_payload organizationId name slug plan ownerId =
     [(''organizationId'', JStr organizationId), (''name'', JStr name), (''slug'', JStr slug),
      (''plan'', JStr plan), (''ownerId'', JStr ownerId)]"

definition tenant_provisioned_payload :: "string \<Rightarrow> string \<Rightarrow> string \<Rightarrow> object" where
  "tenant_provisioned_payload organizationId defaultProjectId provisionedAt =
     [(''organizationId'', JStr organizationId), (''defaultProjectId'', JStr defaultProjectId),
      (''provisionedAt'', JStr provisionedAt)]"

definition tenant_suspended_payload :: "string \<Rightarrow> string \<Rightarrow> string \<Rightarrow> string \<Rightarrow> object" where
  "tenant_suspended_payload organizationId reason suspendedBy suspendedAt =
     [(''organizationId'', JStr organizationId), (''reason'', JStr reason),
      (''suspendedBy'', JStr suspendedBy), (''suspendedAt'', JStr suspendedAt)]"

definition user_registered_payload :: "string \<Rightarrow> string \<Rightarrow> string \<Rightarrow> string \<Rightarrow> object" where
  "user_registered_payload userId email displayName registeredAt =
     [(''userId'', JStr userId), (''email'', JStr email), (''displayName'', JStr displayName),
      (''registeredAt'', JStr registeredAt)]"

definition audit_event_recorded_payload ::
  "string \<Rightarrow> string \<Rightarrow> string \<Rightarrow> string \<Rightarrow> string \<Rightarrow> object \<Rightarrow> object" where
  "audit_event_recorded_payload auditEventId action resourceType resourceId outcome metadata =
     [(''auditEventId'', JStr auditEventId), (''action'', JStr action),
      (''resourceType'', JStr resourceType), (''resourceId'', JStr resourceId),
      (''outcome'', JStr outcome), (''metadata'', JObj metadata)]"

definition workflow_triggered_payload ::
  "string \<Rightarrow> string \<Rightarrow> string \<Rightarrow> string \<Rightarrow> string \<Rightarrow> object \<Rightarrow> object" where
  "workflow_triggered_payload executionId definitionId definitionName triggeredBy triggerType input =
     [(''executionId'', JStr executionId), (''definitionId'', JStr definitionId),
      (''definitionName'', JStr definitionName), (''triggeredBy'', JStr triggeredBy),
      (''triggerType'', JStr triggerType), (''input'', JObj input)]"

section \<open>The payload types\<close>

text \<open>
  An interface of the contracts as a list of members: name, whether the member is required, and
  its type. \<open>conforms\<close> is assignability of an object literal: required members are present,
  and every member present is declared and has its type.
\<close>

datatype member_type = Str_member | Num_member | Obj_member | Str_list_member | One_of "string list"

type_synonym payload_type = "(string \<times> bool \<times> member_type) list"

fun has_member_type :: "json \<Rightarrow> member_type \<Rightarrow> bool" where
  "has_member_type (JStr s) Str_member = True"
| "has_member_type (JStr s) (One_of vs) = (s \<in> set vs)"
| "has_member_type (JNum n) Num_member = True"
| "has_member_type (JObj ms) Obj_member = True"
| "has_member_type (JArr xs) Str_list_member = list_all (\<lambda>x. case x of JStr s \<Rightarrow> True | _ \<Rightarrow> False) xs"
| "has_member_type _ _ = False"

definition conforms :: "payload_type \<Rightarrow> object \<Rightarrow> bool" where
  "conforms c ob \<longleftrightarrow> distinct (map fst ob)
     \<and> list_all (\<lambda>(k, required, t). required \<longrightarrow> k \<in> fst ` set ob) c
     \<and> list_all (\<lambda>(k, v). case map_of c k of None \<Rightarrow> False | Some (required, t) \<Rightarrow> has_member_type v t) ob"

definition TenantCreatedPayload :: payload_type where
  "TenantCreatedPayload =
     [(''organizationId'', True, Str_member),
      (''name'', True, Str_member),
      (''slug'', True, Str_member),
      (''plan'', True, Str_member),
      (''ownerId'', True, Str_member)]"

definition TenantProvisionedPayload :: payload_type where
  "TenantProvisionedPayload =
     [(''organizationId'', True, Str_member),
      (''provisionedAt'', True, Str_member),
      (''defaultProjectId'', True, Str_member),
      (''resourcesCreated'', True, Str_list_member)]"

definition TenantSuspendedPayload :: payload_type where
  "TenantSuspendedPayload =
     [(''organizationId'', True, Str_member),
      (''reason'', True, Str_member),
      (''suspendedBy'', True, Str_member),
      (''suspendedAt'', True, Str_member)]"

definition SubscriptionChangedPayload :: payload_type where
  "SubscriptionChangedPayload =
     [(''organizationId'', True, Str_member),
      (''previousPlan'', True, Str_member),
      (''newPlan'', True, Str_member),
      (''changeReason'', True, (One_of [''upgrade'', ''downgrade'', ''renewal'', ''cancellation'', ''trial_start''])),
      (''effectiveAt'', True, Str_member)]"

definition UserRegisteredPayload :: payload_type where
  "UserRegisteredPayload =
     [(''userId'', True, Str_member),
      (''email'', True, Str_member),
      (''displayName'', True, Str_member),
      (''registeredAt'', True, Str_member)]"

definition UserInvitedPayload :: payload_type where
  "UserInvitedPayload =
     [(''inviteeEmail'', True, Str_member),
      (''inviterId'', True, Str_member),
      (''organizationId'', True, Str_member),
      (''role'', True, Str_member),
      (''invitationToken'', True, Str_member),
      (''expiresAt'', True, Str_member)]"

definition UserJoinedTenantPayload :: payload_type where
  "UserJoinedTenantPayload =
     [(''userId'', True, Str_member),
      (''email'', True, Str_member),
      (''role'', True, Str_member),
      (''invitedBy'', False, Str_member)]"

definition ApiKeyGeneratedPayload :: payload_type where
  "ApiKeyGeneratedPayload =
     [(''apiKeyId'', True, Str_member),
      (''prefix'', True, Str_member),
      (''userId'', True, Str_member),
      (''organizationId'', True, Str_member),
      (''name'', True, Str_member),
      (''permissions'', True, Str_list_member),
      (''expiresAt'', False, Str_member)]"

definition RoleAssignedPayload :: payload_type where
  "RoleAssignedPayload =
     [(''userId'', True, Str_member),
      (''organizationId'', True, Str_member),
      (''role'', True, Str_member),
      (''projectId'', False, Str_member),
      (''assignedBy'', True, Str_member)]"

definition AuthenticationSucceededPayload :: payload_type where
  "AuthenticationSucceededPayload =
     [(''userId'', True, Str_member),
      (''method'', True, (One_of [''password'', ''api_key'', ''oauth'', ''sso''])),
      (''ipAddress'', False, Str_member),
      (''userAgent'', False, Str_member)]"

definition AuthenticationFailedPayload :: payload_type where
  "AuthenticationFailedPayload =
     [(''attemptedIdentifier'', True, Str_member),
      (''reason'', True, (One_of [''invalid_credentials'', ''account_locked'', ''mfa_required'', ''token_expired''])),
      (''ipAddress'', False, Str_member),
      (''userAgent'', False, Str_member)]"

definition RBACViolationDetectedPayload :: payload_type where
  "RBACViolationDetectedPayload =
     [(''userId'', True, Str_member),
      (''requiredPermission'', True, Str_member),
      (''resourceType'', True, Str_member),
      (''resourceId'', True, Str_member),
      (''ipAddress'', False, Str_member)]"

definition AuditEventRecordedPayload :: payload_type where
  "AuditEventRecordedPayload =
     [(''auditEventId'', True, Str_member),
      (''action'', True, Str_member),
      (''resourceType'', True, Str_member),
      (''resourceId'', True, Str_member),
      (''outcome'', True, (One_of [''success'', ''failure''])),
      (''metadata'', True, Obj_member)]"

definition WorkflowTriggeredPayload :: payload_type where
  "WorkflowTriggeredPayload =
     [(''executionId'', True, Str_member),
      (''definitionId'', True, Str_member),
      (''definitionName'', True, Str_member),
      (''triggeredBy'', True, Str_member),
      (''triggerType'', True, (One_of [''manual'', ''event'', ''schedule''])),
      (''input'', True, Obj_member)]"

definition WorkflowCompletedPayload :: payload_type where
  "WorkflowCompletedPayload =
     [(''executionId'', True, Str_member),
      (''definitionId'', True, Str_member),
      (''status'', True, (One_of [''completed'', ''failed'', ''cancelled''])),
      (''durationMs'', True, Num_member),
      (''output'', False, Obj_member),
      (''errorMessage'', False, Str_member)]"

definition WorkflowFailedPayload :: payload_type where
  "WorkflowFailedPayload =
     [(''executionId'', True, Str_member),
      (''definitionId'', True, Str_member),
      (''definitionName'', True, Str_member),
      (''failedStep'', False, Str_member),
      (''errorMessage'', True, Str_member),
      (''durationMs'', False, Num_member)]"

text \<open>\<open>EventEnvelope\<close>: which payload an event of a type carries.\<close>

definition event_contracts :: "(string \<times> payload_type) list" where
  "event_contracts =
     [(TENANT_CREATED, TenantCreatedPayload),
      (TENANT_PROVISIONED, TenantProvisionedPayload),
      (TENANT_SUSPENDED, TenantSuspendedPayload),
      (USER_REGISTERED, UserRegisteredPayload),
      (AUDIT_EVENT_RECORDED, AuditEventRecordedPayload),
      (WORKFLOW_TRIGGERED, WorkflowTriggeredPayload),
      (SUBSCRIPTION_CHANGED, SubscriptionChangedPayload),
      (USER_INVITED, UserInvitedPayload),
      (USER_JOINED_TENANT, UserJoinedTenantPayload),
      (API_KEY_GENERATED, ApiKeyGeneratedPayload),
      (ROLE_ASSIGNED, RoleAssignedPayload),
      (AUTHENTICATION_SUCCEEDED, AuthenticationSucceededPayload),
      (AUTHENTICATION_FAILED, AuthenticationFailedPayload),
      (RBAC_VIOLATION_DETECTED, RBACViolationDetectedPayload),
      (WORKFLOW_COMPLETED, WorkflowCompletedPayload),
      (WORKFLOW_FAILED, WorkflowFailedPayload)]"

definition meets_contract :: "tenant_aware_event \<Rightarrow> bool" where
  "meets_contract ev \<longleftrightarrow>
     (case map_of event_contracts (te_eventType ev) of None \<Rightarrow> False | Some c \<Rightarrow> conforms c (te_payload ev))"

lemmas payload_types = TenantCreatedPayload_def
  TenantProvisionedPayload_def
  TenantSuspendedPayload_def
  SubscriptionChangedPayload_def
  UserRegisteredPayload_def
  UserInvitedPayload_def
  UserJoinedTenantPayload_def
  ApiKeyGeneratedPayload_def
  RoleAssignedPayload_def
  AuthenticationSucceededPayload_def
  AuthenticationFailedPayload_def
  RBACViolationDetectedPayload_def
  AuditEventRecordedPayload_def
  WorkflowTriggeredPayload_def
  WorkflowCompletedPayload_def
  WorkflowFailedPayload_def

lemma event_types_distinct: "distinct (map fst event_contracts)"
  by (simp add: event_contracts_def event_type_defs)

end
