(* ===== verification/Organization.thy ===== *)
theory Organization
  imports TenantRepository EventContracts
begin

text \<open>
  The organization aggregate, \<open>apps/api/src/modules/tenant-core/domain\<close>, with its value
  objects, and its persistence, \<open>tenant-core/infrastructure/persistence\<close>.
\<close>

section \<open>Value objects\<close>

text \<open>
  \<open>TenantSlug\<close>: the pattern \<open>^[a-z0-9][a-z0-9-]{1,61}[a-z0-9]$\<close> as a function on the
  normalised text.
\<close>

definition slug_pattern :: "string \<Rightarrow> bool" where
  "slug_pattern s \<longleftrightarrow>
     3 \<le> length s \<and> length s \<le> 63 \<and> is_lower_alnum (hd s) \<and> is_lower_alnum (last s) \<and>
     list_all (\<lambda>c. is_lower_alnum c \<or> c = dash) (butlast (tl s))"

datatype tenant_slug = TenantSlug (slug_value: string)

definition slug_create :: "string \<Rightarrow> exn + tenant_slug" where
  "slug_create value =
     (let normalized = trim (toLowerCase value)
      in if \<not> slug_pattern normalized
         then Inl (ValidationException [(''slug'',
                [''Slug must be 3-63 lowercase alphanumeric characters or hyphens, ''
                 @ ''not starting or ending with a hyphen''])])
         else Inr (TenantSlug normalized))"

text \<open>\<open>TenantPlan\<close>.\<close>

record tenant_plan =
  plan_tier :: tenant_plan_tier
  maxProjects :: int
  maxMembers :: int
  maxApiKeys :: int
  auditRetentionDays :: int

fun forTier :: "tenant_plan_tier \<Rightarrow> tenant_plan" where
  "forTier FREE = \<lparr>plan_tier = FREE, maxProjects = 1, maxMembers = 3, maxApiKeys = 2, auditRetentionDays = 30\<rparr>"
| "forTier STARTER = \<lparr>plan_tier = STARTER, maxProjects = 5, maxMembers = 10, maxApiKeys = 10, auditRetentionDays = 90\<rparr>"
| "forTier PRO = \<lparr>plan_tier = PRO, maxProjects = 25, maxMembers = 50, maxApiKeys = 50, auditRetentionDays = 365\<rparr>"
| "forTier ENTERPRISE = \<lparr>plan_tier = ENTERPRISE, maxProjects = 1000, maxMembers = 10000, maxApiKeys = 1000, auditRetentionDays = 2555\<rparr>"

definition canAddProject :: "tenant_plan \<Rightarrow> int \<Rightarrow> bool" where
  "canAddProject p currentCount \<longleftrightarrow> currentCount < maxProjects p"

definition canAddMember :: "tenant_plan \<Rightarrow> int \<Rightarrow> bool" where
  "canAddMember p currentCount \<longleftrightarrow> currentCount < maxMembers p"

section \<open>The aggregate\<close>

record org_settings =
  allowPublicSignup :: bool
  enforcesMfa :: bool
  ssoEnabled :: bool
  auditEnabled :: bool

record organization = aggregate +
  org_name :: string
  org_slug :: tenant_slug
  org_plan :: tenant_plan
  org_status :: tenant_status
  org_ownerId :: string
  org_provisionedAt :: "time option"
  org_settings :: org_settings

definition no_metadata :: "string \<Rightarrow> string \<Rightarrow> string option \<Rightarrow> event_metadata" where
  "no_metadata tenant corr actor =
     \<lparr>md_tenantId = tenant, md_correlationId = corr, md_actorId = actor, md_causationId = None,
      md_traceId = None, md_sourceService = None, md_sourceVersion = None\<rparr>"

text \<open>
  \<open>OrganizationAggregate.create\<close>: \<open>org_id\<close> and \<open>event_id\<close> are the identifiers it generates;
  the clock is read for the creation date, the update date and the event.
\<close>

definition org_create ::
  "string \<Rightarrow> string \<Rightarrow> tenant_plan_tier \<Rightarrow> string \<Rightarrow> string \<Rightarrow> string \<Rightarrow> string \<Rightarrow> time \<Rightarrow> time \<Rightarrow> time
     \<Rightarrow> exn + organization" where
  "org_create name slug planTier ownerId correlationId org_id event_id now1 now2 now3 =
     (case slug_create slug of
        Inl e \<Rightarrow> Inl e
      | Inr s \<Rightarrow>
          (let base = new_entity (Some org_id) None None org_id now1 now2;
               org = \<lparr>ent_id = ent_id base, created_at = created_at base, updated_at = updated_at base,
                      domain_events = [], org_name = name, org_slug = s, org_plan = forTier planTier,
                      org_status = PROVISIONING, org_ownerId = ownerId, org_provisionedAt = None,
                      org_settings = \<lparr>allowPublicSignup = False, enforcesMfa = False,
                                      ssoEnabled = False, auditEnabled = True\<rparr>\<rparr>
           in Inr (addDomainEvent
                (new_domain_event ''TenantCreatedDomainEvent''
                   (no_metadata org_id correlationId (Some ownerId))
                   (tenant_created_payload org_id name (slug_value s) (tier_text planTier) ownerId)
                   event_id now3) org)))"

text \<open>\<open>reconstitute\<close>: an aggregate from stored values, with no domain events.\<close>

definition org_reconstitute ::
  "string \<Rightarrow> string \<Rightarrow> tenant_slug \<Rightarrow> tenant_plan \<Rightarrow> tenant_status \<Rightarrow> string \<Rightarrow> time option
     \<Rightarrow> org_settings \<Rightarrow> time \<Rightarrow> time \<Rightarrow> organization" where
  "org_reconstitute i name slug plan status ownerId provisionedAt settings created updated =
     \<lparr>ent_id = i, created_at = created, updated_at = updated, domain_events = [],
      org_name = name, org_slug = slug, org_plan = plan, org_status = status,
      org_ownerId = ownerId, org_provisionedAt = provisionedAt, org_settings = settings\<rparr>"

definition org_markProvisioned ::
  "string \<Rightarrow> string \<Rightarrow> string \<Rightarrow> time \<Rightarrow> time \<Rightarrow> time \<Rightarrow> organization \<Rightarrow> exn + organization" where
  "org_markProvisioned defaultProjectId correlationId event_id now1 now2 now3 org =
     (if org_status org \<noteq> PROVISIONING
      then Inl (ConflictException (''Cannot provision organization in status: '' @ status_text (org_status org)))
      else
        (let org' = touch now2 (org\<lparr>org_status := ACTIVE, org_provisionedAt := Some now1\<rparr>)
         in Inr (addDomainEvent
              (new_domain_event ''TenantProvisionedDomainEvent''
                 (no_metadata (ent_id org) correlationId None)
                 (tenant_provisioned_payload (ent_id org) defaultProjectId (toISOString now1))
                 event_id now3) org')))"

definition org_suspend ::
  "string \<Rightarrow> string \<Rightarrow> string \<Rightarrow> string \<Rightarrow> time \<Rightarrow> time \<Rightarrow> time \<Rightarrow> organization \<Rightarrow> exn + organization" where
  "org_suspend reason suspendedBy correlationId event_id now1 now2 now3 org =
     (if org_status org \<noteq> ACTIVE
      then Inl (ConflictException (''Cannot suspend organization in status: '' @ status_text (org_status org)))
      else
        (let org' = touch now2 (org\<lparr>org_status := SUSPENDED\<rparr>)
         in Inr (addDomainEvent
              (new_domain_event ''TenantSuspendedDomainEvent''
                 (no_metadata (ent_id org) correlationId (Some suspendedBy))
                 (tenant_suspended_payload (ent_id org) reason suspendedBy (toISOString now1))
                 event_id now3) org')))"

definition org_rename :: "string \<Rightarrow> time \<Rightarrow> organization \<Rightarrow> exn + organization" where
  "org_rename newName now org =
     (let trimmed = trim newName
      in if length trimmed < 2 \<or> length trimmed > 100
         then Inl (ConflictException ''Organization name must be between 2 and 100 characters'')
         else if trimmed = org_name org then Inr org
         else Inr (touch now (org\<lparr>org_name := trimmed\<rparr>)))"

definition org_changePlan :: "tenant_plan_tier \<Rightarrow> time \<Rightarrow> organization \<Rightarrow> organization" where
  "org_changePlan planTier now org =
     (if plan_tier (org_plan org) = planTier then org
      else touch now (org\<lparr>org_plan := forTier planTier\<rparr>))"

definition org_reactivate :: "time \<Rightarrow> organization \<Rightarrow> exn + organization" where
  "org_reactivate now org =
     (if org_status org \<noteq> SUSPENDED
      then Inl (ConflictException (''Cannot reactivate organization in status: '' @ status_text (org_status org)))
      else Inr (touch now (org\<lparr>org_status := ACTIVE\<rparr>)))"

record settings_patch =
  patch_allowPublicSignup :: "bool option"
  patch_enforcesMfa :: "bool option"
  patch_ssoEnabled :: "bool option"
  patch_auditEnabled :: "bool option"

definition patched :: "'a option \<Rightarrow> 'a \<Rightarrow> 'a" where
  "patched p v = (case p of Some x \<Rightarrow> x | None \<Rightarrow> v)"

definition org_updateSettings :: "settings_patch \<Rightarrow> time \<Rightarrow> organization \<Rightarrow> organization" where
  "org_updateSettings p now org =
     (let s = org_settings org
      in touch now (org\<lparr>org_settings :=
           \<lparr>allowPublicSignup = patched (patch_allowPublicSignup p) (allowPublicSignup s),
            enforcesMfa = patched (patch_enforcesMfa p) (enforcesMfa s),
            ssoEnabled = patched (patch_ssoEnabled p) (ssoEnabled s),
            auditEnabled = patched (patch_auditEnabled p) (auditEnabled s)\<rparr>\<rparr>))"

definition org_isActive :: "organization \<Rightarrow> bool" where
  "org_isActive org \<longleftrightarrow> org_status org = ACTIVE"

section \<open>Facts about the value objects\<close>

lemma lower_alnum_not_space: "is_lower_alnum c \<or> c = dash \<Longrightarrow> \<not> is_space c"
  by (auto simp: is_lower_alnum_def is_space_def dash_def Let_def)

lemma lower_alnum_lower: "is_lower_alnum c \<or> c = dash \<Longrightarrow> lower_char c = c"
  by (auto simp: is_lower_alnum_def lower_char_def dash_def Let_def)

lemma slug_pattern_chars:
  assumes "slug_pattern s"
  shows "list_all (\<lambda>c. is_lower_alnum c \<or> c = dash) s"
proof -
  from assms have "s \<noteq> []" and "tl s \<noteq> []"
    by (auto simp: slug_pattern_def) (cases s; simp)
  then have "s = hd s # butlast (tl s) @ [last s]"
    by (metis append_butlast_last_id last_tl list.collapse)
  moreover have "list_all (\<lambda>c. is_lower_alnum c \<or> c = dash) (hd s # butlast (tl s) @ [last s])"
    using assms by (simp add: slug_pattern_def)
  ultimately show ?thesis by simp
qed

lemma slug_pattern_normal:
  assumes "slug_pattern s"
  shows "trim (toLowerCase s) = s"
proof -
  have "toLowerCase s = s"
    using slug_pattern_chars [OF assms]
    by (auto simp: toLowerCase_def list_all_iff lower_alnum_lower intro!: map_idI)
  moreover have "list_all (\<lambda>c. \<not> is_space c) s"
    using slug_pattern_chars [OF assms] lower_alnum_not_space by (auto simp: list_all_iff)
  ultimately show ?thesis by simp
qed

lemma slug_create_Inr_iff:
  "slug_create v = Inr sl \<longleftrightarrow> slug_pattern (trim (toLowerCase v)) \<and> sl = TenantSlug (trim (toLowerCase v))"
  by (auto simp: slug_create_def Let_def)

lemma slug_create_valid: "slug_create v = Inr sl \<Longrightarrow> slug_pattern (slug_value sl)"
  by (auto simp: slug_create_Inr_iff)

lemma slug_create_id: "slug_pattern (slug_value sl) \<Longrightarrow> slug_create (slug_value sl) = Inr sl"
  by (cases sl) (auto simp: slug_create_Inr_iff slug_pattern_normal)

lemma slug_create_error: "slug_create v = Inl e \<Longrightarrow> \<exists>vs. e = ValidationException vs"
  by (auto simp: slug_create_def Let_def split: if_splits)

lemma plan_tier_forTier [simp]: "plan_tier (forTier t) = t"
  by (cases t) auto

section \<open>The life of an organization\<close>

text \<open>One call of a public mutator, with any arguments, that does not throw.\<close>

inductive org_step :: "organization \<Rightarrow> organization \<Rightarrow> bool" where
  provision: "org_markProvisioned p c i t1 t2 t3 org = Inr org' \<Longrightarrow> org_step org org'"
| suspend: "org_suspend r b c i t1 t2 t3 org = Inr org' \<Longrightarrow> org_step org org'"
| rename: "org_rename n t org = Inr org' \<Longrightarrow> org_step org org'"
| change_plan: "org_step org (org_changePlan tier t org)"
| reactivate: "org_reactivate t org = Inr org' \<Longrightarrow> org_step org org'"
| update_settings: "org_step org (org_updateSettings sp t org)"
| clear_events: "org_step org (clearDomainEvents org)"

text \<open>The aggregates the code can build from nothing.\<close>

inductive org_reachable :: "organization \<Rightarrow> bool" where
  create: "org_create n sl tier ow c i e t1 t2 t3 = Inr org \<Longrightarrow> org_reachable org"
| step: "org_reachable org \<Longrightarrow> org_step org org' \<Longrightarrow> org_reachable org'"

text \<open>The abstract life cycle: statuses and the named transitions between them.\<close>

datatype lifecycle_action = Provision | Suspend | Reactivate | Edit

inductive lifecycle :: "tenant_status \<Rightarrow> lifecycle_action \<Rightarrow> tenant_status \<Rightarrow> bool" where
  "lifecycle PROVISIONING Provision ACTIVE"
| "lifecycle ACTIVE Suspend SUSPENDED"
| "lifecycle SUSPENDED Reactivate ACTIVE"
| "lifecycle s Edit s"

inductive_simps lifecycle_iff: "lifecycle s a t"

definition org_inv :: "organization \<Rightarrow> bool" where
  "org_inv org \<longleftrightarrow>
     slug_pattern (slug_value (org_slug org)) \<and>
     org_plan org = forTier (plan_tier (org_plan org)) \<and>
     org_status org \<in> {PROVISIONING, ACTIVE, SUSPENDED} \<and>
     (org_provisionedAt org = None \<longleftrightarrow> org_status org = PROVISIONING)"

lemma touch_org [simp]:
  "org_name (touch t org) = org_name org" "org_slug (touch t org) = org_slug org"
  "org_plan (touch t org) = org_plan org" "org_status (touch t org) = org_status org"
  "org_ownerId (touch t org) = org_ownerId org"
  "org_provisionedAt (touch t org) = org_provisionedAt org"
  "org_settings (touch t org) = org_settings org" "domain_events (touch t org) = domain_events org"
  by (simp_all add: touch_def)

lemma addDomainEvent_org [simp]:
  "org_name (addDomainEvent e org) = org_name org" "org_slug (addDomainEvent e org) = org_slug org"
  "org_plan (addDomainEvent e org) = org_plan org" "org_status (addDomainEvent e org) = org_status org"
  "org_ownerId (addDomainEvent e org) = org_ownerId org"
  "org_provisionedAt (addDomainEvent e org) = org_provisionedAt org"
  "org_settings (addDomainEvent e org) = org_settings org"
  by (simp_all add: addDomainEvent_def)

lemma clearDomainEvents_org [simp]:
  "org_name (clearDomainEvents org) = org_name org" "org_slug (clearDomainEvents org) = org_slug org"
  "org_plan (clearDomainEvents org) = org_plan org" "org_status (clearDomainEvents org) = org_status org"
  "org_ownerId (clearDomainEvents org) = org_ownerId org"
  "org_provisionedAt (clearDomainEvents org) = org_provisionedAt org"
  "org_settings (clearDomainEvents org) = org_settings org"
  by (simp_all add: clearDomainEvents_def)

lemmas org_op_defs = org_markProvisioned_def org_suspend_def org_rename_def org_changePlan_def
  org_reactivate_def org_updateSettings_def

lemma org_create_inv: "org_create n sl tier ow c i e t1 t2 t3 = Inr org \<Longrightarrow> org_inv org"
  by (auto simp: org_create_def org_inv_def Let_def new_entity_def slug_create_valid
      split: sum.splits)

lemma org_step_inv: "org_step org org' \<Longrightarrow> org_inv org \<Longrightarrow> org_inv org'"
  by (induction rule: org_step.induct)
    (auto simp: org_op_defs org_inv_def Let_def split: if_splits)

lemma org_reachable_inv: "org_reachable org \<Longrightarrow> org_inv org"
  by (induction rule: org_reachable.induct) (auto intro: org_create_inv org_step_inv)

lemma org_step_refines: "org_step org org' \<Longrightarrow> \<exists>a. lifecycle (org_status org) a (org_status org')"
  by (induction rule: org_step.induct)
    (auto simp: org_op_defs Let_def lifecycle_iff split: if_splits)

text \<open>What no mutator changes.\<close>

lemma org_step_frame:
  "org_step org org' \<Longrightarrow> ent_id org' = ent_id org \<and> org_slug org' = org_slug org
     \<and> org_ownerId org' = org_ownerId org \<and> created_at org' = created_at org"
  by (induction rule: org_step.induct) (auto simp: org_op_defs Let_def split: if_splits)

end
