(* ===== verification/OrganizationRepository.thy ===== *)
theory OrganizationRepository
  imports Organization
begin

text \<open>
  Persistence of organizations, \<open>tenant-core/infrastructure/persistence\<close>: the stored row,
  the mapper and the repository. The columns of a row are read by property name, and
  \<open>owner_id\<close> also by the column name one query uses. The mapper's casts of \<open>settings\<close> do
  nothing at run time, so the row stores the settings themselves.
\<close>

record org_row =
  or_id :: string
  or_name :: string
  or_slug :: string
  or_planTier :: tenant_plan_tier
  or_status :: tenant_status
  or_ownerId :: string
  or_provisionedAt :: "time option"
  or_settings :: org_settings
  or_createdAt :: time
  or_updatedAt :: time

definition org_cols :: "org_row \<Rightarrow> string \<Rightarrow> sqlval" where
  "org_cols r c =
     (if c = ''id'' then SStr (or_id r)
      else if c = ''name'' then SStr (or_name r)
      else if c = ''slug'' then SStr (or_slug r)
      else if c = ''planTier'' then SStr (tier_text (or_planTier r))
      else if c = ''status'' then SStr (status_text (or_status r))
      else if c = ''ownerId'' \<or> c = ''owner_id'' then SStr (or_ownerId r)
      else if c = ''provisionedAt'' then (case or_provisionedAt r of None \<Rightarrow> SNull | Some t \<Rightarrow> STime t)
      else if c = ''createdAt'' then STime (or_createdAt r)
      else if c = ''updatedAt'' then STime (or_updatedAt r)
      else SNull)"

section \<open>The mapper\<close>

definition org_toDomain :: "org_row \<Rightarrow> exn + organization" where
  "org_toDomain orm =
     (case slug_create (or_slug orm) of
        Inl e \<Rightarrow> Inl e
      | Inr slug \<Rightarrow>
          Inr (org_reconstitute (or_id orm) (or_name orm) slug (forTier (or_planTier orm))
                 (or_status orm) (or_ownerId orm) (or_provisionedAt orm) (or_settings orm)
                 (or_createdAt orm) (or_updatedAt orm)))"

definition org_toOrm :: "organization \<Rightarrow> org_row" where
  "org_toOrm org =
     \<lparr>or_id = ent_id org, or_name = org_name org, or_slug = slug_value (org_slug org),
      or_planTier = plan_tier (org_plan org), or_status = org_status org,
      or_ownerId = org_ownerId org, or_provisionedAt = org_provisionedAt org,
      or_settings = org_settings org, or_createdAt = created_at org, or_updatedAt = updated_at org\<rparr>"

text \<open>\<open>orm ? this.mapper.toDomain(orm) : null\<close>\<close>

definition org_toDomain_or_null :: "org_row option \<Rightarrow> exn + organization option" where
  "org_toDomain_or_null r = (case r of None \<Rightarrow> Inr None | Some orm \<Rightarrow> map_sum id Some (org_toDomain orm))"

section \<open>The repository\<close>

definition org_repo_name :: string where
  "org_repo_name = ''OrganizationRepository''"

definition org_findById ::
  "('w, org_row) table \<Rightarrow> string option \<Rightarrow> string \<Rightarrow> ('w, organization option) io" where
  "org_findById T tid i =
     andThen (lift (guardTenantRoot org_repo_name tid i))
       (\<lambda>_. andThen (find_one T (find_options [(''id'', SStr i)]))
         (\<lambda>orm. lift (org_toDomain_or_null orm)))"

definition org_save ::
  "('w, org_row) table \<Rightarrow> string option \<Rightarrow> organization \<Rightarrow> ('w, organization) io" where
  "org_save T tid org =
     andThen (lift (guardTenantRoot org_repo_name tid (ent_id org)))
       (\<lambda>_. andThen (save_row T (org_toOrm org)) (\<lambda>saved. lift (org_toDomain saved)))"

definition org_existsById ::
  "('w, org_row) table \<Rightarrow> string option \<Rightarrow> string \<Rightarrow> ('w, bool) io" where
  "org_existsById T tid i =
     andThen (lift (guardTenantRoot org_repo_name tid i))
       (\<lambda>_. exists_row T (find_options [(''id'', SStr i)]))"

definition org_findBySlug ::
  "('w, org_row) table \<Rightarrow> string \<Rightarrow> system_query_context \<Rightarrow> ('w, organization option) io" where
  "org_findBySlug T slug ctx =
     andThen (find_one T (qb_where (CEq ''slug'' (SStr slug)) (systemQb ctx)))
       (\<lambda>orm. lift (org_toDomain_or_null orm))"

definition org_existsBySlug ::
  "('w, org_row) table \<Rightarrow> string \<Rightarrow> system_query_context \<Rightarrow> ('w, bool) io" where
  "org_existsBySlug T slug ctx =
     andThen (count_rows T (qb_where (CEq ''slug'' (SStr slug)) (systemQb ctx)))
       (\<lambda>count. ret (count > 0))"

definition org_findByOwnerId ::
  "('w, org_row) table \<Rightarrow> string \<Rightarrow> system_query_context \<Rightarrow> ('w, organization option) io" where
  "org_findByOwnerId T ownerId ctx =
     andThen (find_one T (qb_where (CEq ''owner_id'' (SStr ownerId)) (systemQb ctx)))
       (\<lambda>orm. lift (org_toDomain_or_null orm))"

definition org_provision ::
  "('w, org_row) table \<Rightarrow> organization \<Rightarrow> system_query_context \<Rightarrow> ('w, organization) io" where
  "org_provision T org ctx =
     andThen (save_row T (org_toOrm org)) (\<lambda>saved. lift (org_toDomain saved))"

section \<open>The port\<close>

text \<open>
  \<open>OrganizationRepositoryPort\<close> as the handlers get it by injection: a record of operations.
\<close>

record 'w organization_port =
  orgs_findById :: "string \<Rightarrow> ('w, organization option) io"
  orgs_save :: "organization \<Rightarrow> ('w, organization) io"
  orgs_existsById :: "string \<Rightarrow> ('w, bool) io"
  orgs_findBySlug :: "string \<Rightarrow> system_query_context \<Rightarrow> ('w, organization option) io"
  orgs_existsBySlug :: "string \<Rightarrow> system_query_context \<Rightarrow> ('w, bool) io"
  orgs_provision :: "organization \<Rightarrow> system_query_context \<Rightarrow> ('w, organization) io"
  orgs_findByOwnerId :: "string \<Rightarrow> system_query_context \<Rightarrow> ('w, organization option) io"

definition organization_repository ::
  "('w, org_row) table \<Rightarrow> string option \<Rightarrow> 'w organization_port" where
  "organization_repository T tid =
     \<lparr>orgs_findById = org_findById T tid, orgs_save = org_save T tid,
      orgs_existsById = org_existsById T tid, orgs_findBySlug = org_findBySlug T,
      orgs_existsBySlug = org_existsBySlug T, orgs_provision = org_provision T,
      orgs_findByOwnerId = org_findByOwnerId T\<rparr>"

text \<open>
  What the port promises under the ambient tenant \<open>tid\<close>: the tenant-context operations accept
  only the tenant's own organization and otherwise throw before touching the world, and every
  aggregate handed out comes from storage, so it carries no domain events.
\<close>

locale organization_repository_port =
  fixes P :: "'w organization_port" and tid :: "string option"
  assumes findById_guarded: "tid \<noteq> Some i \<or> i = [] \<Longrightarrow> \<exists>e. orgs_findById P i w = (Inl e, w)"
    and existsById_guarded: "tid \<noteq> Some i \<or> i = [] \<Longrightarrow> \<exists>e. orgs_existsById P i w = (Inl e, w)"
    and save_guarded: "tid \<noteq> Some (ent_id org) \<or> ent_id org = [] \<Longrightarrow> \<exists>e. orgs_save P org w = (Inl e, w)"
    and findById_no_events: "orgs_findById P i w = (Inr (Some org), w') \<Longrightarrow> domain_events org = []"
    and save_no_events: "orgs_save P org w = (Inr org', w') \<Longrightarrow> domain_events org' = []"
    and provision_no_events: "orgs_provision P org ctx w = (Inr org', w') \<Longrightarrow> domain_events org' = []"
begin

lemma findById_own: "orgs_findById P i w = (Inr r, w') \<Longrightarrow> tid = Some i \<and> i \<noteq> []"
  using findById_guarded [of i w] by force

lemma save_own: "orgs_save P org w = (Inr r, w') \<Longrightarrow> tid = Some (ent_id org) \<and> ent_id org \<noteq> []"
  using save_guarded [of org w] by force

end

lemma org_toDomain_events: "org_toDomain r = Inr org \<Longrightarrow> domain_events org = []"
  by (auto simp: org_toDomain_def org_reconstitute_def split: sum.splits)

lemma org_toDomain_or_null_events:
  "org_toDomain_or_null r = Inr (Some org) \<Longrightarrow> domain_events org = []"
  by (cases r; cases "org_toDomain (the r)")
    (auto simp: org_toDomain_or_null_def dest: org_toDomain_events)

lemma guardTenantRoot_Inl: "tid \<noteq> Some i \<or> i = [] \<Longrightarrow> \<exists>e. guardTenantRoot cls tid i = Inl e"
  by (cases "guardTenantRoot cls tid i") auto

interpretation org_repo: organization_repository_port "organization_repository T tid" tid for T tid
proof unfold_locales
  fix i w
  assume "tid \<noteq> Some i \<or> i = []"
  from guardTenantRoot_Inl [OF this, of org_repo_name]
  show "\<exists>e. orgs_findById (organization_repository T tid) i w = (Inl e, w)"
    and "\<exists>e. orgs_existsById (organization_repository T tid) i w = (Inl e, w)"
    by (auto simp: organization_repository_def org_findById_def org_existsById_def prog_simps)
next
  fix org :: organization and w
  assume "tid \<noteq> Some (ent_id org) \<or> ent_id org = []"
  from guardTenantRoot_Inl [OF this, of org_repo_name]
  show "\<exists>e. orgs_save (organization_repository T tid) org w = (Inl e, w)"
    by (auto simp: organization_repository_def org_save_def prog_simps)
qed (auto simp: organization_repository_def org_findById_def org_save_def org_provision_def andThen_run
       dest: org_toDomain_events org_toDomain_or_null_events split: sum.splits prod.splits)

section \<open>Round trip\<close>

lemma org_toDomain_toOrm:
  assumes "org_inv org"
  shows "org_toDomain (org_toOrm org) = Inr (clearDomainEvents org)"
  using assms slug_create_id [of "org_slug org"]
  by (simp add: org_inv_def org_toDomain_def org_toOrm_def org_reconstitute_def
      clearDomainEvents_def)

lemma org_toOrm_toDomain:
  assumes "org_toDomain r = Inr org" and "slug_pattern (or_slug r)"
  shows "org_toOrm org = r"
  using assms slug_pattern_normal [of "or_slug r"]
  by (auto simp: org_toDomain_def org_toOrm_def org_reconstitute_def slug_create_Inr_iff
      split: sum.splits)

end
