(* ===== verification/TenantCommands.thy ===== *)
theory TenantCommands
  imports OrganizationRepository
begin

text \<open>
  The commands of \<open>tenant-core/application\<close>, their handlers and the controller of
  \<open>tenant-core/api\<close>. A handler takes the repository port and the event bus as arguments, as it
  gets them by injection. \<open>ids k\<close> and \<open>tm k\<close> are the identifier made and the clock read at the
  \<open>k\<close>-th place, in program order, where the handler asks for one. Logging is left out.
\<close>

section \<open>Data transfer objects\<close>

record organization_dto =
  dto_organizationId :: string
  dto_name :: string
  dto_slug :: string
  dto_plan :: string
  dto_status :: string
  dto_ownerId :: string
  dto_provisionedAt :: "string option"
  dto_createdAt :: string
  dto_updatedAt :: string

definition organization_dto_fromAggregate :: "organization \<Rightarrow> organization_dto" where
  "organization_dto_fromAggregate org =
     \<lparr>dto_organizationId = ent_id org, dto_name = org_name org,
      dto_slug = slug_value (org_slug org), dto_plan = tier_text (plan_tier (org_plan org)),
      dto_status = status_text (org_status org), dto_ownerId = org_ownerId org,
      dto_provisionedAt = map_option toISOString (org_provisionedAt org),
      dto_createdAt = toISOString (created_at org), dto_updatedAt = toISOString (updated_at org)\<rparr>"

section \<open>Commands\<close>

record create_organization_command = command +
  coc_name :: string
  coc_slug :: string
  coc_planTier :: tenant_plan_tier

definition new_create_organization_command ::
  "string \<Rightarrow> string \<Rightarrow> tenant_plan_tier option \<Rightarrow> string \<Rightarrow> string option \<Rightarrow> string option
     \<Rightarrow> string \<Rightarrow> string \<Rightarrow> time \<Rightarrow> create_organization_command" where
  "new_create_organization_command name slug planTier tenant corr actor fresh1 fresh2 now =
     command.extend (new_command tenant corr actor fresh1 fresh2 now)
       \<lparr>coc_name = name, coc_slug = slug,
        coc_planTier = (case planTier of Some t \<Rightarrow> t | None \<Rightarrow> FREE)\<rparr>"

record update_organization_command = command +
  uoc_organizationId :: string
  uoc_name :: "string option"
  uoc_planTier :: "tenant_plan_tier option"

definition new_update_organization_command ::
  "string \<Rightarrow> string option \<Rightarrow> tenant_plan_tier option \<Rightarrow> string \<Rightarrow> string option \<Rightarrow> string option
     \<Rightarrow> string \<Rightarrow> string \<Rightarrow> time \<Rightarrow> update_organization_command" where
  "new_update_organization_command i name planTier tenant corr actor fresh1 fresh2 now =
     command.extend (new_command tenant corr actor fresh1 fresh2 now)
       \<lparr>uoc_organizationId = i, uoc_name = name, uoc_planTier = planTier\<rparr>"

record suspend_organization_command = command +
  soc_organizationId :: string
  soc_reason :: string

definition new_suspend_organization_command ::
  "string \<Rightarrow> string \<Rightarrow> string \<Rightarrow> string option \<Rightarrow> string option \<Rightarrow> string \<Rightarrow> string \<Rightarrow> time
     \<Rightarrow> suspend_organization_command" where
  "new_suspend_organization_command i reason tenant corr actor fresh1 fresh2 now =
     command.extend (new_command tenant corr actor fresh1 fresh2 now)
       \<lparr>soc_organizationId = i, soc_reason = reason\<rparr>"

section \<open>Handlers\<close>

text \<open>The integration event that both handlers build, member by member, from a domain event.\<close>

definition integration_event :: "string \<Rightarrow> domain_event \<Rightarrow> tenant_aware_event" where
  "integration_event eventType de =
     \<lparr>te_eventId = de_eventId de, te_eventType = eventType, te_eventVersion = de_eventVersion de,
      te_tenantId = de_tenantId de, te_correlationId = de_correlationId de,
      te_actorId = de_actorId de, te_causationId = de_causationId de, te_traceId = de_traceId de,
      te_sourceService = de_sourceService de, te_sourceVersion = de_sourceVersion de,
      te_occurredAt = toISOString (de_occurredAt de), te_payload = de_payload de,
      te_isReplay = None, te_replayId = None, te_replayedAt = None, te_replayReason = None,
      te_replaySourceEventId = None\<rparr>"

type_synonym 'w publisher = "tenant_aware_event \<Rightarrow> ('w, unit) io"

definition create_organization_execute ::
  "'w organization_port \<Rightarrow> 'w publisher \<Rightarrow> create_organization_command \<Rightarrow> (nat \<Rightarrow> string)
     \<Rightarrow> (nat \<Rightarrow> time) \<Rightarrow> ('w, organization_dto result) io" where
  "create_organization_execute P publish cmd ids tm =
     (let ctx = forProvisioning ''CreateOrganizationHandler'' (tm 0)
      in andThen (orgs_existsBySlug P (coc_slug cmd) ctx) (\<lambda>slugExists.
           if slugExists
           then ret (Fail (ConflictException
                  (''Organization with slug '' @ [CHR 0x27] @ coc_slug cmd @ [CHR 0x27] @ '' already exists'')))
           else
             andThen (lift (org_create (coc_name cmd) (coc_slug cmd) (coc_planTier cmd)
                 (case cmd_actorId cmd of Some a \<Rightarrow> a | None \<Rightarrow> ids 0) (cmd_correlationId cmd)
                 (ids 1) (ids 2) (tm 1) (tm 2) (tm 3))) (\<lambda>organization.
             andThen (orgs_provision P organization ctx) (\<lambda>saved.
             andThen (for_each (\<lambda>de. publish (integration_event TENANT_CREATED de)) (domain_events saved)) (\<lambda>_.
             ret (Ok (organization_dto_fromAggregate (clearDomainEvents saved))))))))"

definition update_organization_execute ::
  "'w organization_port \<Rightarrow> update_organization_command \<Rightarrow> (nat \<Rightarrow> time)
     \<Rightarrow> ('w, organization_dto result) io" where
  "update_organization_execute P cmd tm =
     andThen (orgs_findById P (uoc_organizationId cmd)) (\<lambda>found.
       case found of
         None \<Rightarrow> ret (Fail (NotFoundException ''Organization'' (uoc_organizationId cmd)))
       | Some organization \<Rightarrow>
           andThen (lift (case uoc_name cmd of
                            None \<Rightarrow> Inr organization
                          | Some n \<Rightarrow> org_rename n (tm 0) organization)) (\<lambda>renamed.
           let changed = (case uoc_planTier cmd of
                            None \<Rightarrow> renamed
                          | Some t \<Rightarrow> org_changePlan t (tm 1) renamed)
           in andThen (orgs_save P changed) (\<lambda>saved.
              ret (Ok (organization_dto_fromAggregate saved)))))"

definition suspend_organization_execute ::
  "'w organization_port \<Rightarrow> 'w publisher \<Rightarrow> suspend_organization_command \<Rightarrow> (nat \<Rightarrow> string)
     \<Rightarrow> (nat \<Rightarrow> time) \<Rightarrow> ('w, organization_dto result) io" where
  "suspend_organization_execute P publish cmd ids tm =
     andThen (orgs_findById P (soc_organizationId cmd)) (\<lambda>found.
       case found of
         None \<Rightarrow> ret (Fail (NotFoundException ''Organization'' (soc_organizationId cmd)))
       | Some organization \<Rightarrow>
           andThen (lift (org_suspend (soc_reason cmd)
               (case cmd_actorId cmd of Some a \<Rightarrow> a | None \<Rightarrow> ''system'') (cmd_correlationId cmd)
               (ids 0) (tm 0) (tm 1) (tm 2) organization)) (\<lambda>suspended.
           andThen (orgs_save P suspended) (\<lambda>saved.
           andThen (for_each (\<lambda>de. publish (integration_event TENANT_SUSPENDED de)) (domain_events saved)) (\<lambda>_.
           ret (Ok (organization_dto_fromAggregate (clearDomainEvents saved)))))))"

section \<open>The controller\<close>

text \<open>
  The bodies after \<open>ValidationPipe\<close>, with what their decorators accept. The \<open>@CurrentUser()\<close>
  argument is what the guard attached; a token payload has no member \<open>correlationId\<close>, so the
  controller passes \<open>undefined\<close> for it and the command makes a fresh one.
\<close>

record create_organization_body =
  cob_name :: string
  cob_slug :: string
  cob_planTier :: "tenant_plan_tier option"

definition Length_ok :: "nat \<Rightarrow> nat \<Rightarrow> string \<Rightarrow> bool" where
  "Length_ok lo hi s \<longleftrightarrow> lo \<le> length s \<and> length s \<le> hi"

definition create_body_valid :: "create_organization_body \<Rightarrow> bool" where
  "create_body_valid b \<longleftrightarrow> cob_name b \<noteq> [] \<and> Length_ok 2 100 (cob_name b)
     \<and> cob_slug b \<noteq> [] \<and> Length_ok 3 63 (cob_slug b)"

record update_organization_body =
  uob_name :: "string option"
  uob_planTier :: "tenant_plan_tier option"

definition update_body_valid :: "update_organization_body \<Rightarrow> bool" where
  "update_body_valid b \<longleftrightarrow> (case uob_name b of None \<Rightarrow> True | Some n \<Rightarrow> Length_ok 2 100 n)"

definition suspend_body_valid :: "string option \<Rightarrow> bool" where
  "suspend_body_valid reason \<longleftrightarrow> (case reason of None \<Rightarrow> True | Some r \<Rightarrow> Length_ok 1 500 r)"

text \<open>\<open>if (!result.success) throw result.error; return result.value;\<close>\<close>

definition unwrapped :: "('w, 'a result) io \<Rightarrow> ('w, 'a) io" where
  "unwrapped m = andThen m (\<lambda>r. lift (unwrap r))"

text \<open>In the three methods below \<open>ids\<close> and \<open>tm\<close> count the handler's places from 10.\<close>

definition createOrganization ::
  "'w organization_port \<Rightarrow> 'w publisher \<Rightarrow> create_organization_body \<Rightarrow> user_value \<Rightarrow> (nat \<Rightarrow> string)
     \<Rightarrow> (nat \<Rightarrow> time) \<Rightarrow> ('w, organization_dto) io" where
  "createOrganization P publish body user ids tm =
     andThen (lift (user_member (\<lambda>u. Some (jwt_sub u)) user)) (\<lambda>sub.
       unwrapped (create_organization_execute P publish
         (new_create_organization_command (cob_name body) (cob_slug body) (cob_planTier body)
            ''system'' None sub (ids 0) (ids 1) (tm 0))
         (\<lambda>k. ids (10 + k)) (\<lambda>k. tm (10 + k))))"

definition getOrganization :: "string \<Rightarrow> string \<Rightarrow> object" where
  "getOrganization i tenantId = [(''id'', JStr i), (''tenantId'', JStr tenantId)]"

definition updateOrganization ::
  "'w organization_port \<Rightarrow> string \<Rightarrow> update_organization_body \<Rightarrow> string \<Rightarrow> user_value
     \<Rightarrow> (nat \<Rightarrow> string) \<Rightarrow> (nat \<Rightarrow> time) \<Rightarrow> ('w, organization_dto) io" where
  "updateOrganization P i body tenantId user ids tm =
     andThen (lift (user_member (\<lambda>u. Some (jwt_sub u)) user)) (\<lambda>sub.
       unwrapped (update_organization_execute P
         (new_update_organization_command i (uob_name body) (uob_planTier body)
            tenantId None sub (ids 0) (ids 1) (tm 0))
         (\<lambda>k. tm (10 + k))))"

definition suspendOrganization ::
  "'w organization_port \<Rightarrow> 'w publisher \<Rightarrow> string \<Rightarrow> string option \<Rightarrow> string \<Rightarrow> user_value
     \<Rightarrow> (nat \<Rightarrow> string) \<Rightarrow> (nat \<Rightarrow> time) \<Rightarrow> ('w, organization_dto) io" where
  "suspendOrganization P publish i reason tenantId user ids tm =
     andThen (lift (user_member (\<lambda>u. Some (jwt_sub u)) user)) (\<lambda>sub.
       unwrapped (suspend_organization_execute P publish
         (new_suspend_organization_command i (case reason of Some r \<Rightarrow> r | None \<Rightarrow> ''No reason provided'')
            tenantId None sub (ids 0) (ids 1) (tm 0))
         (\<lambda>k. ids (10 + k)) (\<lambda>k. tm (10 + k))))"

section \<open>What the handlers do\<close>

lemmas tenant_handler_defs = create_organization_execute_def update_organization_execute_def
  suspend_organization_execute_def

lemma unwrapped_Inr: "unwrapped m w = (Inr x, w') \<longleftrightarrow> m w = (Inr (Ok x), w')"
  by (auto simp: unwrapped_def andThen_run split: sum.splits prod.splits)

context organization_repository_port
begin

lemma create_ignores_bus:
  "create_organization_execute P publish cmd ids tm w = create_organization_execute P publish' cmd ids tm w"
  by (auto simp: create_organization_execute_def andThen_run Let_def provision_no_events
      split: prod.splits sum.splits)

lemma suspend_ignores_bus:
  "suspend_organization_execute P publish cmd ids tm w = suspend_organization_execute P publish' cmd ids tm w"
  by (auto simp: suspend_organization_execute_def andThen_run save_no_events
      split: prod.splits sum.splits option.splits)

lemma update_foreign:
  assumes "tid \<noteq> Some (uoc_organizationId cmd) \<or> uoc_organizationId cmd = []"
  shows "\<exists>e. update_organization_execute P cmd tm w = (Inl e, w)"
  using findById_guarded [OF assms, of w]
  by (auto simp: update_organization_execute_def andThen_run)

lemma suspend_foreign:
  assumes "tid \<noteq> Some (soc_organizationId cmd) \<or> soc_organizationId cmd = []"
  shows "\<exists>e. suspend_organization_execute P publish cmd ids tm w = (Inl e, w)"
  using findById_guarded [OF assms, of w]
  by (auto simp: suspend_organization_execute_def andThen_run)

lemma suspend_not_active:
  assumes "orgs_findById P (soc_organizationId cmd) w = (Inr (Some org), w')"
    and "org_status org \<noteq> ACTIVE"
  shows "suspend_organization_execute P publish cmd ids tm w =
    (Inl (ConflictException (''Cannot suspend organization in status: '' @ status_text (org_status org))), w')"
  using assms by (simp add: suspend_organization_execute_def andThen_run org_suspend_def)

lemma create_slug_taken:
  assumes "orgs_existsBySlug P (coc_slug cmd) (forProvisioning ''CreateOrganizationHandler'' (tm 0)) w
    = (Inr True, w')"
  shows "\<exists>m. create_organization_execute P publish cmd ids tm w = (Inr (Fail (ConflictException m)), w')"
  using assms by (simp add: create_organization_execute_def andThen_run Let_def)

end

text \<open>
  Documented behaviour of \<open>save\<close>: the row it returns is the one it was given, but for the
  update date, which the database sets (\<open>@UpdateDateColumn\<close>).
\<close>

definition saves_org :: "('w, org_row) table \<Rightarrow> bool" where
  "saves_org T \<longleftrightarrow>
     (\<forall>r w r' w'. save_row T r w = (Inr r', w') \<longrightarrow> r'\<lparr>or_updatedAt := or_updatedAt r\<rparr> = r)"

lemma saves_orgD:
  "saves_org T \<Longrightarrow> save_row T r w = (Inr r', w') \<Longrightarrow> r' = r\<lparr>or_updatedAt := or_updatedAt r'\<rparr>"
  by (cases r, cases r') (fastforce simp: saves_org_def)

lemma saves_org_list_table: "saves_org (list_table cols ks rd wr)"
  by (auto simp: saves_org_def list_table_def write_rows_def Let_def split: if_splits)

lemma org_saved_toDomain:
  assumes "saves_org T" and "org_inv org" and "save_row T (org_toOrm org) w = (Inr r, w')"
    and "org_toDomain r = Inr org'"
  shows "\<exists>t. org' = touch t (clearDomainEvents org)"
proof -
  have "org_toDomain (org_toOrm org\<lparr>or_updatedAt := or_updatedAt r\<rparr>)
      = Inr (touch (or_updatedAt r) (clearDomainEvents org))"
    using assms(2) slug_create_id [of "org_slug org"]
    by (simp add: org_inv_def org_toDomain_def org_toOrm_def org_reconstitute_def
        clearDomainEvents_def touch_def)
  with assms(4) saves_orgD [OF assms(1,3)] show ?thesis by auto
qed

lemma org_save_returns:
  "saves_org T \<Longrightarrow> org_inv org \<Longrightarrow> org_save T tid org w = (Inr org', w')
     \<Longrightarrow> \<exists>t. org' = touch t (clearDomainEvents org)"
  by (auto simp: org_save_def andThen_run dest: org_saved_toDomain split: sum.splits prod.splits)

lemma org_provision_returns:
  "saves_org T \<Longrightarrow> org_inv org \<Longrightarrow> org_provision T org ctx w = (Inr org', w')
     \<Longrightarrow> \<exists>t. org' = touch t (clearDomainEvents org)"
  by (auto simp: org_provision_def andThen_run dest: org_saved_toDomain split: sum.splits prod.splits)

lemma create_organization_result:
  assumes "saves_org T"
    and "create_organization_execute (organization_repository T tid) publish cmd ids tm w = (Inr (Ok dto), w')"
  shows "slug_pattern (trim (toLowerCase (coc_slug cmd)))"
    and "dto_slug dto = trim (toLowerCase (coc_slug cmd))"
    and "dto_status dto = ''provisioning''" and "dto_organizationId dto = ids 1"
    and "dto_plan dto = tier_text (coc_planTier cmd)"
    and "dto_ownerId dto = (case cmd_actorId cmd of Some a \<Rightarrow> a | None \<Rightarrow> ids 0)"
    and "dto_provisionedAt dto = None"
proof -
  let ?ctx = "forProvisioning ''CreateOrganizationHandler'' (tm 0)"
  let ?owner = "case cmd_actorId cmd of Some a \<Rightarrow> a | None \<Rightarrow> ids 0"
  from assms(2) obtain org saved w1 w2 where
    org: "org_create (coc_name cmd) (coc_slug cmd) (coc_planTier cmd) ?owner (cmd_correlationId cmd)
        (ids 1) (ids 2) (tm 1) (tm 2) (tm 3) = Inr org"
    and saved: "org_provision T org ?ctx w1 = (Inr saved, w2)"
    and dto: "dto = organization_dto_fromAggregate (clearDomainEvents saved)"
    by (auto simp: create_organization_execute_def organization_repository_def Let_def andThen_run
        split: sum.splits prod.splits if_splits)
  from org_provision_returns [OF assms(1) org_create_inv [OF org] saved] obtain t where
    t: "saved = touch t (clearDomainEvents org)" by blast
  from org show "slug_pattern (trim (toLowerCase (coc_slug cmd)))"
    by (auto simp: org_create_def slug_create_Inr_iff split: sum.splits)
  from org dto t show "dto_slug dto = trim (toLowerCase (coc_slug cmd))"
    and "dto_status dto = ''provisioning''" and "dto_organizationId dto = ids 1"
    and "dto_plan dto = tier_text (coc_planTier cmd)" and "dto_ownerId dto = ?owner"
    and "dto_provisionedAt dto = None"
    by (auto simp: organization_dto_fromAggregate_def org_create_def new_entity_def slug_create_Inr_iff Let_def
        split: sum.splits)
qed

end
