(* ===== verification/Guards.thy ===== *)
theory Guards
  imports TenantContext
begin

text \<open>
  Who may call what: the token strategy of \<open>identity/infrastructure/jwt\<close>, the guards of
  \<open>common/guards\<close>, the decorators \<open>@Public()\<close> and \<open>@Roles(...)\<close> as data of a route, and the
  exception filter of \<open>common/filters\<close>.

  The libraries \<open>passport\<close> and \<open>passport-jwt\<close> are an argument: \<open>passport req\<close> is what they
  report to the guard's callback for a request.
\<close>

section \<open>Roles\<close>

text \<open>\<open>ROLE_HIERARCHY\<close>, and the order of the roles it gives.\<close>

primrec role_rank :: "membership_role \<Rightarrow> int" where
  "role_rank OWNER = 4"
| "role_rank ADMIN = 3"
| "role_rank MEMBER = 2"
| "role_rank VIEWER = 1"

instantiation membership_role :: linorder
begin

definition less_eq_membership_role :: "membership_role \<Rightarrow> membership_role \<Rightarrow> bool" where
  "less_eq_membership_role r s \<longleftrightarrow> role_rank r \<le> role_rank s"

definition less_membership_role :: "membership_role \<Rightarrow> membership_role \<Rightarrow> bool" where
  "less_membership_role r s \<longleftrightarrow> role_rank r < role_rank s"

instance
proof
  fix r s t :: membership_role
  show "r < s \<longleftrightarrow> r \<le> s \<and> \<not> s \<le> r" "r \<le> r" "r \<le> s \<or> s \<le> r"
    by (auto simp: less_eq_membership_role_def less_membership_role_def)
  show "r \<le> s \<Longrightarrow> s \<le> t \<Longrightarrow> r \<le> t"
    by (simp add: less_eq_membership_role_def)
  show "r \<le> s \<Longrightarrow> s \<le> r \<Longrightarrow> r = s"
    by (cases r; cases s) (simp_all add: less_eq_membership_role_def)
qed

end

text \<open>
  \<open>ROLE_HIERARCHY[user.role] ?? 0\<close> for the free string of a token. A string that names an
  inherited member of the object compares with no number, as 0 does with the ranks above it.
\<close>

definition rank_of_text :: "string option \<Rightarrow> int" where
  "rank_of_text r =
     (if r = Some (role_text OWNER) then role_rank OWNER
      else if r = Some (role_text ADMIN) then role_rank ADMIN
      else if r = Some (role_text MEMBER) then role_rank MEMBER
      else if r = Some (role_text VIEWER) then role_rank VIEWER
      else 0)"

definition print_option :: "string option \<Rightarrow> string" where
  "print_option v = (case v of Some s \<Rightarrow> s | None \<Rightarrow> ''undefined'')"

definition RbacGuard_canActivate :: "membership_role list option \<Rightarrow> user_value \<Rightarrow> exn + bool" where
  "RbacGuard_canActivate requiredRoles user =
     (if isEmpty requiredRoles then Inr True
      else
        (case user_member jwt_role user of
           Inl _ \<Rightarrow> Inl (NestForbiddenException ''No authenticated user'')
         | Inr role \<Rightarrow>
             (let userRank = rank_of_text role;
                  roles = the requiredRoles;
                  meetsAnyRole = list_ex (\<lambda>r. userRank \<ge> role_rank r) roles
              in if \<not> meetsAnyRole
                 then Inl (NestForbiddenException
                        (''Role '' @ [CHR 0x27] @ print_option role @ [CHR 0x27]
                         @ '' does not meet required roles: '' @ joinWith '', '' (map role_text roles)))
                 else Inr True)))"

section \<open>Authentication\<close>

definition JwtStrategy_validate :: "jwt_payload \<Rightarrow> exn + jwt_payload" where
  "JwtStrategy_validate payload =
     (if jwt_type payload \<noteq> Access then Inl (NestUnauthorizedException ''Invalid token type'') else Inr payload)"

datatype passport_report = Callback "exn option" user_value

type_synonym passport = "http_request \<Rightarrow> passport_report"

definition handleRequest :: "exn option \<Rightarrow> user_value \<Rightarrow> exn + user_value" where
  "handleRequest err user =
     (if err \<noteq> None \<or> user = Absent
      then Inl (case err of Some e \<Rightarrow> e | None \<Rightarrow> NestUnauthorizedException ''Invalid or expired token'')
      else Inr user)"

text \<open>The guard, with the request it leaves: the user is attached to it.\<close>

definition JwtAuthGuard_canActivate :: "passport \<Rightarrow> bool \<Rightarrow> http_request \<Rightarrow> exn + http_request" where
  "JwtAuthGuard_canActivate passport isPublic req =
     (if isPublic then Inr req
      else (case passport req of
              Callback err user \<Rightarrow> map_sum id (\<lambda>u. req\<lparr>req_user := u\<rparr>) (handleRequest err user)))"

text \<open>
  Documented behaviour of the libraries, with \<open>verified req\<close> the payload of a bearer token
  whose signature and expiry check, if there is one: a strategy that throws is reported as an
  error, a failed authentication as the user \<open>false\<close>.
\<close>

definition passport_reports :: "(http_request \<Rightarrow> jwt_payload option) \<Rightarrow> passport \<Rightarrow> bool" where
  "passport_reports verified passport \<longleftrightarrow>
     (\<forall>req. passport req =
        (case verified req of
           None \<Rightarrow> Callback None JsFalse
         | Some p \<Rightarrow>
             (case JwtStrategy_validate p of
                Inl e \<Rightarrow> Callback (Some e) Absent
              | Inr p' \<Rightarrow> Callback None (User p'))))"

section \<open>API keys\<close>

definition extractApiKey :: "http_request \<Rightarrow> string option" where
  "extractApiKey req =
     (if truthy (req_headers req ''x-api-key'') then req_headers req ''x-api-key''
      else (case req_headers req ''authorization'' of
              Some h \<Rightarrow> if startsWith h ''Bearer ak_'' then Some (drop 7 h) else None
            | None \<Rightarrow> None))"

definition ApiKeyGuard_canActivate :: "bool \<Rightarrow> http_request \<Rightarrow> exn + bool" where
  "ApiKeyGuard_canActivate isPublic req =
     (if isPublic then Inr True
      else (case extractApiKey req of
              None \<Rightarrow> Inr False
            | Some apiKey \<Rightarrow>
                if \<not> (startsWith apiKey ''ak_'' \<and> containsText apiKey ''.'')
                then Inl (NestUnauthorizedException ''Malformed API key format'')
                else Inr True))"

section \<open>Routes\<close>

text \<open>
  The metadata the decorators set on a handler and on its class; the handler's value wins.
  The identity controller uses only the first guard.
\<close>

record route =
  rt_public :: bool
  rt_handlerRoles :: "membership_role list option"
  rt_classRoles :: "membership_role list option"
  rt_rbac :: bool

definition getAllAndOverride :: "'a option \<Rightarrow> 'a option \<Rightarrow> 'a option" where
  "getAllAndOverride handler cls = (case handler of Some x \<Rightarrow> Some x | None \<Rightarrow> cls)"

definition route_roles :: "route \<Rightarrow> membership_role list option" where
  "route_roles rt = getAllAndOverride (rt_handlerRoles rt) (rt_classRoles rt)"

text \<open>\<open>@UseGuards(JwtAuthGuard, RbacGuard)\<close>: the request as the handler sees it, or the throw.\<close>

definition authorize :: "passport \<Rightarrow> route \<Rightarrow> http_request \<Rightarrow> exn + http_request" where
  "authorize passport rt req =
     (case JwtAuthGuard_canActivate passport (rt_public rt) req of
        Inl e \<Rightarrow> Inl e
      | Inr req' \<Rightarrow>
          if rt_rbac rt
          then map_sum id (\<lambda>_. req') (RbacGuard_canActivate (route_roles rt) (req_user req'))
          else Inr req')"

section \<open>Responses for exceptions\<close>

definition resolveHttpStatus :: "exn \<Rightarrow> int" where
  "resolveHttpStatus e =
     (case e of
        NotFoundException _ _ \<Rightarrow> 404
      | ConflictException _ \<Rightarrow> 409
      | UnauthorizedException _ \<Rightarrow> 401
      | ForbiddenException _ \<Rightarrow> 403
      | ValidationException _ \<Rightarrow> 422
      | _ \<Rightarrow> 500)"

record error_response =
  er_statusCode :: int
  er_code :: string
  er_message :: string
  er_correlationId :: "string option"
  er_violations :: "(string \<times> string list) list option"

text \<open>
  \<open>DomainExceptionFilter\<close> catches the domain exceptions; \<open>None\<close> is an exception it leaves to
  the framework.
\<close>

definition domain_exception_catch :: "exn \<Rightarrow> string option \<Rightarrow> (int \<times> error_response) option" where
  "domain_exception_catch exception correlationId =
     (case exn_code exception of
        None \<Rightarrow> None
      | Some code \<Rightarrow>
          (let statusCode = resolveHttpStatus exception
           in Some (statusCode,
                \<lparr>er_statusCode = statusCode, er_code = code, er_message = exn_message exception,
                 er_correlationId = correlationId,
                 er_violations = (case exception of ValidationException vs \<Rightarrow> Some vs | _ \<Rightarrow> None)\<rparr>)))"

section \<open>Facts\<close>

lemma rank_of_role [simp]: "rank_of_text (Some (role_text r)) = role_rank r"
  by (cases r) (simp_all add: rank_of_text_def)

lemma role_rank_pos [simp]: "0 < role_rank r"
  by (cases r) simp_all

lemma user_member_simps [simp]:
  "user_member f JsFalse = Inr None" "user_member f (User p) = Inr (f p)"
  "\<exists>m. user_member f Absent = Inl (PlainError m)"
  by (simp_all add: user_member_def)

lemma rbac_admits_iff:
  "RbacGuard_canActivate (Some roles) (User p) = Inr b \<longleftrightarrow>
     b \<and> (roles = [] \<or> (\<exists>r \<in> set roles. role_rank r \<le> rank_of_text (jwt_role p)))"
  by (auto simp: RbacGuard_canActivate_def isEmpty_def list_ex_iff Let_def)

lemma rbac_admits_role:
  "RbacGuard_canActivate (Some [r]) (User (p\<lparr>jwt_role := Some (role_text s)\<rparr>)) = Inr True \<longleftrightarrow> r \<le> s"
  by (simp add: rbac_admits_iff less_eq_membership_role_def)

lemma rbac_false_user:
  "roles \<noteq> [] \<Longrightarrow> \<exists>m. RbacGuard_canActivate (Some roles) JsFalse = Inl (NestForbiddenException m)"
  using role_rank_pos
  by (auto simp: RbacGuard_canActivate_def isEmpty_def list_ex_iff Let_def rank_of_text_def not_le)

lemma passport_cases:
  assumes "passport_reports verified passport"
  shows "verified req = None \<Longrightarrow> passport req = Callback None JsFalse"
    and "verified req = Some p \<Longrightarrow> jwt_type p = Access \<Longrightarrow> passport req = Callback None (User p)"
    and "verified req = Some p \<Longrightarrow> jwt_type p = Refresh
      \<Longrightarrow> passport req = Callback (Some (NestUnauthorizedException ''Invalid token type'')) Absent"
  using assms by (auto simp: passport_reports_def JwtStrategy_validate_def)

text \<open>The outcome of both guards on a protected route, by what the request's token is.\<close>

lemma authorize_verified:
  assumes "passport_reports verified passport" and "verified req = Some p" and "\<not> rt_public rt"
  shows "authorize passport rt req =
    (if jwt_type p = Refresh then Inl (NestUnauthorizedException ''Invalid token type'')
     else if rt_rbac rt
     then map_sum id (\<lambda>_. req\<lparr>req_user := User p\<rparr>) (RbacGuard_canActivate (route_roles rt) (User p))
     else Inr (req\<lparr>req_user := User p\<rparr>))"
  using passport_cases [OF assms(1), of req] assms(2,3)
  by (cases "jwt_type p") (simp_all add: authorize_def JwtAuthGuard_canActivate_def handleRequest_def)

lemma authorize_unverified:
  assumes "passport_reports verified passport" and "verified req = None" and "\<not> rt_public rt"
  shows "authorize passport rt req =
    (if rt_rbac rt
     then map_sum id (\<lambda>_. req\<lparr>req_user := JsFalse\<rparr>) (RbacGuard_canActivate (route_roles rt) JsFalse)
     else Inr (req\<lparr>req_user := JsFalse\<rparr>))"
  using passport_cases [OF assms(1), of req] assms(2,3)
  by (simp add: authorize_def JwtAuthGuard_canActivate_def handleRequest_def)

lemma authorize_headers: "authorize passport rt req = Inr req' \<Longrightarrow> req_headers req' = req_headers req"
  by (auto simp: authorize_def JwtAuthGuard_canActivate_def
      split: sum.splits if_splits passport_report.splits)
    (auto simp: map_sum_def split: sum.splits)

text \<open>Two different domain exceptions never share a status by accident of the order of tests.\<close>

lemma resolveHttpStatus_domain:
  "is_domain_exception e \<Longrightarrow> resolveHttpStatus e \<in> {401, 403, 404, 409, 422}"
  by (cases e) (simp_all add: resolveHttpStatus_def)

lemma domain_exception_catch_iff: "domain_exception_catch e c \<noteq> None \<longleftrightarrow> is_domain_exception e"
  by (cases e) (simp_all add: domain_exception_catch_def Let_def)

end
