(* ===== verification/Identity.thy ===== *)
theory Identity
  imports TenantCommands Guards
begin

text \<open>
  The identity module, \<open>apps/api/src/modules/identity\<close>: e-mail and password value objects, the
  user aggregate, its repository, the register and authenticate handlers, and the controller.

  The password hash library and the token service are arguments. An absent date in a row is
  one the mapper does not set; the entity then reads the clock (\<open>now1\<close>, \<open>now2\<close>).
\<close>

section \<open>Value objects\<close>

datatype email = Email (email_value: string)

text \<open>The pattern \<open>^[^\s@]+@[^\s@]+\.[^\s@]+$\<close> as a function.\<close>

definition email_char :: "char \<Rightarrow> bool" where
  "email_char c \<longleftrightarrow> \<not> is_space c \<and> c \<noteq> CHR ''@''"

definition email_pattern :: "string \<Rightarrow> bool" where
  "email_pattern s \<longleftrightarrow>
     (let l = takeWhile (\<lambda>c. c \<noteq> CHR ''@'') s; d = tl (dropWhile (\<lambda>c. c \<noteq> CHR ''@'') s)
      in l \<noteq> [] \<and> CHR ''@'' \<in> set s \<and> list_all email_char l \<and> list_all email_char d
         \<and> d \<noteq> [] \<and> CHR ''.'' \<in> set (butlast (tl d)))"

definition email_create :: "string \<Rightarrow> exn + email" where
  "email_create value =
     (let normalized = trim (toLowerCase value)
      in if \<not> email_pattern normalized
         then Inl (ValidationException [(''email'', [''Invalid email address format''])])
         else if length normalized > 320
         then Inl (ValidationException [(''email'', [''Email address exceeds maximum length of 320 characters''])])
         else Inr (Email normalized))"

datatype password_hash = PasswordHash (hash_value: string)

record 'w bcrypt =
  bc_hash :: "string \<Rightarrow> int \<Rightarrow> ('w, string) io"
  bc_compare :: "string \<Rightarrow> string \<Rightarrow> ('w, bool) io"

definition ROUNDS :: int where
  "ROUNDS = 12"

definition MIN_LENGTH :: nat where
  "MIN_LENGTH = 8"

definition password_fromPlaintext :: "'w bcrypt \<Rightarrow> string \<Rightarrow> ('w, password_hash) io" where
  "password_fromPlaintext B plaintext =
     (if length plaintext < MIN_LENGTH
      then throw (ValidationException [(''password'',
             [''Password must be at least '' @ show_int (int MIN_LENGTH) @ '' characters''])])
      else andThen (bc_hash B plaintext ROUNDS) (\<lambda>hash. ret (PasswordHash hash)))"

definition password_verify :: "'w bcrypt \<Rightarrow> string \<Rightarrow> password_hash \<Rightarrow> ('w, bool) io" where
  "password_verify B plaintext h = bc_compare B plaintext (hash_value h)"

section \<open>The user aggregate\<close>

datatype user_status = Pending_verification | Active_user | Suspended_user

primrec user_status_text :: "user_status \<Rightarrow> string" where
  "user_status_text Pending_verification = ''pending_verification''"
| "user_status_text Active_user = ''active''"
| "user_status_text Suspended_user = ''suspended''"

record user = aggregate +
  usr_email :: email
  usr_passwordHash :: password_hash
  usr_displayName :: string
  usr_status :: user_status
  usr_lastLoginAt :: "time option"
  usr_emailVerifiedAt :: "time option"

definition user_new ::
  "entity \<Rightarrow> email \<Rightarrow> password_hash \<Rightarrow> string \<Rightarrow> user_status \<Rightarrow> time option \<Rightarrow> time option \<Rightarrow> user" where
  "user_new base em hash name status lastLogin verified =
     \<lparr>ent_id = ent_id base, created_at = created_at base, updated_at = updated_at base,
      domain_events = [], usr_email = em, usr_passwordHash = hash, usr_displayName = name,
      usr_status = status, usr_lastLoginAt = lastLogin, usr_emailVerifiedAt = verified\<rparr>"

definition user_create ::
  "'w bcrypt \<Rightarrow> string \<Rightarrow> string \<Rightarrow> string \<Rightarrow> string \<Rightarrow> time \<Rightarrow> time \<Rightarrow> ('w, user) io" where
  "user_create B em password displayName userId now1 now2 =
     andThen (lift (email_create em)) (\<lambda>email.
     andThen (password_fromPlaintext B password) (\<lambda>hash.
     ret (user_new (new_entity (Some userId) None None userId now1 now2) email hash displayName
            Pending_verification None None)))"

definition user_activate :: "time \<Rightarrow> time \<Rightarrow> user \<Rightarrow> exn + user" where
  "user_activate now1 now2 u =
     (if usr_status u \<noteq> Pending_verification
      then Inl (ConflictException (''Cannot activate user in status: '' @ user_status_text (usr_status u)))
      else Inr (touch now2 (u\<lparr>usr_status := Active_user, usr_emailVerifiedAt := Some now1\<rparr>)))"

definition user_recordLogin :: "time \<Rightarrow> time \<Rightarrow> user \<Rightarrow> user" where
  "user_recordLogin now1 now2 u = touch now2 (u\<lparr>usr_lastLoginAt := Some now1\<rparr>)"

definition user_suspend :: "time \<Rightarrow> user \<Rightarrow> user" where
  "user_suspend now u =
     (if usr_status u = Suspended_user then u else touch now (u\<lparr>usr_status := Suspended_user\<rparr>))"

definition user_verifyPassword :: "'w bcrypt \<Rightarrow> string \<Rightarrow> user \<Rightarrow> ('w, bool) io" where
  "user_verifyPassword B plaintext u = password_verify B plaintext (usr_passwordHash u)"

definition user_isActive :: "user \<Rightarrow> bool" where
  "user_isActive u \<longleftrightarrow> usr_status u = Active_user"

section \<open>The repository\<close>

record user_row =
  ur_id :: string
  ur_email :: string
  ur_passwordHash :: string
  ur_displayName :: string
  ur_status :: user_status
  ur_lastLoginAt :: "time option"
  ur_emailVerifiedAt :: "time option"
  ur_createdAt :: "time option"
  ur_updatedAt :: "time option"

definition user_cols :: "user_row \<Rightarrow> string \<Rightarrow> sqlval" where
  "user_cols r c =
     (if c = ''id'' then SStr (ur_id r)
      else if c = ''email'' then SStr (ur_email r)
      else if c = ''status'' then SStr (user_status_text (ur_status r))
      else SNull)"

definition user_toDomain :: "time \<Rightarrow> time \<Rightarrow> user_row \<Rightarrow> exn + user" where
  "user_toDomain now1 now2 orm =
     map_sum id
       (\<lambda>email. user_new (new_entity (Some (ur_id orm)) (ur_createdAt orm) (ur_updatedAt orm) (ur_id orm) now1 now2)
          email (PasswordHash (ur_passwordHash orm)) (ur_displayName orm) (ur_status orm)
          (ur_lastLoginAt orm) (ur_emailVerifiedAt orm))
       (email_create (ur_email orm))"

definition user_toOrm :: "user \<Rightarrow> user_row" where
  "user_toOrm u =
     \<lparr>ur_id = ent_id u, ur_email = email_value (usr_email u),
      ur_passwordHash = hash_value (usr_passwordHash u), ur_displayName = usr_displayName u,
      ur_status = usr_status u, ur_lastLoginAt = usr_lastLoginAt u,
      ur_emailVerifiedAt = usr_emailVerifiedAt u, ur_createdAt = None, ur_updatedAt = None\<rparr>"

definition user_toDomain_or_null :: "time \<Rightarrow> time \<Rightarrow> user_row option \<Rightarrow> exn + user option" where
  "user_toDomain_or_null now1 now2 r =
     (case r of None \<Rightarrow> Inr None | Some orm \<Rightarrow> map_sum id Some (user_toDomain now1 now2 orm))"

definition user_findById ::
  "('w, user_row) table \<Rightarrow> time \<Rightarrow> time \<Rightarrow> string \<Rightarrow> ('w, user option) io" where
  "user_findById T now1 now2 i =
     andThen (find_one T (find_options [(''id'', SStr i)])) (\<lambda>orm. lift (user_toDomain_or_null now1 now2 orm))"

definition user_findByEmail ::
  "('w, user_row) table \<Rightarrow> time \<Rightarrow> time \<Rightarrow> string \<Rightarrow> ('w, user option) io" where
  "user_findByEmail T now1 now2 em =
     andThen (find_one T (find_options [(''email'', SStr (toLowerCase em))]))
       (\<lambda>orm. lift (user_toDomain_or_null now1 now2 orm))"

definition user_save :: "('w, user_row) table \<Rightarrow> time \<Rightarrow> time \<Rightarrow> user \<Rightarrow> ('w, user) io" where
  "user_save T now1 now2 u =
     andThen (save_row T (user_toOrm u)) (\<lambda>saved. lift (user_toDomain now1 now2 saved))"

definition user_existsByEmail :: "('w, user_row) table \<Rightarrow> string \<Rightarrow> ('w, bool) io" where
  "user_existsByEmail T em = exists_row T (find_options [(''email'', SStr (toLowerCase em))])"

record 'w user_port =
  users_findById :: "string \<Rightarrow> ('w, user option) io"
  users_findByEmail :: "string \<Rightarrow> ('w, user option) io"
  users_save :: "user \<Rightarrow> ('w, user) io"
  users_existsByEmail :: "string \<Rightarrow> ('w, bool) io"

definition user_repository :: "('w, user_row) table \<Rightarrow> time \<Rightarrow> time \<Rightarrow> 'w user_port" where
  "user_repository T now1 now2 =
     \<lparr>users_findById = user_findById T now1 now2, users_findByEmail = user_findByEmail T now1 now2,
      users_save = user_save T now1 now2, users_existsByEmail = user_existsByEmail T\<rparr>"

section \<open>Registering\<close>

record register_user_command = command +
  ruc_email :: string
  ruc_password :: string
  ruc_displayName :: string

definition new_register_user_command ::
  "string \<Rightarrow> string \<Rightarrow> string \<Rightarrow> string option \<Rightarrow> string \<Rightarrow> string \<Rightarrow> time \<Rightarrow> register_user_command" where
  "new_register_user_command em password displayName corr fresh1 fresh2 now =
     command.extend (new_command ''global'' corr None fresh1 fresh2 now)
       \<lparr>ruc_email = em, ruc_password = password, ruc_displayName = displayName\<rparr>"

record register_user_result =
  rur_userId :: string
  rur_email :: string
  rur_displayName :: string

definition user_registered_event :: "user \<Rightarrow> string \<Rightarrow> time \<Rightarrow> time \<Rightarrow> tenant_aware_event" where
  "user_registered_event saved correlationId now1 now2 =
     \<lparr>te_eventId = ent_id saved, te_eventType = USER_REGISTERED, te_eventVersion = 1,
      te_tenantId = ''global'', te_correlationId = correlationId, te_actorId = None,
      te_causationId = None, te_traceId = None, te_sourceService = ''atlas-saas-platform'',
      te_sourceVersion = None, te_occurredAt = toISOString now1,
      te_payload = user_registered_payload (ent_id saved) (email_value (usr_email saved))
        (usr_displayName saved) (toISOString now2),
      te_isReplay = None, te_replayId = None, te_replayedAt = None, te_replayReason = None,
      te_replaySourceEventId = None\<rparr>"

definition register_user_execute ::
  "'w user_port \<Rightarrow> 'w bcrypt \<Rightarrow> 'w publisher \<Rightarrow> register_user_command \<Rightarrow> string \<Rightarrow> (nat \<Rightarrow> time)
     \<Rightarrow> ('w, register_user_result result) io" where
  "register_user_execute U B publish cmd userId tm =
     andThen (users_existsByEmail U (ruc_email cmd)) (\<lambda>exists.
       if exists
       then ret (Fail (ConflictException
              (''User with email '' @ [CHR 0x27] @ ruc_email cmd @ [CHR 0x27] @ '' already exists'')))
       else
         andThen (user_create B (ruc_email cmd) (ruc_password cmd) (ruc_displayName cmd) userId (tm 0) (tm 1)) (\<lambda>user.
         andThen (users_save U user) (\<lambda>saved.
         andThen (publish (user_registered_event saved (cmd_correlationId cmd) (tm 2) (tm 3))) (\<lambda>_.
         ret (Ok \<lparr>rur_userId = ent_id saved, rur_email = email_value (usr_email saved),
                  rur_displayName = usr_displayName saved\<rparr>)))))"

section \<open>Authenticating\<close>

record authenticate_command = command +
  auc_email :: string
  auc_password :: string
  auc_organizationSlug :: "string option"

definition new_authenticate_command ::
  "string \<Rightarrow> string \<Rightarrow> string option \<Rightarrow> string option \<Rightarrow> string \<Rightarrow> string \<Rightarrow> time \<Rightarrow> authenticate_command" where
  "new_authenticate_command em password slug corr fresh1 fresh2 now =
     command.extend (new_command ''global'' corr None fresh1 fresh2 now)
       \<lparr>auc_email = em, auc_password = password, auc_organizationSlug = slug\<rparr>"

record token_pair =
  tp_accessToken :: string
  tp_refreshToken :: string
  tp_expiresIn :: int
  tp_userId :: string
  tp_email :: string
  tp_tenantId :: string

definition resolveOrganization ::
  "'w organization_port \<Rightarrow> string \<Rightarrow> string option \<Rightarrow> system_query_context \<Rightarrow> ('w, organization option) io" where
  "resolveOrganization P userId slug ctx =
     (case slug of
        Some s \<Rightarrow> if length s > 0 then orgs_findBySlug P s ctx else orgs_findByOwnerId P userId ctx
      | None \<Rightarrow> orgs_findByOwnerId P userId ctx)"

definition access_claims :: "user \<Rightarrow> string \<Rightarrow> jwt_payload" where
  "access_claims user tenantId =
     \<lparr>jwt_sub = ent_id user, jwt_email = Some (email_value (usr_email user)),
      jwt_tenantId = tenantId, jwt_role = Some (role_text OWNER), jwt_type = Access\<rparr>"

definition refresh_claims :: "user \<Rightarrow> string \<Rightarrow> jwt_payload" where
  "refresh_claims user tenantId =
     \<lparr>jwt_sub = ent_id user, jwt_email = None, jwt_tenantId = tenantId, jwt_role = None,
      jwt_type = Refresh\<rparr>"

definition invalid_credentials :: exn where
  "invalid_credentials = UnauthorizedException ''Invalid credentials''"

text \<open>
  \<open>sign\<close> is \<open>jwtService.sign\<close> with its \<open>expiresIn\<close> option; it reads the clock. The method
  is cut in three blocks: the credential checks, the checks of the organization, and the
  login itself.
\<close>

definition issue_tokens ::
  "'w user_port \<Rightarrow> (jwt_payload \<Rightarrow> string \<Rightarrow> ('w, string) io) \<Rightarrow> (nat \<Rightarrow> time) \<Rightarrow> user \<Rightarrow> organization
     \<Rightarrow> ('w, token_pair result) io" where
  "issue_tokens U sign tm user organization =
     andThen (users_save U (user_recordLogin (tm 1) (tm 2) user)) (\<lambda>_.
     andThen (sign (access_claims user (ent_id organization)) ''15m'') (\<lambda>accessToken.
     andThen (sign (refresh_claims user (ent_id organization)) ''7d'') (\<lambda>refreshToken.
     ret (Ok \<lparr>tp_accessToken = accessToken, tp_refreshToken = refreshToken,
              tp_expiresIn = 900, tp_userId = ent_id user,
              tp_email = email_value (usr_email user), tp_tenantId = ent_id organization\<rparr>))))"

definition enter_organization ::
  "'w user_port \<Rightarrow> (jwt_payload \<Rightarrow> string \<Rightarrow> ('w, string) io) \<Rightarrow> (nat \<Rightarrow> time) \<Rightarrow> user
     \<Rightarrow> organization option \<Rightarrow> ('w, token_pair result) io" where
  "enter_organization U sign tm user resolved =
     (case resolved of
        None \<Rightarrow> ret (Fail invalid_credentials)
      | Some organization \<Rightarrow>
          if org_ownerId organization \<noteq> ent_id user then ret (Fail invalid_credentials)
          else if org_status organization \<noteq> ACTIVE
          then ret (Fail (UnauthorizedException (''Tenant is '' @ status_text (org_status organization))))
          else issue_tokens U sign tm user organization)"

definition authenticate_execute ::
  "'w user_port \<Rightarrow> 'w organization_port \<Rightarrow> 'w bcrypt \<Rightarrow> (jwt_payload \<Rightarrow> string \<Rightarrow> ('w, string) io)
     \<Rightarrow> authenticate_command \<Rightarrow> (nat \<Rightarrow> time) \<Rightarrow> ('w, token_pair result) io" where
  "authenticate_execute U P B sign cmd tm =
     andThen (users_findByEmail U (auc_email cmd)) (\<lambda>found.
       case found of
         None \<Rightarrow> ret (Fail invalid_credentials)
       | Some user \<Rightarrow>
           andThen (user_verifyPassword B (auc_password cmd) user) (\<lambda>passwordValid.
             if \<not> passwordValid then ret (Fail invalid_credentials)
             else if \<not> user_isActive user
             then ret (Fail (UnauthorizedException (''Account is '' @ user_status_text (usr_status user))))
             else
               andThen (resolveOrganization P (ent_id user) (auc_organizationSlug cmd)
                          (forSuperAdmin (ent_id user) ''authenticate-login'' (tm 0)))
                 (enter_organization U sign tm user)))"

section \<open>The controller\<close>

definition register_endpoint ::
  "'w user_port \<Rightarrow> 'w bcrypt \<Rightarrow> 'w publisher \<Rightarrow> string \<Rightarrow> string \<Rightarrow> string \<Rightarrow> (nat \<Rightarrow> string)
     \<Rightarrow> (nat \<Rightarrow> time) \<Rightarrow> ('w, register_user_result) io" where
  "register_endpoint U B publish em password displayName ids tm =
     unwrapped (register_user_execute U B publish
       (new_register_user_command em password displayName None (ids 0) (ids 1) (tm 0))
       (ids 2) (\<lambda>k. tm (1 + k)))"

definition login_endpoint ::
  "'w user_port \<Rightarrow> 'w organization_port \<Rightarrow> 'w bcrypt \<Rightarrow> (jwt_payload \<Rightarrow> string \<Rightarrow> ('w, string) io)
     \<Rightarrow> string \<Rightarrow> string \<Rightarrow> string option \<Rightarrow> (nat \<Rightarrow> string) \<Rightarrow> (nat \<Rightarrow> time) \<Rightarrow> ('w, token_pair) io" where
  "login_endpoint U P B sign em password slug ids tm =
     unwrapped (authenticate_execute U P B sign
       (new_authenticate_command em password slug None (ids 0) (ids 1) (tm 0))
       (\<lambda>k. tm (1 + k)))"

text \<open>
  The bodies with what their decorators ask; \<open>isEmail\<close> is the check of the validation library.
\<close>

record register_body =
  rb_email :: string
  rb_password :: string
  rb_displayName :: string

definition register_body_valid :: "(string \<Rightarrow> bool) \<Rightarrow> register_body \<Rightarrow> bool" where
  "register_body_valid isEmail b \<longleftrightarrow> isEmail (rb_email b) \<and> 8 \<le> length (rb_password b)
     \<and> rb_displayName b \<noteq> [] \<and> Length_ok 2 100 (rb_displayName b)"

record login_body =
  lb_email :: string
  lb_password :: string
  lb_organizationSlug :: "string option"

definition login_body_valid :: "(string \<Rightarrow> bool) \<Rightarrow> login_body \<Rightarrow> bool" where
  "login_body_valid isEmail b \<longleftrightarrow> isEmail (lb_email b) \<and> lb_password b \<noteq> []"

text \<open>The controller and the value object agree on the least length of a password.\<close>

lemma valid_password_long_enough: "register_body_valid isEmail b \<Longrightarrow> MIN_LENGTH \<le> length (rb_password b)"
  by (simp add: register_body_valid_def MIN_LENGTH_def)

section \<open>Facts about users\<close>

lemma email_create_Inr_iff:
  "email_create v = Inr em \<longleftrightarrow> email_pattern (trim (toLowerCase v)) \<and> length (trim (toLowerCase v)) \<le> 320
     \<and> em = Email (trim (toLowerCase v))"
  by (auto simp: email_create_def Let_def)

lemma email_create_normal: "email_create v = Inr em \<Longrightarrow> email_create (email_value em) = Inr em"
  by (auto simp: email_create_Inr_iff)

text \<open>The users the code builds carry a normalised address.\<close>

definition user_inv :: "user \<Rightarrow> bool" where
  "user_inv u \<longleftrightarrow> email_create (email_value (usr_email u)) = Inr (usr_email u)
     \<and> (usr_status u = Pending_verification \<longrightarrow> usr_emailVerifiedAt u = None)"

lemma touch_user [simp]:
  "usr_email (touch t u) = usr_email u" "usr_passwordHash (touch t u) = usr_passwordHash u"
  "usr_displayName (touch t u) = usr_displayName u" "usr_status (touch t u) = usr_status u"
  "usr_lastLoginAt (touch t u) = usr_lastLoginAt u"
  "usr_emailVerifiedAt (touch t u) = usr_emailVerifiedAt u"
  by (simp_all add: touch_def)

lemma user_create_inv: "user_create B em p n i t1 t2 w = (Inr u, w') \<Longrightarrow> user_inv u \<and> usr_status u = Pending_verification"
  by (auto simp: user_create_def user_new_def user_inv_def andThen_run dest: email_create_normal
      split: sum.splits prod.splits)

lemma user_mutators_inv:
  assumes "user_inv u"
  shows "user_activate t1 t2 u = Inr u' \<Longrightarrow> user_inv u'" and "user_inv (user_recordLogin t1 t2 u)"
    and "user_inv (user_suspend t1 u)"
  using assms
  by (auto simp: user_inv_def user_activate_def user_recordLogin_def user_suspend_def split: if_splits)

lemma user_round_trip:
  assumes "user_inv u"
  shows "user_toDomain (created_at u) (updated_at u) (user_toOrm u) = Inr (clearDomainEvents u)"
  using assms
  by (simp add: user_inv_def user_toDomain_def user_toOrm_def user_new_def new_entity_def clearDomainEvents_def)

text \<open>The mapper drops the creation date, so a saved user gets a new one.\<close>

lemma user_round_trip_dates:
  assumes "user_inv u" and "user_toDomain now1 now2 (user_toOrm u) = Inr u'"
  shows "created_at u' = now1" and "updated_at u' = now2" and "ent_id u' = ent_id u"
  using assms
  by (auto simp: user_inv_def user_toDomain_def user_toOrm_def user_new_def new_entity_def)

section \<open>Facts about the handlers\<close>

lemma password_fromPlaintext_length:
  "password_fromPlaintext B p w = (Inr h, w') \<Longrightarrow> MIN_LENGTH \<le> length p"
  by (auto simp: password_fromPlaintext_def split: if_splits)

lemma register_email_taken:
  assumes "users_existsByEmail U (ruc_email cmd) w = (Inr True, w')"
  shows "\<exists>m. register_user_execute U B publish cmd i tm w = (Inr (Fail (ConflictException m)), w')"
  using assms by (simp add: register_user_execute_def andThen_run)

lemma register_ok:
  assumes "register_user_execute U B publish cmd i tm w = (Inr (Ok r), w')"
  obtains user saved w1 w2 w3 w4 where
    "users_existsByEmail U (ruc_email cmd) w = (Inr False, w1)"
    "user_create B (ruc_email cmd) (ruc_password cmd) (ruc_displayName cmd) i (tm 0) (tm 1) w1 = (Inr user, w2)"
    "users_save U user w2 = (Inr saved, w3)"
    "publish (user_registered_event saved (cmd_correlationId cmd) (tm 2) (tm 3)) w3 = (Inr (), w')"
    "r = \<lparr>rur_userId = ent_id saved, rur_email = email_value (usr_email saved),
          rur_displayName = usr_displayName saved\<rparr>"
  using assms
  by (auto simp: register_user_execute_def andThen_run split: sum.splits prod.splits if_splits)

lemma issue_tokens_ok:
  "issue_tokens U sign tm user org w = (Inr r, w') \<longleftrightarrow>
     (\<exists>saved w1 acc w2 ref. users_save U (user_recordLogin (tm 1) (tm 2) user) w = (Inr saved, w1)
        \<and> sign (access_claims user (ent_id org)) ''15m'' w1 = (Inr acc, w2)
        \<and> sign (refresh_claims user (ent_id org)) ''7d'' w2 = (Inr ref, w')
        \<and> r = Ok \<lparr>tp_accessToken = acc, tp_refreshToken = ref, tp_expiresIn = 900,
                  tp_userId = ent_id user, tp_email = email_value (usr_email user),
                  tp_tenantId = ent_id org\<rparr>)"
  by (auto simp: issue_tokens_def andThen_run split: sum.splits prod.splits)

lemma enter_organization_ok:
  "enter_organization U sign tm user resolved w = (Inr (Ok tp), w') \<longleftrightarrow>
     (\<exists>org. resolved = Some org \<and> org_ownerId org = ent_id user \<and> org_status org = ACTIVE
        \<and> issue_tokens U sign tm user org w = (Inr (Ok tp), w'))"
  by (auto simp: enter_organization_def split: option.splits if_splits)

text \<open>
  When it succeeds: the user exists, the password matches, the account is active, the
  organization is the user's own and active; and the tokens bind exactly that organization.
\<close>

lemma authenticate_ok_iff:
  "authenticate_execute U P B sign cmd tm w = (Inr (Ok tp), w') \<longleftrightarrow>
     (\<exists>user w1 w2 org w3. users_findByEmail U (auc_email cmd) w = (Inr (Some user), w1)
        \<and> bc_compare B (auc_password cmd) (hash_value (usr_passwordHash user)) w1 = (Inr True, w2)
        \<and> usr_status user = Active_user
        \<and> resolveOrganization P (ent_id user) (auc_organizationSlug cmd)
             (forSuperAdmin (ent_id user) ''authenticate-login'' (tm 0)) w2 = (Inr (Some org), w3)
        \<and> org_ownerId org = ent_id user \<and> org_status org = ACTIVE
        \<and> issue_tokens U sign tm user org w3 = (Inr (Ok tp), w'))"
  by (auto simp: authenticate_execute_def user_verifyPassword_def password_verify_def user_isActive_def andThen_run
      enter_organization_ok split: sum.splits prod.splits option.splits if_splits)

lemma enter_organization_failed:
  "enter_organization U sign tm user resolved w = (Inr (Fail e), w')
     \<Longrightarrow> enter_organization U' sign' tm user resolved w = (Inr (Fail e), w')"
  by (auto simp: enter_organization_def issue_tokens_ok split: option.splits if_splits)

text \<open>A refused login neither saves the user nor signs a token.\<close>

lemma authenticate_failed_frame:
  assumes "authenticate_execute U P B sign cmd tm w = (Inr (Fail e), w')"
  shows "authenticate_execute (U\<lparr>users_save := sv\<rparr>) P B sign' cmd tm w = (Inr (Fail e), w')"
  using assms
  by (auto simp: authenticate_execute_def andThen_run dest: enter_organization_failed
      split: sum.splits prod.splits if_splits option.splits)

lemma authenticate_unknown:
  assumes "users_findByEmail U (auc_email cmd) w = (Inr None, w1)"
  shows "authenticate_execute U P B sign cmd tm w = (Inr (Fail invalid_credentials), w1)"
  using assms by (simp add: authenticate_execute_def andThen_run)

lemma authenticate_wrong_password:
  assumes "users_findByEmail U (auc_email cmd) w = (Inr (Some user), w1)"
    and "bc_compare B (auc_password cmd) (hash_value (usr_passwordHash user)) w1 = (Inr False, w2)"
  shows "authenticate_execute U P B sign cmd tm w = (Inr (Fail invalid_credentials), w2)"
  using assms by (simp add: authenticate_execute_def user_verifyPassword_def password_verify_def andThen_run)

end
