(* ===== verification/AuditTrail.thy ===== *)
theory AuditTrail
  imports TenantCommands
begin

text \<open>
  The audit module, \<open>apps/api/src/modules/audit\<close>: the append-only audit event, its
  tenant-scoped repository, the handler that records an event, and the controller. Page and
  limit are integers; the entity's own dates, which nothing stores, are the readings \<open>now1\<close>
  and \<open>now2\<close> of the clock.
\<close>

section \<open>The entity\<close>

datatype audit_outcome = Success | Failure

primrec outcome_text :: "audit_outcome \<Rightarrow> string" where
  "outcome_text Success = ''success''"
| "outcome_text Failure = ''failure''"

record audit_event = entity +
  ae_tenantId :: string
  ae_actorId :: "string option"
  ae_actorType :: actor_type
  ae_action :: string
  ae_resourceType :: string
  ae_resourceId :: string
  ae_outcome :: audit_outcome
  ae_metadata :: object
  ae_correlationId :: string
  ae_ipAddress :: "string option"
  ae_userAgent :: "string option"
  ae_occurredAt :: time

record audit_row =
  ar_id :: string
  ar_tenantId :: string
  ar_actorId :: "string option"
  ar_actorType :: actor_type
  ar_action :: string
  ar_resourceType :: string
  ar_resourceId :: string
  ar_outcome :: audit_outcome
  ar_metadata :: object
  ar_correlationId :: string
  ar_ipAddress :: "string option"
  ar_userAgent :: "string option"
  ar_occurredAt :: time

definition sql_option :: "string option \<Rightarrow> sqlval" where
  "sql_option v = (case v of None \<Rightarrow> SNull | Some s \<Rightarrow> SStr s)"

definition audit_cols :: "audit_row \<Rightarrow> string \<Rightarrow> sqlval" where
  "audit_cols r c =
     (if c = ''id'' then SStr (ar_id r)
      else if c = ''tenantId'' then SStr (ar_tenantId r)
      else if c = ''actorId'' then sql_option (ar_actorId r)
      else if c = ''action'' then SStr (ar_action r)
      else if c = ''resourceType'' then SStr (ar_resourceType r)
      else if c = ''resourceId'' then SStr (ar_resourceId r)
      else if c = ''outcome'' then SStr (outcome_text (ar_outcome r))
      else if c = ''occurredAt'' then STime (ar_occurredAt r)
      else SNull)"

definition audit_toDomain :: "time \<Rightarrow> time \<Rightarrow> audit_row \<Rightarrow> audit_event" where
  "audit_toDomain now1 now2 orm =
     entity.extend (new_entity (Some (ar_id orm)) None None (ar_id orm) now1 now2)
       \<lparr>ae_tenantId = ar_tenantId orm, ae_actorId = ar_actorId orm, ae_actorType = ar_actorType orm,
        ae_action = ar_action orm, ae_resourceType = ar_resourceType orm,
        ae_resourceId = ar_resourceId orm, ae_outcome = ar_outcome orm,
        ae_metadata = ar_metadata orm, ae_correlationId = ar_correlationId orm,
        ae_ipAddress = ar_ipAddress orm, ae_userAgent = ar_userAgent orm,
        ae_occurredAt = ar_occurredAt orm\<rparr>"

definition audit_toOrm :: "audit_event \<Rightarrow> audit_row" where
  "audit_toOrm e =
     \<lparr>ar_id = ent_id e, ar_tenantId = ae_tenantId e, ar_actorId = ae_actorId e,
      ar_actorType = ae_actorType e, ar_action = ae_action e,
      ar_resourceType = ae_resourceType e, ar_resourceId = ae_resourceId e,
      ar_outcome = ae_outcome e, ar_metadata = ae_metadata e,
      ar_correlationId = ae_correlationId e, ar_ipAddress = ae_ipAddress e,
      ar_userAgent = ae_userAgent e, ar_occurredAt = ae_occurredAt e\<rparr>"

section \<open>The repository\<close>

definition audit_repo_name :: string where
  "audit_repo_name = ''AuditEventRepository''"

definition audit_append ::
  "('w, audit_row) table \<Rightarrow> string option \<Rightarrow> audit_event \<Rightarrow> ('w, audit_event) io" where
  "audit_append T tid event =
     andThen (lift (guardTenantOwnership audit_repo_name tid (ae_tenantId event)))
       (\<lambda>_. andThen (insert_rows T [audit_toOrm event]) (\<lambda>_. ret event))"

fun first_foreign :: "string \<Rightarrow> audit_event list \<Rightarrow> audit_event option" where
  "first_foreign t [] = None"
| "first_foreign t (e # es) = (if ae_tenantId e \<noteq> t then Some e else first_foreign t es)"

definition audit_appendBatch ::
  "('w, audit_row) table \<Rightarrow> string option \<Rightarrow> audit_event list \<Rightarrow> ('w, unit) io" where
  "audit_appendBatch T tid events =
     (if isEmpty (Some events) then ret ()
      else
        andThen (lift (requireTenantId audit_repo_name tid)) (\<lambda>t.
          case first_foreign t events of
            Some e \<Rightarrow> throw (PlainError (''AuditEventRepository.appendBatch: mixed tenantIds - expected ''
                        @ t @ '', got '' @ ae_tenantId e))
          | None \<Rightarrow> insert_rows T (map audit_toOrm events)))"

definition audit_findById ::
  "time \<Rightarrow> time \<Rightarrow> ('w, audit_row) table \<Rightarrow> string option \<Rightarrow> string \<Rightarrow> ('w, audit_event option) io" where
  "audit_findById now1 now2 T tid i =
     andThen (lift (scopedWhere audit_repo_name tid [(''id'', SStr i)])) (\<lambda>ws.
     andThen (find_one T (find_options ws)) (\<lambda>orm. ret (map_option (audit_toDomain now1 now2) orm)))"

record audit_filter =
  af_actorId :: "string option"
  af_action :: "string option"
  af_resourceType :: "string option"
  af_resourceId :: "string option"
  af_outcome :: "audit_outcome option"
  af_fromDate :: "time option"
  af_toDate :: "time option"

text \<open>\<open>if (v) qb.andWhere('col = :v')\<close>\<close>

definition andWhere_if :: "string \<Rightarrow> string option \<Rightarrow> query \<Rightarrow> query" where
  "andWhere_if c v q = (if truthy v then qb_andWhere (CEq c (SStr (the v))) q else q)"

definition audit_filtered :: "audit_filter \<Rightarrow> query \<Rightarrow> query" where
  "audit_filtered f q =
     (let q1 = andWhere_if ''actorId'' (af_actorId f) q;
          q2 = andWhere_if ''action'' (af_action f) q1;
          q3 = andWhere_if ''resourceType'' (af_resourceType f) q2;
          q4 = andWhere_if ''resourceId'' (af_resourceId f) q3;
          q5 = andWhere_if ''outcome'' (map_option outcome_text (af_outcome f)) q4
      in case (af_fromDate f, af_toDate f) of
           (Some a, Some b) \<Rightarrow> qb_andWhere (CBetween ''occurredAt'' (STime a) (STime b)) q5
         | _ \<Rightarrow> q5)"

definition audit_page :: "pagination_options \<Rightarrow> int" where
  "audit_page opts = (case opt_page opts of Some p \<Rightarrow> p | None \<Rightarrow> 1)"

definition audit_limit :: "pagination_options \<Rightarrow> int" where
  "audit_limit opts = min (case opt_limit opts of Some l \<Rightarrow> l | None \<Rightarrow> 50) 200"

definition audit_query ::
  "time \<Rightarrow> time \<Rightarrow> ('w, audit_row) table \<Rightarrow> string option \<Rightarrow> audit_filter \<Rightarrow> pagination_options
     \<Rightarrow> ('w, audit_event paginated_result) io" where
  "audit_query now1 now2 T tid f options =
     (let page = audit_page options; limit = audit_limit options; skip = (page - 1) * limit
      in andThen (lift (scopedQb audit_repo_name tid)) (\<lambda>q0.
         let qb = audit_filtered f (qb_take limit (qb_skip skip (qb_orderBy ''occurredAt'' True q0)))
         in andThen (find_and_count T qb) (\<lambda>(rows, count).
            ret \<lparr>pr_data = map (audit_toDomain now1 now2) rows,
                 pr_meta = buildPaginationMeta page limit (int count)\<rparr>)))"

record 'w audit_port =
  audits_append :: "audit_event \<Rightarrow> ('w, audit_event) io"
  audits_appendBatch :: "audit_event list \<Rightarrow> ('w, unit) io"
  audits_findById :: "string \<Rightarrow> ('w, audit_event option) io"
  audits_query :: "audit_filter \<Rightarrow> pagination_options \<Rightarrow> ('w, audit_event paginated_result) io"

definition audit_repository ::
  "time \<Rightarrow> time \<Rightarrow> ('w, audit_row) table \<Rightarrow> string option \<Rightarrow> 'w audit_port" where
  "audit_repository now1 now2 T tid =
     \<lparr>audits_append = audit_append T tid, audits_appendBatch = audit_appendBatch T tid,
      audits_findById = audit_findById now1 now2 T tid, audits_query = audit_query now1 now2 T tid\<rparr>"

interpretation audit_repo: tenant_scoped_repository audit_repo_name audit_cols
  "audit_toDomain now1 now2" ae_tenantId "audit_findById now1 now2" audit_append for now1 now2
  by unfold_locales
    (auto simp: audit_findById_def audit_append_def audit_toDomain_def audit_cols_def entity.defs andThen_run)

section \<open>Recording an event\<close>

record record_audit_command = command +
  rac_actorType :: actor_type
  rac_action :: string
  rac_resourceType :: string
  rac_resourceId :: string
  rac_outcome :: audit_outcome
  rac_metadata :: object
  rac_ipAddress :: "string option"
  rac_userAgent :: "string option"

definition new_record_audit_command ::
  "string \<Rightarrow> string \<Rightarrow> string option \<Rightarrow> actor_type option \<Rightarrow> string \<Rightarrow> string \<Rightarrow> string
     \<Rightarrow> audit_outcome option \<Rightarrow> object option \<Rightarrow> string option \<Rightarrow> string option
     \<Rightarrow> string \<Rightarrow> time \<Rightarrow> record_audit_command" where
  "new_record_audit_command tenant corr actor actorType action resourceType resourceId outcome metadata
       ip agent fresh now =
     command.extend (new_command tenant (Some corr) actor fresh fresh now)
       \<lparr>rac_actorType = (case actorType of Some t \<Rightarrow> t | None \<Rightarrow> Actor_system),
        rac_action = action, rac_resourceType = resourceType, rac_resourceId = resourceId,
        rac_outcome = (case outcome of Some x \<Rightarrow> x | None \<Rightarrow> Success),
        rac_metadata = (case metadata of Some m \<Rightarrow> m | None \<Rightarrow> []),
        rac_ipAddress = ip, rac_userAgent = agent\<rparr>"

definition audit_event_of_command ::
  "record_audit_command \<Rightarrow> string \<Rightarrow> time \<Rightarrow> time \<Rightarrow> time \<Rightarrow> audit_event" where
  "audit_event_of_command cmd auditId occurredAt now1 now2 =
     entity.extend (new_entity (Some auditId) None None auditId now1 now2)
       \<lparr>ae_tenantId = cmd_tenantId cmd, ae_actorId = cmd_actorId cmd,
        ae_actorType = rac_actorType cmd, ae_action = rac_action cmd,
        ae_resourceType = rac_resourceType cmd, ae_resourceId = rac_resourceId cmd,
        ae_outcome = rac_outcome cmd, ae_metadata = rac_metadata cmd,
        ae_correlationId = cmd_correlationId cmd, ae_ipAddress = rac_ipAddress cmd,
        ae_userAgent = rac_userAgent cmd, ae_occurredAt = occurredAt\<rparr>"

definition audit_recorded_event :: "audit_event \<Rightarrow> tenant_aware_event" where
  "audit_recorded_event saved =
     \<lparr>te_eventId = ent_id saved, te_eventType = AUDIT_EVENT_RECORDED, te_eventVersion = 1,
      te_tenantId = ae_tenantId saved, te_correlationId = ae_correlationId saved,
      te_actorId = ae_actorId saved, te_causationId = None, te_traceId = None,
      te_sourceService = ''atlas-saas-platform'', te_sourceVersion = None,
      te_occurredAt = toISOString (ae_occurredAt saved),
      te_payload = audit_event_recorded_payload (ent_id saved) (ae_action saved)
        (ae_resourceType saved) (ae_resourceId saved) (outcome_text (ae_outcome saved))
        (ae_metadata saved),
      te_isReplay = None, te_replayId = None, te_replayedAt = None, te_replayReason = None,
      te_replaySourceEventId = None\<rparr>"

definition record_audit_execute ::
  "'w audit_port \<Rightarrow> 'w publisher \<Rightarrow> record_audit_command \<Rightarrow> string \<Rightarrow> (nat \<Rightarrow> time) \<Rightarrow> ('w, string result) io" where
  "record_audit_execute R publish cmd auditId tm =
     andThen (audits_append R (audit_event_of_command cmd auditId (tm 0) (tm 1) (tm 2))) (\<lambda>saved.
     andThen (publish (audit_recorded_event saved)) (\<lambda>_.
     ret (Ok (ent_id saved))))"

section \<open>The controller\<close>

definition getAuditEvents ::
  "'w audit_port \<Rightarrow> string option \<Rightarrow> string option \<Rightarrow> string option \<Rightarrow> string option \<Rightarrow> int option
     \<Rightarrow> int option \<Rightarrow> ('w, audit_event paginated_result) io" where
  "getAuditEvents R actorId action resourceType resourceId page limit =
     audits_query R
       \<lparr>af_actorId = actorId, af_action = action, af_resourceType = resourceType,
        af_resourceId = resourceId, af_outcome = None, af_fromDate = None, af_toDate = None\<rparr>
       \<lparr>opt_page = page, opt_limit = limit\<rparr>"

definition getAuditEvent :: "'w audit_port \<Rightarrow> string \<Rightarrow> ('w, audit_event option) io" where
  "getAuditEvent R i = audits_findById R i"

section \<open>Facts\<close>

lemma audit_round_trip: "audit_toDomain (created_at e) (updated_at e) (audit_toOrm e) = e"
  by (simp add: audit_toDomain_def audit_toOrm_def new_entity_def entity.defs)

lemma audit_toOrm_toDomain: "audit_toOrm (audit_toDomain n1 n2 r) = r"
  by (simp add: audit_toDomain_def audit_toOrm_def new_entity_def entity.defs)

lemma first_foreign_None_iff: "first_foreign t es = None \<longleftrightarrow> (\<forall>e \<in> set es. ae_tenantId e = t)"
  by (induction es) auto

lemma appendBatch_empty: "audit_appendBatch T tid [] w = (Inr (), w)"
  by (simp add: audit_appendBatch_def isEmpty_def)

lemma appendBatch_foreign:
  assumes "tid = Some t" and "t \<noteq> []" and "e \<in> set es" and "ae_tenantId e \<noteq> t"
  shows "\<exists>m. audit_appendBatch T tid es w = (Inl (PlainError m), w)"
proof -
  from assms(3,4) obtain e' where "first_foreign t es = Some e'"
    using first_foreign_None_iff [of t es] by (cases "first_foreign t es") auto
  with assms show ?thesis
    by (auto simp: audit_appendBatch_def isEmpty_def)
qed

lemma appendBatch_own:
  assumes "t \<noteq> []" and "es \<noteq> []" and "\<forall>e \<in> set es. ae_tenantId e = t"
  shows "audit_appendBatch T (Some t) es w = insert_rows T (map audit_toOrm es) w"
proof -
  have "first_foreign t es = None"
    using assms by (simp add: first_foreign_None_iff)
  with assms show ?thesis by (simp add: audit_appendBatch_def isEmpty_def)
qed

lemma andWhere_if_sat [simp]:
  "sat_all row (andWhere_if c v q) \<longleftrightarrow> sat_all row q \<and> (truthy v \<longrightarrow> row c = SStr (the v))"
  by (auto simp: andWhere_if_def)

lemma andWhere_if_simps [simp]:
  "q_skip (andWhere_if c v q) = q_skip q" "q_take (andWhere_if c v q) = q_take q"
  "q_order (andWhere_if c v q) = q_order q"
  by (simp_all add: andWhere_if_def qb_andWhere_def)

lemma audit_filtered_sat: "sat_all row (audit_filtered f q) \<Longrightarrow> sat_all row q"
  by (auto simp: audit_filtered_def Let_def split: option.splits)

lemma audit_filtered_page:
  "q_skip (audit_filtered f q) = q_skip q" "q_take (audit_filtered f q) = q_take q"
  by (auto simp: audit_filtered_def Let_def qb_andWhere_def split: option.splits)

text \<open>Every event a query returns is the tenant's own and matches every filter that is set.\<close>

lemma audit_query_isolated:
  assumes "where_sound audit_cols T" and "audit_query n1 n2 T tid f opts w = (Inr res, w')"
    and "e \<in> set (pr_data res)"
  shows "tid = Some (ae_tenantId e)"
    and "truthy (af_actorId f) \<Longrightarrow> ae_actorId e = af_actorId f"
    and "truthy (af_action f) \<Longrightarrow> af_action f = Some (ae_action e)"
    and "truthy (af_resourceType f) \<Longrightarrow> af_resourceType f = Some (ae_resourceType e)"
    and "truthy (af_resourceId f) \<Longrightarrow> af_resourceId f = Some (ae_resourceId e)"
proof -
  let ?q = "\<lambda>q0. audit_filtered f (qb_take (audit_limit opts) (qb_skip ((audit_page opts - 1) * audit_limit opts)
       (qb_orderBy ''occurredAt'' True q0)))"
  from assms(2,3) obtain q0 rows n r where q0: "scopedQb audit_repo_name tid = Inr q0"
    and find: "find_and_count T (?q q0) w = (Inr (rows, n), w')" and r: "r \<in> set rows"
    and e: "e = audit_toDomain n1 n2 r"
    by (auto simp: audit_query_def Let_def andThen_run split: sum.splits prod.splits)
  have sat: "sat_all (audit_cols r) (?q q0)"
    using where_sound_count [OF assms(1) find r] .
  then have "sat_all (audit_cols r) q0" by (auto dest: audit_filtered_sat)
  with q0 e show "tid = Some (ae_tenantId e)"
    by (auto simp: scopedQb_Inr_iff audit_cols_def audit_toDomain_def entity.defs)
  from sat e show "truthy (af_actorId f) \<Longrightarrow> ae_actorId e = af_actorId f"
    and "truthy (af_action f) \<Longrightarrow> af_action f = Some (ae_action e)"
    and "truthy (af_resourceType f) \<Longrightarrow> af_resourceType f = Some (ae_resourceType e)"
    and "truthy (af_resourceId f) \<Longrightarrow> af_resourceId f = Some (ae_resourceId e)"
    by (auto simp: audit_filtered_def Let_def audit_cols_def audit_toDomain_def entity.defs
        sql_option_def truthy_def split: option.splits)
qed

lemma audit_limit_max: "audit_limit opts \<le> 200"
  by (simp add: audit_limit_def)

text \<open>An audit event is published only after the repository took it, for the same tenant.\<close>

lemma record_audit_foreign:
  assumes "tid = Some t" and "t \<noteq> []" and "cmd_tenantId cmd \<noteq> t"
  shows "\<exists>m. record_audit_execute (audit_repository n1 n2 T tid) publish cmd i tm w = (Inl (ForbiddenException m), w)"
proof -
  have "ae_tenantId (audit_event_of_command cmd i (tm 0) (tm 1) (tm 2)) \<noteq> t"
    using assms(3) by (simp add: audit_event_of_command_def entity.defs)
  from audit_repo.write_foreign [OF assms(1,2) this, of T w] show ?thesis
    by (auto simp: record_audit_execute_def audit_repository_def andThen_run)
qed

end
