(* ===== verification/WorkflowDefinition.thy ===== *)
theory WorkflowDefinition
  imports TenantCommands
begin

text \<open>
  Workflow definitions, \<open>apps/api/src/modules/workflow\<close>: the entity and its tenant-scoped
  repository. The \<open>trigger\<close> column holds JSON that one query looks into. Absent dates in a row
  are those the mapper does not set; the entity then reads the clock (\<open>now1\<close>, \<open>now2\<close>).
\<close>

datatype trigger_type = Trigger_manual | Trigger_event | Trigger_schedule | Trigger_webhook

primrec trigger_type_text :: "trigger_type \<Rightarrow> string" where
  "trigger_type_text Trigger_manual = ''manual''"
| "trigger_type_text Trigger_event = ''event''"
| "trigger_type_text Trigger_schedule = ''schedule''"
| "trigger_type_text Trigger_webhook = ''webhook''"

datatype definition_status = Draft | Active_definition | Archived

primrec definition_status_text :: "definition_status \<Rightarrow> string" where
  "definition_status_text Draft = ''draft''"
| "definition_status_text Active_definition = ''active''"
| "definition_status_text Archived = ''archived''"

record workflow_step =
  ws_stepId :: string
  ws_name :: string
  ws_type :: string
  ws_config :: object
  ws_onSuccess :: "string option"
  ws_onFailure :: "string option"

record workflow_trigger =
  wt_type :: trigger_type
  wt_eventType :: "string option"
  wt_schedule :: "string option"
  wt_webhookPath :: "string option"

definition trigger_json :: "workflow_trigger \<Rightarrow> object" where
  "trigger_json t =
     [(''type'', JStr (trigger_type_text (wt_type t)))] @ opt_member ''eventType'' (wt_eventType t)
     @ opt_member ''schedule'' (wt_schedule t) @ opt_member ''webhookPath'' (wt_webhookPath t)"

record workflow_definition = entity +
  wd_tenantId :: string
  wd_name :: string
  wd_description :: "string option"
  wd_trigger :: workflow_trigger
  wd_steps :: "workflow_step list"
  wd_version :: int
  wd_status :: definition_status
  wd_createdBy :: string

definition wd_create ::
  "string \<Rightarrow> string \<Rightarrow> string option \<Rightarrow> workflow_trigger \<Rightarrow> workflow_step list \<Rightarrow> string \<Rightarrow> string
     \<Rightarrow> time \<Rightarrow> time \<Rightarrow> exn + workflow_definition" where
  "wd_create tenantId name description trigger steps createdBy fresh now1 now2 =
     (if isEmpty (Some steps)
      then Inl (ValidationException [(''steps'', [''Workflow must have at least one step''])])
      else Inr (entity.extend (new_entity (Some fresh) None None fresh now1 now2)
        \<lparr>wd_tenantId = tenantId, wd_name = name, wd_description = description,
         wd_trigger = trigger, wd_steps = steps, wd_version = 1, wd_status = Draft,
         wd_createdBy = createdBy\<rparr>))"

definition wd_activate :: "time \<Rightarrow> workflow_definition \<Rightarrow> workflow_definition" where
  "wd_activate now d = touch now (d\<lparr>wd_status := Active_definition\<rparr>)"

definition wd_archive :: "time \<Rightarrow> workflow_definition \<Rightarrow> workflow_definition" where
  "wd_archive now d = touch now (d\<lparr>wd_status := Archived\<rparr>)"

definition wd_isActive :: "workflow_definition \<Rightarrow> bool" where
  "wd_isActive d \<longleftrightarrow> wd_status d = Active_definition"

section \<open>The repository\<close>

record definition_row =
  dr_id :: string
  dr_tenantId :: string
  dr_name :: string
  dr_description :: "string option"
  dr_trigger :: workflow_trigger
  dr_steps :: "workflow_step list"
  dr_version :: int
  dr_status :: definition_status
  dr_createdBy :: string
  dr_createdAt :: "time option"
  dr_updatedAt :: "time option"

definition definition_cols :: "definition_row \<Rightarrow> string \<Rightarrow> sqlval" where
  "definition_cols r c =
     (if c = ''id'' then SStr (dr_id r)
      else if c = ''tenantId'' then SStr (dr_tenantId r)
      else if c = ''trigger'' then SJson (trigger_json (dr_trigger r))
      else if c = ''status'' then SStr (definition_status_text (dr_status r))
      else SNull)"

definition definition_toDomain :: "time \<Rightarrow> time \<Rightarrow> definition_row \<Rightarrow> workflow_definition" where
  "definition_toDomain now1 now2 orm =
     entity.extend (new_entity (Some (dr_id orm)) (dr_createdAt orm) (dr_updatedAt orm) (dr_id orm) now1 now2)
       \<lparr>wd_tenantId = dr_tenantId orm, wd_name = dr_name orm, wd_description = dr_description orm,
        wd_trigger = dr_trigger orm, wd_steps = dr_steps orm, wd_version = dr_version orm,
        wd_status = dr_status orm, wd_createdBy = dr_createdBy orm\<rparr>"

definition definition_toOrm :: "workflow_definition \<Rightarrow> definition_row" where
  "definition_toOrm d =
     \<lparr>dr_id = ent_id d, dr_tenantId = wd_tenantId d, dr_name = wd_name d,
      dr_description = wd_description d, dr_trigger = wd_trigger d, dr_steps = wd_steps d,
      dr_version = wd_version d, dr_status = wd_status d, dr_createdBy = wd_createdBy d,
      dr_createdAt = None, dr_updatedAt = None\<rparr>"

definition definition_repo_name :: string where
  "definition_repo_name = ''WorkflowDefinitionRepository''"

definition definition_findById ::
  "time \<Rightarrow> time \<Rightarrow> ('w, definition_row) table \<Rightarrow> string option \<Rightarrow> string
     \<Rightarrow> ('w, workflow_definition option) io" where
  "definition_findById now1 now2 T tid i =
     andThen (lift (scopedWhere definition_repo_name tid [(''id'', SStr i)])) (\<lambda>ws.
     andThen (find_one T (find_options ws)) (\<lambda>orm. ret (map_option (definition_toDomain now1 now2) orm)))"

definition definition_findByTriggerEvent ::
  "time \<Rightarrow> time \<Rightarrow> ('w, definition_row) table \<Rightarrow> string option \<Rightarrow> string
     \<Rightarrow> ('w, workflow_definition list) io" where
  "definition_findByTriggerEvent now1 now2 T tid eventType =
     andThen (lift (scopedQb definition_repo_name tid)) (\<lambda>q.
     andThen (find_many T
        (qb_andWhere (CEq ''status'' (SStr ''active''))
          (qb_andWhere (CJsonText ''trigger'' ''eventType'' (SStr eventType))
            (qb_andWhere (CJsonText ''trigger'' ''type'' (SStr ''event'')) q))))
       (\<lambda>orms. ret (map (definition_toDomain now1 now2) orms)))"

definition definition_save ::
  "time \<Rightarrow> time \<Rightarrow> ('w, definition_row) table \<Rightarrow> string option \<Rightarrow> workflow_definition
     \<Rightarrow> ('w, workflow_definition) io" where
  "definition_save now1 now2 T tid d =
     andThen (lift (guardTenantOwnership definition_repo_name tid (wd_tenantId d))) (\<lambda>_.
     andThen (save_row T (definition_toOrm d)) (\<lambda>saved. ret (definition_toDomain now1 now2 saved)))"

definition definition_existsById ::
  "('w, definition_row) table \<Rightarrow> string option \<Rightarrow> string \<Rightarrow> ('w, bool) io" where
  "definition_existsById T tid i =
     andThen (lift (scopedQb definition_repo_name tid)) (\<lambda>q.
     andThen (count_rows T (qb_andWhere (CEq ''id'' (SStr i)) q)) (\<lambda>count. ret (count > 0)))"

record 'w definition_port =
  defs_findById :: "string \<Rightarrow> ('w, workflow_definition option) io"
  defs_findByTriggerEvent :: "string \<Rightarrow> ('w, workflow_definition list) io"
  defs_save :: "workflow_definition \<Rightarrow> ('w, workflow_definition) io"
  defs_existsById :: "string \<Rightarrow> ('w, bool) io"

definition definition_repository ::
  "time \<Rightarrow> time \<Rightarrow> ('w, definition_row) table \<Rightarrow> string option \<Rightarrow> 'w definition_port" where
  "definition_repository now1 now2 T tid =
     \<lparr>defs_findById = definition_findById now1 now2 T tid,
      defs_findByTriggerEvent = definition_findByTriggerEvent now1 now2 T tid,
      defs_save = definition_save now1 now2 T tid, defs_existsById = definition_existsById T tid\<rparr>"

interpretation definition_repo: tenant_scoped_repository definition_repo_name definition_cols
  "definition_toDomain now1 now2" wd_tenantId "definition_findById now1 now2"
  "definition_save now1 now2" for now1 now2
  by unfold_locales
    (auto simp: definition_findById_def definition_save_def definition_toDomain_def
      definition_cols_def entity.defs andThen_run)

section \<open>Facts\<close>

definition wd_inv :: "workflow_definition \<Rightarrow> bool" where
  "wd_inv d \<longleftrightarrow> wd_steps d \<noteq> [] \<and> 1 \<le> wd_version d"

lemma wd_create_inv: "wd_create t n ds tr st by f n1 n2 = Inr d \<Longrightarrow> wd_inv d \<and> wd_status d = Draft"
  by (auto simp: wd_create_def wd_inv_def isEmpty_def entity.defs split: if_splits)

lemma wd_mutators_inv: "wd_inv d \<Longrightarrow> wd_inv (wd_activate now d) \<and> wd_inv (wd_archive now d)"
  by (simp add: wd_inv_def wd_activate_def wd_archive_def touch_def)

lemma definition_round_trip:
  "definition_toDomain (created_at d) (updated_at d) (definition_toOrm d) = d"
  by (simp add: definition_toDomain_def definition_toOrm_def new_entity_def entity.defs)

lemma trigger_json_type: "map_of (trigger_json t) ''type'' = Some (JStr (trigger_type_text (wt_type t)))"
  by (simp add: trigger_json_def)

lemma trigger_json_eventType: "map_of (trigger_json t) ''eventType'' = map_option JStr (wt_eventType t)"
  by (cases "wt_eventType t"; cases "wt_schedule t"; cases "wt_webhookPath t")
    (simp_all add: trigger_json_def opt_member_def)

text \<open>
  An event reaches only the active, event-triggered definitions of the current tenant that
  name it.
\<close>

lemma findByTriggerEvent_sound:
  assumes "where_sound definition_cols T"
    and "definition_findByTriggerEvent n1 n2 T tid ev w = (Inr ds, w')" and "d \<in> set ds"
  shows "tid = Some (wd_tenantId d)" and "wd_isActive d"
    and "wt_type (wd_trigger d) = Trigger_event" and "wt_eventType (wd_trigger d) = Some ev"
proof -
  let ?q = "\<lambda>q. qb_andWhere (CEq ''status'' (SStr ''active''))
          (qb_andWhere (CJsonText ''trigger'' ''eventType'' (SStr ev))
            (qb_andWhere (CJsonText ''trigger'' ''type'' (SStr ''event'')) q))"
  from assms(2,3) obtain q rows r where q: "scopedQb definition_repo_name tid = Inr q"
    and find: "find_many T (?q q) w = (Inr rows, w')" and r: "r \<in> set rows"
    and d: "d = definition_toDomain n1 n2 r"
    by (auto simp: definition_findByTriggerEvent_def andThen_run split: sum.splits prod.splits)
  have sat: "sat_all (definition_cols r) (?q q)"
    using where_sound_many [OF assms(1) find r] .
  then have "sat_all (definition_cols r) q" by simp
  with q d show "tid = Some (wd_tenantId d)"
    by (auto simp: scopedQb_Inr_iff definition_cols_def definition_toDomain_def entity.defs)
  from sat d show "wd_isActive d"
    by (cases "dr_status r") (simp_all add: definition_cols_def wd_isActive_def definition_toDomain_def entity.defs)
  from sat d show "wt_type (wd_trigger d) = Trigger_event"
    by (cases "wt_type (dr_trigger r)")
      (simp_all add: definition_cols_def definition_toDomain_def entity.defs trigger_json_type)
  from sat d show "wt_eventType (wd_trigger d) = Some ev"
    by (cases "wt_eventType (dr_trigger r)")
      (simp_all add: definition_cols_def definition_toDomain_def entity.defs trigger_json_eventType)
qed

end
