(* ===== verification/WorkflowExecution.thy ===== *)
theory WorkflowExecution
  imports WorkflowDefinition
begin

text \<open>
  Workflow executions, \<open>apps/api/src/modules/workflow\<close>: the entity with its state machine, its
  tenant-scoped repository, the handlers that trigger, cancel, read and list executions, and
  the controller.
\<close>

section \<open>The entity\<close>

datatype execution_status = Exec_pending | Exec_running | Exec_completed | Exec_failed | Exec_cancelled

primrec execution_status_text :: "execution_status \<Rightarrow> string" where
  "execution_status_text Exec_pending = ''pending''"
| "execution_status_text Exec_running = ''running''"
| "execution_status_text Exec_completed = ''completed''"
| "execution_status_text Exec_failed = ''failed''"
| "execution_status_text Exec_cancelled = ''cancelled''"

datatype execution_trigger = By_manual | By_event | By_schedule

primrec execution_trigger_text :: "execution_trigger \<Rightarrow> string" where
  "execution_trigger_text By_manual = ''manual''"
| "execution_trigger_text By_event = ''event''"
| "execution_trigger_text By_schedule = ''schedule''"

datatype step_status = Step_pending | Step_running | Step_completed | Step_failed | Step_skipped

record step_result =
  sr_stepId :: string
  sr_stepName :: string
  sr_status :: step_status
  sr_startedAt :: "string option"
  sr_completedAt :: "string option"
  sr_output :: "object option"
  sr_errorMessage :: "string option"

record execution = entity +
  ex_definitionId :: string
  ex_tenantId :: string
  ex_correlationId :: string
  ex_triggeredBy :: string
  ex_triggerType :: execution_trigger
  ex_input :: object
  ex_status :: execution_status
  ex_stepResults :: "step_result list"
  ex_startedAt :: "time option"
  ex_completedAt :: "time option"
  ex_durationMs :: "int option"
  ex_errorMessage :: "string option"

definition ex_create ::
  "string \<Rightarrow> string \<Rightarrow> string \<Rightarrow> string \<Rightarrow> execution_trigger \<Rightarrow> object \<Rightarrow> string \<Rightarrow> time \<Rightarrow> time \<Rightarrow> execution" where
  "ex_create definitionId tenantId correlationId triggeredBy triggerType input fresh now1 now2 =
     entity.extend (new_entity (Some fresh) None None fresh now1 now2)
       \<lparr>ex_definitionId = definitionId, ex_tenantId = tenantId, ex_correlationId = correlationId,
        ex_triggeredBy = triggeredBy, ex_triggerType = triggerType, ex_input = input,
        ex_status = Exec_pending, ex_stepResults = [], ex_startedAt = None, ex_completedAt = None,
        ex_durationMs = None, ex_errorMessage = None\<rparr>"

definition ex_start :: "time \<Rightarrow> time \<Rightarrow> execution \<Rightarrow> exn + execution" where
  "ex_start now1 now2 x =
     (if ex_status x \<noteq> Exec_pending
      then Inl (ConflictException (''Cannot start execution in status: '' @ execution_status_text (ex_status x)))
      else Inr (touch now2 (x\<lparr>ex_status := Exec_running, ex_startedAt := Some now1\<rparr>)))"

text \<open>\<open>if (this._startedAt) this._durationMs = this._completedAt - this._startedAt\<close>\<close>

definition with_duration :: "time \<Rightarrow> execution \<Rightarrow> execution" where
  "with_duration completed x =
     (case ex_startedAt x of None \<Rightarrow> x | Some s \<Rightarrow> x\<lparr>ex_durationMs := Some (completed - s)\<rparr>)"

definition ex_complete :: "object option \<Rightarrow> time \<Rightarrow> time \<Rightarrow> execution \<Rightarrow> execution" where
  "ex_complete output now1 now2 x =
     touch now2 (with_duration now1 (x\<lparr>ex_status := Exec_completed, ex_completedAt := Some now1\<rparr>))"

definition ex_fail :: "string \<Rightarrow> time \<Rightarrow> time \<Rightarrow> execution \<Rightarrow> execution" where
  "ex_fail errorMessage now1 now2 x =
     touch now2 (x\<lparr>ex_status := Exec_failed, ex_completedAt := Some now1,
                   ex_errorMessage := Some errorMessage\<rparr>)"

definition ex_cancel :: "string option \<Rightarrow> time \<Rightarrow> time \<Rightarrow> execution \<Rightarrow> exn + execution" where
  "ex_cancel reason now1 now2 x =
     (if ex_status x = Exec_completed \<or> ex_status x = Exec_failed \<or> ex_status x = Exec_cancelled
      then Inl (ConflictException (''Cannot cancel execution in terminal status: ''
             @ execution_status_text (ex_status x)))
      else
        (let x1 = with_duration now1 (x\<lparr>ex_status := Exec_cancelled, ex_completedAt := Some now1\<rparr>);
             x2 = (if truthy reason then x1\<lparr>ex_errorMessage := reason\<rparr> else x1)
         in Inr (touch now2 x2)))"

section \<open>The repository\<close>

record execution_row =
  xr_id :: string
  xr_definitionId :: string
  xr_tenantId :: string
  xr_correlationId :: string
  xr_triggeredBy :: string
  xr_triggerType :: execution_trigger
  xr_input :: object
  xr_status :: execution_status
  xr_stepResults :: "step_result list"
  xr_startedAt :: "time option"
  xr_completedAt :: "time option"
  xr_durationMs :: "int option"
  xr_errorMessage :: "string option"
  xr_createdAt :: "time option"

definition sql_time :: "time option \<Rightarrow> sqlval" where
  "sql_time v = (case v of None \<Rightarrow> SNull | Some t \<Rightarrow> STime t)"

definition execution_cols :: "execution_row \<Rightarrow> string \<Rightarrow> sqlval" where
  "execution_cols r c =
     (if c = ''id'' then SStr (xr_id r)
      else if c = ''definitionId'' then SStr (xr_definitionId r)
      else if c = ''tenantId'' then SStr (xr_tenantId r)
      else if c = ''status'' then SStr (execution_status_text (xr_status r))
      else if c = ''createdAt'' then sql_time (xr_createdAt r)
      else SNull)"

definition execution_toDomain :: "time \<Rightarrow> time \<Rightarrow> execution_row \<Rightarrow> execution" where
  "execution_toDomain now1 now2 orm =
     entity.extend (new_entity (Some (xr_id orm)) (xr_createdAt orm) None (xr_id orm) now1 now2)
       \<lparr>ex_definitionId = xr_definitionId orm, ex_tenantId = xr_tenantId orm,
        ex_correlationId = xr_correlationId orm, ex_triggeredBy = xr_triggeredBy orm,
        ex_triggerType = xr_triggerType orm, ex_input = xr_input orm, ex_status = xr_status orm,
        ex_stepResults = xr_stepResults orm, ex_startedAt = xr_startedAt orm,
        ex_completedAt = xr_completedAt orm, ex_durationMs = xr_durationMs orm,
        ex_errorMessage = xr_errorMessage orm\<rparr>"

definition execution_toOrm :: "execution \<Rightarrow> execution_row" where
  "execution_toOrm x =
     \<lparr>xr_id = ent_id x, xr_definitionId = ex_definitionId x, xr_tenantId = ex_tenantId x,
      xr_correlationId = ex_correlationId x, xr_triggeredBy = ex_triggeredBy x,
      xr_triggerType = ex_triggerType x, xr_input = ex_input x, xr_status = ex_status x,
      xr_stepResults = ex_stepResults x, xr_startedAt = ex_startedAt x,
      xr_completedAt = ex_completedAt x, xr_durationMs = ex_durationMs x,
      xr_errorMessage = ex_errorMessage x, xr_createdAt = None\<rparr>"

definition execution_repo_name :: string where
  "execution_repo_name = ''WorkflowExecutionRepository''"

definition execution_findById ::
  "time \<Rightarrow> time \<Rightarrow> ('w, execution_row) table \<Rightarrow> string option \<Rightarrow> string \<Rightarrow> ('w, execution option) io" where
  "execution_findById now1 now2 T tid i =
     andThen (lift (scopedWhere execution_repo_name tid [(''id'', SStr i)])) (\<lambda>ws.
     andThen (find_one T (find_options ws)) (\<lambda>orm. ret (map_option (execution_toDomain now1 now2) orm)))"

definition execution_page :: "pagination_options \<Rightarrow> int" where
  "execution_page opts = (case opt_page opts of Some p \<Rightarrow> p | None \<Rightarrow> 1)"

definition execution_limit :: "pagination_options \<Rightarrow> int" where
  "execution_limit opts = min (case opt_limit opts of Some l \<Rightarrow> l | None \<Rightarrow> 20) 100"

text \<open>The end both list methods share: order, page, run, and wrap.\<close>

definition execution_page_of ::
  "time \<Rightarrow> time \<Rightarrow> ('w, execution_row) table \<Rightarrow> pagination_options \<Rightarrow> query
     \<Rightarrow> ('w, execution paginated_result) io" where
  "execution_page_of now1 now2 T opts qb =
     (let page = execution_page opts; limit = execution_limit opts; skip = (page - 1) * limit
      in andThen (find_and_count T (qb_take limit (qb_skip skip (qb_orderBy ''createdAt'' True qb))))
           (\<lambda>(orms, count).
              ret \<lparr>pr_data = map (execution_toDomain now1 now2) orms,
                   pr_meta = buildPaginationMeta page limit (int count)\<rparr>))"

definition execution_findByDefinition ::
  "time \<Rightarrow> time \<Rightarrow> ('w, execution_row) table \<Rightarrow> string option \<Rightarrow> string \<Rightarrow> pagination_options
     \<Rightarrow> ('w, execution paginated_result) io" where
  "execution_findByDefinition now1 now2 T tid definitionId opts =
     andThen (lift (scopedQb execution_repo_name tid)) (\<lambda>q.
       execution_page_of now1 now2 T opts (qb_andWhere (CEq ''definitionId'' (SStr definitionId)) q))"

definition execution_findMany ::
  "time \<Rightarrow> time \<Rightarrow> ('w, execution_row) table \<Rightarrow> string option \<Rightarrow> execution_status option
     \<Rightarrow> pagination_options \<Rightarrow> ('w, execution paginated_result) io" where
  "execution_findMany now1 now2 T tid status opts =
     andThen (lift (scopedQb execution_repo_name tid)) (\<lambda>q.
       execution_page_of now1 now2 T opts
         (case status of
            None \<Rightarrow> q
          | Some s \<Rightarrow> qb_andWhere (CEq ''status'' (SStr (execution_status_text s))) q))"

definition execution_save ::
  "time \<Rightarrow> time \<Rightarrow> ('w, execution_row) table \<Rightarrow> string option \<Rightarrow> execution \<Rightarrow> ('w, execution) io" where
  "execution_save now1 now2 T tid x =
     andThen (lift (guardTenantOwnership execution_repo_name tid (ex_tenantId x))) (\<lambda>_.
     andThen (save_row T (execution_toOrm x)) (\<lambda>saved. ret (execution_toDomain now1 now2 saved)))"

record 'w execution_port =
  execs_findById :: "string \<Rightarrow> ('w, execution option) io"
  execs_findByDefinition :: "string \<Rightarrow> pagination_options \<Rightarrow> ('w, execution paginated_result) io"
  execs_findMany :: "execution_status option \<Rightarrow> pagination_options \<Rightarrow> ('w, execution paginated_result) io"
  execs_save :: "execution \<Rightarrow> ('w, execution) io"

definition execution_repository ::
  "time \<Rightarrow> time \<Rightarrow> ('w, execution_row) table \<Rightarrow> string option \<Rightarrow> 'w execution_port" where
  "execution_repository now1 now2 T tid =
     \<lparr>execs_findById = execution_findById now1 now2 T tid,
      execs_findByDefinition = execution_findByDefinition now1 now2 T tid,
      execs_findMany = execution_findMany now1 now2 T tid,
      execs_save = execution_save now1 now2 T tid\<rparr>"

interpretation execution_repo: tenant_scoped_repository execution_repo_name execution_cols
  "execution_toDomain now1 now2" ex_tenantId "execution_findById now1 now2"
  "execution_save now1 now2" for now1 now2
  by unfold_locales
    (auto simp: execution_findById_def execution_save_def execution_toDomain_def
      execution_cols_def entity.defs andThen_run)

section \<open>Handlers\<close>

record trigger_workflow_command = command +
  twc_definitionId :: string
  twc_triggerType :: execution_trigger
  twc_input :: object

definition new_trigger_workflow_command ::
  "string \<Rightarrow> string \<Rightarrow> string option \<Rightarrow> string \<Rightarrow> execution_trigger option \<Rightarrow> object option
     \<Rightarrow> string \<Rightarrow> time \<Rightarrow> trigger_workflow_command" where
  "new_trigger_workflow_command tenant corr actor definitionId triggerType input fresh now =
     command.extend (new_command tenant (Some corr) actor fresh fresh now)
       \<lparr>twc_definitionId = definitionId,
        twc_triggerType = (case triggerType of Some t \<Rightarrow> t | None \<Rightarrow> By_manual),
        twc_input = (case input of Some x \<Rightarrow> x | None \<Rightarrow> [])\<rparr>"

record trigger_workflow_result =
  twr_executionId :: string
  twr_definitionId :: string
  twr_status :: string

definition workflow_triggered_event ::
  "trigger_workflow_command \<Rightarrow> workflow_definition \<Rightarrow> execution \<Rightarrow> time \<Rightarrow> tenant_aware_event" where
  "workflow_triggered_event cmd wfdef saved now =
     \<lparr>te_eventId = ent_id saved, te_eventType = WORKFLOW_TRIGGERED, te_eventVersion = 1,
      te_tenantId = ex_tenantId saved, te_correlationId = ex_correlationId saved,
      te_actorId = cmd_actorId cmd, te_causationId = None, te_traceId = None,
      te_sourceService = ''atlas-saas-platform'', te_sourceVersion = None,
      te_occurredAt = toISOString now,
      te_payload = workflow_triggered_payload (ent_id saved) (ex_definitionId saved) (wd_name wfdef)
        (ex_triggeredBy saved) (execution_trigger_text (ex_triggerType saved)) (twc_input cmd),
      te_isReplay = None, te_replayId = None, te_replayedAt = None, te_replayReason = None,
      te_replaySourceEventId = None\<rparr>"

definition trigger_workflow_execute ::
  "'w definition_port \<Rightarrow> 'w execution_port \<Rightarrow> 'w publisher \<Rightarrow> trigger_workflow_command \<Rightarrow> string
     \<Rightarrow> (nat \<Rightarrow> time) \<Rightarrow> ('w, trigger_workflow_result result) io" where
  "trigger_workflow_execute D X publish cmd executionId tm =
     andThen (defs_findById D (twc_definitionId cmd)) (\<lambda>found.
       case found of
         None \<Rightarrow> ret (Fail (NotFoundException ''WorkflowDefinition'' (twc_definitionId cmd)))
       | Some wfdef \<Rightarrow>
           if \<not> wd_isActive wfdef
           then ret (Fail (PlainError (''Workflow definition '' @ [CHR 0x27] @ ent_id wfdef @ [CHR 0x27]
                  @ '' is not active'')))
           else
             andThen (execs_save X (ex_create (ent_id wfdef) (cmd_tenantId cmd) (cmd_correlationId cmd)
                (case cmd_actorId cmd of Some a \<Rightarrow> a | None \<Rightarrow> ''system'') (twc_triggerType cmd)
                (twc_input cmd) executionId (tm 0) (tm 1))) (\<lambda>saved.
             andThen (publish (workflow_triggered_event cmd wfdef saved (tm 2))) (\<lambda>_.
             ret (Ok \<lparr>twr_executionId = ent_id saved, twr_definitionId = ex_definitionId saved,
                      twr_status = execution_status_text (ex_status saved)\<rparr>))))"

record execution_dto =
  xd_executionId :: string
  xd_definitionId :: string
  xd_tenantId :: string
  xd_correlationId :: string
  xd_triggeredBy :: string
  xd_triggerType :: string
  xd_status :: string
  xd_input :: object
  xd_stepResults :: "step_result list"
  xd_startedAt :: "string option"
  xd_completedAt :: "string option"
  xd_durationMs :: "int option"
  xd_errorMessage :: "string option"
  xd_createdAt :: string

definition execution_dto_fromEntity :: "execution \<Rightarrow> execution_dto" where
  "execution_dto_fromEntity x =
     \<lparr>xd_executionId = ent_id x, xd_definitionId = ex_definitionId x, xd_tenantId = ex_tenantId x,
      xd_correlationId = ex_correlationId x, xd_triggeredBy = ex_triggeredBy x,
      xd_triggerType = execution_trigger_text (ex_triggerType x),
      xd_status = execution_status_text (ex_status x), xd_input = ex_input x,
      xd_stepResults = ex_stepResults x, xd_startedAt = map_option toISOString (ex_startedAt x),
      xd_completedAt = map_option toISOString (ex_completedAt x), xd_durationMs = ex_durationMs x,
      xd_errorMessage = ex_errorMessage x, xd_createdAt = toISOString (created_at x)\<rparr>"

record cancel_execution_command = command +
  cec_executionId :: string
  cec_reason :: "string option"

definition new_cancel_execution_command ::
  "string \<Rightarrow> string option \<Rightarrow> string \<Rightarrow> string option \<Rightarrow> string option \<Rightarrow> string \<Rightarrow> string \<Rightarrow> time
     \<Rightarrow> cancel_execution_command" where
  "new_cancel_execution_command i reason tenant corr actor fresh1 fresh2 now =
     command.extend (new_command tenant corr actor fresh1 fresh2 now)
       \<lparr>cec_executionId = i, cec_reason = reason\<rparr>"

definition cancel_execution_execute ::
  "'w execution_port \<Rightarrow> cancel_execution_command \<Rightarrow> (nat \<Rightarrow> time) \<Rightarrow> ('w, execution_dto result) io" where
  "cancel_execution_execute X cmd tm =
     andThen (execs_findById X (cec_executionId cmd)) (\<lambda>found.
       case found of
         None \<Rightarrow> ret (Fail (NotFoundException ''WorkflowExecution'' (cec_executionId cmd)))
       | Some execution \<Rightarrow>
           andThen (lift (ex_cancel (cec_reason cmd) (tm 0) (tm 1) execution)) (\<lambda>cancelled.
           andThen (execs_save X cancelled) (\<lambda>saved.
           ret (Ok (execution_dto_fromEntity saved)))))"

record get_execution_query = query_base +
  geq_executionId :: string

definition get_execution_execute ::
  "'w execution_port \<Rightarrow> get_execution_query \<Rightarrow> ('w, execution_dto result) io" where
  "get_execution_execute X qry =
     andThen (execs_findById X (geq_executionId qry)) (\<lambda>found.
       case found of
         None \<Rightarrow> ret (Fail (NotFoundException ''WorkflowExecution'' (geq_executionId qry)))
       | Some execution \<Rightarrow> ret (Ok (execution_dto_fromEntity execution)))"

record list_executions_query = query_base +
  leq_status :: "execution_status option"
  leq_page :: int
  leq_limit :: int

definition new_list_executions_query ::
  "string \<Rightarrow> string option \<Rightarrow> execution_status option \<Rightarrow> int option \<Rightarrow> int option \<Rightarrow> string \<Rightarrow> string
     \<Rightarrow> time \<Rightarrow> list_executions_query" where
  "new_list_executions_query tenant corr status page limit fresh1 fresh2 now =
     query_base.extend (new_query tenant corr fresh1 fresh2 now)
       \<lparr>leq_status = status, leq_page = (case page of Some p \<Rightarrow> p | None \<Rightarrow> 1),
        leq_limit = (case limit of Some l \<Rightarrow> l | None \<Rightarrow> 20)\<rparr>"

definition list_executions_execute ::
  "'w execution_port \<Rightarrow> list_executions_query \<Rightarrow> ('w, execution_dto paginated_result result) io" where
  "list_executions_execute X qry =
     andThen (execs_findMany X (leq_status qry) \<lparr>opt_page = Some (leq_page qry), opt_limit = Some (leq_limit qry)\<rparr>)
       (\<lambda>result. ret (Ok \<lparr>pr_data = map execution_dto_fromEntity (pr_data result), pr_meta = pr_meta result\<rparr>))"

section \<open>The controller\<close>

text \<open>What the decorators of the query and of the body accept.\<close>

definition list_params_valid :: "int option \<Rightarrow> int option \<Rightarrow> bool" where
  "list_params_valid page limit \<longleftrightarrow>
     (case page of None \<Rightarrow> True | Some p \<Rightarrow> 1 \<le> p) \<and>
     (case limit of None \<Rightarrow> True | Some l \<Rightarrow> 1 \<le> l \<and> l \<le> 100)"

definition cancel_body_valid :: "string option \<Rightarrow> bool" where
  "cancel_body_valid reason \<longleftrightarrow> (case reason of None \<Rightarrow> True | Some r \<Rightarrow> Length_ok 1 500 r)"

definition listExecutions ::
  "'w execution_port \<Rightarrow> execution_status option \<Rightarrow> int option \<Rightarrow> int option \<Rightarrow> string \<Rightarrow> user_value
     \<Rightarrow> (nat \<Rightarrow> string) \<Rightarrow> time \<Rightarrow> ('w, execution_dto paginated_result) io" where
  "listExecutions X status page limit tenantId user ids now =
     andThen (lift (user_member (\<lambda>u. None :: string option) user)) (\<lambda>corr.
       unwrapped (list_executions_execute X
         (new_list_executions_query tenantId corr status page limit (ids 0) (ids 1) now)))"

definition getExecution ::
  "'w execution_port \<Rightarrow> string \<Rightarrow> string \<Rightarrow> user_value \<Rightarrow> (nat \<Rightarrow> string) \<Rightarrow> time \<Rightarrow> ('w, execution_dto) io" where
  "getExecution X i tenantId user ids now =
     andThen (lift (user_member (\<lambda>u. None :: string option) user)) (\<lambda>corr.
       unwrapped (get_execution_execute X
         (query_base.extend (new_query tenantId corr (ids 0) (ids 1) now) \<lparr>geq_executionId = i\<rparr>)))"

definition cancelExecution ::
  "'w execution_port \<Rightarrow> string \<Rightarrow> string option \<Rightarrow> string \<Rightarrow> user_value \<Rightarrow> (nat \<Rightarrow> string)
     \<Rightarrow> (nat \<Rightarrow> time) \<Rightarrow> ('w, execution_dto) io" where
  "cancelExecution X i reason tenantId user ids tm =
     andThen (lift (user_member (\<lambda>u. Some (jwt_sub u)) user)) (\<lambda>sub.
       unwrapped (cancel_execution_execute X
         (new_cancel_execution_command i reason tenantId None sub (ids 0) (ids 1) (tm 0))
         (\<lambda>k. tm (1 + k))))"

section \<open>The life of an execution\<close>

text \<open>One call of a public mutator, with any arguments, that does not throw.\<close>

inductive ex_step :: "execution \<Rightarrow> execution \<Rightarrow> bool" where
  start: "ex_start t1 t2 x = Inr y \<Longrightarrow> ex_step x y"
| complete: "ex_step x (ex_complete out t1 t2 x)"
| fail: "ex_step x (ex_fail m t1 t2 x)"
| cancel: "ex_cancel r t1 t2 x = Inr y \<Longrightarrow> ex_step x y"

inductive ex_reachable :: "execution \<Rightarrow> bool" where
  create: "ex_reachable (ex_create d t c b k inp f n1 n2)"
| step: "ex_reachable x \<Longrightarrow> ex_step x y \<Longrightarrow> ex_reachable y"

definition ex_terminal :: "execution_status \<Rightarrow> bool" where
  "ex_terminal s \<longleftrightarrow> s \<in> {Exec_completed, Exec_failed, Exec_cancelled}"

text \<open>
  The life cycle the mutators implement: starting and cancelling are guarded, completing and
  failing are not.
\<close>

inductive ex_lifecycle :: "execution_status \<Rightarrow> execution_status \<Rightarrow> bool" where
  "ex_lifecycle Exec_pending Exec_running"
| "ex_lifecycle s Exec_completed"
| "ex_lifecycle s Exec_failed"
| "\<not> ex_terminal s \<Longrightarrow> ex_lifecycle s Exec_cancelled"

inductive_simps ex_lifecycle_iff: "ex_lifecycle s t"

definition ex_inv :: "execution \<Rightarrow> bool" where
  "ex_inv x \<longleftrightarrow>
     (ex_terminal (ex_status x) \<longleftrightarrow> ex_completedAt x \<noteq> None) \<and>
     (ex_status x = Exec_pending \<longrightarrow> ex_startedAt x = None \<and> ex_errorMessage x = None) \<and>
     (ex_status x = Exec_running \<longrightarrow> ex_startedAt x \<noteq> None) \<and>
     (ex_durationMs x \<noteq> None \<longrightarrow> ex_startedAt x \<noteq> None \<and> ex_terminal (ex_status x))"

lemma touch_execution [simp]:
  "ex_status (touch t x) = ex_status x" "ex_tenantId (touch t x) = ex_tenantId x"
  "ex_definitionId (touch t x) = ex_definitionId x" "ex_input (touch t x) = ex_input x"
  "ex_startedAt (touch t x) = ex_startedAt x" "ex_completedAt (touch t x) = ex_completedAt x"
  "ex_durationMs (touch t x) = ex_durationMs x" "ex_errorMessage (touch t x) = ex_errorMessage x"
  by (simp_all add: touch_def)

lemma with_duration_simps [simp]:
  "ex_status (with_duration t x) = ex_status x" "ex_tenantId (with_duration t x) = ex_tenantId x"
  "ex_definitionId (with_duration t x) = ex_definitionId x" "ex_input (with_duration t x) = ex_input x"
  "ex_startedAt (with_duration t x) = ex_startedAt x" "ex_completedAt (with_duration t x) = ex_completedAt x"
  "ex_errorMessage (with_duration t x) = ex_errorMessage x" "ent_id (with_duration t x) = ent_id x"
  "created_at (with_duration t x) = created_at x"
  "ex_durationMs (with_duration t x) = (case ex_startedAt x of None \<Rightarrow> ex_durationMs x | Some s \<Rightarrow> Some (t - s))"
  by (simp_all add: with_duration_def split: option.split)

lemmas ex_op_defs = ex_start_def ex_complete_def ex_fail_def ex_cancel_def

lemma ex_create_inv: "ex_inv (ex_create d t c b k inp f n1 n2)"
  by (simp add: ex_inv_def ex_create_def ex_terminal_def entity.defs)

lemma ex_step_inv: "ex_step x y \<Longrightarrow> ex_inv x \<Longrightarrow> ex_inv y"
  by (induction rule: ex_step.induct)
    (auto simp: ex_op_defs ex_inv_def ex_terminal_def Let_def split: if_splits option.splits)

lemma ex_reachable_inv: "ex_reachable x \<Longrightarrow> ex_inv x"
  by (induction rule: ex_reachable.induct) (auto intro: ex_create_inv ex_step_inv)

lemma ex_step_refines: "ex_step x y \<Longrightarrow> ex_lifecycle (ex_status x) (ex_status y)"
  by (induction rule: ex_step.induct)
    (auto simp: ex_op_defs ex_lifecycle_iff ex_terminal_def Let_def split: if_splits)

text \<open>What identifies an execution never changes.\<close>

lemma ex_step_frame:
  "ex_step x y \<Longrightarrow> ent_id y = ent_id x \<and> ex_tenantId y = ex_tenantId x
     \<and> ex_definitionId y = ex_definitionId x \<and> ex_input y = ex_input x \<and> created_at y = created_at x"
  by (induction rule: ex_step.induct) (auto simp: ex_op_defs Let_def split: if_splits)

lemma ex_cancel_result:
  "ex_cancel r t1 t2 x = Inr y \<longleftrightarrow>
     \<not> ex_terminal (ex_status x) \<and>
     y = touch t2 (let c = with_duration t1 (x\<lparr>ex_status := Exec_cancelled, ex_completedAt := Some t1\<rparr>)
                   in if truthy r then c\<lparr>ex_errorMessage := r\<rparr> else c)"
  by (auto simp: ex_cancel_def ex_terminal_def Let_def)

lemma ex_cancel_throws:
  "ex_terminal (ex_status x) \<Longrightarrow> \<exists>m. ex_cancel r t1 t2 x = Inl (ConflictException m)"
  by (auto simp: ex_cancel_def ex_terminal_def)

text \<open>Completing has no guard: a cancelled execution can still complete.\<close>

lemma ex_complete_anyway: "ex_status (ex_complete out t1 t2 x) = Exec_completed"
  by (simp add: ex_complete_def)

section \<open>Facts about the repository and the handlers\<close>

lemma execution_round_trip:
  "execution_toDomain (created_at x) (updated_at x) (execution_toOrm x) = x"
  by (simp add: execution_toDomain_def execution_toOrm_def new_entity_def entity.defs)

lemma execution_toDomain_dates:
  "created_at (execution_toDomain n1 n2 (execution_toOrm x)) = n1"
  by (simp add: execution_toDomain_def execution_toOrm_def new_entity_def entity.defs)

lemma execution_findMany_isolated:
  assumes "where_sound execution_cols T"
    and "execution_findMany n1 n2 T tid st opts w = (Inr res, w')" and "x \<in> set (pr_data res)"
  shows "tid = Some (ex_tenantId x)" and "st = Some s \<Longrightarrow> ex_status x = s"
proof -
  let ?c = "\<lambda>q. case st of None \<Rightarrow> q | Some s \<Rightarrow> qb_andWhere (CEq ''status'' (SStr (execution_status_text s))) q"
  let ?q = "\<lambda>q. qb_take (execution_limit opts)
      (qb_skip ((execution_page opts - 1) * execution_limit opts) (qb_orderBy ''createdAt'' True (?c q)))"
  from assms(2,3) obtain q rows n r where q: "scopedQb execution_repo_name tid = Inr q"
    and find: "find_and_count T (?q q) w = (Inr (rows, n), w')" and r: "r \<in> set rows"
    and x: "x = execution_toDomain n1 n2 r"
    by (auto simp: execution_findMany_def execution_page_of_def Let_def andThen_run
        split: sum.splits prod.splits)
  have sat: "sat_all (execution_cols r) (?q q)"
    using where_sound_count [OF assms(1) find r] .
  then have "sat_all (execution_cols r) q" by (simp split: option.splits)
  with q x show "tid = Some (ex_tenantId x)"
    by (auto simp: scopedQb_Inr_iff execution_cols_def execution_toDomain_def entity.defs)
  assume "st = Some s"
  with sat x show "ex_status x = s"
    by (cases s; cases "xr_status r") (simp_all add: execution_cols_def execution_toDomain_def entity.defs)
qed

lemma execution_limit_max: "execution_limit opts \<le> 100"
  by (simp add: execution_limit_def)

lemma trigger_not_found:
  assumes "defs_findById D (twc_definitionId cmd) w = (Inr None, w')"
  shows "trigger_workflow_execute D X publish cmd i tm w
    = (Inr (Fail (NotFoundException ''WorkflowDefinition'' (twc_definitionId cmd))), w')"
  using assms by (simp add: trigger_workflow_execute_def andThen_run)

lemma trigger_not_active:
  assumes "defs_findById D (twc_definitionId cmd) w = (Inr (Some d), w')" and "\<not> wd_isActive d"
  shows "\<exists>m. trigger_workflow_execute D X publish cmd i tm w = (Inr (Fail (PlainError m)), w')"
  using assms by (simp add: trigger_workflow_execute_def andThen_run)

lemma trigger_ok:
  assumes "trigger_workflow_execute D X publish cmd i tm w = (Inr (Ok r), w')"
  obtains d saved w1 w2 where
    "defs_findById D (twc_definitionId cmd) w = (Inr (Some d), w1)" "wd_isActive d"
    "execs_save X (ex_create (ent_id d) (cmd_tenantId cmd) (cmd_correlationId cmd)
       (case cmd_actorId cmd of Some a \<Rightarrow> a | None \<Rightarrow> ''system'') (twc_triggerType cmd)
       (twc_input cmd) i (tm 0) (tm 1)) w1 = (Inr saved, w2)"
    "publish (workflow_triggered_event cmd d saved (tm 2)) w2 = (Inr (), w')"
    "twr_executionId r = ent_id saved" "twr_status r = execution_status_text (ex_status saved)"
  using assms
  by (auto simp: trigger_workflow_execute_def andThen_run split: sum.splits prod.splits option.splits if_splits)

text \<open>
  Triggering with the repositories of one tenant: definition, execution and command belong to
  the tenant of the context.
\<close>

lemma trigger_isolated:
  assumes "where_sound definition_cols TD"
    and "trigger_workflow_execute (definition_repository n1 n2 TD tid) (execution_repository n3 n4 TX tid)
       publish cmd i tm w = (Inr (Ok r), w')"
  shows "tid = Some (cmd_tenantId cmd)"
    and "\<exists>d w1. definition_findById n1 n2 TD tid (twc_definitionId cmd) w = (Inr (Some d), w1)
       \<and> wd_tenantId d = cmd_tenantId cmd \<and> wd_isActive d"
proof -
  from assms(2) obtain d saved w1 w2 where
    d: "definition_findById n1 n2 TD tid (twc_definitionId cmd) w = (Inr (Some d), w1)" "wd_isActive d"
    and saved: "execution_save n3 n4 TX tid (ex_create (ent_id d) (cmd_tenantId cmd) (cmd_correlationId cmd)
       (case cmd_actorId cmd of Some a \<Rightarrow> a | None \<Rightarrow> ''system'') (twc_triggerType cmd)
       (twc_input cmd) i (tm 0) (tm 1)) w1 = (Inr saved, w2)"
    by (rule trigger_ok) (simp add: definition_repository_def execution_repository_def)
  from execution_repo.write_returns_own_tenant [OF saved]
  show tid: "tid = Some (cmd_tenantId cmd)"
    by (simp add: ex_create_def entity.defs)
  from definition_repo.find_isolated [OF assms(1) d(1)] tid d
  show "\<exists>d w1. definition_findById n1 n2 TD tid (twc_definitionId cmd) w = (Inr (Some d), w1)
       \<and> wd_tenantId d = cmd_tenantId cmd \<and> wd_isActive d"
    by auto
qed

lemma cancel_terminal:
  assumes "execs_findById X (cec_executionId cmd) w = (Inr (Some x), w')" and "ex_terminal (ex_status x)"
  shows "\<exists>m. cancel_execution_execute X cmd tm w = (Inl (ConflictException m), w')"
  using ex_cancel_throws [OF assms(2), of "cec_reason cmd" "tm 0" "tm 1"] assms(1)
  by (auto simp: cancel_execution_execute_def andThen_run)

end
