(* ===== verification/Dashboard.thy ===== *)
theory Dashboard
  imports AuditTrail WorkflowExecution
begin

text \<open>
  The dashboard read model, \<open>apps/api/src/modules/dashboard\<close>: the metrics and event-series
  queries and their controller. The handlers read the tenant from the ambient context. The
  queries of one \<open>Promise.all\<close> are run here in the order they are listed.

  \<open>Repository.count\<close> and \<open>getCount\<close> are \<open>count_rows\<close> of a table; a grouped \<open>getRawMany\<close> is an
  argument that answers one row per day, its count already read by \<open>Number\<close>.
\<close>

section \<open>Metrics\<close>

record dashboard_metrics =
  dm_totalEvents :: nat
  dm_activeWorkflows :: nat
  dm_failedExecutions :: nat
  dm_tenantCount :: nat
  dm_eventsTrend :: int
  dm_failedTrend :: int

text \<open>
  \<open>percentChange\<close> in tenths of a percent: \<open>Math.round(raw * 10)\<close> rounds half up. The quotient
  is exact here; the code's is a double, which can differ only where it lies on a half.
\<close>

definition round_half_up :: "int \<Rightarrow> int \<Rightarrow> int" where
  "round_half_up a b = (2 * a + b) div (2 * b)"

definition percentChange :: "int \<Rightarrow> int \<Rightarrow> int" where
  "percentChange current previous =
     (let denominator = max previous 1
      in round_half_up ((current - previous) * 1000) denominator)"

definition tenant_qb :: "string \<Rightarrow> query" where
  "tenant_qb tenantId = qb_where (CEq ''tenantId'' (SStr tenantId)) createQueryBuilder"

definition active_workflows_qb :: "string \<Rightarrow> query" where
  "active_workflows_qb t =
     qb_andWhere (CIn ''status'' [SStr ''running'', SStr ''pending'']) (tenant_qb t)"

definition failed_since_qb :: "string \<Rightarrow> time \<Rightarrow> query" where
  "failed_since_qb t from_time =
     qb_andWhere (CGe ''createdAt'' (STime from_time))
       (qb_andWhere (CEq ''status'' (SStr ''failed'')) (tenant_qb t))"

definition failed_between_qb :: "string \<Rightarrow> time \<Rightarrow> time \<Rightarrow> query" where
  "failed_between_qb t from_time to_time =
     qb_andWhere (CLt ''createdAt'' (STime to_time)) (failed_since_qb t from_time)"

definition events_since_qb :: "string \<Rightarrow> time \<Rightarrow> query" where
  "events_since_qb t from_time = qb_andWhere (CGe ''occurredAt'' (STime from_time)) (tenant_qb t)"

definition events_between_qb :: "string \<Rightarrow> time \<Rightarrow> time \<Rightarrow> query" where
  "events_between_qb t from_time to_time =
     qb_andWhere (CLt ''occurredAt'' (STime to_time)) (events_since_qb t from_time)"

definition metrics_execute ::
  "('w, audit_row) table \<Rightarrow> ('w, execution_row) table \<Rightarrow> ('w, org_row) table \<Rightarrow> als \<Rightarrow> time
     \<Rightarrow> ('w, dashboard_metrics) io" where
  "metrics_execute auditRepo executionRepo organizationRepo ctx now =
     andThen (lift (context_tenantId ctx)) (\<lambda>tenantId.
       let last24hStart = now - DAY_MS; prev24hStart = now - 2 * DAY_MS
       in andThen (count_rows auditRepo (find_options [(''tenantId'', SStr tenantId)])) (\<lambda>totalEvents.
          andThen (count_rows executionRepo (active_workflows_qb tenantId)) (\<lambda>activeWorkflows.
          andThen (count_rows executionRepo (failed_since_qb tenantId last24hStart)) (\<lambda>failedLast.
          andThen (count_rows executionRepo (failed_between_qb tenantId prev24hStart last24hStart)) (\<lambda>failedPrev.
          andThen (count_rows organizationRepo createQueryBuilder) (\<lambda>tenantCount.
          andThen (count_rows auditRepo (events_since_qb tenantId last24hStart)) (\<lambda>eventsLast.
          andThen (count_rows auditRepo (events_between_qb tenantId prev24hStart last24hStart)) (\<lambda>eventsPrev.
          ret \<lparr>dm_totalEvents = totalEvents, dm_activeWorkflows = activeWorkflows,
               dm_failedExecutions = failedLast, dm_tenantCount = tenantCount,
               dm_eventsTrend = percentChange (int eventsLast) (int eventsPrev),
               dm_failedTrend = percentChange (int failedLast) (int failedPrev)\<rparr>))))))))"

section \<open>The event series\<close>

record event_series_point =
  pt_time :: string
  pt_events :: int
  pt_failures :: int

definition SERIES_DAYS :: nat where
  "SERIES_DAYS = 7"

definition startOfUtcDay :: "time \<Rightarrow> time" where
  "startOfUtcDay d = (d div DAY_MS) * DAY_MS"

definition formatDay :: "time \<Rightarrow> string" where
  "formatDay d =
     (let (y, m, dd) = civil (d div DAY_MS)
      in padStart 4 (show_int y) @ ''-'' @ padStart 2 (show_int m) @ ''-'' @ padStart 2 (show_int dd))"

text \<open>\<open>indexByDay\<close>: a later row of the same day replaces an earlier one.\<close>

definition indexByDay :: "(string \<times> int) list \<Rightarrow> string \<Rightarrow> int option" where
  "indexByDay rows = foldl (\<lambda>m (day, count). m(day \<mapsto> count)) Map.empty rows"

definition series_windowStart :: "time \<Rightarrow> time" where
  "series_windowStart now = startOfUtcDay now - (int SERIES_DAYS - 1) * DAY_MS"

definition event_series_of ::
  "time \<Rightarrow> (string \<times> int) list \<Rightarrow> (string \<times> int) list \<Rightarrow> event_series_point list" where
  "event_series_of windowStart eventRows failureRows =
     map (\<lambda>i. let key = formatDay (windowStart + int i * DAY_MS)
              in \<lparr>pt_time = key,
                  pt_events = (case indexByDay eventRows key of Some n \<Rightarrow> n | None \<Rightarrow> 0),
                  pt_failures = (case indexByDay failureRows key of Some n \<Rightarrow> n | None \<Rightarrow> 0)\<rparr>)
       [0..<SERIES_DAYS]"

type_synonym 'w daily_counts = "query \<Rightarrow> ('w, (string \<times> int) list) io"

definition event_series_execute ::
  "'w daily_counts \<Rightarrow> 'w daily_counts \<Rightarrow> als \<Rightarrow> time \<Rightarrow> ('w, event_series_point list) io" where
  "event_series_execute auditDaily executionDaily ctx now =
     andThen (lift (context_tenantId ctx)) (\<lambda>tenantId.
       let windowStart = series_windowStart now
       in andThen (auditDaily (events_since_qb tenantId windowStart)) (\<lambda>eventRows.
          andThen (executionDaily (failed_since_qb tenantId windowStart)) (\<lambda>failureRows.
          ret (event_series_of windowStart eventRows failureRows))))"

section \<open>The controller\<close>

text \<open>
  \<open>this.tenantContext.tenantId\<close> and \<open>correlationId\<close> throw without a context; the answer is
  wrapped as \<open>{ data }\<close>. The query carries both and the handlers read neither.
\<close>

record 'a data_reply =
  reply_data :: 'a

definition dashboard_metrics_endpoint ::
  "('w, audit_row) table \<Rightarrow> ('w, execution_row) table \<Rightarrow> ('w, org_row) table \<Rightarrow> als \<Rightarrow> time
     \<Rightarrow> ('w, dashboard_metrics data_reply) io" where
  "dashboard_metrics_endpoint A X G ctx now =
     andThen (lift (context_tenantId ctx)) (\<lambda>_.
     andThen (lift (context_correlationId ctx)) (\<lambda>_.
     andThen (metrics_execute A X G ctx now) (\<lambda>metrics. ret \<lparr>reply_data = metrics\<rparr>)))"

definition dashboard_series_endpoint ::
  "'w daily_counts \<Rightarrow> 'w daily_counts \<Rightarrow> als \<Rightarrow> time \<Rightarrow> ('w, event_series_point list data_reply) io" where
  "dashboard_series_endpoint A X ctx now =
     andThen (lift (context_tenantId ctx)) (\<lambda>_.
     andThen (lift (context_correlationId ctx)) (\<lambda>_.
     andThen (event_series_execute A X ctx now) (\<lambda>series. ret \<lparr>reply_data = series\<rparr>)))"

section \<open>Facts\<close>

lemma dashboard_queries_scoped [simp]:
  "tenant_scoped_query t (find_options [(''tenantId'', SStr t)])"
  "tenant_scoped_query t (active_workflows_qb t)" "tenant_scoped_query t (failed_since_qb t a)"
  "tenant_scoped_query t (failed_between_qb t a b)" "tenant_scoped_query t (events_since_qb t a)"
  "tenant_scoped_query t (events_between_qb t a b)"
  by (simp_all add: active_workflows_qb_def failed_since_qb_def
      failed_between_qb_def events_since_qb_def events_between_qb_def tenant_qb_def)

lemma context_tenantId_Some [simp]: "context_tenantId (Some c) = Inr (tc_tenantId c)"
  by (simp add: context_tenantId_def getContext_def)

lemma context_tenantId_None [simp]: "\<exists>m. context_tenantId None = Inl (PlainError m)"
  by (simp add: context_tenantId_def getContext_def)

text \<open>
  What a tenant sees depends on the tables' answers to queries scoped to that tenant, and on
  the number of organizations.
\<close>

lemma metrics_scoped:
  assumes "\<And>q. tenant_scoped_query (tc_tenantId c) q \<Longrightarrow> count_rows A q = count_rows A' q"
    and "\<And>q. tenant_scoped_query (tc_tenantId c) q \<Longrightarrow> count_rows X q = count_rows X' q"
  shows "metrics_execute A X G (Some c) now = metrics_execute A' X' G (Some c) now"
  unfolding metrics_execute_def by (simp add: assms)

lemma series_scoped:
  assumes "\<And>q. tenant_scoped_query (tc_tenantId c) q \<Longrightarrow> A q = A' q"
    and "\<And>q. tenant_scoped_query (tc_tenantId c) q \<Longrightarrow> X q = X' q"
  shows "event_series_execute A X (Some c) now = event_series_execute A' X' (Some c) now"
  unfolding event_series_execute_def by (simp add: assms)

lemma dashboard_needs_context:
  "\<exists>m. dashboard_metrics_endpoint A X G None now w = (Inl (PlainError m), w)"
  "\<exists>m. dashboard_series_endpoint ad ed None now w = (Inl (PlainError m), w)"
  by (simp_all add: dashboard_metrics_endpoint_def dashboard_series_endpoint_def context_tenantId_def
      getContext_def)

lemma series_length [simp]: "length (event_series_of s er fr) = 7"
  by (simp add: event_series_of_def SERIES_DAYS_def)

lemma DAY_MS_div: "(n * DAY_MS) div DAY_MS = n"
  by (simp add: DAY_MS_def)

lemma windowStart_day: "(series_windowStart now + int i * DAY_MS) div DAY_MS = now div DAY_MS - 6 + int i"
proof -
  have "series_windowStart now + int i * DAY_MS = (now div DAY_MS - 6 + int i) * DAY_MS"
    by (simp add: series_windowStart_def startOfUtcDay_def SERIES_DAYS_def algebra_simps)
  then show ?thesis by (simp add: DAY_MS_def)
qed

definition day_key :: "int \<Rightarrow> string" where
  "day_key n = formatDay (n * DAY_MS)"

lemma series_point:
  assumes "i < 7"
  shows "pt_time (event_series_of (series_windowStart now) er fr ! i) = day_key (now div DAY_MS - 6 + int i)"
proof -
  have "[0..<SERIES_DAYS] ! i = i" and "i < length [0..<SERIES_DAYS]"
    using assms by (simp_all add: SERIES_DAYS_def)
  then have "pt_time (event_series_of (series_windowStart now) er fr ! i)
      = formatDay (series_windowStart now + int i * DAY_MS)"
    by (simp only: event_series_of_def nth_map Let_def event_series_point.simps)
  also have "\<dots> = day_key (now div DAY_MS - 6 + int i)"
    by (simp only: day_key_def formatDay_def windowStart_day DAY_MS_div)
  finally show ?thesis .
qed

text \<open>The series starts less than seven days before now, at a midnight, and ends today.\<close>

lemma windowStart_bounds:
  "series_windowStart now \<le> now" "now < series_windowStart now + 7 * DAY_MS"
  "series_windowStart now mod DAY_MS = 0"
proof -
  have s: "series_windowStart now = (now div DAY_MS - 6) * DAY_MS"
    by (simp add: series_windowStart_def startOfUtcDay_def SERIES_DAYS_def algebra_simps)
  have "now div DAY_MS * DAY_MS + now mod DAY_MS = now" "0 \<le> now mod DAY_MS" "now mod DAY_MS < DAY_MS"
    by (simp_all add: DAY_MS_def)
  with s show "series_windowStart now \<le> now" "now < series_windowStart now + 7 * DAY_MS"
    by (simp_all add: algebra_simps DAY_MS_def)
  show "series_windowStart now mod DAY_MS = 0" by (simp add: s)
qed

lemma percentChange_same: "percentChange n n = 0"
  by (simp add: percentChange_def round_half_up_def Let_def)

text \<open>The rounded value is within half a tenth of the exact one.\<close>

lemma round_half_up_bounds:
  assumes "0 < b"
  shows "2 * a - b < 2 * b * round_half_up a b" and "2 * b * round_half_up a b \<le> 2 * a + b"
proof -
  define q r where "q = (2 * a + b) div (2 * b)" and "r = (2 * a + b) mod (2 * b)"
  have "2 * b * q + r = 2 * a + b"
    by (simp add: q_def r_def)
  moreover have "0 \<le> r" "r < 2 * b"
    using assms by (simp_all add: r_def)
  ultimately show "2 * a - b < 2 * b * round_half_up a b" "2 * b * round_half_up a b \<le> 2 * a + b"
    by (simp_all add: round_half_up_def q_def)
qed

end
