(* ===== verification/Http.thy ===== *)
theory Http
  imports Identity Dashboard
begin

text \<open>
  The HTTP surface of the platform: the decorators of the five controllers as a table of
  routes, and the way a request takes through \<open>app.module.ts\<close> and \<open>main.ts\<close> to a controller
  method: the tenant-context middleware, the guards, the validation of parameters, the method.
\<close>

section \<open>Routes\<close>

datatype endpoint =
    Create_organization | Get_organization | Update_organization | Suspend_organization
  | Register | Login
  | Audit_events | Audit_event
  | List_executions | Get_execution | Cancel_execution
  | Dashboard_metrics | Dashboard_series

text \<open>Method, path below \<open>/v1\<close>, and the metadata of handler and class.\<close>

definition tenant_core_endpoints :: "(endpoint \<times> string \<times> string) list" where
  "tenant_core_endpoints =
     [(Create_organization, ''POST'', ''/organizations''),
      (Get_organization, ''GET'', ''/organizations/:id''),
      (Update_organization, ''PATCH'', ''/organizations/:id''),
      (Suspend_organization, ''POST'', ''/organizations/:id/suspend'')]"

definition identity_endpoints :: "(endpoint \<times> string \<times> string) list" where
  "identity_endpoints =
     [(Register, ''POST'', ''/auth/register''),
      (Login, ''POST'', ''/auth/login'')]"

definition audit_endpoints :: "(endpoint \<times> string \<times> string) list" where
  "audit_endpoints =
     [(Audit_events, ''GET'', ''/audit/events''),
      (Audit_event, ''GET'', ''/audit/events/:id'')]"

definition workflow_endpoints :: "(endpoint \<times> string \<times> string) list" where
  "workflow_endpoints =
     [(List_executions, ''GET'', ''/workflows/executions''),
      (Get_execution, ''GET'', ''/workflows/executions/:id''),
      (Cancel_execution, ''POST'', ''/workflows/executions/:id/cancel'')]"

definition dashboard_endpoints :: "(endpoint \<times> string \<times> string) list" where
  "dashboard_endpoints =
     [(Dashboard_metrics, ''GET'', ''/dashboard/metrics''),
      (Dashboard_series, ''GET'', ''/dashboard/event-series'')]"

text \<open>The surface of the API: the routes of all five controllers.\<close>

definition endpoints :: "(endpoint \<times> string \<times> string) list" where
  "endpoints = tenant_core_endpoints @ identity_endpoints @ audit_endpoints @ workflow_endpoints
     @ dashboard_endpoints"

lemmas endpoint_tables = endpoints_def tenant_core_endpoints_def identity_endpoints_def
  audit_endpoints_def workflow_endpoints_def dashboard_endpoints_def

lemma endpoints_total: "\<exists>!mp. (ep, mp) \<in> set endpoints"
  by (cases ep) (simp_all add: endpoint_tables)

lemma endpoints_unambiguous: "distinct (map snd endpoints)"
  by (simp add: endpoint_tables)

definition tenant_core_route :: "membership_role list option \<Rightarrow> route" where
  "tenant_core_route roles =
     \<lparr>rt_public = False, rt_handlerRoles = roles, rt_classRoles = None, rt_rbac = True\<rparr>"

definition identity_route :: route where
  "identity_route =
     \<lparr>rt_public = True, rt_handlerRoles = None, rt_classRoles = None, rt_rbac = False\<rparr>"

definition audit_route :: route where
  "audit_route =
     \<lparr>rt_public = False, rt_handlerRoles = None, rt_classRoles = Some [ADMIN], rt_rbac = True\<rparr>"

definition workflow_route :: "membership_role list option \<Rightarrow> route" where
  "workflow_route roles =
     \<lparr>rt_public = False, rt_handlerRoles = roles, rt_classRoles = None, rt_rbac = True\<rparr>"

definition dashboard_route :: route where
  "dashboard_route =
     \<lparr>rt_public = False, rt_handlerRoles = None, rt_classRoles = Some [VIEWER], rt_rbac = True\<rparr>"

fun route_of :: "endpoint \<Rightarrow> route" where
  "route_of Create_organization = tenant_core_route None"
| "route_of Get_organization = tenant_core_route (Some [VIEWER])"
| "route_of Update_organization = tenant_core_route (Some [ADMIN])"
| "route_of Suspend_organization = tenant_core_route (Some [OWNER])"
| "route_of Register = identity_route"
| "route_of Login = identity_route"
| "route_of Audit_events = audit_route"
| "route_of Audit_event = audit_route"
| "route_of List_executions = workflow_route (Some [MEMBER])"
| "route_of Get_execution = workflow_route (Some [MEMBER])"
| "route_of Cancel_execution = workflow_route (Some [ADMIN])"
| "route_of Dashboard_metrics = dashboard_route"
| "route_of Dashboard_series = dashboard_route"

section \<open>The way of a request\<close>

text \<open>
  \<open>fresh1\<close>, \<open>fresh2\<close> and \<open>now\<close> are what the middleware takes; the controller runs in the store
  it leaves and on the request the guards leave.
\<close>

definition serve ::
  "passport \<Rightarrow> endpoint \<Rightarrow> http_request \<Rightarrow> string \<Rightarrow> string \<Rightarrow> time
     \<Rightarrow> (als \<Rightarrow> http_request \<Rightarrow> ('w, 'a) io) \<Rightarrow> ('w, 'a) io" where
  "serve passport ep req fresh1 fresh2 now controller =
     (let store = fst (middleware_use req None fresh1 fresh2 now)
      in andThen (lift (authorize passport (route_of ep) req)) (\<lambda>req'. controller store req'))"

text \<open>A body or query that its decorators refuse never reaches the method.\<close>

definition validated :: "bool \<Rightarrow> ('w, 'a) io \<Rightarrow> ('w, 'a) io" where
  "validated ok m = (if ok then m else throw (NestBadRequestException ''Bad Request''))"

definition http_create_organization ::
  "('w, org_row) table \<Rightarrow> 'w publisher \<Rightarrow> create_organization_body \<Rightarrow> (nat \<Rightarrow> string) \<Rightarrow> (nat \<Rightarrow> time)
     \<Rightarrow> als \<Rightarrow> http_request \<Rightarrow> ('w, organization_dto) io" where
  "http_create_organization T publish body ids tm store req =
     validated (create_body_valid body)
       (createOrganization (organization_repository T (tryGetTenantId store)) publish body
          (CurrentUser_decorator req) ids tm)"

definition http_update_organization ::
  "('w, org_row) table \<Rightarrow> string \<Rightarrow> update_organization_body \<Rightarrow> (nat \<Rightarrow> string) \<Rightarrow> (nat \<Rightarrow> time)
     \<Rightarrow> als \<Rightarrow> http_request \<Rightarrow> ('w, organization_dto) io" where
  "http_update_organization T i body ids tm store req =
     validated (update_body_valid body)
       (andThen (lift (TenantId_decorator req)) (\<lambda>tenantId.
          updateOrganization (organization_repository T (tryGetTenantId store)) i body tenantId
            (CurrentUser_decorator req) ids tm))"

definition http_suspend_organization ::
  "('w, org_row) table \<Rightarrow> 'w publisher \<Rightarrow> string \<Rightarrow> string option \<Rightarrow> (nat \<Rightarrow> string) \<Rightarrow> (nat \<Rightarrow> time)
     \<Rightarrow> als \<Rightarrow> http_request \<Rightarrow> ('w, organization_dto) io" where
  "http_suspend_organization T publish i reason ids tm store req =
     validated (suspend_body_valid reason)
       (andThen (lift (TenantId_decorator req)) (\<lambda>tenantId.
          suspendOrganization (organization_repository T (tryGetTenantId store)) publish i reason tenantId
            (CurrentUser_decorator req) ids tm))"

definition http_get_organization :: "string \<Rightarrow> als \<Rightarrow> http_request \<Rightarrow> ('w, object) io" where
  "http_get_organization i store req =
     andThen (lift (TenantId_decorator req)) (\<lambda>tenantId. ret (getOrganization i tenantId))"

definition http_audit_events ::
  "('w, audit_row) table \<Rightarrow> time \<Rightarrow> time \<Rightarrow> string option \<Rightarrow> string option \<Rightarrow> string option \<Rightarrow> string option
     \<Rightarrow> int option \<Rightarrow> int option \<Rightarrow> als \<Rightarrow> http_request \<Rightarrow> ('w, audit_event paginated_result) io" where
  "http_audit_events T n1 n2 actorId action resourceType resourceId page limit store req =
     getAuditEvents (audit_repository n1 n2 T (tryGetTenantId store)) actorId action resourceType
       resourceId page limit"

definition http_audit_event ::
  "('w, audit_row) table \<Rightarrow> time \<Rightarrow> time \<Rightarrow> string \<Rightarrow> als \<Rightarrow> http_request \<Rightarrow> ('w, audit_event option) io" where
  "http_audit_event T n1 n2 i store req = getAuditEvent (audit_repository n1 n2 T (tryGetTenantId store)) i"

definition http_list_executions ::
  "('w, execution_row) table \<Rightarrow> time \<Rightarrow> time \<Rightarrow> execution_status option \<Rightarrow> int option \<Rightarrow> int option
     \<Rightarrow> (nat \<Rightarrow> string) \<Rightarrow> time \<Rightarrow> als \<Rightarrow> http_request \<Rightarrow> ('w, execution_dto paginated_result) io" where
  "http_list_executions T n1 n2 status page limit ids now store req =
     validated (list_params_valid page limit)
       (andThen (lift (TenantId_decorator req)) (\<lambda>tenantId.
          listExecutions (execution_repository n1 n2 T (tryGetTenantId store)) status page limit
            tenantId (CurrentUser_decorator req) ids now))"

definition http_get_execution ::
  "('w, execution_row) table \<Rightarrow> time \<Rightarrow> time \<Rightarrow> string \<Rightarrow> (nat \<Rightarrow> string) \<Rightarrow> time \<Rightarrow> als \<Rightarrow> http_request
     \<Rightarrow> ('w, execution_dto) io" where
  "http_get_execution T n1 n2 i ids now store req =
     andThen (lift (TenantId_decorator req)) (\<lambda>tenantId.
       getExecution (execution_repository n1 n2 T (tryGetTenantId store)) i tenantId
         (CurrentUser_decorator req) ids now)"

definition http_cancel_execution ::
  "('w, execution_row) table \<Rightarrow> time \<Rightarrow> time \<Rightarrow> string \<Rightarrow> string option \<Rightarrow> (nat \<Rightarrow> string) \<Rightarrow> (nat \<Rightarrow> time)
     \<Rightarrow> als \<Rightarrow> http_request \<Rightarrow> ('w, execution_dto) io" where
  "http_cancel_execution T n1 n2 i reason ids tm store req =
     validated (cancel_body_valid reason)
       (andThen (lift (TenantId_decorator req)) (\<lambda>tenantId.
          cancelExecution (execution_repository n1 n2 T (tryGetTenantId store)) i reason tenantId
            (CurrentUser_decorator req) ids tm))"

definition http_dashboard_metrics ::
  "('w, audit_row) table \<Rightarrow> ('w, execution_row) table \<Rightarrow> ('w, org_row) table \<Rightarrow> time \<Rightarrow> als \<Rightarrow> http_request
     \<Rightarrow> ('w, dashboard_metrics data_reply) io" where
  "http_dashboard_metrics A X G now store req = dashboard_metrics_endpoint A X G store now"

definition http_dashboard_series ::
  "'w daily_counts \<Rightarrow> 'w daily_counts \<Rightarrow> time \<Rightarrow> als \<Rightarrow> http_request
     \<Rightarrow> ('w, event_series_point list data_reply) io" where
  "http_dashboard_series auditCounts failureCounts now store req =
     dashboard_series_endpoint auditCounts failureCounts store now"

definition http_register ::
  "(string \<Rightarrow> bool) \<Rightarrow> 'w user_port \<Rightarrow> 'w bcrypt \<Rightarrow> 'w publisher \<Rightarrow> register_body \<Rightarrow> (nat \<Rightarrow> string)
     \<Rightarrow> (nat \<Rightarrow> time) \<Rightarrow> als \<Rightarrow> http_request \<Rightarrow> ('w, register_user_result) io" where
  "http_register isEmail U B publish body ids tm store req =
     validated (register_body_valid isEmail body)
       (register_endpoint U B publish (rb_email body) (rb_password body) (rb_displayName body) ids tm)"

definition http_login ::
  "(string \<Rightarrow> bool) \<Rightarrow> 'w user_port \<Rightarrow> ('w, org_row) table \<Rightarrow> 'w bcrypt
     \<Rightarrow> (jwt_payload \<Rightarrow> string \<Rightarrow> ('w, string) io) \<Rightarrow> login_body \<Rightarrow> (nat \<Rightarrow> string) \<Rightarrow> (nat \<Rightarrow> time)
     \<Rightarrow> als \<Rightarrow> http_request \<Rightarrow> ('w, token_pair) io" where
  "http_login isEmail U T B sign body ids tm store req =
     validated (login_body_valid isEmail body)
       (login_endpoint U (organization_repository T (tryGetTenantId store)) B sign (lb_email body)
          (lb_password body) (lb_organizationSlug body) ids tm)"

section \<open>Status codes\<close>

text \<open>
  What the client sees of an exception: the domain filter's status, the status of an exception
  of the framework, or 500.
\<close>

definition response_status :: "exn \<Rightarrow> int" where
  "response_status e =
     (if is_domain_exception e then resolveHttpStatus e
      else (case e of
              NestUnauthorizedException _ \<Rightarrow> 401
            | NestForbiddenException _ \<Rightarrow> 403
            | NestBadRequestException _ \<Rightarrow> 400
            | _ \<Rightarrow> 500))"

section \<open>Facts\<close>

lemma serve_authorized:
  "authorize passport (route_of ep) req = Inr req' \<Longrightarrow>
     serve passport ep req f1 f2 now ctl = ctl (fst (middleware_use req None f1 f2 now)) req'"
  by (simp add: serve_def Let_def)

lemma serve_refused:
  "authorize passport (route_of ep) req = Inl e \<Longrightarrow> serve passport ep req f1 f2 now ctl = throw e"
  by (simp add: serve_def Let_def)

lemma serve_Inr:
  assumes "serve passport ep req f1 f2 now ctl w = (Inr x, w')"
  obtains req' where "authorize passport (route_of ep) req = Inr req'"
    and "ctl (fst (middleware_use req None f1 f2 now)) req' w = (Inr x, w')"
  using assms
  by (cases "authorize passport (route_of ep) req") (simp_all add: serve_authorized serve_refused)

lemma validated_Inr: "validated ok m w = (Inr x, w') \<longleftrightarrow> ok \<and> m w = (Inr x, w')"
  by (simp add: validated_def)

definition min_role :: "endpoint \<Rightarrow> membership_role option" where
  "min_role ep = (case route_roles (route_of ep) of Some [r] \<Rightarrow> Some r | _ \<Rightarrow> None)"

lemmas route_defs = tenant_core_route_def identity_route_def audit_route_def workflow_route_def
  dashboard_route_def route_roles_def getAllAndOverride_def

lemma min_role_route:
  "min_role ep = Some r \<Longrightarrow> route_roles (route_of ep) = Some [r] \<and> rt_rbac (route_of ep) \<and> \<not> rt_public (route_of ep)"
  by (cases ep) (auto simp: min_role_def route_defs)

lemma min_role_None: "min_role ep = None \<longleftrightarrow> ep \<in> {Create_organization, Register, Login}"
  by (cases ep) (auto simp: min_role_def route_defs)

text \<open>A role-bearing endpoint opens exactly to access tokens of at least its role.\<close>

lemma authorize_role:
  assumes "passport_reports verified passport" and "min_role ep = Some r" and "verified req = Some p"
  shows "(\<exists>req'. authorize passport (route_of ep) req = Inr req') \<longleftrightarrow>
    jwt_type p = Access \<and> role_rank r \<le> rank_of_text (jwt_role p)"
proof -
  note rt = min_role_route [OF assms(2)]
  have "RbacGuard_canActivate (Some [r]) (User p) = Inr True \<longleftrightarrow> role_rank r \<le> rank_of_text (jwt_role p)"
    by (simp add: rbac_admits_iff)
  moreover have "(\<exists>b. RbacGuard_canActivate (Some [r]) (User p) = Inr b) \<longleftrightarrow>
      RbacGuard_canActivate (Some [r]) (User p) = Inr True"
    by (auto simp: rbac_admits_iff)
  ultimately show ?thesis
    using rt authorize_verified [OF assms(1,3), of "route_of ep"]
    by (cases "jwt_type p"; cases "RbacGuard_canActivate (Some [r]) (User p)") auto
qed

lemma authorize_role_user:
  assumes "passport_reports verified passport" and "min_role ep = Some r"
    and "authorize passport (route_of ep) req = Inr req'"
  shows "\<exists>p. verified req = Some p \<and> req' = req\<lparr>req_user := User p\<rparr>"
proof (cases "verified req")
  case None
  obtain m where "RbacGuard_canActivate (Some [r]) JsFalse = Inl (NestForbiddenException m)"
    using rbac_false_user [of "[r]"] by auto
  with authorize_unverified [OF assms(1) None, of "route_of ep"] min_role_route [OF assms(2)] assms(3)
  show ?thesis by simp
next
  case (Some p)
  with authorize_verified [OF assms(1) Some, of "route_of ep"] min_role_route [OF assms(2)] assms(3)
  show ?thesis
    by (cases "RbacGuard_canActivate (Some [r]) (User p)") (auto split: if_splits)
qed

lemma authorize_unauthenticated:
  assumes "passport_reports verified passport" and "min_role ep = Some r" and "verified req = None"
  shows "\<exists>m. authorize passport (route_of ep) req = Inl (NestForbiddenException m)"
proof -
  obtain m where "RbacGuard_canActivate (Some [r]) JsFalse = Inl (NestForbiddenException m)"
    using rbac_false_user [of "[r]"] by auto
  with authorize_unverified [OF assms(1,3), of "route_of ep"] min_role_route [OF assms(2)]
  show ?thesis by simp
qed

end
