(* ===== verification/Bootstrap.thy ===== *)
theory Bootstrap
  imports Identity
begin

text \<open>
  The script \<open>src/scripts/bootstrap-platform-admin.ts\<close> that makes the first organization and
  its administrator. The environment is a function from variable names. The creation of the
  application context, which Nest does, is an argument; what \<open>app.get\<close> finds in it and
  \<open>app.close\<close> are its members. The log lines are left out.
\<close>

section \<open>Slugs from names\<close>

text \<open>
  \<open>normalize('NFKD')\<close> without the combining marks, on a lower-case character: accented letters
  become their base letter, the compatibility characters of Latin-1 their expansion. What is
  no lower-case letter or digit afterwards only matters as such.
\<close>

definition nfkd_base :: "char \<Rightarrow> string" where
  "nfkd_base c =
     (let n = (of_char c :: nat)
      in if n = 170 \<or> (224 \<le> n \<and> n \<le> 229) then ''a''
         else if n = 231 then ''c''
         else if 232 \<le> n \<and> n \<le> 235 then ''e''
         else if 236 \<le> n \<and> n \<le> 239 then ''i''
         else if n = 241 then ''n''
         else if n = 186 \<or> (242 \<le> n \<and> n \<le> 246) then ''o''
         else if 249 \<le> n \<and> n \<le> 252 then ''u''
         else if n = 253 \<or> n = 255 then ''y''
         else if n = 178 then ''2''
         else if n = 179 then ''3''
         else if n = 185 then ''1''
         else if n = 188 then ''1/4''
         else if n = 189 then ''1/2''
         else if n = 190 then ''3/4''
         else [c])"

text \<open>\<open>replace(/[^a-z0-9]+/g, '-')\<close>; the flag says that the last character belonged to a run.\<close>

fun dash_runs :: "bool \<Rightarrow> string \<Rightarrow> string" where
  "dash_runs inRun [] = []"
| "dash_runs inRun (c # cs) =
     (if is_lower_alnum c then c # dash_runs False cs
      else if inRun then dash_runs True cs
      else dash # dash_runs True cs)"

definition strip_trailing :: "string \<Rightarrow> string" where
  "strip_trailing s = rev (dropWhile (\<lambda>c. c = dash) (rev s))"

definition strip_dashes :: "string \<Rightarrow> string" where
  "strip_dashes s = strip_trailing (dropWhile (\<lambda>c. c = dash) s)"

type_synonym environment = "string \<Rightarrow> string option"

definition slug_base :: "string \<Rightarrow> string" where
  "slug_base input = strip_dashes (dash_runs False (concat (map nfkd_base (toLowerCase input))))"

definition derived_slug :: "string \<Rightarrow> string" where
  "derived_slug input =
     (let s0 = slug_base input;
          s1 = (if length s0 < 3 then s0 @ ''-org'' else s0)
      in if length s1 > 63 then strip_trailing (take 63 s1) else s1)"

definition slugify :: "environment \<Rightarrow> string \<Rightarrow> string" where
  "slugify env input =
     (case map_option (\<lambda>v. toLowerCase (trim v)) (env ''INITIAL_TENANT_SLUG'') of
        Some explicit \<Rightarrow> if length explicit \<ge> 3 then explicit else derived_slug input
      | None \<Rightarrow> derived_slug input)"

section \<open>Configuration\<close>

record bootstrap_config =
  bc_adminEmail :: string
  bc_adminPassword :: string
  bc_adminName :: string
  bc_tenantName :: string
  bc_tenantSlug :: string
  bc_planTier :: string

definition missing_if :: "string option \<Rightarrow> string \<Rightarrow> string list" where
  "missing_if v name = (if truthy v then [] else [name])"

definition readConfig :: "environment \<Rightarrow> exn + bootstrap_config" where
  "readConfig env =
     (let adminEmail = map_option trim (env ''INITIAL_ADMIN_EMAIL'');
          adminPassword = env ''INITIAL_ADMIN_PASSWORD'';
          adminName = map_option trim (env ''INITIAL_ADMIN_NAME'');
          tenantName = map_option trim (env ''INITIAL_TENANT_NAME'');
          missing = missing_if adminEmail ''INITIAL_ADMIN_EMAIL''
            @ missing_if adminPassword ''INITIAL_ADMIN_PASSWORD''
            @ missing_if adminName ''INITIAL_ADMIN_NAME''
            @ missing_if tenantName ''INITIAL_TENANT_NAME''
      in if missing \<noteq> []
         then Inl (PlainError (''[bootstrap] Missing required environment variables: ''
                @ joinWith '', '' missing @ ''. Copy .env.example to .env and fill them in, or ''
                @ ''export them in your shell.''))
         else Inr \<lparr>bc_adminEmail = the adminEmail, bc_adminPassword = the adminPassword,
                   bc_adminName = the adminName, bc_tenantName = the tenantName,
                   bc_tenantSlug = slugify env (the tenantName),
                   bc_planTier = (case env ''INITIAL_TENANT_PLAN'' of
                      Some t \<Rightarrow> t | None \<Rightarrow> tier_text ENTERPRISE)\<rparr>)"

definition tier_of_text :: "string \<Rightarrow> tenant_plan_tier option" where
  "tier_of_text s = map_of [(''free'', FREE), (''starter'', STARTER), (''pro'', PRO), (''enterprise'', ENTERPRISE)] s"

section \<open>Provisioning\<close>

record bootstrap_outcome =
  bo_organizationId :: string
  bo_organizationCreated :: bool
  bo_userId :: string
  bo_userCreated :: bool
  bo_ownerLinked :: bool

text \<open>
  The plan tier is cast, not checked: an unknown text travels in the aggregate until the
  column's enumeration type refuses the row. \<open>ids\<close> and \<open>tm\<close> count the places of this function.
\<close>

definition provisionOrganization ::
  "'w organization_port \<Rightarrow> bootstrap_config \<Rightarrow> string \<Rightarrow> (nat \<Rightarrow> string) \<Rightarrow> (nat \<Rightarrow> time)
     \<Rightarrow> ('w, string \<times> bool) io" where
  "provisionOrganization repo cfg ownerId ids tm =
     (let ctx = forProvisioning ''PlatformAdminBootstrap'' (tm 0)
      in andThen (orgs_findBySlug repo (bc_tenantSlug cfg) ctx) (\<lambda>existing.
         case existing of
           Some org \<Rightarrow> ret (ent_id org, False)
         | None \<Rightarrow>
             andThen (lift (org_create (bc_tenantName cfg) (bc_tenantSlug cfg)
                (case tier_of_text (bc_planTier cfg) of Some t \<Rightarrow> t | None \<Rightarrow> FREE)
                ownerId (ids 0) (ids 1) (ids 2) (tm 1) (tm 2) (tm 3))) (\<lambda>org.
             andThen (lift (org_markProvisioned (ids 3) (ids 4) (ids 5) (tm 4) (tm 5) (tm 6) org)) (\<lambda>active.
             if tier_of_text (bc_planTier cfg) = None
             then throw (ServiceError ''invalid input value for enum tenant_plan_tier_enum'')
             else andThen (orgs_provision repo active ctx) (\<lambda>saved. ret (ent_id saved, True))))))"

definition provisionAdminUser ::
  "'w user_port \<Rightarrow> 'w bcrypt \<Rightarrow> bootstrap_config \<Rightarrow> string \<Rightarrow> (nat \<Rightarrow> time) \<Rightarrow> ('w, string \<times> bool) io" where
  "provisionAdminUser repo B cfg userId tm =
     andThen (users_findByEmail repo (bc_adminEmail cfg)) (\<lambda>existing.
       case existing of
         Some user \<Rightarrow> ret (ent_id user, False)
       | None \<Rightarrow>
           andThen (user_create B (bc_adminEmail cfg) (bc_adminPassword cfg) (bc_adminName cfg)
                      userId (tm 0) (tm 1)) (\<lambda>user.
           andThen (lift (user_activate (tm 2) (tm 3) user)) (\<lambda>active.
           andThen (users_save repo active) (\<lambda>saved. ret (ent_id saved, True)))))"

record 'w app_context =
  app_users :: "'w user_port"
  app_organizations :: "'w organization_port"
  app_close :: "('w, unit) io"

definition bootstrap_run ::
  "environment \<Rightarrow> ('w, 'w app_context) io \<Rightarrow> 'w bcrypt \<Rightarrow> (nat \<Rightarrow> string) \<Rightarrow> (nat \<Rightarrow> time)
     \<Rightarrow> ('w, bootstrap_outcome) io" where
  "bootstrap_run env createApplicationContext B ids tm =
     andThen (lift (readConfig env)) (\<lambda>cfg.
       if env ''NODE_ENV'' = Some ''production'' \<and> env ''BOOTSTRAP_ALLOW_PROD'' \<noteq> Some ''true''
       then throw (PlainError (''[bootstrap] Refusing to run with NODE_ENV=production. Set ''
              @ ''BOOTSTRAP_ALLOW_PROD=true to override (you almost certainly do not want this).''))
       else
         andThen createApplicationContext (\<lambda>app.
         ensuring
           (andThen (provisionAdminUser (app_users app) B cfg (ids 0) tm) (\<lambda>(userId, userCreated).
            andThen (provisionOrganization (app_organizations app) cfg userId (\<lambda>k. ids (1 + k)) (\<lambda>k. tm (4 + k)))
              (\<lambda>(organizationId, organizationCreated).
            ret \<lparr>bo_organizationId = organizationId, bo_organizationCreated = organizationCreated,
                 bo_userId = userId, bo_userCreated = userCreated, bo_ownerLinked = True\<rparr>)))
           (app_close app)))"

text \<open>A context on the given ports whose start and close change nothing.\<close>

definition opened :: "'w user_port \<Rightarrow> 'w organization_port \<Rightarrow> ('w, 'w app_context) io" where
  "opened U P = ret \<lparr>app_users = U, app_organizations = P, app_close = ret ()\<rparr>"

text \<open>
  How the process ends: exit code and text. \<open>stack\<close> is the stack trace of the runtime.
\<close>

definition newline :: string where
  "newline = [CHR 0x0A]"

definition bootstrap_report :: "bootstrap_outcome \<Rightarrow> string" where
  "bootstrap_report out =
     (let userVerb = (if bo_userCreated out then ''created'' else ''reused'');
          orgVerb = (if bo_organizationCreated out then ''provisioned'' else ''reused'')
      in newline @ ''[bootstrap] Done.'' @ newline
         @ ''  Tenant '' @ orgVerb @ '': '' @ bo_organizationId out @ newline
         @ ''  Admin  '' @ userVerb @ '': '' @ bo_userId out @ newline
         @ ''  Status: '' @ (if bo_organizationCreated out \<or> bo_userCreated out then ''changes applied''
                          else ''already up to date'') @ newline)"

definition bootstrap_exit :: "(exn \<Rightarrow> string) \<Rightarrow> exn + bootstrap_outcome \<Rightarrow> int \<times> string" where
  "bootstrap_exit stack r =
     (case r of Inr out \<Rightarrow> (0, bootstrap_report out)
      | Inl e \<Rightarrow> (1, newline @ ''[bootstrap] Failed:'' @ newline @ stack e @ newline))"

lemma bootstrap_exit_iff: "fst (bootstrap_exit stack r) = 0 \<longleftrightarrow> (\<exists>out. r = Inr out)"
  by (cases r) (simp_all add: bootstrap_exit_def)

section \<open>Derived slugs are valid\<close>

definition clean :: "string \<Rightarrow> bool" where
  "clean s \<longleftrightarrow> list_all (\<lambda>c. is_lower_alnum c \<or> c = dash) s"

text \<open>No two dashes stand next to each other.\<close>

fun single_dashes :: "string \<Rightarrow> bool" where
  "single_dashes (a # b # s) \<longleftrightarrow> \<not> (a = dash \<and> b = dash) \<and> single_dashes (b # s)"
| "single_dashes _ \<longleftrightarrow> True"

lemma dash_not_alnum [simp]: "\<not> is_lower_alnum dash"
  by (simp add: is_lower_alnum_def dash_def)

lemma dash_runs_clean: "clean (dash_runs b s)"
  by (induction b s rule: dash_runs.induct) (auto simp: clean_def)

lemma dash_runs_no_dash: "dash_runs True s = [] \<or> hd (dash_runs True s) \<noteq> dash"
  by (induction s) auto

lemma single_dashes_Cons: "single_dashes (c # s) \<longleftrightarrow> s = [] \<or> (\<not> (c = dash \<and> hd s = dash) \<and> single_dashes s)"
  by (cases s) auto

lemma dash_runs_single: "single_dashes (dash_runs b s)"
proof (induction b s rule: dash_runs.induct)
  case (2 b c cs)
  then show ?case
    using dash_runs_no_dash [of cs] by (auto simp: single_dashes_Cons)
qed simp

lemma single_dashes_drop: "single_dashes s \<Longrightarrow> single_dashes (dropWhile P s)"
  by (induction s) (auto simp: single_dashes_Cons)

lemma single_dashes_take: "single_dashes s \<Longrightarrow> single_dashes (take n s)"
proof (induction s arbitrary: n)
  case (Cons c s)
  then show ?case
    by (cases n; cases s) (auto simp: single_dashes_Cons hd_take)
qed simp

lemma single_dashes_snoc:
  "single_dashes (s @ [c]) \<longleftrightarrow> s = [] \<or> (\<not> (last s = dash \<and> c = dash) \<and> single_dashes s)"
  by (induction s) (auto simp: single_dashes_Cons)

lemma strip_trailing_snoc:
  "strip_trailing (s @ [c]) = (if c = dash then strip_trailing s else s @ [c])"
  by (simp add: strip_trailing_def)

lemma strip_trailing_id: "s = [] \<or> last s \<noteq> dash \<Longrightarrow> strip_trailing s = s"
  by (cases s rule: rev_cases) (auto simp: strip_trailing_snoc strip_trailing_def)

lemma strip_trailing_last: "strip_trailing s = [] \<or> last (strip_trailing s) \<noteq> dash"
  by (induction s rule: rev_induct) (auto simp: strip_trailing_snoc strip_trailing_def)

lemma strip_trailing_prefix: "\<exists>n. strip_trailing s = take n s"
proof (induction s rule: rev_induct)
  case (snoc c s)
  then obtain n where n: "strip_trailing s = take n s" by blast
  show ?case
  proof (cases "c = dash")
    case True
    with n have "strip_trailing (s @ [c]) = take (min n (length s)) (s @ [c])"
      by (simp add: strip_trailing_snoc min_def)
    then show ?thesis by blast
  next
    case False
    then have "strip_trailing (s @ [c]) = take (Suc (length s)) (s @ [c])"
      by (simp add: strip_trailing_snoc)
    then show ?thesis by blast
  qed
qed (simp add: strip_trailing_def)

lemma strip_trailing_length: "single_dashes s \<Longrightarrow> length s \<le> Suc (length (strip_trailing s))"
proof (cases s rule: rev_cases)
  case (snoc t c)
  assume "single_dashes s"
  with snoc show ?thesis
    by (auto simp: strip_trailing_snoc single_dashes_snoc strip_trailing_id)
qed simp

lemma clean_take: "clean s \<Longrightarrow> clean (take n s)"
  by (auto simp: clean_def list_all_iff dest: in_set_takeD)

lemma clean_drop: "clean s \<Longrightarrow> clean (dropWhile P s)"
  by (auto simp: clean_def list_all_iff dest: set_dropWhileD)

lemma clean_strip: "clean s \<Longrightarrow> clean (strip_trailing s)"
  using strip_trailing_prefix [of s] clean_take by metis

lemma slug_base_shape:
  "clean (slug_base v) \<and> single_dashes (slug_base v) \<and>
   (slug_base v = [] \<or> (hd (slug_base v) \<noteq> dash \<and> last (slug_base v) \<noteq> dash))"
proof -
  let ?d = "dropWhile (\<lambda>c. c = dash) (dash_runs False (concat (map nfkd_base (toLowerCase v))))"
  have d: "clean ?d" "single_dashes ?d"
    using clean_drop [OF dash_runs_clean] single_dashes_drop [OF dash_runs_single] by blast+
  have base: "slug_base v = strip_trailing ?d"
    by (simp add: slug_base_def strip_dashes_def)
  obtain n where n: "slug_base v = take n ?d"
    using strip_trailing_prefix base by metis
  have "hd (slug_base v) \<noteq> dash" if "slug_base v \<noteq> []"
  proof -
    from that n have "hd (slug_base v) = hd ?d" and "?d \<noteq> []"
      by (auto simp: hd_take)
    with hd_dropWhile [of "\<lambda>c. c = dash"] show ?thesis by metis
  qed
  with d n strip_trailing_last [of ?d] show ?thesis
    by (auto simp: base clean_take single_dashes_take intro: clean_strip) (metis n base single_dashes_take)+
qed

lemma slug_patternI:
  assumes "clean s" and "3 \<le> length s" and "length s \<le> 63" and "hd s \<noteq> dash" and "last s \<noteq> dash"
  shows "slug_pattern s"
proof -
  have all: "\<forall>c \<in> set s. is_lower_alnum c \<or> c = dash"
    using assms(1) by (simp add: clean_def list_all_iff)
  have "s \<noteq> []" using assms(2) by auto
  then have "is_lower_alnum (hd s)" and "is_lower_alnum (last s)"
    using all assms(4,5) hd_in_set last_in_set by blast+
  moreover have "set (butlast (tl s)) \<subseteq> set s"
    using \<open>s \<noteq> []\<close> by (auto dest: in_set_butlastD list.set_sel(2))
  ultimately show ?thesis
    using all assms(2,3) by (auto simp: slug_pattern_def list_all_iff)
qed

text \<open>
  Without an explicit slug the derived one is valid exactly when the name has a character
  that counts.
\<close>

lemma derived_slug_valid:
  assumes "slug_base v \<noteq> []"
  shows "slug_pattern (derived_slug v)"
proof -
  let ?s1 = "if length (slug_base v) < 3 then slug_base v @ ''-org'' else slug_base v"
  have base: "clean (slug_base v)" "hd (slug_base v) \<noteq> dash" "last (slug_base v) \<noteq> dash"
    "single_dashes (slug_base v)"
    using slug_base_shape [of v] assms by auto
  have org: "clean ''-org''" "hd (''-org'' :: string) = dash" "last (''-org'' :: string) \<noteq> dash"
    by (simp_all add: clean_def is_lower_alnum_def dash_def)
  have s1: "clean ?s1" "3 \<le> length ?s1" "hd ?s1 \<noteq> dash" "last ?s1 \<noteq> dash"
    using base org assms by (auto simp: clean_def hd_append)
  show ?thesis
  proof (cases "length ?s1 > 63")
    case False
    then have "derived_slug v = ?s1" by (simp add: derived_slug_def)
    with s1 False show ?thesis by (auto intro: slug_patternI)
  next
    case True
    then have long: "63 < length (slug_base v)" by (auto split: if_splits)
    then have d: "derived_slug v = strip_trailing (take 63 (slug_base v))"
      by (simp add: derived_slug_def)
    let ?t = "take 63 (slug_base v)"
    have "62 \<le> length (strip_trailing ?t)"
      using strip_trailing_length [of ?t] single_dashes_take [OF base(4), of 63] long by simp
    moreover obtain n where n: "strip_trailing ?t = take n ?t"
      using strip_trailing_prefix by blast
    moreover from n have "length (strip_trailing ?t) \<le> 63" by simp
    moreover have "hd (strip_trailing ?t) = hd (slug_base v)"
    proof -
      have "n \<noteq> 0" using calculation(1) n by (cases n) auto
      with n show ?thesis by (simp add: hd_take)
    qed
    moreover have "clean (strip_trailing ?t)"
      using base(1) by (intro clean_strip clean_take)
    ultimately show ?thesis
      unfolding d using base(2) strip_trailing_last [of ?t] by (intro slug_patternI) auto
  qed
qed

lemma derived_slug_invalid: "slug_base v = [] \<Longrightarrow> \<not> slug_pattern (derived_slug v)"
  by (simp add: derived_slug_def slug_pattern_def is_lower_alnum_def)

section \<open>Running the script twice\<close>

lemma bootstrap_reuses:
  assumes "readConfig env = Inr cfg"
    and "\<not> (env ''NODE_ENV'' = Some ''production'' \<and> env ''BOOTSTRAP_ALLOW_PROD'' \<noteq> Some ''true'')"
    and "users_findByEmail U (bc_adminEmail cfg) w = (Inr (Some user), w1)"
    and "orgs_findBySlug P (bc_tenantSlug cfg) (forProvisioning ''PlatformAdminBootstrap'' (tm 4)) w1
       = (Inr (Some org), w2)"
  shows "bootstrap_run env (opened U P) B ids tm w =
    (Inr \<lparr>bo_organizationId = ent_id org, bo_organizationCreated = False, bo_userId = ent_id user,
          bo_userCreated = False, bo_ownerLinked = True\<rparr>, w2)"
  using assms
  by (simp add: bootstrap_run_def opened_def provisionAdminUser_def provisionOrganization_def andThen_run Let_def)

lemma bootstrap_refuses_production:
  assumes "readConfig env = Inr cfg" and "env ''NODE_ENV'' = Some ''production''"
    and "env ''BOOTSTRAP_ALLOW_PROD'' \<noteq> Some ''true''"
  shows "\<exists>m. bootstrap_run env create B ids tm w = (Inl (PlainError m), w)"
  using assms by (simp add: bootstrap_run_def)

text \<open>Once the context is up it is closed, whether or not the provisioning throws.\<close>

lemma bootstrap_closes:
  assumes "readConfig env = Inr cfg"
    and "\<not> (env ''NODE_ENV'' = Some ''production'' \<and> env ''BOOTSTRAP_ALLOW_PROD'' \<noteq> Some ''true'')"
    and "create w = (Inr app, w1)"
  shows "\<exists>v. snd (bootstrap_run env create B ids tm w) = snd (app_close app v)"
proof -
  have "bootstrap_run env create B ids tm w = ensuring m (app_close app) w1
    \<Longrightarrow> snd (bootstrap_run env create B ids tm w) = snd (app_close app (snd (m w1)))" for m
    by (simp add: ensuring_state)
  then show ?thesis
    using assms by (auto simp: bootstrap_run_def andThen_run_Inr)
qed

end
