(* ===== verification/Samples.thy ===== *)
theory Samples
  imports Http Bootstrap
begin

text \<open>
  Concrete values to evaluate the model on: a token, requests, rows and tables kept in lists,
  and a library that behaves as documented. The witnesses of the properties run on them.
\<close>

definition documented_passport :: "(http_request \<Rightarrow> jwt_payload option) \<Rightarrow> passport" where
  "documented_passport verified req =
     (case verified req of
        None \<Rightarrow> Callback None JsFalse
      | Some p \<Rightarrow>
          (case JwtStrategy_validate p of
             Inl e \<Rightarrow> Callback (Some e) Absent
           | Inr p' \<Rightarrow> Callback None (User p')))"

lemma documented_passport_reports [simp]: "passport_reports verified (documented_passport verified)"
  by (simp add: passport_reports_def documented_passport_def)

definition sample_token :: "string \<Rightarrow> membership_role \<Rightarrow> jwt_payload" where
  "sample_token t r =
     \<lparr>jwt_sub = ''u1'', jwt_email = Some ''a@b.co'', jwt_tenantId = t,
      jwt_role = Some (role_text r), jwt_type = Access\<rparr>"

text \<open>A request with a tenant header; its bearer token is its \<open>authorization\<close> header.\<close>

definition sample_request :: "string option \<Rightarrow> string option \<Rightarrow> http_request" where
  "sample_request tenant token =
     \<lparr>req_headers = (\<lambda>h. if h = ''x-tenant-id'' then tenant
                      else if h = ''authorization'' then token else None),
      req_remoteAddress = None, req_user = Absent\<rparr>"

text \<open>Tokens by name: \<open>admin\<close> of tenant \<open>t1\<close>, \<open>viewer\<close> of \<open>t1\<close>, and nothing else.\<close>

definition sample_verified :: "http_request \<Rightarrow> jwt_payload option" where
  "sample_verified req =
     (if req_headers req ''authorization'' = Some ''admin'' then Some (sample_token ''t1'' ADMIN)
      else if req_headers req ''authorization'' = Some ''owner'' then Some (sample_token ''t1'' OWNER)
      else if req_headers req ''authorization'' = Some ''viewer'' then Some (sample_token ''t1'' VIEWER)
      else None)"

definition sample_audit_row :: "string \<Rightarrow> string \<Rightarrow> audit_row" where
  "sample_audit_row i t =
     \<lparr>ar_id = i, ar_tenantId = t, ar_actorId = Some ''u1'', ar_actorType = Actor_user,
      ar_action = ''login'', ar_resourceType = ''user'', ar_resourceId = ''u1'',
      ar_outcome = Success, ar_metadata = [], ar_correlationId = ''c'', ar_ipAddress = None,
      ar_userAgent = None, ar_occurredAt = 5\<rparr>"

text \<open>A table that is a world of its own.\<close>

definition lone_table :: "('row \<Rightarrow> string \<Rightarrow> sqlval) \<Rightarrow> string list \<Rightarrow> ('row list, 'row) table" where
  "lone_table cols ks = list_table cols ks (\<lambda>w. w) (\<lambda>rs w. rs)"

lemma where_sound_lone [simp]: "where_sound cols (lone_table cols ks)"
  by (simp add: lone_table_def)

lemma plain_store_lone [simp]: "plain_store cols (\<lambda>w. w) (lone_table cols ks)"
  by (simp add: lone_table_def plain_store_list_table)

lemma finds_all_lone [simp]: "finds_all cols (\<lambda>w. w) (lone_table cols ks)"
  by (simp add: lone_table_def)

lemma saves_org_lone [simp]: "saves_org (lone_table cols ks)"
  by (simp add: lone_table_def saves_org_list_table)

definition sample_settings :: org_settings where
  "sample_settings =
     \<lparr>allowPublicSignup = False, enforcesMfa = False, ssoEnabled = False, auditEnabled = True\<rparr>"

definition sample_org_row :: "string \<Rightarrow> string \<Rightarrow> tenant_status \<Rightarrow> org_row" where
  "sample_org_row i slug st =
     \<lparr>or_id = i, or_name = ''Acme'', or_slug = slug, or_planTier = FREE, or_status = st,
      or_ownerId = ''u1'', or_provisionedAt = Some 1, or_settings = sample_settings,
      or_createdAt = 1, or_updatedAt = 2\<rparr>"

definition sample_trigger :: workflow_trigger where
  "sample_trigger =
     \<lparr>wt_type = Trigger_event, wt_eventType = Some ''tenant.created'', wt_schedule = None,
      wt_webhookPath = None\<rparr>"

definition sample_definition_row :: "string \<Rightarrow> string \<Rightarrow> definition_status \<Rightarrow> definition_row" where
  "sample_definition_row i t st =
     \<lparr>dr_id = i, dr_tenantId = t, dr_name = ''wf'', dr_description = None,
      dr_trigger = sample_trigger, dr_steps = [], dr_version = 1, dr_status = st,
      dr_createdBy = ''u1'', dr_createdAt = Some 1, dr_updatedAt = Some 2\<rparr>"

definition sample_execution_row :: "string \<Rightarrow> string \<Rightarrow> execution_status \<Rightarrow> execution_row" where
  "sample_execution_row i t st =
     \<lparr>xr_id = i, xr_definitionId = ''d1'', xr_tenantId = t, xr_correlationId = ''c'',
      xr_triggeredBy = ''u1'', xr_triggerType = By_manual, xr_input = [], xr_status = st,
      xr_stepResults = [], xr_startedAt = None, xr_completedAt = None, xr_durationMs = None,
      xr_errorMessage = None, xr_createdAt = Some 3\<rparr>"

definition no_times :: "nat \<Rightarrow> time" where
  "no_times k = int k"

definition numbered_ids :: "nat \<Rightarrow> string" where
  "numbered_ids k = ''id'' @ digits k"

text \<open>Three tables in one world.\<close>

type_synonym platform = "audit_row list \<times> execution_row list \<times> org_row list"

definition audit_tbl :: "(platform, audit_row) table" where
  "audit_tbl = list_table audit_cols [''id''] fst (\<lambda>rs w. (rs, snd w))"

definition execution_tbl :: "(platform, execution_row) table" where
  "execution_tbl = list_table execution_cols [''id''] (\<lambda>w. fst (snd w)) (\<lambda>rs w. (fst w, rs, snd (snd w)))"

definition org_tbl :: "(platform, org_row) table" where
  "org_tbl = list_table org_cols [''id'', ''slug''] (\<lambda>w. snd (snd w)) (\<lambda>rs w. (fst w, fst (snd w), rs))"

lemma platform_reads:
  "reads_matching audit_cols fst audit_tbl" "reads_matching execution_cols (\<lambda>w. fst (snd w)) execution_tbl"
  "reads_matching org_cols (\<lambda>w. snd (snd w)) org_tbl"
  by (simp_all add: audit_tbl_def execution_tbl_def org_tbl_def)

definition sample_context :: "string \<Rightarrow> tenant_context" where
  "sample_context t =
     \<lparr>tc_tenantId = t, tc_correlationId = ''c'', tc_requestId = ''r'', tc_actorId = None,
      tc_actorType = None, tc_timestamp = 0, tc_ipAddress = None, tc_userAgent = None\<rparr>"

text \<open>Users and organizations in one world, a hash that is no hash, and tokens in clear.\<close>

type_synonym accounts = "user_row list \<times> org_row list"

definition users_tbl :: "(accounts, user_row) table" where
  "users_tbl = list_table user_cols [''id'', ''email''] fst (\<lambda>rs w. (rs, snd w))"

definition orgs_tbl :: "(accounts, org_row) table" where
  "orgs_tbl = list_table org_cols [''id'', ''slug''] snd (\<lambda>rs w. (fst w, rs))"

definition clear_bcrypt :: "'w bcrypt" where
  "clear_bcrypt = \<lparr>bc_hash = (\<lambda>p n. ret (''h'' @ p)), bc_compare = (\<lambda>p h. ret (h = ''h'' @ p))\<rparr>"

definition clear_sign :: "jwt_payload \<Rightarrow> string \<Rightarrow> ('w, string) io" where
  "clear_sign c d = ret (jwt_sub c @ ''.'' @ jwt_tenantId c @ ''.'' @ d)"

definition sample_user_row :: "string \<Rightarrow> string \<Rightarrow> user_status \<Rightarrow> user_row" where
  "sample_user_row i em st =
     \<lparr>ur_id = i, ur_email = em, ur_passwordHash = ''hsecret12'', ur_displayName = ''Ann'', ur_status = st,
      ur_lastLoginAt = None, ur_emailVerifiedAt = None, ur_createdAt = Some 1, ur_updatedAt = Some 1\<rparr>"

definition sample_accounts :: accounts where
  "sample_accounts = ([sample_user_row ''u1'' ''a@b.co'' Active_user], [sample_org_row ''t1'' ''acme'' ACTIVE])"

definition login_command :: "string \<Rightarrow> string \<Rightarrow> authenticate_command" where
  "login_command em pw = new_authenticate_command em pw None None ''f'' ''g'' 0"

definition sample_user :: user where
  "sample_user = user_new (new_entity (Some ''u1'') None None [] 0 0) (Email ''a@b.co'') (PasswordHash ''hsecret12'')
     ''Ann'' Active_user None None"

definition sample_env :: environment where
  "sample_env = map_of [(''INITIAL_ADMIN_EMAIL'', '' Ann@b.co ''), (''INITIAL_ADMIN_PASSWORD'', ''secret12''),
     (''INITIAL_ADMIN_NAME'', ''Ann''), (''INITIAL_TENANT_NAME'', ''Acme Corp'')]"

end
