(* ===== verification/IsolationProperties.thy ===== *)
theory IsolationProperties
  imports Samples
begin

text \<open>
  Tenant isolation and authorization, from the HTTP request to the rows: what a caller can
  read and write, which tenant that is, and what the guards decide.
\<close>

section \<open>Reading over HTTP\<close>

text \<open>
  C1: every audit event that \<open>GET /audit/events\<close> returns belongs to the tenant named by the
  \<open>x-tenant-id\<close> header of the request, and the caller held a verified access token of at
  least the admin role.
\<close>

theorem audit_events_isolated:
  assumes "passport_reports verified passport" and "where_sound audit_cols T"
    and "serve passport Audit_events req f1 f2 now
      (http_audit_events T n1 n2 actorId action resourceType resourceId page limit) w = (Inr res, w')"
    and "e \<in> set (pr_data res)"
  shows "req_headers req ''x-tenant-id'' = Some (ae_tenantId e) \<and>
    (\<exists>p. verified req = Some p \<and> jwt_type p = Access \<and> role_rank ADMIN \<le> rank_of_text (jwt_role p))"
proof -
  have role: "min_role Audit_events = Some ADMIN"
    by (simp add: min_role_def route_defs)
  from assms(3) obtain req' where auth: "authorize passport (route_of Audit_events) req = Inr req'"
    and run: "http_audit_events T n1 n2 actorId action resourceType resourceId page limit
       (fst (middleware_use req None f1 f2 now)) req' w = (Inr res, w')"
    by (rule serve_Inr)
  from authorize_role_user [OF assms(1) role auth] obtain p where p: "verified req = Some p" by blast
  with authorize_role [OF assms(1) role p] auth
  have "jwt_type p = Access" and "role_rank ADMIN \<le> rank_of_text (jwt_role p)" by blast+
  moreover have "tryGetTenantId (fst (middleware_use req None f1 f2 now)) = Some (ae_tenantId e)"
    using run audit_query_isolated(1) [OF assms(2) _ assms(4)]
    unfolding http_audit_events_def getAuditEvents_def audit_repository_def audit_port.simps by blast
  ultimately show ?thesis
    using p unfolding middleware_tryGetTenantId by blast
qed

theorem audit_events_isolated_witness:
  "req_headers (sample_request (Some ''t2'') (Some ''admin'')) ''x-tenant-id''
     = Some (ae_tenantId (audit_toDomain 0 0 (sample_audit_row ''a2'' ''t2'')))"
proof -
  let ?T = "lone_table audit_cols [''id'']"
  let ?req = "sample_request (Some ''t2'') (Some ''admin'')"
  let ?w = "[sample_audit_row ''a1'' ''t1'', sample_audit_row ''a2'' ''t2'']"
  let ?e = "audit_toDomain 0 0 (sample_audit_row ''a2'' ''t2'')"
  have "serve (documented_passport sample_verified) Audit_events ?req ''r'' ''c'' 0
      (http_audit_events ?T 0 0 None (Some ''login'') None None None (Some 10)) ?w
    = (Inr \<lparr>pr_data = [?e], pr_meta = buildPaginationMeta 1 10 1\<rparr>, ?w)"
    by code_simp
  from audit_events_isolated [OF documented_passport_reports where_sound_lone this]
  show ?thesis by simp
qed

text \<open>What the guards let through does not depend on the tenant a token was issued for.\<close>

lemma authorize_other_tenant:
  assumes "passport_reports verified P"
    and "passport_reports (\<lambda>r. map_option (\<lambda>p. p\<lparr>jwt_tenantId := t\<rparr>) (verified r)) P'"
  shows "map_sum id (\<lambda>_. ()) (authorize P rt req) = map_sum id (\<lambda>_. ()) (authorize P' rt req)"
proof (cases "rt_public rt \<or> verified req = None")
  case True
  then show ?thesis
    using authorize_unverified [OF assms(1), of req rt] authorize_unverified [OF assms(2), of req rt]
    by (cases "rt_public rt") (auto simp: authorize_def JwtAuthGuard_canActivate_def)
next
  case False
  then obtain p where p: "verified req = Some p" by auto
  then have p': "map_option (\<lambda>p. p\<lparr>jwt_tenantId := t\<rparr>) (verified req) = Some (p\<lparr>jwt_tenantId := t\<rparr>)" by simp
  have "RbacGuard_canActivate rs (User (p\<lparr>jwt_tenantId := t\<rparr>)) = RbacGuard_canActivate rs (User p)" for rs
    by (simp add: RbacGuard_canActivate_def)
  then show ?thesis
    using authorize_verified [OF assms(1) p, of rt] authorize_verified [OF assms(2) p', of rt] False
    by (simp add: sum.map_comp o_def)
qed

lemma serve_other_tenant:
  assumes "passport_reports verified P"
    and "passport_reports (\<lambda>r. map_option (\<lambda>p. p\<lparr>jwt_tenantId := t\<rparr>) (verified r)) P'"
    and "\<And>store r r'. ctl store r = ctl store r'"
  shows "serve P ep req f1 f2 now ctl = serve P' ep req f1 f2 now ctl"
proof -
  note eq = authorize_other_tenant [OF assms(1,2), of "route_of ep" req]
  show ?thesis
    by (cases "authorize P (route_of ep) req"; cases "authorize P' (route_of ep) req")
      (use eq assms(3) in \<open>auto simp: serve_def Let_def\<close>)
qed

text \<open>
  C2: the tenant a token was issued for plays no part in reading audit events or dashboard
  metrics: replacing the \<open>tenantId\<close> claim of every token changes no response. The tenant is
  the one the caller writes in the header.
\<close>

theorem token_tenant_ignored:
  assumes "passport_reports verified P"
    and "passport_reports (\<lambda>r. map_option (\<lambda>p. p\<lparr>jwt_tenantId := t\<rparr>) (verified r)) P'"
  shows "serve P Audit_events req f1 f2 now (http_audit_events T n1 n2 a b c d page limit)
      = serve P' Audit_events req f1 f2 now (http_audit_events T n1 n2 a b c d page limit)
    \<and> serve P Dashboard_metrics req f1 f2 now (http_dashboard_metrics T X G now2)
      = serve P' Dashboard_metrics req f1 f2 now (http_dashboard_metrics T X G now2)"
  by (intro conjI; rule serve_other_tenant [OF assms]; simp add: http_audit_events_def http_dashboard_metrics_def)

theorem token_tenant_ignored_witness:
  "serve (documented_passport sample_verified) Audit_events (sample_request (Some ''t2'') (Some ''admin'')) [] [] 0
      (http_audit_events (lone_table audit_cols []) 0 0 None None None None None None) []
    = serve (documented_passport (\<lambda>r. map_option (\<lambda>p. p\<lparr>jwt_tenantId := ''t9''\<rparr>) (sample_verified r)))
      Audit_events (sample_request (Some ''t2'') (Some ''admin'')) [] [] 0
      (http_audit_events (lone_table audit_cols []) 0 0 None None None None None None) []"
  using token_tenant_ignored [OF documented_passport_reports documented_passport_reports] by metis

text \<open>The controller methods on a tenant that is not the organization in the path.\<close>

lemma unwrapped_throws: "m w = (Inl e, w') \<Longrightarrow> unwrapped m w = (Inl e, w')"
  by (simp add: unwrapped_def andThen_run)

lemma updateOrganization_foreign:
  assumes "tid \<noteq> Some i"
  shows "\<exists>e. updateOrganization (organization_repository T tid) i body t user ids tm w = (Inl e, w)"
proof (cases "user_member (\<lambda>u. Some (jwt_sub u)) user")
  case (Inr sub)
  let ?cmd = "new_update_organization_command i (uob_name body) (uob_planTier body) t None sub
    (ids 0) (ids 1) (tm 0)"
  have "tid \<noteq> Some (uoc_organizationId ?cmd) \<or> uoc_organizationId ?cmd = []"
    using assms by (simp add: new_update_organization_command_def command.defs)
  from org_repo.update_foreign [OF this, of T "\<lambda>k. tm (10 + k)" w] obtain e where
    "update_organization_execute (organization_repository T tid) ?cmd (\<lambda>k. tm (10 + k)) w = (Inl e, w)"
    by blast
  with Inr show ?thesis by (auto simp: updateOrganization_def intro: unwrapped_throws)
qed (simp add: updateOrganization_def)

lemma suspendOrganization_foreign:
  assumes "tid \<noteq> Some i"
  shows "\<exists>e. suspendOrganization (organization_repository T tid) publish i reason t user ids tm w = (Inl e, w)"
proof (cases "user_member (\<lambda>u. Some (jwt_sub u)) user")
  case (Inr sub)
  let ?cmd = "new_suspend_organization_command i
    (case reason of Some r \<Rightarrow> r | None \<Rightarrow> ''No reason provided'') t None sub (ids 0) (ids 1) (tm 0)"
  have "tid \<noteq> Some (soc_organizationId ?cmd) \<or> soc_organizationId ?cmd = []"
    using assms by (simp add: new_suspend_organization_command_def command.defs)
  from org_repo.suspend_foreign [OF this, of T publish "\<lambda>k. ids (10 + k)" "\<lambda>k. tm (10 + k)" w] obtain e where
    "suspend_organization_execute (organization_repository T tid) publish ?cmd (\<lambda>k. ids (10 + k))
       (\<lambda>k. tm (10 + k)) w = (Inl e, w)"
    by blast
  with Inr show ?thesis by (auto simp: suspendOrganization_def intro: unwrapped_throws)
qed (simp add: suspendOrganization_def)

lemma http_organization_foreign:
  assumes "tryGetTenantId store \<noteq> Some i"
  shows "\<exists>e. http_update_organization T i body ids tm store req w = (Inl e, w)"
    and "\<exists>e. http_suspend_organization T publish i reason ids tm store req w = (Inl e, w)"
  by (cases "TenantId_decorator req";
      simp add: http_update_organization_def validated_def updateOrganization_foreign [OF assms])
    (cases "TenantId_decorator req";
      simp add: http_suspend_organization_def validated_def suspendOrganization_foreign [OF assms])

lemma serve_throws:
  assumes "\<And>req'. \<exists>e. ctl (fst (middleware_use req None f1 f2 now)) req' w = (Inl e, w)"
  shows "\<exists>e. serve P ep req f1 f2 now ctl w = (Inl e, w)"
proof (cases "authorize P (route_of ep) req")
  case (Inr req')
  show ?thesis unfolding serve_authorized [OF Inr] by (rule assms)
qed (simp add: serve_refused)



text \<open>
  C4: an organization is renamed, moved to another plan or suspended only by a request whose
  tenant header is the id of that organization; any other request throws and changes nothing.
\<close>

theorem organization_writes_own:
  assumes "req_headers req ''x-tenant-id'' \<noteq> Some i"
  shows "(\<exists>e. serve P Update_organization req f1 f2 now (http_update_organization T i body ids tm) w = (Inl e, w))
    \<and> (\<exists>e. serve P Suspend_organization req f1 f2 now
          (http_suspend_organization T publish i reason ids tm) w = (Inl e, w))"
proof -
  have tid: "tryGetTenantId (fst (middleware_use req None f1 f2 now)) \<noteq> Some i"
    unfolding middleware_tryGetTenantId by (rule assms)
  show ?thesis
    by (intro conjI serve_throws http_organization_foreign tid)
qed

theorem organization_writes_own_witness:
  "\<exists>e. serve (documented_passport sample_verified) Suspend_organization
      (sample_request (Some ''t2'') (Some ''owner'')) [] [] 0
      (http_suspend_organization (lone_table org_cols []) (\<lambda>_. ret ()) ''t1'' None numbered_ids no_times)
      [sample_org_row ''t1'' ''acme'' ACTIVE] = (Inl e, [sample_org_row ''t1'' ''acme'' ACTIVE])"
proof -
  have "req_headers (sample_request (Some ''t2'') (Some ''owner'')) ''x-tenant-id'' \<noteq> Some ''t1''"
    by (simp add: sample_request_def)
  then show ?thesis by (rule organization_writes_own [THEN conjunct2])
qed

section \<open>Authorization\<close>

text \<open>
  C5: an endpoint with a minimum role opens to a verified token exactly when it is an access
  token whose role ranks at least as high; no other claim of the token matters.
\<close>

theorem endpoint_opens_iff:
  assumes "passport_reports verified passport" and "min_role ep = Some r" and "verified req = Some p"
  shows "(\<exists>req'. authorize passport (route_of ep) req = Inr req') \<longleftrightarrow>
    jwt_type p = Access \<and> role_rank r \<le> rank_of_text (jwt_role p)"
  by (rule authorize_role [OF assms])

theorem endpoint_opens_iff_witness:
  "\<not> (\<exists>req'. authorize (documented_passport sample_verified) (route_of Suspend_organization)
        (sample_request (Some ''t1'') (Some ''admin'')) = Inr req')"
proof -
  have "min_role Suspend_organization = Some OWNER"
    by (simp add: min_role_def route_defs)
  moreover have "sample_verified (sample_request (Some ''t1'') (Some ''admin'')) = Some (sample_token ''t1'' ADMIN)"
    by code_simp
  ultimately have "(\<exists>req'. authorize (documented_passport sample_verified) (route_of Suspend_organization)
        (sample_request (Some ''t1'') (Some ''admin'')) = Inr req')
    \<longleftrightarrow> jwt_type (sample_token ''t1'' ADMIN) = Access
      \<and> role_rank OWNER \<le> rank_of_text (jwt_role (sample_token ''t1'' ADMIN))"
    by (rule endpoint_opens_iff [OF documented_passport_reports])
  then show ?thesis by (simp add: sample_token_def del: role_text.simps)
qed



end
