(* ===== verification/Paging.thy ===== *)
theory Paging
  imports Orm "HOL-Library.Multiset"
begin

text \<open>
  Reading a list page after page. The repositories ask for an order by a date, an offset and a
  limit; the documented meaning of the three is the hypothesis below, and it leaves the order
  of rows with equal dates open. Where the dates differ, consecutive pages tile the sorted list.
\<close>

section \<open>Ordered pages\<close>

text \<open>
  Documented behaviour of \<open>getManyAndCount\<close>: the page is cut from an arrangement of the matching
  rows, which follows the column of the order if the query has one and it holds dates only; the
  count is the number of matching rows; nothing is written.
\<close>

definition arranged :: "('row \<Rightarrow> string \<Rightarrow> sqlval) \<Rightarrow> query \<Rightarrow> 'row list \<Rightarrow> bool" where
  "arranged cols q rs \<longleftrightarrow> (\<forall>c desc. q_order q = [(c, desc)] \<longrightarrow> (\<forall>r \<in> set rs. \<exists>t. cols r c = STime t)
     \<longrightarrow> sorted (map (\<lambda>r. order_key desc (cols r c)) rs))"

definition pages_sorted ::
  "('row \<Rightarrow> string \<Rightarrow> sqlval) \<Rightarrow> ('w \<Rightarrow> 'row list) \<Rightarrow> ('w, 'row) table \<Rightarrow> bool" where
  "pages_sorted cols rd T \<longleftrightarrow>
     (\<forall>q w. \<exists>rs. find_and_count T q w = (Inr (page_rows q rs, length rs), w)
        \<and> mset rs = mset (matching cols q (rd w)) \<and> arranged cols q rs)"

lemma mset_order_rows [simp]: "mset (order_rows cols q rs) = mset rs"
proof -
  have "mset (foldr (\<lambda>(c, desc). sort_key (\<lambda>r. order_key desc (cols r c))) os rs) = mset rs" for os
    by (induction os) (simp_all add: split_beta)
  then show ?thesis by (simp add: order_rows_def)
qed

lemma pages_sorted_list_table [simp]: "pages_sorted cols rd (list_table cols ks rd wr)"
proof -
  have count: "find_and_count (list_table cols ks rd wr) q w
      = (Inr (page_rows q (order_rows cols q (matching cols q (rd w))),
          length (order_rows cols q (matching cols q (rd w)))), w)" for q w
    using mset_eq_length [OF mset_order_rows, of cols q "matching cols q (rd w)"]
    by (simp add: list_table_def matching_def)
  have "arranged cols q (order_rows cols q rs)" for q rs
    by (auto simp: arranged_def order_rows_def)
  with count show ?thesis
    unfolding pages_sorted_def by (metis mset_order_rows)
qed

lemma sorted_page:
  assumes "pages_sorted cols rd T" and "q_order q = [(c, desc)]" and "q_skip q = Some s" and "q_take q = Some k"
    and "\<forall>r \<in> set (matching cols q (rd w)). \<exists>t. cols r c = STime t"
    and "inj_on (\<lambda>r. order_key desc (cols r c)) (set (matching cols q (rd w)))"
  shows "find_and_count T q w
     = (Inr (take (nat k) (drop (nat s) (sort_key (\<lambda>r. order_key desc (cols r c)) (matching cols q (rd w)))),
          length (matching cols q (rd w))), w)"
proof -
  from assms(1) obtain rs where
    run: "find_and_count T q w = (Inr (page_rows q rs, length rs), w)"
    and same: "mset rs = mset (matching cols q (rd w))" and "arranged cols q rs"
    unfolding pages_sorted_def by blast
  moreover have "\<forall>r \<in> set rs. \<exists>t. cols r c = STime t"
    using assms(5) mset_eq_setD [OF same] by simp
  ultimately have "sorted (map (\<lambda>r. order_key desc (cols r c)) rs)"
    using assms(2) unfolding arranged_def by blast
  from sort_key_inj_key_eq [OF same [symmetric] assms(6) this] run
  show ?thesis
    using mset_eq_length [OF same] assms(3,4) by (simp add: page_rows_def)
qed

section \<open>Page after page\<close>

lemma pages_concat: "concat (map (\<lambda>p. take k (drop ((p - 1) * k) rs)) [1..<Suc n]) = take (n * k) rs"
proof (induction n)
  case (Suc n)
  have "take (Suc n * k) rs = take (n * k) rs @ take k (drop (n * k) rs)"
    by (simp add: take_add [symmetric] add.commute)
  with Suc show ?case by simp
qed simp

lemma int_div_less:
  assumes "0 < (k :: int)"
  shows "m div k < q \<longleftrightarrow> m < q * k"
proof
  have split: "m = m div k * k + m mod k" by simp
  {
    assume "m div k < q"
    then have "(m div k + 1) * k \<le> q * k" using assms by (intro mult_right_mono) auto
    then have "m div k * k + k \<le> q * k" by (simp add: distrib_right)
    then show "m < q * k" using split pos_mod_bound [OF assms, of m] by linarith
  }
  {
    assume "m < q * k"
    moreover have "q * k \<le> m div k * k" if "q \<le> m div k" using that assms by (intro mult_right_mono) auto
    ultimately show "m div k < q" using split pos_mod_sign [OF assms, of m] by linarith
  }
qed

lemma page_count: "0 < k \<Longrightarrow> p < - ((- n) div k) \<longleftrightarrow> p * k < (n :: int)"
  using int_div_less [of k "- n" "- p"] by (simp add: less_minus_iff)

lemma hasNextPage_iff:
  "0 < limit \<Longrightarrow> meta_hasNextPage (buildPaginationMeta page limit n) \<longleftrightarrow> page * limit < n"
  by (simp add: buildPaginationMeta_def ceil_div_def page_count Let_def)

end
