(* ===== verification/Overlap.thy ===== *)
theory Overlap
  imports Orm
begin

text \<open>
  Requests that overlap, in general. A handler that reads first and writes last is split at its
  write; what it holds in between is one entry of a list. The locale states what it takes for
  every interleaving of such parts to behave like atomic steps of a specification.
\<close>

section \<open>A handler split at its write\<close>

text \<open>A part that answers itself or hands on a value, and what follows in the second case.\<close>

definition written :: "('w, 'b result) io \<Rightarrow> ('b \<Rightarrow> ('w, 'a result) io) \<Rightarrow> ('w, 'a result) io" where
  "written m f = andThen m (\<lambda>r. case r of Fail e \<Rightarrow> ret (Fail e) | Ok x \<Rightarrow> f x)"

definition holding :: "('b \<Rightarrow> 'h) \<Rightarrow> exn + 'b result \<Rightarrow> 'h list" where
  "holding f r = (case r of Inr (Ok x) \<Rightarrow> [f x] | _ \<Rightarrow> [])"

lemma holding_simps [simp]:
  "holding f (Inr (Ok x)) = [f x]" "holding f (Inr (Fail e)) = []" "holding f (Inl e') = []"
  by (simp_all add: holding_def)

lemma set_holding: "h \<in> set (holding f r) \<longleftrightarrow> (\<exists>x. r = Inr (Ok x) \<and> h = f x)"
  by (auto simp: holding_def split: sum.split result.split)

section \<open>Runs that a specification simulates\<close>

locale simulated =
  fixes step :: "'s \<Rightarrow> 's \<Rightarrow> bool" and inv :: "'s \<Rightarrow> bool"
    and abst :: "'s \<Rightarrow> 'a" and spec :: "'a \<Rightarrow> 'a \<Rightarrow> bool"
  assumes step_inv: "inv s \<Longrightarrow> step s s' \<Longrightarrow> inv s'"
    and step_spec: "inv s \<Longrightarrow> step s s' \<Longrightarrow> abst s' = abst s \<or> spec (abst s) (abst s')"
begin

lemma run_inv: "step\<^sup>*\<^sup>* s s' \<Longrightarrow> inv s \<Longrightarrow> inv s'"
  by (induction rule: rtranclp_induct) (auto intro: step_inv)

lemma run_spec: "step\<^sup>*\<^sup>* s s' \<Longrightarrow> inv s \<Longrightarrow> spec\<^sup>*\<^sup>* (abst s) (abst s')"
proof (induction rule: rtranclp_induct)
  case (step s1 s2)
  from step_spec [OF run_inv [OF step.hyps(1) step.prems] step.hyps(2)] step.IH [OF step.prems]
  show ?case by (auto intro: rtranclp.rtrancl_into_rtrancl)
qed simp

end

section \<open>A table as a map\<close>

text \<open>The rows by their key, each seen through \<open>f\<close>.\<close>

definition by_key :: "('row \<Rightarrow> 'k) \<Rightarrow> ('row \<Rightarrow> 'v) \<Rightarrow> 'row list \<Rightarrow> 'k \<rightharpoonup> 'v" where
  "by_key key f rs = map_of (map (\<lambda>r. (key r, f r)) rs)"

lemma by_key_None [simp]: "by_key key f rs k = None \<longleftrightarrow> k \<notin> key ` set rs"
  by (force simp: by_key_def map_of_eq_None_iff)

lemma by_key_SomeD: "by_key key f rs k = Some v \<Longrightarrow> \<exists>r \<in> set rs. key r = k \<and> f r = v"
  by (auto simp: by_key_def dest!: map_of_SomeD)

lemma by_key_mem: "distinct (map key rs) \<Longrightarrow> r \<in> set rs \<Longrightarrow> by_key key f rs (key r) = Some (f r)"
  by (auto simp: by_key_def comp_def intro!: map_of_is_SomeI)

text \<open>A table whose column \<open>id\<close> holds the key.\<close>

lemma by_key_upsert:
  assumes "\<And>x. cols x ''id'' = SStr (key x)"
  shows "by_key key f (upsert cols r rs) = (by_key key f rs)(key r \<mapsto> f r)"
  by (induction rs) (auto simp: by_key_def assms fun_upd_twist)

lemma keys_upsert:
  assumes "\<And>x. cols x ''id'' = SStr (key x)"
  shows "key ` set (upsert cols r rs) = insert (key r) (key ` set rs)"
    and "distinct (map key rs) \<Longrightarrow> distinct (map key (upsert cols r rs))"
proof -
  show keys: "key ` set (upsert cols r rs) = insert (key r) (key ` set rs)" for rs
    by (induction rs) (auto simp: assms)
  show "distinct (map key rs) \<Longrightarrow> distinct (map key (upsert cols r rs))"
    by (induction rs) (auto simp: assms keys)
qed

lemma upsert_new_key:
  assumes "\<And>x. cols x ''id'' = SStr (key x)" and "key r \<notin> key ` set rs"
  shows "upsert cols r rs = rs @ [r]"
  using assms(2) by (induction rs) (auto simp: assms(1))

end
