(* ===== verification/ExecutionInterleaving.thy ===== *)
theory ExecutionInterleaving
  imports WorkflowExecution Overlap
begin

text \<open>
  Requests on workflow executions that overlap: triggers and cancellations, split at the save of
  the execution. In between anything may happen that writes no execution: other requests, the
  event a trigger publishes after its save, the outbox. The specification knows executions by id
  and two atomic steps; every interleaving is a run of it.
\<close>

section \<open>The handlers up to their write\<close>

definition cancel_prepare ::
  "'w execution_port \<Rightarrow> cancel_execution_command \<Rightarrow> (nat \<Rightarrow> time) \<Rightarrow> ('w, execution result) io" where
  "cancel_prepare X cmd tm =
     andThen (execs_findById X (cec_executionId cmd)) (\<lambda>found.
       case found of
         None \<Rightarrow> ret (Fail (NotFoundException ''WorkflowExecution'' (cec_executionId cmd)))
       | Some execution \<Rightarrow>
           andThen (lift (ex_cancel (cec_reason cmd) (tm 0) (tm 1) execution)) (\<lambda>cancelled. ret (Ok cancelled)))"

definition trigger_prepare ::
  "'w definition_port \<Rightarrow> trigger_workflow_command \<Rightarrow> string \<Rightarrow> (nat \<Rightarrow> time)
     \<Rightarrow> ('w, (workflow_definition \<times> execution) result) io" where
  "trigger_prepare D cmd executionId tm =
     andThen (defs_findById D (twc_definitionId cmd)) (\<lambda>found.
       case found of
         None \<Rightarrow> ret (Fail (NotFoundException ''WorkflowDefinition'' (twc_definitionId cmd)))
       | Some wfdef \<Rightarrow>
           if \<not> wd_isActive wfdef
           then ret (Fail (PlainError (''Workflow definition '' @ [CHR 0x27] @ ent_id wfdef @ [CHR 0x27]
                  @ '' is not active'')))
           else ret (Ok (wfdef, ex_create (ent_id wfdef) (cmd_tenantId cmd) (cmd_correlationId cmd)
                (case cmd_actorId cmd of Some a \<Rightarrow> a | None \<Rightarrow> ''system'') (twc_triggerType cmd)
                (twc_input cmd) executionId (tm 0) (tm 1))))"

text \<open>The handlers are these parts with the save and an answer after them.\<close>

lemma cancel_phases:
  "cancel_execution_execute X cmd tm =
     written (cancel_prepare X cmd tm) (\<lambda>x.
       andThen (execs_save X x) (\<lambda>saved. ret (Ok (execution_dto_fromEntity saved))))"
  by (rule ext) (simp add: cancel_execution_execute_def written_def cancel_prepare_def andThen_run
      split: prod.split sum.split option.split)

lemma trigger_phases:
  "trigger_workflow_execute D X publish cmd i tm =
     written (trigger_prepare D cmd i tm) (\<lambda>(wfdef, x).
       andThen (execs_save X x) (\<lambda>saved.
       andThen (publish (workflow_triggered_event cmd wfdef saved (tm 2))) (\<lambda>_.
       ret (Ok \<lparr>twr_executionId = ent_id saved, twr_definitionId = ex_definitionId saved,
                twr_status = execution_status_text (ex_status saved)\<rparr>))))"
  by (rule ext) (simp add: trigger_workflow_execute_def written_def trigger_prepare_def andThen_run
      split: prod.split sum.split option.split)

section \<open>Steps\<close>

datatype execution_request = Cancelling "string option" execution | Starting "string option" execution

primrec request_execution :: "execution_request \<Rightarrow> execution" where
  "request_execution (Cancelling tid x) = x"
| "request_execution (Starting tid x) = x"

primrec new_ids :: "execution_request \<Rightarrow> string list" where
  "new_ids (Cancelling tid x) = []"
| "new_ids (Starting tid x) = [ent_id x]"

text \<open>A fresh uuid is the id of no execution, stored or about to be.\<close>

inductive execution_step ::
  "('w \<Rightarrow> execution_row list) \<Rightarrow> ('w, execution_row) table \<Rightarrow> ('w, definition_row) table
     \<Rightarrow> 'w \<times> execution_request list \<Rightarrow> 'w \<times> execution_request list \<Rightarrow> bool"
  for rd T D where
  cancel: "cancel_prepare (execution_repository n1 n2 T tid) ccmd tm w = (r, w')
    \<Longrightarrow> execution_step rd T D (w, hs) (w', hs @ holding (Cancelling tid) r)"
| trigger: "trigger_prepare (definition_repository n1 n2 D tid) tcmd i tm w = (r, w')
    \<Longrightarrow> i \<notin> xr_id ` set (rd w) \<Longrightarrow> i \<notin> set (concat (map new_ids hs))
    \<Longrightarrow> execution_step rd T D (w, hs) (w', hs @ holding (\<lambda>(wfdef, x). Starting tid x) r)"
| save_cancelled: "execs_save (execution_repository n1 n2 T tid) x w = (r, w')
    \<Longrightarrow> execution_step rd T D (w, hs @ Cancelling tid x # hs') (w', hs @ hs')"
| save_started: "execs_save (execution_repository n1 n2 T tid) x w = (r, w')
    \<Longrightarrow> execution_step rd T D (w, hs @ Starting tid x # hs') (w', hs @ hs')"
| other: "rd w' = rd w \<Longrightarrow> execution_step rd T D (w, hs) (w', hs)"

section \<open>The specification\<close>

text \<open>What a cancellation does not record: all columns but the end, the duration and the reason.\<close>

definition tracked :: "execution_row \<Rightarrow> execution_row" where
  "tracked r = r\<lparr>xr_completedAt := None, xr_durationMs := None, xr_errorMessage := None, xr_createdAt := None\<rparr>"

inductive execution_spec :: "(string \<rightharpoonup> execution_row) \<Rightarrow> (string \<rightharpoonup> execution_row) \<Rightarrow> bool" where
  started: "xs (xr_id x) = None \<Longrightarrow> xr_status x = Exec_pending \<Longrightarrow> execution_spec xs (xs(xr_id x \<mapsto> x))"
| cancelled: "xs i = Some x \<Longrightarrow> xr_status x \<in> {Exec_pending, Exec_running}
    \<Longrightarrow> execution_spec xs (xs(i \<mapsto> x\<lparr>xr_status := Exec_cancelled\<rparr>))"

text \<open>In the specification an execution stays what it is, but for being cancelled.\<close>

lemma execution_spec_keeps:
  "execution_spec xs ys \<Longrightarrow> xs i = Some x \<Longrightarrow>
     ys i = Some x \<or> xr_status x \<in> {Exec_pending, Exec_running} \<and> ys i = Some (x\<lparr>xr_status := Exec_cancelled\<rparr>)"
  by (induction rule: execution_spec.induct) auto

lemma execution_spec_run_keeps:
  "execution_spec\<^sup>*\<^sup>* xs ys \<Longrightarrow> xs i = Some x \<Longrightarrow>
     ys i = Some x \<or> xr_status x \<in> {Exec_pending, Exec_running} \<and> ys i = Some (x\<lparr>xr_status := Exec_cancelled\<rparr>)"
  by (induction rule: rtranclp_induct) (auto dest: execution_spec_keeps)

section \<open>Every interleaving is a run of the specification\<close>

text \<open>What finding and saving an execution do to the rows.\<close>

lemma execution_find_stored:
  assumes "plain_store execution_cols rd T" and "execution_findById n1 n2 T tid i w = (r, w')"
  shows "rd w' = rd w" and "r = Inr (Some x) \<Longrightarrow> \<exists>row \<in> set (rd w). xr_id row = i
    \<and> tid = Some (xr_tenantId row) \<and> x = execution_toDomain n1 n2 row"
proof -
  show "rd w' = rd w"
    using assms(2) plain_store_find_one(1) [OF assms(1)]
    by (auto simp: execution_findById_def andThen_run split: sum.splits prod.splits)
  assume "r = Inr (Some x)"
  with assms(2) obtain ws row where ws: "scopedWhere execution_repo_name tid [(''id'', SStr i)] = Inr ws"
    and find: "find_one T (find_options ws) w = (Inr (Some row), w')" and x: "x = execution_toDomain n1 n2 row"
    by (auto simp: execution_findById_def andThen_run split: sum.splits prod.splits)
  from plain_store_find_one(2) [OF assms(1) find refl] ws x
  show "\<exists>row \<in> set (rd w). xr_id row = i \<and> tid = Some (xr_tenantId row) \<and> x = execution_toDomain n1 n2 row"
    by (auto simp: scopedWhere_Inr_iff execution_cols_def spread_def)
qed

lemma execution_save_stored:
  assumes "plain_store execution_cols rd T" and "execution_save n1 n2 T tid x w = (r, w')"
  shows "r = Inl e \<Longrightarrow> rd w' = rd w"
    and "r = Inr y \<Longrightarrow> y = execution_toDomain n1 n2 (execution_toOrm x)
      \<and> rd w' = upsert execution_cols (execution_toOrm x) (rd w)"
  using assms(2)
  by (auto simp: execution_save_def andThen_run split: sum.splits prod.splits
      dest: plain_store_save(1) [OF assms(1) _ refl] plain_store_save(2) [OF assms(1) _ refl])

text \<open>
  What is held: an execution about to be started is new and pending; one about to be cancelled
  is stored, not yet ended or cancelled by another request meanwhile, and else unchanged.
\<close>

definition request_ok :: "execution_row list \<Rightarrow> execution_request \<Rightarrow> bool" where
  "request_ok rs h = (case h of
     Cancelling tid x \<Rightarrow> \<exists>r. by_key xr_id tracked rs (ent_id x) = Some r
       \<and> xr_status r \<in> {Exec_pending, Exec_running, Exec_cancelled}
       \<and> tracked (execution_toOrm x) = r\<lparr>xr_status := Exec_cancelled\<rparr>
   | Starting tid x \<Rightarrow> ent_id x \<notin> xr_id ` set rs \<and> ex_status x = Exec_pending)"

definition executions_ok :: "('w \<Rightarrow> execution_row list) \<Rightarrow> 'w \<times> execution_request list \<Rightarrow> bool" where
  "executions_ok rd s \<longleftrightarrow> distinct (map xr_id (rd (fst s))) \<and> distinct (concat (map new_ids (snd s)))
     \<and> (\<forall>h \<in> set (snd s). request_ok (rd (fst s)) h)"

lemma execution_id_column: "execution_cols r ''id'' = SStr (xr_id r)"
  by (simp add: execution_cols_def)

lemmas execution_rows_upsert =
  by_key_upsert [where cols = execution_cols and key = xr_id, OF execution_id_column]
  keys_upsert [where cols = execution_cols and key = xr_id, OF execution_id_column]

lemma tracked_simps [simp]:
  "xr_status (tracked r) = xr_status r" "xr_id (tracked r) = xr_id r"
  "xr_status (execution_toOrm x) = ex_status x" "xr_id (execution_toOrm x) = ent_id x"
  by (simp_all add: tracked_def execution_toOrm_def)

lemma cancel_tracked:
  assumes "ex_cancel reason t1 t2 (execution_toDomain n1 n2 row) = Inr y"
  shows "xr_status row \<in> {Exec_pending, Exec_running}" and "ent_id y = xr_id row"
    and "tracked (execution_toOrm y) = (tracked row)\<lparr>xr_status := Exec_cancelled\<rparr>"
proof -
  show "xr_status row \<in> {Exec_pending, Exec_running}"
    using assms by (cases "xr_status row")
      (auto simp: ex_cancel_result ex_terminal_def execution_toDomain_def entity.defs)
  show "ent_id y = xr_id row" and "tracked (execution_toOrm y) = (tracked row)\<lparr>xr_status := Exec_cancelled\<rparr>"
    using assms
    by (auto simp: ex_cancel_result Let_def touch_def with_duration_def tracked_def execution_toOrm_def
        execution_toDomain_def entity.defs new_entity_def split: option.splits if_splits)
qed

lemma cancel_prepared:
  assumes T: "plain_store execution_cols rd T" and ids: "distinct (map xr_id (rd w))"
    and run: "cancel_prepare (execution_repository n1 n2 T tid) cmd tm w = (r, w')"
  shows "rd w' = rd w" and "r = Inr (Ok x) \<Longrightarrow> request_ok (rd w) (Cancelling tid x)"
proof -
  obtain s w1 where find: "execution_findById n1 n2 T tid (cec_executionId cmd) w = (s, w1)" by force
  have w': "w' = w1" and r: "r = Inr (Ok x) \<Longrightarrow> \<exists>old. s = Inr (Some old)
      \<and> ex_cancel (cec_reason cmd) (tm 0) (tm 1) old = Inr x"
    using run find
    by (auto simp: cancel_prepare_def execution_repository_def andThen_run split: sum.splits option.splits)
  show "rd w' = rd w" using execution_find_stored(1) [OF T find] w' by simp
  assume "r = Inr (Ok x)"
  with r obtain old where old: "s = Inr (Some old)" "ex_cancel (cec_reason cmd) (tm 0) (tm 1) old = Inr x" by blast
  from execution_find_stored(2) [OF T find old(1)] obtain row
    where row: "row \<in> set (rd w)" "old = execution_toDomain n1 n2 row" by blast
  from cancel_tracked [OF old(2) [unfolded row(2)]] by_key_mem [OF ids row(1), of tracked]
  show "request_ok (rd w) (Cancelling tid x)" by (auto simp: request_ok_def)
qed

lemma trigger_prepared:
  assumes D: "\<forall>q w. rd (snd (find_one D q w)) = rd w"
    and run: "trigger_prepare (definition_repository n1 n2 D tid) cmd i tm w = (r, w')"
  shows "rd w' = rd w" and "r = Inr (Ok (wfdef, x)) \<Longrightarrow> ent_id x = i \<and> ex_status x = Exec_pending"
proof -
  have "rd (snd (definition_findById n1 n2 D tid j w)) = rd w" for j
    using D by (auto simp: definition_findById_def andThen_run split: sum.split prod.split) (metis snd_conv)+
  then show "rd w' = rd w"
    using run by (auto simp: trigger_prepare_def definition_repository_def andThen_run
        split: sum.splits prod.splits option.splits if_splits) (metis snd_conv)+
  show "r = Inr (Ok (wfdef, x)) \<Longrightarrow> ent_id x = i \<and> ex_status x = Exec_pending"
    using run by (auto simp: trigger_prepare_def ex_create_def new_entity_def entity.defs andThen_run
        split: sum.splits prod.splits option.splits if_splits)
qed

lemma tracked_cancelled: "tracked (execution_toOrm x) = r\<lparr>xr_status := Exec_cancelled\<rparr> \<Longrightarrow> ex_status x = Exec_cancelled"
  by (drule arg_cong [where f = xr_status]) simp

text \<open>A save adds a new execution, or cancels a stored one; the other requests stay sound.\<close>

lemma request_ok_saved:
  assumes ok: "request_ok rs h" and rs': "rs' = upsert execution_cols (execution_toOrm x) rs"
  shows "request_ok rs (Cancelling tid x) \<Longrightarrow> request_ok rs' h"
    and "request_ok rs (Starting tid x) \<Longrightarrow> ent_id x \<notin> set (new_ids h) \<Longrightarrow> request_ok rs' h"
proof -
  have keys: "xr_id ` set rs' = insert (ent_id x) (xr_id ` set rs)"
    and map: "by_key xr_id tracked rs' = (by_key xr_id tracked rs)(ent_id x \<mapsto> tracked (execution_toOrm x))"
    by (simp_all add: rs' execution_rows_upsert)
  have stored: "ent_id y \<in> xr_id ` set rs" if "by_key xr_id tracked rs (ent_id y) = Some r" for y :: execution and r
    using that by (metis by_key_None option.distinct(1))
  show "request_ok rs (Cancelling tid x) \<Longrightarrow> request_ok rs' h"
    using ok stored [of x] by (cases h) (auto simp: request_ok_def keys map dest: tracked_cancelled)
  show "request_ok rs (Starting tid x) \<Longrightarrow> ent_id x \<notin> set (new_ids h) \<Longrightarrow> request_ok rs' h"
    using ok stored by (cases h) (auto simp: request_ok_def keys map)
qed

lemma cancelled_spec:
  assumes "request_ok rs (Cancelling tid x)" and "rs' = upsert execution_cols (execution_toOrm x) rs"
  shows "by_key xr_id tracked rs' = by_key xr_id tracked rs
    \<or> execution_spec (by_key xr_id tracked rs) (by_key xr_id tracked rs')"
proof -
  from assms(1) obtain r where r: "by_key xr_id tracked rs (ent_id x) = Some r"
    "xr_status r \<in> {Exec_pending, Exec_running, Exec_cancelled}"
    "tracked (execution_toOrm x) = r\<lparr>xr_status := Exec_cancelled\<rparr>"
    by (auto simp: request_ok_def)
  have rs': "by_key xr_id tracked rs' = (by_key xr_id tracked rs)(ent_id x \<mapsto> r\<lparr>xr_status := Exec_cancelled\<rparr>)"
    by (simp add: assms(2) execution_rows_upsert r(3))
  show ?thesis
  proof (cases "xr_status r = Exec_cancelled")
    case True
    then have "r\<lparr>xr_status := Exec_cancelled\<rparr> = r" by (cases r) simp
    with r(1) show ?thesis by (simp add: rs' fun_upd_idem)
  next
    case False
    with r(2) have "xr_status r \<in> {Exec_pending, Exec_running}" by blast
    from execution_spec.cancelled [of "by_key xr_id tracked rs", OF r(1) this] show ?thesis by (simp add: rs')
  qed
qed

lemma started_spec:
  assumes "request_ok rs (Starting tid x)" and "rs' = upsert execution_cols (execution_toOrm x) rs"
  shows "execution_spec (by_key xr_id tracked rs) (by_key xr_id tracked rs')"
  using assms execution_spec.started [of "by_key xr_id tracked rs" "tracked (execution_toOrm x)"]
  by (simp add: request_ok_def execution_rows_upsert)

lemma saved_cases:
  assumes "plain_store execution_cols rd T" and "execs_save (execution_repository n1 n2 T tid) x w = (r, w')"
  obtains (unchanged) "rd w' = rd w" | (stored) "rd w' = upsert execution_cols (execution_toOrm x) (rd w)"
  using assms(2) execution_save_stored [OF assms(1)]
  by (cases r) (auto simp: execution_repository_def)

lemma executions_ok_saved:
  assumes ok: "executions_ok rd (w, hs @ h # hs')"
    and stored: "rd w' = upsert execution_cols (execution_toOrm (request_execution h)) (rd w)"
  shows "executions_ok rd (w', hs @ hs')"
proof -
  have "request_ok (rd w') h'" if h': "h' \<in> set hs \<union> set hs'" for h'
  proof (cases h)
    case (Cancelling tid x)
    with ok h' show ?thesis
      by (intro request_ok_saved(1) [OF _ stored]) (auto simp: executions_ok_def)
  next
    case (Starting tid x)
    with ok h' show ?thesis
      by (intro request_ok_saved(2) [OF _ stored]) (auto simp: executions_ok_def)
  qed
  with ok show ?thesis
    by (auto simp: executions_ok_def stored execution_rows_upsert)
qed

lemma executions_ok_same: "executions_ok rd (w, hs) \<Longrightarrow> rd w' = rd w \<Longrightarrow> executions_ok rd (w', hs)"
  by (simp add: executions_ok_def)

lemma executions_ok_dropped: "executions_ok rd (w, hs @ h # hs') \<Longrightarrow> executions_ok rd (w, hs @ hs')"
  by (auto simp: executions_ok_def)

lemma execution_step_ok:
  assumes T: "plain_store execution_cols rd T" and D: "\<forall>q w. rd (snd (find_one D q w)) = rd w"
    and step: "execution_step rd T D s s'" and ok: "executions_ok rd s"
  shows "executions_ok rd s'"
  using step ok
proof (cases rule: execution_step.cases)
  case (cancel n1 n2 tid cmd tm w r w' hs)
  with ok have "distinct (map xr_id (rd w))" by (simp add: executions_ok_def)
  note prepared = cancel_prepared [OF T this cancel(3)]
  from ok cancel prepared show ?thesis
    by (auto simp: executions_ok_def set_holding holding_def split: sum.splits result.splits)
next
  case (trigger n1 n2 tid cmd i tm w r w' hs)
  note prepared = trigger_prepared [OF D trigger(3)]
  from ok trigger prepared show ?thesis
    by (auto simp: executions_ok_def request_ok_def holding_def split: sum.splits result.splits)
next
  case (save_cancelled n1 n2 tid x w r w' hs hs')
  from T save_cancelled(3) show ?thesis
  proof (cases rule: saved_cases)
    case unchanged
    with ok save_cancelled show ?thesis by (auto intro: executions_ok_same executions_ok_dropped)
  next
    case stored
    with ok save_cancelled show ?thesis by (auto intro: executions_ok_saved)
  qed
next
  case (save_started n1 n2 tid x w r w' hs hs')
  from T save_started(3) show ?thesis
  proof (cases rule: saved_cases)
    case unchanged
    with ok save_started show ?thesis by (auto intro: executions_ok_same executions_ok_dropped)
  next
    case stored
    with ok save_started show ?thesis by (auto intro: executions_ok_saved)
  qed
next
  case (other w' w hs)
  with ok show ?thesis by (auto intro: executions_ok_same)
qed

lemma execution_step_spec:
  assumes T: "plain_store execution_cols rd T" and D: "\<forall>q w. rd (snd (find_one D q w)) = rd w"
    and step: "execution_step rd T D s s'" and ok: "executions_ok rd s"
  shows "by_key xr_id tracked (rd (fst s')) = by_key xr_id tracked (rd (fst s))
    \<or> execution_spec (by_key xr_id tracked (rd (fst s))) (by_key xr_id tracked (rd (fst s')))"
  using step ok
proof (cases rule: execution_step.cases)
  case (cancel n1 n2 tid cmd tm w r w' hs)
  with ok cancel_prepared(1) [OF T _ cancel(3)] show ?thesis by (simp add: executions_ok_def)
next
  case (trigger n1 n2 tid cmd i tm w r w' hs)
  with trigger_prepared(1) [OF D trigger(3)] show ?thesis by simp
next
  case (save_cancelled n1 n2 tid x w r w' hs hs')
  with ok have "request_ok (rd w) (Cancelling tid x)" by (simp add: executions_ok_def)
  from T save_cancelled(3) cancelled_spec [OF this] save_cancelled show ?thesis
    by (cases rule: saved_cases) auto
next
  case (save_started n1 n2 tid x w r w' hs hs')
  with ok have "request_ok (rd w) (Starting tid x)" by (simp add: executions_ok_def)
  from T save_started(3) started_spec [OF this] save_started show ?thesis
    by (cases rule: saved_cases) auto
qed simp

interpretation execution_requests: simulated "execution_step rd T D"
  "\<lambda>s. plain_store execution_cols rd T \<and> (\<forall>q w. rd (snd (find_one D q w)) = rd w) \<and> executions_ok rd s"
  "\<lambda>s. by_key xr_id tracked (rd (fst s))" execution_spec for rd T D
  by unfold_locales (auto intro: execution_step_ok dest: execution_step_spec)

end
