(* ===== verification/RepositoryProperties.thy ===== *)
theory RepositoryProperties
  imports Samples Paging ExecutionInterleaving
begin

text \<open>
  Tenant isolation in the repositories and in the handlers above them: whose rows come back,
  whose can be written, and that what one tenant reads does not depend on another's rows.
\<close>

section \<open>Reading\<close>

text \<open>
  C7: looking up an audit event, a workflow definition or an execution by its id returns only
  what belongs to the tenant of the context, whatever the id.
\<close>

theorem lookups_isolated:
  assumes "where_sound audit_cols TA" and "audit_findById n1 n2 TA tid i w = (Inr (Some e), w1)"
    and "where_sound definition_cols TD" and "definition_findById n1 n2 TD tid j v = (Inr (Some d), v1)"
    and "where_sound execution_cols TX" and "execution_findById n1 n2 TX tid k u = (Inr (Some x), u1)"
  shows "tid = Some (ae_tenantId e) \<and> tid = Some (wd_tenantId d) \<and> tid = Some (ex_tenantId x)"
  using audit_repo.find_isolated [OF assms(1,2)] definition_repo.find_isolated [OF assms(3,4)]
    execution_repo.find_isolated [OF assms(5,6)] by blast

theorem lookups_isolated_witness:
  "Some ''t1'' = Some (ae_tenantId (audit_toDomain 0 0 (sample_audit_row ''a'' ''t1'')))"
proof -
  have a: "audit_findById 0 0 (lone_table audit_cols []) (Some ''t1'') ''a''
      [sample_audit_row ''b'' ''t2'', sample_audit_row ''a'' ''t1'']
    = (Inr (Some (audit_toDomain 0 0 (sample_audit_row ''a'' ''t1''))),
       [sample_audit_row ''b'' ''t2'', sample_audit_row ''a'' ''t1''])"
    by code_simp
  have d: "definition_findById 0 0 (lone_table definition_cols []) (Some ''t1'') ''d''
      [sample_definition_row ''d'' ''t1'' Draft]
    = (Inr (Some (definition_toDomain 0 0 (sample_definition_row ''d'' ''t1'' Draft))),
       [sample_definition_row ''d'' ''t1'' Draft])"
    by code_simp
  have x: "execution_findById 0 0 (lone_table execution_cols []) (Some ''t1'') ''x''
      [sample_execution_row ''x'' ''t1'' Exec_pending]
    = (Inr (Some (execution_toDomain 0 0 (sample_execution_row ''x'' ''t1'' Exec_pending))),
       [sample_execution_row ''x'' ''t1'' Exec_pending])"
    by code_simp
  from lookups_isolated [OF where_sound_lone a where_sound_lone d where_sound_lone x]
  show ?thesis by (rule conjunct1)
qed

text \<open>The queries behind the lists carry the condition on the tenant.\<close>

lemma scopedQb_Some: "t \<noteq> [] \<Longrightarrow> scopedQb cls (Some t) = Inr (tenant_qb t)"
  by (simp add: scopedQb_def tenant_qb_def)

lemma audit_filtered_scoped:
  "tenant_scoped_query t q \<Longrightarrow> tenant_scoped_query t (audit_filtered f q)"
  by (auto simp: audit_filtered_def andWhere_if_def Let_def split: option.split)

lemma tenant_qb_scoped: "tenant_scoped_query t (tenant_qb t)"
  by (simp add: tenant_qb_def)

lemma audit_query_agrees:
  assumes "reads_matching audit_cols rd T"
    and "rows_of_tenant audit_cols t (rd w) = rows_of_tenant audit_cols t (rd w')" and "t \<noteq> []"
  shows "agrees w w' (audit_query n1 n2 T (Some t) f opts)"
  unfolding audit_query_def Let_def scopedQb_Some [OF assms(3)]
  by (auto intro!: agrees_intros reads_of_tenant_agree(2) [OF assms(1,2)] audit_filtered_scoped
      simp: tenant_qb_scoped split: prod.split)

lemma execution_findMany_agrees:
  assumes "reads_matching execution_cols rd T"
    and "rows_of_tenant execution_cols t (rd w) = rows_of_tenant execution_cols t (rd w')" and "t \<noteq> []"
  shows "agrees w w' (execution_findMany n1 n2 T (Some t) st opts)"
  unfolding execution_findMany_def execution_page_of_def Let_def scopedQb_Some [OF assms(3)]
  by (auto intro!: agrees_intros reads_of_tenant_agree(2) [OF assms(1,2)]
      simp: tenant_qb_scoped split: prod.split option.split)

lemma metrics_agrees:
  assumes "reads_matching audit_cols ra A" and "reads_matching execution_cols rx X"
    and "reads_matching org_cols rg G"
    and "rows_of_tenant audit_cols (tc_tenantId c) (ra w) = rows_of_tenant audit_cols (tc_tenantId c) (ra w')"
    and "rows_of_tenant execution_cols (tc_tenantId c) (rx w)
      = rows_of_tenant execution_cols (tc_tenantId c) (rx w')"
    and "rg w = rg w'"
  shows "agrees w w' (metrics_execute A X G (Some c) now)"
proof -
  note counts = reads_of_tenant_agree(3) [OF assms(1,4)] reads_of_tenant_agree(3) [OF assms(2,5)]
    reads_matching_agrees(3) [OF assms(3)]
  show ?thesis
    unfolding metrics_execute_def context_tenantId_Some andThen_lift_Inr Let_def
    by (intro agrees_intros counts) (simp_all add: assms(6))
qed

text \<open>
  C8: what a tenant reads does not depend on the rows of the others. Two databases that hold
  the same rows of the tenant (and the same organizations) give the same page of audit events
  with the same total, the same page of executions, and the same dashboard metrics.
\<close>

theorem reads_independent_of_others:
  assumes "reads_matching audit_cols ra A" and "reads_matching execution_cols rx X"
    and "reads_matching org_cols rg G"
    and "rows_of_tenant audit_cols t (ra w) = rows_of_tenant audit_cols t (ra w')"
    and "rows_of_tenant execution_cols t (rx w) = rows_of_tenant execution_cols t (rx w')"
    and "rg w = rg w'" and "t \<noteq> []" and "tc_tenantId c = t"
  shows "fst (audit_query n1 n2 A (Some t) f opts w) = fst (audit_query n1 n2 A (Some t) f opts w')
    \<and> fst (execution_findMany n1 n2 X (Some t) st opts w) = fst (execution_findMany n1 n2 X (Some t) st opts w')
    \<and> fst (metrics_execute A X G (Some c) now w) = fst (metrics_execute A X G (Some c) now w')"
  using audit_query_agrees [OF assms(1,4,7)] execution_findMany_agrees [OF assms(2,5,7)]
    metrics_agrees [OF assms(1-3), of c w w'] assms(4-6,8)
  by (simp add: agrees_same)

theorem reads_independent_of_others_witness:
  "fst (metrics_execute audit_tbl execution_tbl org_tbl (Some (sample_context ''t1'')) 6
      ([sample_audit_row ''a1'' ''t1'', sample_audit_row ''a2'' ''t2''],
       [sample_execution_row ''x1'' ''t1'' Exec_running, sample_execution_row ''x2'' ''t2'' Exec_failed], []))
    = fst (metrics_execute audit_tbl execution_tbl org_tbl (Some (sample_context ''t1'')) 6
      ([sample_audit_row ''a1'' ''t1''], [sample_execution_row ''x1'' ''t1'' Exec_running], []))"
proof -
  let ?w = "([sample_audit_row ''a1'' ''t1'', sample_audit_row ''a2'' ''t2''],
    [sample_execution_row ''x1'' ''t1'' Exec_running, sample_execution_row ''x2'' ''t2'' Exec_failed], []) :: platform"
  let ?w' = "([sample_audit_row ''a1'' ''t1''], [sample_execution_row ''x1'' ''t1'' Exec_running], []) :: platform"
  have a: "rows_of_tenant audit_cols ''t1'' (fst ?w) = rows_of_tenant audit_cols ''t1'' (fst ?w')"
    by code_simp
  have x: "rows_of_tenant execution_cols ''t1'' (fst (snd ?w)) = rows_of_tenant execution_cols ''t1'' (fst (snd ?w'))"
    by code_simp
  have g: "snd (snd ?w) = snd (snd ?w')" by simp
  have t: "''t1'' \<noteq> []" by simp
  have c: "tc_tenantId (sample_context ''t1'') = ''t1''" by (simp add: sample_context_def)
  note indep = reads_independent_of_others [where w = ?w and w' = ?w' and ra = fst
    and rx = "\<lambda>w. fst (snd w)" and rg = "\<lambda>w. snd (snd w)", OF platform_reads a x g t c]
  show ?thesis by (rule indep [THEN conjunct2, THEN conjunct2])
qed

section \<open>Page after page\<close>

definition wanted_executions :: "string \<Rightarrow> execution_status option \<Rightarrow> execution_row list \<Rightarrow> execution_row list" where
  "wanted_executions t st rows =
     filter (\<lambda>r. xr_tenantId r = t \<and> (case st of None \<Rightarrow> True | Some s \<Rightarrow> xr_status r = s)) rows"

lemma execution_status_text_inj: "execution_status_text a = execution_status_text b \<longleftrightarrow> a = b"
  by (cases a; cases b) simp_all

lemma newest_first_key:
  assumes "\<forall>r \<in> set rows. xr_createdAt r \<noteq> None" and "distinct (map xr_createdAt rows)"
  shows "\<forall>r \<in> set rows. order_key True (execution_cols r ''createdAt'') = - the (xr_createdAt r)"
    and "inj_on (\<lambda>r. order_key True (execution_cols r ''createdAt'')) (set rows)"
    and "sort_key (\<lambda>r. order_key True (execution_cols r ''createdAt'')) rows
      = sort_key (\<lambda>r. - the (xr_createdAt r)) rows"
proof -
  show key: "\<forall>r \<in> set rows. order_key True (execution_cols r ''createdAt'') = - the (xr_createdAt r)"
    using assms(1) by (auto simp: execution_cols_def sql_time_def)
  have created: "inj_on xr_createdAt (set rows)"
    using assms(2) by (simp add: distinct_map)
  show inj: "inj_on (\<lambda>r. order_key True (execution_cols r ''createdAt'')) (set rows)"
  proof (intro inj_onI)
    fix x y
    assume "x \<in> set rows" and "y \<in> set rows"
      and same: "order_key True (execution_cols x ''createdAt'') = order_key True (execution_cols y ''createdAt'')"
    from this(1,2) assms(1) obtain a b where "xr_createdAt x = Some a" and "xr_createdAt y = Some b" by blast
    moreover from this same have "a = b" by (simp add: execution_cols_def sql_time_def)
    ultimately show "x = y" using inj_onD [OF created, of x y] \<open>x \<in> set rows\<close> \<open>y \<in> set rows\<close> by simp
  qed
  have "map (\<lambda>r. order_key True (execution_cols r ''createdAt'')) (sort_key (\<lambda>r. - the (xr_createdAt r)) rows)
      = map (\<lambda>r. - the (xr_createdAt r)) (sort_key (\<lambda>r. - the (xr_createdAt r)) rows)"
    using key by simp
  then have "sorted (map (\<lambda>r. order_key True (execution_cols r ''createdAt'')) (sort_key (\<lambda>r. - the (xr_createdAt r)) rows))"
    by (simp del: map_eq_conv)
  then show "sort_key (\<lambda>r. order_key True (execution_cols r ''createdAt'')) rows
      = sort_key (\<lambda>r. - the (xr_createdAt r)) rows"
    by (intro sort_key_inj_key_eq [OF _ inj]) simp_all
qed

lemma execution_findMany_page:
  assumes T: "pages_sorted execution_cols rd T" and "t \<noteq> []" and rows: "rows = wanted_executions t st (rd w)"
    and dated: "\<forall>r \<in> set rows. xr_createdAt r \<noteq> None" "distinct (map xr_createdAt rows)"
  shows "execution_findMany n1 n2 T (Some t) st \<lparr>opt_page = Some p, opt_limit = Some l\<rparr> w
    = (Inr \<lparr>pr_data = map (execution_toDomain n1 n2) (take (nat (min l 100)) (drop (nat ((p - 1) * min l 100))
               (sort_key (\<lambda>r. - the (xr_createdAt r)) rows))),
            pr_meta = buildPaginationMeta p (min l 100) (int (length rows))\<rparr>, w)"
proof -
  let ?q = "qb_take (min l 100) (qb_skip ((p - 1) * min l 100) (qb_orderBy ''createdAt'' True
      (case st of None \<Rightarrow> tenant_qb t
       | Some s \<Rightarrow> qb_andWhere (CEq ''status'' (SStr (execution_status_text s))) (tenant_qb t))))"
  have match: "matching execution_cols ?q (rd w) = rows"
    by (auto simp: rows matching_def wanted_executions_def tenant_qb_def execution_cols_def
        execution_status_text_inj split: option.split intro!: filter_cong)
  have "find_and_count T ?q w = (Inr (take (nat (min l 100)) (drop (nat ((p - 1) * min l 100))
      (sort_key (\<lambda>r. order_key True (execution_cols r ''createdAt'')) (matching execution_cols ?q (rd w)))),
      length (matching execution_cols ?q (rd w))), w)"
  proof (rule sorted_page [OF T])
    show "\<forall>r \<in> set (matching execution_cols ?q (rd w)). \<exists>t. execution_cols r ''createdAt'' = STime t"
      using dated(1) by (auto simp: match execution_cols_def sql_time_def)
    show "inj_on (\<lambda>r. order_key True (execution_cols r ''createdAt'')) (set (matching execution_cols ?q (rd w)))"
      unfolding match by (rule newest_first_key(2) [OF dated])
  qed (simp_all add: qb_defs)
  then show ?thesis
    unfolding match newest_first_key(3) [OF dated]
    by (simp add: execution_findMany_def execution_page_of_def execution_page_def execution_limit_def
        scopedQb_Some [OF assms(2)] andThen_run Let_def)
qed

text \<open>
  C25: reading the executions of a tenant page after page, with any positive page size, gives
  each one once, the newest first, at most a hundred per page. Every page states their number,
  and announces a further page exactly when executions are left. This takes creation dates that
  differ, since the code asks for no second column to order by.
\<close>

theorem execution_pages:
  assumes "pages_sorted execution_cols rd T" and "t \<noteq> []" and "rows = wanted_executions t st (rd w)"
    and "\<forall>r \<in> set rows. xr_createdAt r \<noteq> None" and "distinct (map xr_createdAt rows)"
    and "0 < l" and "k = nat (min l 100)"
    and "page = (\<lambda>p. execution_findMany n1 n2 T (Some t) st \<lparr>opt_page = Some (int p), opt_limit = Some l\<rparr> w)"
  shows "concat (map (\<lambda>p. case page p of (Inr res, _) \<Rightarrow> pr_data res | _ \<Rightarrow> []) [1..<Suc n])
      = map (execution_toDomain n1 n2) (take (n * k) (sort_key (\<lambda>r. - the (xr_createdAt r)) rows))
    \<and> (\<exists>res. page (Suc n) = (Inr res, w) \<and> length (pr_data res) \<le> k
        \<and> meta_total (pr_meta res) = int (length rows)
        \<and> (meta_hasNextPage (pr_meta res) \<longleftrightarrow> Suc n * k < length rows))"
proof -
  let ?sorted = "sort_key (\<lambda>r. - the (xr_createdAt r)) rows"
  have k: "min l 100 = int k" "0 < k" using assms(6,7) by auto
  have run: "page p = (Inr \<lparr>pr_data = map (execution_toDomain n1 n2) (take k (drop ((p - 1) * k) ?sorted)),
      pr_meta = buildPaginationMeta (int p) (int k) (int (length rows))\<rparr>, w)" if "1 \<le> p" for p
  proof -
    have "nat ((int p - 1) * int k) = (p - 1) * k"
      using that by (simp add: nat_mult_distrib nat_diff_distrib)
    then show ?thesis
      unfolding assms(8) execution_findMany_page [OF assms(1-5)] k(1) by simp
  qed
  have "concat (map (\<lambda>p. case page p of (Inr res, _) \<Rightarrow> pr_data res | _ \<Rightarrow> []) [1..<Suc n])
      = concat (map (\<lambda>p. map (execution_toDomain n1 n2) (take k (drop ((p - 1) * k) ?sorted))) [1..<Suc n])"
    by (intro arg_cong [where f = concat] map_cong) (auto simp: run)
  also have "\<dots> = map (execution_toDomain n1 n2) (take (n * k) ?sorted)"
    unfolding pages_concat [symmetric] map_concat map_map o_def ..
  finally have tiles: "concat (map (\<lambda>p. case page p of (Inr res, _) \<Rightarrow> pr_data res | _ \<Rightarrow> []) [1..<Suc n])
      = map (execution_toDomain n1 n2) (take (n * k) ?sorted)" .
  have "int (Suc n) * int k < int (length rows) \<longleftrightarrow> Suc n * k < length rows"
    by (simp only: of_nat_mult [symmetric] of_nat_less_iff)
  with hasNextPage_iff [of "int k" "int (Suc n)" "int (length rows)"] k(2)
  have more: "meta_hasNextPage (buildPaginationMeta (int (Suc n)) (int k) (int (length rows)))
      \<longleftrightarrow> Suc n * k < length rows"
    by simp
  have "meta_total (buildPaginationMeta (int (Suc n)) (int k) (int (length rows))) = int (length rows)"
    by (simp add: buildPaginationMeta_def Let_def)
  with tiles more run [of "Suc n"] show ?thesis by simp
qed

theorem execution_pages_witness:
  "\<exists>res. execution_findMany 0 0 (lone_table execution_cols []) (Some ''t1'') None
       \<lparr>opt_page = Some 1, opt_limit = Some 1\<rparr>
       [sample_execution_row ''x'' ''t1'' Exec_pending\<lparr>xr_createdAt := Some 4\<rparr>,
        sample_execution_row ''y'' ''t1'' Exec_running\<lparr>xr_createdAt := Some 5\<rparr>]
     = (Inr res, [sample_execution_row ''x'' ''t1'' Exec_pending\<lparr>xr_createdAt := Some 4\<rparr>,
        sample_execution_row ''y'' ''t1'' Exec_running\<lparr>xr_createdAt := Some 5\<rparr>])
     \<and> meta_hasNextPage (pr_meta res)"
proof -
  let ?w = "[sample_execution_row ''x'' ''t1'' Exec_pending\<lparr>xr_createdAt := Some 4\<rparr>,
        sample_execution_row ''y'' ''t1'' Exec_running\<lparr>xr_createdAt := Some 5\<rparr>]"
  have T: "pages_sorted execution_cols (\<lambda>w. w) (lone_table execution_cols [])"
    by (simp add: lone_table_def)
  have rows: "?w = wanted_executions ''t1'' None ?w"
    by code_simp
  have dates: "\<forall>r \<in> set ?w. xr_createdAt r \<noteq> None" "distinct (map xr_createdAt ?w)"
    by simp_all
  have "''t1'' \<noteq> ([] :: string)" "(0 :: int) < 1" "1 = nat (min 1 100)" by simp_all
  from execution_pages [where T = "lone_table execution_cols []" and rd = "\<lambda>w. w" and w = ?w and rows = ?w
      and t = "''t1''" and st = None and l = 1 and k = 1 and n = 0 and ?n1.0 = 0 and ?n2.0 = 0,
      OF T this(1) rows dates this(2,3) refl, THEN conjunct2]
  obtain res where "execution_findMany 0 0 (lone_table execution_cols []) (Some ''t1'') None
      \<lparr>opt_page = Some (int (Suc 0)), opt_limit = Some 1\<rparr> ?w = (Inr res, ?w)"
    and "meta_hasNextPage (pr_meta res) \<longleftrightarrow> Suc 0 * 1 < length ?w"
    by blast
  then show ?thesis by auto
qed

section \<open>Writing\<close>

text \<open>
  An audit event, a workflow definition or an execution of another tenant is never
  written: the repository throws a tenant-isolation error before it touches the database.
\<close>

lemma foreign_writes_refused:
  assumes "t \<noteq> []" and "ae_tenantId e \<noteq> t" and "wd_tenantId d \<noteq> t" and "ex_tenantId x \<noteq> t"
  shows "(\<exists>m. audit_append TA (Some t) e w = (Inl (ForbiddenException m), w))
    \<and> (\<exists>m. definition_save n1 n2 TD (Some t) d v = (Inl (ForbiddenException m), v))
    \<and> (\<exists>m. execution_save n1 n2 TX (Some t) x u = (Inl (ForbiddenException m), u))"
  by (intro conjI audit_repo.write_foreign [OF refl assms(1,2)] definition_repo.write_foreign [OF refl assms(1,3)]
    execution_repo.write_foreign [OF refl assms(1,4)])

text \<open>
  C10: a batch of audit events is recorded as a whole or not at all: either every event is of
  the tenant of the context and exactly these rows are added in order, or no row changes.
\<close>

theorem audit_batch_all_or_nothing:
  assumes "plain_store audit_cols rd T" and "audit_appendBatch T tid es w = (r, w')"
  shows "case r of Inl _ \<Rightarrow> rd w' = rd w
    | Inr _ \<Rightarrow> rd w' = rd w @ map audit_toOrm es \<and> list_all (\<lambda>e. tid = Some (ae_tenantId e)) es"
proof (cases "es = []")
  case True
  with assms(2) show ?thesis by (auto simp: appendBatch_empty)
next
  case False
  show ?thesis
  proof (cases "requireTenantId audit_repo_name tid")
    case (Inl x)
    with False assms(2) show ?thesis by (auto simp: audit_appendBatch_def isEmpty_def andThen_run)
  next
    case (Inr t)
    show ?thesis
    proof (cases "first_foreign t es")
      case None
      with False Inr assms(2) have ins: "insert_rows T (map audit_toOrm es) w = (r, w')"
        by (auto simp: audit_appendBatch_def isEmpty_def andThen_run)
      from None Inr have "list_all (\<lambda>e. tid = Some (ae_tenantId e)) es"
        by (auto simp: first_foreign_None_iff list_all_iff)
      then show ?thesis
        using plain_store_insert [OF assms(1) ins] by (cases r) auto
    next
      case (Some e)
      with False Inr assms(2) show ?thesis by (auto simp: audit_appendBatch_def isEmpty_def andThen_run)
    qed
  qed
qed

theorem audit_batch_all_or_nothing_witness:
  "[sample_audit_row ''a1'' ''t1'', sample_audit_row ''a2'' ''t1'']
     = [] @ map audit_toOrm (map (audit_toDomain 0 0) [sample_audit_row ''a1'' ''t1'', sample_audit_row ''a2'' ''t1''])"
proof -
  let ?es = "map (audit_toDomain 0 0) [sample_audit_row ''a1'' ''t1'', sample_audit_row ''a2'' ''t1'']"
  have "audit_appendBatch (lone_table audit_cols [''id'']) (Some ''t1'') ?es []
      = (Inr (), [sample_audit_row ''a1'' ''t1'', sample_audit_row ''a2'' ''t1''])"
    by code_simp
  from audit_batch_all_or_nothing [OF plain_store_lone this] show ?thesis by simp
qed

section \<open>Workflows\<close>

text \<open>
  C11: the definitions an event starts are exactly the active, event-triggered definitions of
  the tenant of the context that name this event type.
\<close>

theorem event_selects_definitions:
  assumes "finds_all definition_cols rd T"
    and "definition_findByTriggerEvent n1 n2 T tid ev w = (Inr ds, w')"
  shows "\<exists>t. tid = Some t \<and> set ds = definition_toDomain n1 n2 `
    {r \<in> set (rd w). dr_tenantId r = t \<and> dr_status r = Active_definition
       \<and> wt_type (dr_trigger r) = Trigger_event \<and> wt_eventType (dr_trigger r) = Some ev}"
proof -
  let ?q = "\<lambda>q. qb_andWhere (CEq ''status'' (SStr ''active''))
          (qb_andWhere (CJsonText ''trigger'' ''eventType'' (SStr ev))
            (qb_andWhere (CJsonText ''trigger'' ''type'' (SStr ''event'')) q))"
  from assms(2) obtain t rows where t: "tid = Some t" "t \<noteq> []"
    and find: "find_many T (?q (tenant_qb t)) w = (Inr rows, w')"
    and ds: "ds = map (definition_toDomain n1 n2) rows"
    by (auto simp: definition_findByTriggerEvent_def andThen_run scopedQb_Inr_iff tenant_qb_def
        split: sum.splits prod.splits)
  have "q_skip (?q (tenant_qb t)) = None" and "q_take (?q (tenant_qb t)) = None"
    by (simp_all add: tenant_qb_def qb_defs)
  with assms(1) find have rows: "set rows = {r \<in> set (rd w). sat_all (definition_cols r) (?q (tenant_qb t))}"
    unfolding finds_all_def set_matching by blast
  have "sat_all (definition_cols r) (?q (tenant_qb t)) \<longleftrightarrow>
      dr_tenantId r = t \<and> dr_status r = Active_definition \<and> wt_type (dr_trigger r) = Trigger_event
       \<and> wt_eventType (dr_trigger r) = Some ev" for r
    by (cases "dr_status r"; cases "wt_type (dr_trigger r)"; cases "wt_eventType (dr_trigger r)")
      (simp_all add: tenant_qb_def definition_cols_def trigger_json_type trigger_json_eventType)
  with t ds rows show ?thesis by auto
qed

theorem event_selects_definitions_witness:
  "\<exists>t. Some ''t1'' = Some t \<and> {definition_toDomain 0 0 (sample_definition_row ''d1'' ''t1'' Active_definition)}
     = definition_toDomain 0 0 ` {r \<in> {sample_definition_row ''d1'' ''t1'' Active_definition,
          sample_definition_row ''d2'' ''t1'' Archived, sample_definition_row ''d3'' ''t2'' Active_definition}.
        dr_tenantId r = t \<and> dr_status r = Active_definition \<and> wt_type (dr_trigger r) = Trigger_event
        \<and> wt_eventType (dr_trigger r) = Some ''tenant.created''}"
proof -
  let ?w = "[sample_definition_row ''d1'' ''t1'' Active_definition, sample_definition_row ''d2'' ''t1'' Archived,
    sample_definition_row ''d3'' ''t2'' Active_definition]"
  have "definition_findByTriggerEvent 0 0 (lone_table definition_cols []) (Some ''t1'') ''tenant.created'' ?w
      = (Inr [definition_toDomain 0 0 (sample_definition_row ''d1'' ''t1'' Active_definition)], ?w)"
    by code_simp
  from event_selects_definitions [OF finds_all_lone this] show ?thesis by simp
qed







section \<open>Requests on executions that overlap\<close>


text \<open>
  Two cancellations that overlap: both read the execution before either saves, both succeed, and
  the one saved last records its reason. One after the other, the second is refused.
\<close>

definition cancel_by :: "string \<Rightarrow> cancel_execution_command" where
  "cancel_by reason = new_cancel_execution_command ''x1'' (Some reason) ''t1'' None None ''f'' ''g'' 0"

definition sample_executions :: "time \<Rightarrow> time \<Rightarrow> execution_row list execution_port" where
  "sample_executions n1 n2 = execution_repository n1 n2 (lone_table execution_cols []) (Some ''t1'')"

lemma overlapping_cancellations:
  "let P = sample_executions 0 0; w = [sample_execution_row ''x1'' ''t1'' Exec_pending] in
     case (fst (cancel_prepare P (cancel_by ''first'') no_times w), fst (cancel_prepare P (cancel_by ''second'') no_times w)) of
       (Inr (Ok x), Inr (Ok y)) \<Rightarrow>
         snd (execs_save P y (snd (execs_save P x w))) = [execution_toOrm y] \<and> ex_errorMessage y = Some ''second''
         \<and> (case fst (cancel_execution_execute P (cancel_by ''second'') no_times (snd (execs_save P x w))) of
               Inl (ConflictException m) \<Rightarrow> True | _ \<Rightarrow> False)
     | _ \<Rightarrow> False"
  by code_simp


end
