(* ===== verification/AccountInterleaving.thy ===== *)
theory AccountInterleaving
  imports Identity Overlap
begin

text \<open>
  Registrations and logins that overlap. Both read the users first and save one user last; a
  login saves every column of the user it has read, not only the date of the login. In between
  anything may happen that writes no user: organizations change, tokens are signed, events
  leave. The specification is a directory of accounts to which a registration adds one.
\<close>

section \<open>The handlers up to their write\<close>

definition login_prepare ::
  "'w user_port \<Rightarrow> 'w organization_port \<Rightarrow> 'w bcrypt \<Rightarrow> authenticate_command \<Rightarrow> (nat \<Rightarrow> time)
     \<Rightarrow> ('w, (user \<times> organization) result) io" where
  "login_prepare U P B cmd tm =
     andThen (users_findByEmail U (auc_email cmd)) (\<lambda>found.
       case found of
         None \<Rightarrow> ret (Fail invalid_credentials)
       | Some user \<Rightarrow>
           andThen (user_verifyPassword B (auc_password cmd) user) (\<lambda>passwordValid.
             if \<not> passwordValid then ret (Fail invalid_credentials)
             else if \<not> user_isActive user
             then ret (Fail (UnauthorizedException (''Account is '' @ user_status_text (usr_status user))))
             else
               andThen (resolveOrganization P (ent_id user) (auc_organizationSlug cmd)
                          (forSuperAdmin (ent_id user) ''authenticate-login'' (tm 0))) (\<lambda>resolved.
                 case resolved of
                   None \<Rightarrow> ret (Fail invalid_credentials)
                 | Some organization \<Rightarrow>
                     if org_ownerId organization \<noteq> ent_id user then ret (Fail invalid_credentials)
                     else if org_status organization \<noteq> ACTIVE
                     then ret (Fail (UnauthorizedException (''Tenant is '' @ status_text (org_status organization))))
                     else ret (Ok (user, organization)))))"

definition register_prepare ::
  "'w user_port \<Rightarrow> 'w bcrypt \<Rightarrow> register_user_command \<Rightarrow> string \<Rightarrow> (nat \<Rightarrow> time) \<Rightarrow> ('w, user result) io" where
  "register_prepare U B cmd userId tm =
     andThen (users_existsByEmail U (ruc_email cmd)) (\<lambda>exists.
       if exists
       then ret (Fail (ConflictException
              (''User with email '' @ [CHR 0x27] @ ruc_email cmd @ [CHR 0x27] @ '' already exists'')))
       else
         andThen (user_create B (ruc_email cmd) (ruc_password cmd) (ruc_displayName cmd) userId (tm 0) (tm 1))
           (\<lambda>user. ret (Ok user)))"

text \<open>The handlers are these parts with the save and an answer after them.\<close>

lemma login_phases:
  "authenticate_execute U P B sign cmd tm =
     written (login_prepare U P B cmd tm) (\<lambda>(user, organization). issue_tokens U sign tm user organization)"
  by (rule ext) (simp add: authenticate_execute_def written_def login_prepare_def enter_organization_def andThen_run
      split: prod.split sum.split option.split)

lemma register_phases:
  "register_user_execute U B publish cmd i tm =
     written (register_prepare U B cmd i tm) (\<lambda>user.
       andThen (users_save U user) (\<lambda>saved.
       andThen (publish (user_registered_event saved (cmd_correlationId cmd) (tm 2) (tm 3))) (\<lambda>_.
       ret (Ok \<lparr>rur_userId = ent_id saved, rur_email = email_value (usr_email saved),
                rur_displayName = usr_displayName saved\<rparr>))))"
  by (rule ext) (simp add: register_user_execute_def written_def register_prepare_def andThen_run
      split: prod.split sum.split)

section \<open>Steps\<close>

datatype account_request = Login user | Registration user

primrec request_user :: "account_request \<Rightarrow> user" where
  "request_user (Login u) = u"
| "request_user (Registration u) = u"

primrec new_user_ids :: "account_request \<Rightarrow> string list" where
  "new_user_ids (Login u) = []"
| "new_user_ids (Registration u) = [ent_id u]"

inductive account_step ::
  "('w \<Rightarrow> user_row list) \<Rightarrow> ('w, user_row) table \<Rightarrow> 'w organization_port \<Rightarrow> 'w bcrypt
     \<Rightarrow> 'w \<times> account_request list \<Rightarrow> 'w \<times> account_request list \<Rightarrow> bool"
  for rd T P B where
  login: "login_prepare (user_repository T n1 n2) P B acmd tm w = (r, w')
    \<Longrightarrow> account_step rd T P B (w, hs) (w', hs @ holding (\<lambda>(u, org). Login (user_recordLogin (tm 1) (tm 2) u)) r)"
| register: "register_prepare (user_repository T n1 n2) B rcmd i tm w = (s, w')
    \<Longrightarrow> i \<notin> ur_id ` set (rd w) \<Longrightarrow> i \<notin> set (concat (map new_user_ids hs))
    \<Longrightarrow> account_step rd T P B (w, hs) (w', hs @ holding Registration s)"
| save: "users_save (user_repository T n1 n2) (request_user h) w = (u, w')
    \<Longrightarrow> account_step rd T P B (w, hs @ h # hs') (w', hs @ hs')"
| other: "rd w' = rd w \<Longrightarrow> account_step rd T P B (w, hs) (w', hs)"

section \<open>The specification\<close>

text \<open>An account without the date of its last login and the dates the database fills in.\<close>

definition account :: "user_row \<Rightarrow> user_row" where
  "account r = r\<lparr>ur_lastLoginAt := None, ur_createdAt := None, ur_updatedAt := None\<rparr>"

inductive directory_spec :: "(string \<rightharpoonup> user_row) \<Rightarrow> (string \<rightharpoonup> user_row) \<Rightarrow> bool" where
  registered: "ds (ur_id x) = None \<Longrightarrow> (\<forall>i y. ds i = Some y \<longrightarrow> ur_email y \<noteq> ur_email x)
    \<Longrightarrow> ur_status x = Pending_verification \<Longrightarrow> directory_spec ds (ds(ur_id x \<mapsto> x))"

lemma directory_spec_keeps: "directory_spec ds ds' \<Longrightarrow> ds i = Some x \<Longrightarrow> ds' i = Some x"
  by (induction rule: directory_spec.induct) auto

lemma directory_spec_run_keeps: "directory_spec\<^sup>*\<^sup>* ds ds' \<Longrightarrow> ds i = Some x \<Longrightarrow> ds' i = Some x"
  by (induction rule: rtranclp_induct) (auto dest: directory_spec_keeps)

section \<open>What stands beside the users\<close>

text \<open>A program that changes nothing \<open>rd\<close> sees.\<close>

definition leaves :: "('w \<Rightarrow> 'x) \<Rightarrow> ('w, 'a) io \<Rightarrow> bool" where
  "leaves rd m \<longleftrightarrow> (\<forall>x. keeps (\<lambda>w. rd w = x) m)"

lemma leavesD: "leaves rd m \<Longrightarrow> m w = (r, w') \<Longrightarrow> rd w' = rd w"
  by (auto simp: leaves_def dest: keepsD)

lemma leaves_intros:
  "leaves rd (ret x)" "leaves rd (lift y)" "leaves rd (throw e)"
  "leaves rd m \<Longrightarrow> (\<And>x. leaves rd (f x)) \<Longrightarrow> leaves rd (andThen m f)"
  by (auto simp: leaves_def intro: keeps_intros)

text \<open>Documented: bcrypt and the lookups of organizations write no user, and the address is unique.\<close>

definition users_apart :: "('w \<Rightarrow> user_row list) \<Rightarrow> 'w organization_port \<Rightarrow> 'w bcrypt \<Rightarrow> bool" where
  "users_apart rd P B \<longleftrightarrow> (\<forall>p n. leaves rd (bc_hash B p n)) \<and> (\<forall>p h. leaves rd (bc_compare B p h))
     \<and> (\<forall>s ctx. leaves rd (orgs_findBySlug P s ctx)) \<and> (\<forall>i ctx. leaves rd (orgs_findByOwnerId P i ctx))"

definition unique_emails :: "('w \<Rightarrow> user_row list) \<Rightarrow> ('w, user_row) table \<Rightarrow> bool" where
  "unique_emails rd T \<longleftrightarrow> (\<forall>q. leaves rd (exists_row T q))
     \<and> (\<forall>x w y w'. save_row T x w = (Inr y, w') \<longrightarrow> distinct (map ur_email (rd w))
          \<longrightarrow> distinct (map ur_email (rd w')))"

lemma distinct_keys_column:
  "distinct_keys cols ks rs \<Longrightarrow> k \<in> set ks \<Longrightarrow> distinct (map (\<lambda>r. cols r k) rs)"
  by (induction rs) (auto simp: list_all_iff)

lemma unique_emails_list_table:
  assumes "''email'' \<in> set ks" and "\<And>rs w. rd (wr rs w) = rs"
  shows "unique_emails rd (list_table user_cols ks rd wr)"
proof -
  have "distinct (map ur_email rs)" if "distinct_keys user_cols ks rs" for rs
    using distinct_keys_column [OF that assms(1)]
    by (simp add: user_cols_def distinct_map inj_on_def)
  with assms(2) show ?thesis
    by (auto simp: unique_emails_def leaves_def keeps_def list_table_def write_rows_def split: if_splits)
qed

section \<open>Every interleaving is a run of the specification\<close>

text \<open>
  What is held: a login holds a stored account with a new date of login, a registration a new,
  pending one. Stored addresses are in normal form, since the code stores no other.
\<close>

definition user_row_ok :: "user_row \<Rightarrow> bool" where
  "user_row_ok r \<longleftrightarrow> email_create (ur_email r) = Inr (Email (ur_email r))"

definition account_request_ok :: "user_row list \<Rightarrow> account_request \<Rightarrow> bool" where
  "account_request_ok rs h \<longleftrightarrow> user_row_ok (user_toOrm (request_user h)) \<and> (case h of
     Login u \<Rightarrow> by_key ur_id account rs (ent_id u) = Some (account (user_toOrm u))
   | Registration u \<Rightarrow> ent_id u \<notin> ur_id ` set rs \<and> usr_status u = Pending_verification)"

definition users_ok :: "user_row list \<Rightarrow> bool" where
  "users_ok rs \<longleftrightarrow> distinct (map ur_id rs) \<and> distinct (map ur_email rs) \<and> list_all user_row_ok rs"

definition accounts_ok :: "('w \<Rightarrow> user_row list) \<Rightarrow> 'w \<times> account_request list \<Rightarrow> bool" where
  "accounts_ok rd s \<longleftrightarrow> users_ok (rd (fst s)) \<and> distinct (concat (map new_user_ids (snd s)))
     \<and> (\<forall>h \<in> set (snd s). account_request_ok (rd (fst s)) h)"

lemma user_id_column: "user_cols r ''id'' = SStr (ur_id r)"
  by (simp add: user_cols_def)

lemmas user_rows_upsert =
  by_key_upsert [where cols = user_cols and key = ur_id, OF user_id_column]
  keys_upsert [where cols = user_cols and key = ur_id, OF user_id_column]

lemma account_simps [simp]:
  "ur_id (account r) = ur_id r" "ur_email (account r) = ur_email r" "ur_status (account r) = ur_status r"
  "ur_id (user_toOrm u) = ent_id u" "ur_status (user_toOrm u) = usr_status u"
  by (simp_all add: account_def user_toOrm_def)

lemma login_account:
  assumes "user_toDomain n1 n2 row = Inr u" and "user_row_ok row"
  shows "ent_id u = ur_id row" and "account (user_toOrm (user_recordLogin t1 t2 u)) = account row"
    and "user_row_ok (user_toOrm (user_recordLogin t1 t2 u))"
proof -
  from assms(2) have "email_create (ur_email row) = Inr (Email (ur_email row))" by (simp add: user_row_ok_def)
  with assms have u: "u = user_new (new_entity (Some (ur_id row)) (ur_createdAt row) (ur_updatedAt row) (ur_id row) n1 n2)
      (Email (ur_email row)) (PasswordHash (ur_passwordHash row)) (ur_displayName row) (ur_status row)
      (ur_lastLoginAt row) (ur_emailVerifiedAt row)"
    by (simp add: user_toDomain_def)
  show "ent_id u = ur_id row" and "account (user_toOrm (user_recordLogin t1 t2 u)) = account row"
    and "user_row_ok (user_toOrm (user_recordLogin t1 t2 u))"
    using assms(2)
    by (simp_all add: u user_new_def new_entity_def account_def user_toOrm_def user_recordLogin_def touch_def
        user_row_ok_def)
qed

lemma findByEmail_stored:
  assumes T: "plain_store user_cols rd T" and run: "user_findByEmail T n1 n2 em w = (r, w')"
  shows "rd w' = rd w" and "r = Inr (Some u) \<Longrightarrow> \<exists>row \<in> set (rd w). user_toDomain n1 n2 row = Inr u"
proof -
  obtain x w1 where find: "find_one T (find_options [(''email'', SStr (toLowerCase em))]) w = (x, w1)" by force
  have "w' = w1" and "r = Inr (Some u) \<Longrightarrow> \<exists>row. x = Inr (Some row) \<and> user_toDomain n1 n2 row = Inr u"
    using run find
    by (auto simp: user_findByEmail_def user_toDomain_or_null_def andThen_run map_sum_def
        split: sum.splits option.splits)
  with plain_store_find_one [OF T find]
  show "rd w' = rd w" and "r = Inr (Some u) \<Longrightarrow> \<exists>row \<in> set (rd w). user_toDomain n1 n2 row = Inr u"
    by auto
qed

lemma login_leaves:
  assumes "plain_store user_cols rd T" and "users_apart rd P B"
  shows "leaves rd (login_prepare (user_repository T n1 n2) P B cmd tm)"
proof -
  have "leaves rd (users_findByEmail (user_repository T n1 n2) em)" for em
    using findByEmail_stored(1) [OF assms(1)] by (auto simp: leaves_def keeps_def user_repository_def) (metis surjective_pairing)
  then show ?thesis
    using assms(2) unfolding login_prepare_def
    by (intro leaves_intros) (auto simp: users_apart_def user_verifyPassword_def password_verify_def
        resolveOrganization_def split: option.split intro!: leaves_intros)
qed

lemma login_prepared:
  assumes T: "plain_store user_cols rd T" and ok: "users_ok (rd w)"
    and run: "login_prepare (user_repository T n1 n2) P B cmd tm w = (Inr (Ok (u, org)), w')"
  shows "account_request_ok (rd w) (Login (user_recordLogin t1 t2 u))"
proof -
  obtain s w1 where find: "user_findByEmail T n1 n2 (auc_email cmd) w = (s, w1)" by force
  with run have "s = Inr (Some u)"
    by (auto simp: login_prepare_def user_repository_def andThen_run split: sum.splits option.splits prod.splits if_splits)
  from findByEmail_stored(2) [OF T find this] obtain row
    where row: "row \<in> set (rd w)" "user_toDomain n1 n2 row = Inr u" by blast
  with ok have "user_row_ok row" and ids: "distinct (map ur_id (rd w))"
    by (auto simp: users_ok_def list_all_iff)
  from login_account [OF row(2) this(1)] by_key_mem [OF ids row(1), of account]
  show ?thesis by (simp add: account_request_ok_def user_recordLogin_def touch_def)
qed

lemma register_leaves:
  assumes "unique_emails rd T" and "users_apart rd P B"
  shows "leaves rd (register_prepare (user_repository T n1 n2) B cmd i tm)"
  using assms unfolding register_prepare_def user_create_def
  by (intro leaves_intros) (auto simp: users_apart_def unique_emails_def user_repository_def user_existsByEmail_def
      password_fromPlaintext_def intro!: leaves_intros)

lemma register_prepared:
  assumes "register_prepare (user_repository T n1 n2) B cmd i tm w = (Inr (Ok u), w')"
  shows "ent_id u = i" and "usr_status u = Pending_verification" and "user_row_ok (user_toOrm u)"
  using assms
  by (auto simp: register_prepare_def user_create_def user_new_def new_entity_def user_row_ok_def user_toOrm_def
      email_create_Inr_iff andThen_run split: sum.splits prod.splits if_splits)

text \<open>A login that saves changes no account; a registration that saves adds one.\<close>

lemma user_save_cases:
  assumes "plain_store user_cols rd T" and "unique_emails rd T" and "distinct (map ur_email (rd w))"
    and "users_save (user_repository T n1 n2) u w = (r, w')"
  obtains (unchanged) "rd w' = rd w"
  | (stored) "rd w' = upsert user_cols (user_toOrm u) (rd w)" and "distinct (map ur_email (rd w'))"
proof -
  obtain x w1 where save: "save_row T (user_toOrm u) w = (x, w1)" by force
  with assms(4) have w': "w' = w1"
    by (auto simp: user_repository_def user_save_def andThen_run split: sum.splits)
  show thesis
  proof (cases x)
    case (Inl e)
    with plain_store_save(1) [OF assms(1) save] show thesis by (intro unchanged) (simp add: w')
  next
    case (Inr y)
    with plain_store_save(2) [OF assms(1) save] have "rd w' = upsert user_cols (user_toOrm u) (rd w)" by (simp add: w')
    moreover have "distinct (map ur_email (rd w'))"
      using assms(2,3) save Inr by (auto simp: unique_emails_def w')
    ultimately show thesis by (rule stored)
  qed
qed

lemma login_map:
  assumes "account_request_ok rs (Login u)"
  shows "by_key ur_id account (upsert user_cols (user_toOrm u) rs) = by_key ur_id account rs"
    and "ur_id ` set (upsert user_cols (user_toOrm u) rs) = ur_id ` set rs"
proof -
  have map: "by_key ur_id account rs (ent_id u) = Some (account (user_toOrm u))"
    using assms by (simp add: account_request_ok_def)
  then show "by_key ur_id account (upsert user_cols (user_toOrm u) rs) = by_key ur_id account rs"
    by (simp add: user_rows_upsert fun_upd_idem)
  from map have "ent_id u \<in> ur_id ` set rs" by (metis by_key_None option.distinct(1))
  then show "ur_id ` set (upsert user_cols (user_toOrm u) rs) = ur_id ` set rs"
    by (auto simp: user_rows_upsert)
qed

lemma account_request_ok_saved:
  assumes saved: "account_request_ok rs h" and ok: "account_request_ok rs h'"
    and new: "set (new_user_ids h) \<inter> set (new_user_ids h') = {}"
  shows "account_request_ok (upsert user_cols (user_toOrm (request_user h)) rs) h'"
proof (cases h)
  case (Login u)
  with saved have "account_request_ok rs (Login u)" by simp
  from login_map [OF this] ok show ?thesis
    by (cases h') (simp_all add: Login account_request_ok_def)
next
  case (Registration u)
  have "ent_id v \<in> ur_id ` set rs" if "h' = Login v" for v
    using ok that by (auto simp: account_request_ok_def) (metis by_key_None option.distinct(1) image_eqI)
  with saved ok new show ?thesis
    by (cases h') (auto simp: Registration account_request_ok_def user_rows_upsert)
qed

lemma accounts_ok_saved:
  assumes ok: "accounts_ok rd (w, hs @ h # hs')"
    and stored: "rd w' = upsert user_cols (user_toOrm (request_user h)) (rd w)" "distinct (map ur_email (rd w'))"
  shows "accounts_ok rd (w', hs @ hs')"
proof -
  have h: "account_request_ok (rd w) h" using ok by (simp add: accounts_ok_def)
  have "account_request_ok (rd w') h'" if "h' \<in> set hs \<union> set hs'" for h'
    using ok that by (auto simp: stored(1) accounts_ok_def intro!: account_request_ok_saved [OF h])
  moreover have "list_all user_row_ok (rd w')"
    using ok h by (auto simp: stored(1) accounts_ok_def users_ok_def list_all_iff account_request_ok_def
        dest!: upsert_mem)
  ultimately show ?thesis
    using ok stored(2) by (auto simp: accounts_ok_def users_ok_def stored(1) user_rows_upsert)
qed

lemma registered_spec:
  assumes "account_request_ok rs (Registration u)" and rs': "rs' = upsert user_cols (user_toOrm u) rs"
    and "distinct (map ur_email rs')"
  shows "directory_spec (by_key ur_id account rs) (by_key ur_id account rs')"
proof -
  have new: "ent_id u \<notin> ur_id ` set rs" "usr_status u = Pending_verification"
    using assms(1) by (auto simp: account_request_ok_def)
  then have "rs' = rs @ [user_toOrm u]"
    by (simp add: rs' upsert_new_key [where cols = user_cols and key = ur_id, OF user_id_column])
  with assms(3) have "ur_email y \<noteq> ur_email (user_toOrm u)" if "y \<in> set rs" for y
    using that by (auto simp: image_iff)
  then have "\<forall>i y. by_key ur_id account rs i = Some y \<longrightarrow> ur_email y \<noteq> ur_email (account (user_toOrm u))"
    by (auto dest!: by_key_SomeD)
  from directory_spec.registered [OF _ this] new show ?thesis
    by (simp add: rs' user_rows_upsert)
qed

lemma accounts_ok_same: "accounts_ok rd (w, hs) \<Longrightarrow> rd w' = rd w \<Longrightarrow> accounts_ok rd (w', hs)"
  by (simp add: accounts_ok_def)

lemma accounts_ok_dropped: "accounts_ok rd (w, hs @ h # hs') \<Longrightarrow> accounts_ok rd (w, hs @ hs')"
  by (auto simp: accounts_ok_def)

lemma account_step_ok:
  assumes T: "plain_store user_cols rd T" "unique_emails rd T" "users_apart rd P B"
    and step: "account_step rd T P B s s'" and ok: "accounts_ok rd s"
  shows "accounts_ok rd s'"
  using step ok
proof (cases rule: account_step.cases)
  case (login n1 n2 cmd tm w r w' hs)
  with ok have "users_ok (rd w)" by (simp add: accounts_ok_def)
  from login_prepared [OF T(1) this] login_leaves [OF T(1,3), THEN leavesD, OF login(3)] ok login show ?thesis
    by (auto simp: accounts_ok_def set_holding) (auto simp: holding_def split: sum.splits result.splits)
next
  case (register n1 n2 cmd i tm w r w' hs)
  with register_leaves [OF T(2,3), THEN leavesD, OF register(3)] ok register_prepared [of T n1 n2 B cmd i tm w]
  show ?thesis
    by (auto simp: accounts_ok_def account_request_ok_def holding_def split: sum.splits result.splits)
next
  case (save n1 n2 h w u w' hs hs')
  with ok have "distinct (map ur_email (rd w))" by (simp add: accounts_ok_def users_ok_def)
  from T(1,2) this save(3) show ?thesis
  proof (cases rule: user_save_cases)
    case unchanged
    with ok save show ?thesis by (auto intro: accounts_ok_same accounts_ok_dropped)
  next
    case stored
    with ok save show ?thesis by (auto intro: accounts_ok_saved)
  qed
next
  case (other w' w hs)
  with ok show ?thesis by (auto intro: accounts_ok_same)
qed

lemma account_step_spec:
  assumes T: "plain_store user_cols rd T" "unique_emails rd T" "users_apart rd P B"
    and step: "account_step rd T P B s s'" and ok: "accounts_ok rd s"
  shows "by_key ur_id account (rd (fst s')) = by_key ur_id account (rd (fst s))
    \<or> directory_spec (by_key ur_id account (rd (fst s))) (by_key ur_id account (rd (fst s')))"
  using step ok
proof (cases rule: account_step.cases)
  case (login n1 n2 cmd tm w r w' hs)
  with login_leaves [OF T(1,3), THEN leavesD, OF login(3)] show ?thesis by simp
next
  case (register n1 n2 cmd i tm w r w' hs)
  with register_leaves [OF T(2,3), THEN leavesD, OF register(3)] show ?thesis by simp
next
  case (save n1 n2 h w u w' hs hs')
  with ok have emails: "distinct (map ur_email (rd w))" and h: "account_request_ok (rd w) h"
    by (simp_all add: accounts_ok_def users_ok_def)
  from T(1,2) emails save(3) show ?thesis
  proof (cases rule: user_save_cases)
    case unchanged
    with save show ?thesis by simp
  next
    case stored
    with h save show ?thesis
      by (cases h) (auto dest: login_map(1) registered_spec [OF _ refl])
  qed
qed simp

interpretation account_requests: simulated "account_step rd T P B"
  "\<lambda>s. plain_store user_cols rd T \<and> unique_emails rd T \<and> users_apart rd P B \<and> accounts_ok rd s"
  "\<lambda>s. by_key ur_id account (rd (fst s))" directory_spec for rd T P B
  by unfold_locales (auto intro: account_step_ok dest: account_step_spec)

end
