(* ===== verification/IdentityProperties.thy ===== *)
theory IdentityProperties
  imports Samples AccountInterleaving
begin

text \<open>
  Who can log in and what the tokens are good for: the authenticate handler over the stores,
  the claims of the tokens against the guards, registration and the bootstrap script.
\<close>

section \<open>Logging in\<close>






text \<open>
  C15: a refused login has no effect: it neither saves the user nor signs a token, so replacing
  both operations by any others gives the same answer and the same world.
\<close>

theorem refused_login_no_effect:
  assumes "authenticate_execute U P B sign cmd tm w = (Inr (Fail e), w')"
  shows "authenticate_execute (U\<lparr>users_save := sv\<rparr>) P B sign' cmd tm w = (Inr (Fail e), w')"
  by (rule authenticate_failed_frame [OF assms])

theorem refused_login_no_effect_witness:
  "authenticate_execute ((user_repository users_tbl 0 0)\<lparr>users_save := (\<lambda>u. throw invalid_credentials)\<rparr>)
      (organization_repository orgs_tbl None) clear_bcrypt (\<lambda>c d. throw invalid_credentials)
      (login_command ''a@b.co'' ''guess123'') no_times sample_accounts
    = (Inr (Fail invalid_credentials), sample_accounts)"
proof (rule refused_login_no_effect)
  show "authenticate_execute (user_repository users_tbl 0 0) (organization_repository orgs_tbl None) clear_bcrypt
      clear_sign (login_command ''a@b.co'' ''guess123'') no_times sample_accounts
    = (Inr (Fail invalid_credentials), sample_accounts)"
    by code_simp
qed

text \<open>
  The answer to an unknown address and the answer to a wrong password are the same, so a
  caller without the password learns nothing about which addresses are registered.
\<close>

lemma no_user_enumeration:
  assumes "users_findByEmail U (auc_email c1) w = (Inr None, w1)"
    and "users_findByEmail U (auc_email c2) w = (Inr (Some user), w2)"
    and "bc_compare B (auc_password c2) (hash_value (usr_passwordHash user)) w2 = (Inr False, w3)"
  shows "fst (authenticate_execute U P B sign c1 tm w) = fst (authenticate_execute U P B sign c2 tm w)"
  using authenticate_unknown [OF assms(1)] authenticate_wrong_password [OF assms(2,3)] by simp


text \<open>Two registrations of one address, and the tables the accounts are in.\<close>

definition register_as :: "string \<Rightarrow> register_user_command" where
  "register_as name = new_register_user_command ''a@b.co'' ''secret12'' name None ''f'' ''g'' 0"



text \<open>
  When two registrations of one address overlap, both find it free. The second save breaks the
  unique key, an error that is no conflict for the caller; one after the other, the second
  registration is answered as a conflict.
\<close>

lemma overlapping_registrations:
  "let U = user_repository users_tbl 0 0; w = ([], []); first = register_as ''Ann''; second = register_as ''Bob'' in
     case (fst (register_prepare U clear_bcrypt first ''u1'' no_times w),
           fst (register_prepare U clear_bcrypt second ''u2'' no_times w)) of
       (Inr (Ok u), Inr (Ok v)) \<Rightarrow>
         (case users_save U v (snd (users_save U u w)) of (Inl (ServiceError m), w') \<Rightarrow> w' = ([user_toOrm u], []) | _ \<Rightarrow> False)
         \<and> (case fst (register_user_execute U clear_bcrypt (\<lambda>_. ret ()) second ''u2'' no_times
                 (snd (users_save U u w))) of Inr (Fail (ConflictException m)) \<Rightarrow> True | _ \<Rightarrow> False)
     | _ \<Rightarrow> False"
  by code_simp

text \<open>
  C17: an access token issued by a login opens every endpoint of the platform, in any tenant
  header; a refresh token opens no endpoint that asks for a token.
\<close>

theorem issued_tokens_at_guards:
  assumes "passport_reports verified passport"
  shows "(verified req = Some (access_claims user t) \<longrightarrow>
      (\<exists>req'. authorize passport (route_of ep) req = Inr req')) \<and>
    (verified req = Some (refresh_claims user t) \<longrightarrow> \<not> rt_public (route_of ep) \<longrightarrow>
      authorize passport (route_of ep) req = Inl (NestUnauthorizedException ''Invalid token type''))"
proof (intro conjI impI)
  assume tok: "verified req = Some (access_claims user t)"
  show "\<exists>req'. authorize passport (route_of ep) req = Inr req'"
  proof (cases "min_role ep")
    case None
    then consider "ep = Create_organization" | "rt_public (route_of ep)" "\<not> rt_rbac (route_of ep)"
      by (auto simp: min_role_None route_defs)
    then show ?thesis
    proof cases
      case 1
      have "authorize passport (route_of ep) req = Inr (req\<lparr>req_user := User (access_claims user t)\<rparr>)"
        unfolding 1 using authorize_verified [OF assms tok, of "route_of Create_organization"]
        by (simp add: route_defs access_claims_def RbacGuard_canActivate_def isEmpty_def)
      then show ?thesis ..
    qed (simp add: authorize_def JwtAuthGuard_canActivate_def)
  next
    case (Some r)
    have "role_rank r \<le> role_rank OWNER" by (cases r) simp_all
    then show ?thesis
      using authorize_role [OF assms Some tok] by (simp add: access_claims_def del: role_text.simps)
  qed
next
  assume "verified req = Some (refresh_claims user t)" and "\<not> rt_public (route_of ep)"
  from authorize_verified [OF assms this]
  show "authorize passport (route_of ep) req = Inl (NestUnauthorizedException ''Invalid token type'')"
    by (simp add: refresh_claims_def)
qed

theorem issued_tokens_at_guards_witness:
  "\<exists>req'. authorize (documented_passport (\<lambda>_. Some (access_claims sample_user ''t1''))) (route_of Suspend_organization)
     (sample_request None None) = Inr req'"
proof -
  note tokens = issued_tokens_at_guards [where req = "sample_request None None" and ep = Suspend_organization
      and user = sample_user and t = "''t1''",
      OF documented_passport_reports [of "\<lambda>_. Some (access_claims sample_user ''t1'')"]]
  from tokens [THEN conjunct1] show ?thesis by (rule mp) simp
qed

section \<open>Bootstrapping\<close>






















section \<open>Registering\<close>





end
