(* ===== verification/EventStreamingClient.thy ===== *)
theory EventStreamingClient
  imports SharedKernel
begin

text \<open>
  \<open>EventStreamingHttpClient\<close>, \<open>platform-events/adapters/event-streaming-http.client.ts\<close>. The
  runtime's \<open>fetch\<close> is an argument: it gets the request and the time after which its signal
  aborts it, and either rejects or answers with a response. The body of a request is the JSON
  value that \<open>JSON.stringify\<close> turns into text.
\<close>

record streaming_config =
  cfg_baseUrl :: string
  cfg_apiToken :: string
  cfg_timeoutMs :: int

record ingest_command =
  ic_streamId :: string
  ic_type :: string
  ic_source :: string
  ic_payload :: object
  ic_metadata :: "(string \<times> string) list option"
  ic_correlationId :: string
  ic_actorId :: "string option"
  ic_causationId :: "string option"
  ic_traceId :: "string option"
  ic_sourceVersion :: "string option"
  ic_eventVersion :: "int option"

record fetch_request =
  fr_url :: string
  fr_method :: string
  fr_headers :: "(string \<times> string) list"
  fr_body :: json

text \<open>A response: its status, and what reading its text gives.\<close>

record fetch_response =
  resp_status :: int
  resp_text :: "exn + string"

definition resp_ok :: "fetch_response \<Rightarrow> bool" where
  "resp_ok r \<longleftrightarrow> 200 \<le> resp_status r \<and> resp_status r \<le> 299"

text \<open>\<open>if (v) obj[k] = v;\<close>\<close>

definition assign_if :: "string \<Rightarrow> string option \<Rightarrow> (string \<times> string) list \<Rightarrow> (string \<times> string) list" where
  "assign_if k v ob = (if truthy v then spread ob [(k, the v)] else ob)"

definition ingest_headers :: "streaming_config \<Rightarrow> ingest_command \<Rightarrow> (string \<times> string) list" where
  "ingest_headers cfg c =
     assign_if ''X-Trace-ID'' (ic_traceId c)
       (assign_if ''X-Causation-ID'' (ic_causationId c)
         [(''Content-Type'', ''application/json''), (''Authorization'', ''Bearer '' @ cfg_apiToken cfg),
          (''X-Correlation-ID'', ic_correlationId c)])"

definition ingest_metadata :: "ingest_command \<Rightarrow> (string \<times> string) list" where
  "ingest_metadata c =
     (let m = spread (case ic_metadata c of None \<Rightarrow> [] | Some m \<Rightarrow> m)
                [(''event_version'', show_int (case ic_eventVersion c of Some v \<Rightarrow> v | None \<Rightarrow> 1)),
                 (''source_service'', ic_source c)]
      in assign_if ''source_version'' (ic_sourceVersion c)
          (assign_if ''trace_id'' (ic_traceId c)
            (assign_if ''causation_id'' (ic_causationId c)
              (assign_if ''actor_id'' (ic_actorId c) m))))"

definition ingest_request :: "streaming_config \<Rightarrow> ingest_command \<Rightarrow> fetch_request" where
  "ingest_request cfg c =
     \<lparr>fr_url = cfg_baseUrl cfg @ ''/events'', fr_method = ''POST'', fr_headers = ingest_headers cfg c,
      fr_body = JObj [(''stream_id'', JStr (ic_streamId c)), (''type'', JStr (ic_type c)),
                      (''source'', JStr (ic_source c)), (''payload'', JObj (ic_payload c)),
                      (''metadata'', JObj (map (\<lambda>(k, v). (k, JStr v)) (ingest_metadata c)))]\<rparr>"

type_synonym 'w fetch = "fetch_request \<Rightarrow> int \<Rightarrow> ('w, fetch_response) io"

definition ingest :: "streaming_config \<Rightarrow> 'w fetch \<Rightarrow> ingest_command \<Rightarrow> ('w, unit) io" where
  "ingest cfg fetch command =
     (if cfg_baseUrl cfg = []
      then throw (PlainError ''EVENT_STREAMING_BASE_URL is not configured'')
      else
        try_catch
          (andThen (fetch (ingest_request cfg command) (cfg_timeoutMs cfg)) (\<lambda>response.
             if \<not> resp_ok response
             then throw (PlainError (''Event Streaming ingest returned '' @ show_int (resp_status response)
                    @ '': '' @ (case resp_text response of Inr body \<Rightarrow> body | Inl _ \<Rightarrow> [])))
             else ret ()))
          (\<lambda>err. case err of
             AbortError _ \<Rightarrow> throw (PlainError (''Event Streaming ingest timed out after ''
                                 @ show_int (cfg_timeoutMs cfg) @ ''ms''))
           | _ \<Rightarrow> throw err))"

section \<open>What is sent and when it counts\<close>

lemma map_of_assign_if [simp]:
  "map_of (assign_if k v ob) = (if truthy v then (map_of ob)(k \<mapsto> the v) else map_of ob)"
  by (simp add: assign_if_def)

text \<open>The call succeeds exactly when the service is configured and answers with a 2xx status.\<close>

lemma ingest_ok_iff:
  "ingest cfg fetch c w = (Inr (), w') \<longleftrightarrow>
     cfg_baseUrl cfg \<noteq> [] \<and>
     (\<exists>r. fetch (ingest_request cfg c) (cfg_timeoutMs cfg) w = (Inr r, w') \<and> resp_ok r)"
  by (auto simp: ingest_def try_catch_run andThen_run split: sum.splits prod.splits exn.splits)

lemma ingest_unconfigured: "cfg_baseUrl cfg = [] \<Longrightarrow> \<exists>m. ingest cfg fetch c w = (Inl (PlainError m), w)"
  by (simp add: ingest_def)

lemma ingest_fetched:
  assumes "ingest cfg fetch c w = (r, w')" and "cfg_baseUrl cfg \<noteq> []"
  shows "snd (fetch (ingest_request cfg c) (cfg_timeoutMs cfg) w) = w'"
  using assms
  by (auto simp: ingest_def try_catch_run andThen_run split: sum.splits prod.splits exn.splits if_splits)

end
