(* ===== verification/Outbox.thy ===== *)
theory Outbox
  imports EventStreamingClient EventContracts Orm
begin

text \<open>
  The outbox, \<open>apps/api/src/modules/outbox\<close>: the entry, its repository and the processor that
  polls it. Logging is left out, and so is the timer: a poll is one call of \<open>processBatch\<close>.
\<close>

section \<open>The entry\<close>

datatype outbox_status = Pending | Processed | Failed

primrec outbox_status_text :: "outbox_status \<Rightarrow> string" where
  "outbox_status_text Pending = ''pending''"
| "outbox_status_text Processed = ''processed''"
| "outbox_status_text Failed = ''failed''"

record outbox_entry = entity +
  oe_eventId :: string
  oe_eventType :: string
  oe_eventVersion :: int
  oe_tenantId :: string
  oe_correlationId :: string
  oe_actorId :: "string option"
  oe_causationId :: "string option"
  oe_traceId :: "string option"
  oe_sourceService :: string
  oe_sourceVersion :: "string option"
  oe_payload :: object
  oe_status :: outbox_status
  oe_attempts :: int
  oe_lastError :: "string option"
  oe_occurredAt :: time
  oe_processedAt :: "time option"

text \<open>
  \<open>OutboxEntryEntity.create\<close> on the members of an event that the forwarding bus passes: the
  entry id is generated, the creation date is \<open>now1\<close>; the entity reads the clock again,
  \<open>now2\<close>, for its update date. \<open>occurredAt\<close> is the parsed time of the event.
\<close>

definition outbox_create :: "tenant_aware_event \<Rightarrow> time \<Rightarrow> string \<Rightarrow> time \<Rightarrow> time \<Rightarrow> outbox_entry" where
  "outbox_create ev occurredAt fresh now1 now2 =
     entity.extend (new_entity (Some fresh) (Some now1) None fresh now1 now2)
       \<lparr>oe_eventId = te_eventId ev, oe_eventType = te_eventType ev,
        oe_eventVersion = te_eventVersion ev, oe_tenantId = te_tenantId ev,
        oe_correlationId = te_correlationId ev, oe_actorId = te_actorId ev,
        oe_causationId = te_causationId ev, oe_traceId = te_traceId ev,
        oe_sourceService = te_sourceService ev, oe_sourceVersion = te_sourceVersion ev,
        oe_payload = te_payload ev, oe_status = Pending, oe_attempts = 0, oe_lastError = None,
        oe_occurredAt = occurredAt, oe_processedAt = None\<rparr>"

definition markProcessed :: "time \<Rightarrow> outbox_entry \<Rightarrow> outbox_entry" where
  "markProcessed now e = e\<lparr>oe_status := Processed, oe_processedAt := Some now\<rparr>"

definition recordAttemptFailure :: "string \<Rightarrow> int \<Rightarrow> outbox_entry \<Rightarrow> outbox_entry" where
  "recordAttemptFailure err maxAttempts e =
     (let e' = e\<lparr>oe_attempts := oe_attempts e + 1, oe_lastError := Some err\<rparr>
      in if oe_attempts e' \<ge> maxAttempts then e'\<lparr>oe_status := Failed\<rparr> else e')"

section \<open>The repository\<close>

record outbox_row =
  ox_id :: string
  ox_eventId :: string
  ox_eventType :: string
  ox_eventVersion :: int
  ox_tenantId :: string
  ox_correlationId :: string
  ox_actorId :: "string option"
  ox_causationId :: "string option"
  ox_traceId :: "string option"
  ox_sourceService :: string
  ox_sourceVersion :: "string option"
  ox_payload :: object
  ox_status :: outbox_status
  ox_attempts :: int
  ox_lastError :: "string option"
  ox_occurredAt :: time
  ox_createdAt :: time
  ox_processedAt :: "time option"

definition outbox_cols :: "outbox_row \<Rightarrow> string \<Rightarrow> sqlval" where
  "outbox_cols r c =
     (if c = ''id'' then SStr (ox_id r)
      else if c = ''eventId'' then SStr (ox_eventId r)
      else if c = ''eventType'' then SStr (ox_eventType r)
      else if c = ''tenantId'' then SStr (ox_tenantId r)
      else if c = ''status'' then SStr (outbox_status_text (ox_status r))
      else if c = ''attempts'' then SInt (ox_attempts r)
      else if c = ''createdAt'' then STime (ox_createdAt r)
      else SNull)"

definition outbox_toDomain :: "outbox_row \<Rightarrow> time \<Rightarrow> outbox_entry" where
  "outbox_toDomain r now =
     entity.extend (new_entity (Some (ox_id r)) (Some (ox_createdAt r)) None (ox_id r) now now)
       \<lparr>oe_eventId = ox_eventId r, oe_eventType = ox_eventType r, oe_eventVersion = ox_eventVersion r,
        oe_tenantId = ox_tenantId r, oe_correlationId = ox_correlationId r,
        oe_actorId = ox_actorId r, oe_causationId = ox_causationId r, oe_traceId = ox_traceId r,
        oe_sourceService = ox_sourceService r, oe_sourceVersion = ox_sourceVersion r,
        oe_payload = ox_payload r, oe_status = ox_status r, oe_attempts = ox_attempts r,
        oe_lastError = ox_lastError r, oe_occurredAt = ox_occurredAt r,
        oe_processedAt = ox_processedAt r\<rparr>"

definition outbox_toOrm :: "outbox_entry \<Rightarrow> outbox_row" where
  "outbox_toOrm e =
     \<lparr>ox_id = ent_id e, ox_eventId = oe_eventId e, ox_eventType = oe_eventType e,
      ox_eventVersion = oe_eventVersion e, ox_tenantId = oe_tenantId e,
      ox_correlationId = oe_correlationId e, ox_actorId = oe_actorId e,
      ox_causationId = oe_causationId e, ox_traceId = oe_traceId e,
      ox_sourceService = oe_sourceService e, ox_sourceVersion = oe_sourceVersion e,
      ox_payload = oe_payload e, ox_status = oe_status e, ox_attempts = oe_attempts e,
      ox_lastError = oe_lastError e, ox_occurredAt = oe_occurredAt e,
      ox_createdAt = created_at e, ox_processedAt = oe_processedAt e\<rparr>"

record 'w outbox_port =
  ob_append :: "outbox_entry \<Rightarrow> ('w, unit) io"
  ob_findPending :: "int \<Rightarrow> ('w, outbox_entry list) io"
  ob_save :: "outbox_entry \<Rightarrow> ('w, unit) io"

definition outbox_append :: "('w, outbox_row) table \<Rightarrow> outbox_entry \<Rightarrow> ('w, unit) io" where
  "outbox_append T entry = insert_rows T [outbox_toOrm entry]"

text \<open>The clock reading \<open>now\<close> gives the entities their (unused) update date.\<close>

definition outbox_findPending ::
  "('w, outbox_row) table \<Rightarrow> time \<Rightarrow> int \<Rightarrow> ('w, outbox_entry list) io" where
  "outbox_findPending T now limit =
     andThen (find_many T (qb_take limit (qb_orderBy ''createdAt'' False
                (find_options [(''status'', SStr (outbox_status_text Pending))]))))
       (\<lambda>rows. ret (map (\<lambda>r. outbox_toDomain r now) rows))"

definition outbox_save :: "('w, outbox_row) table \<Rightarrow> outbox_entry \<Rightarrow> ('w, unit) io" where
  "outbox_save T entry = andThen (save_row T (outbox_toOrm entry)) (\<lambda>_. ret ())"

definition outbox_repository :: "('w, outbox_row) table \<Rightarrow> time \<Rightarrow> 'w outbox_port" where
  "outbox_repository T now =
     \<lparr>ob_append = outbox_append T, ob_findPending = outbox_findPending T now, ob_save = outbox_save T\<rparr>"

section \<open>The processor\<close>

definition BATCH_SIZE :: int where
  "BATCH_SIZE = 50"

definition MAX_ATTEMPTS :: int where
  "MAX_ATTEMPTS = 5"

definition forward_command :: "outbox_entry \<Rightarrow> ingest_command" where
  "forward_command entry =
     \<lparr>ic_streamId = ''platform.'' @ oe_tenantId entry @ ''.'' @ oe_eventType entry,
      ic_type = oe_eventType entry, ic_source = oe_sourceService entry,
      ic_payload = oe_payload entry,
      ic_metadata = Some [(''event_id'', oe_eventId entry), (''tenant_id'', oe_tenantId entry)],
      ic_correlationId = oe_correlationId entry, ic_actorId = oe_actorId entry,
      ic_causationId = oe_causationId entry, ic_traceId = oe_traceId entry,
      ic_sourceVersion = oe_sourceVersion entry, ic_eventVersion = Some (oe_eventVersion entry)\<rparr>"

text \<open>
  One turn of the loop over the fetched entries. An entry is marked only after \<open>ingest\<close>
  returned, and its clock is read then; \<open>tm k\<close> is that reading for the \<open>k\<close>-th entry.
\<close>

definition attempt_entry ::
  "(ingest_command \<Rightarrow> ('w, unit) io) \<Rightarrow> time \<Rightarrow> outbox_entry \<Rightarrow> ('w, outbox_entry) io" where
  "attempt_entry send now entry =
     try_catch
       (andThen (send (forward_command entry)) (\<lambda>_. ret (markProcessed now entry)))
       (\<lambda>err. ret (recordAttemptFailure (exn_message err) MAX_ATTEMPTS entry))"

definition store_entry :: "'w outbox_port \<Rightarrow> outbox_entry \<Rightarrow> ('w, unit) io" where
  "store_entry R entry = try_catch (ob_save R entry) (\<lambda>_. ret ())"

definition process_entry ::
  "'w outbox_port \<Rightarrow> (ingest_command \<Rightarrow> ('w, unit) io) \<Rightarrow> time \<Rightarrow> outbox_entry \<Rightarrow> ('w, unit) io" where
  "process_entry R send now entry = andThen (attempt_entry send now entry) (store_entry R)"

definition processBatch ::
  "'w outbox_port \<Rightarrow> (ingest_command \<Rightarrow> ('w, unit) io) \<Rightarrow> (nat \<Rightarrow> time) \<Rightarrow> ('w, unit) io" where
  "processBatch R send tm =
     andThen
       (try_catch (andThen (ob_findPending R BATCH_SIZE) (\<lambda>es. ret (Some es))) (\<lambda>_. ret None))
       (\<lambda>found. case found of
          None \<Rightarrow> ret ()
        | Some entries \<Rightarrow>
            for_each (\<lambda>(k, entry). process_entry R send (tm k) entry) (enumerate 0 entries))"

section \<open>Facts about entries and turns\<close>

text \<open>What one turn leaves of an entry, by the outcome of the forwarding call.\<close>

definition settled :: "time \<Rightarrow> exn + unit \<Rightarrow> outbox_entry \<Rightarrow> outbox_entry" where
  "settled now r e = (case r of Inr _ \<Rightarrow> markProcessed now e
     | Inl x \<Rightarrow> recordAttemptFailure (exn_message x) MAX_ATTEMPTS e)"

lemma attempt_entry_run:
  "attempt_entry send now e w = (let (r, w1) = send (forward_command e) w in (Inr (settled now r e), w1))"
  by (simp add: attempt_entry_def settled_def andThen_run try_catch_run split: prod.split sum.split)

lemma store_entry_run: "store_entry R e w = (Inr (), snd (ob_save R e w))"
  by (simp add: store_entry_def try_catch_run split: prod.split sum.split)

lemma process_entry_run:
  "process_entry R send now e w =
     (let (r, w1) = send (forward_command e) w in (Inr (), snd (ob_save R (settled now r e) w1)))"
  by (simp add: process_entry_def andThen_run attempt_entry_run store_entry_run split: prod.split)

lemma for_each_total:
  assumes "\<And>x w. fst (f x w) = Inr ()"
  shows "fst (for_each f xs w) = Inr ()"
proof (induction xs arbitrary: w)
  case (Cons x xs)
  have "f x w = (Inr (), snd (f x w))"
    using assms [of x w] by (cases "f x w") simp
  then show ?case by (simp add: andThen_run_Inr [of "f x" w] Cons.IH)
qed simp

lemma processBatch_returns: "fst (processBatch R send tm w) = Inr ()"
proof (cases "ob_findPending R BATCH_SIZE w")
  case (Pair r w')
  have "fst (for_each (\<lambda>(k, e). process_entry R send (tm k) e) xs w') = Inr ()" for xs
    by (rule for_each_total) (simp add: process_entry_run split: prod.split)
  with Pair show ?thesis
    by (cases r) (simp_all add: processBatch_def andThen_run try_catch_run)
qed

lemma outbox_toOrm_simps [simp]:
  "ox_id (outbox_toOrm e) = ent_id e" "ox_eventId (outbox_toOrm e) = oe_eventId e"
  "ox_status (outbox_toOrm e) = oe_status e" "ox_attempts (outbox_toOrm e) = oe_attempts e"
  "ox_processedAt (outbox_toOrm e) = oe_processedAt e"
  by (simp_all add: outbox_toOrm_def)

lemma outbox_toOrm_toDomain [simp]: "outbox_toOrm (outbox_toDomain r now) = r"
  by (simp add: outbox_toOrm_def outbox_toDomain_def new_entity_def entity.defs)

lemma outbox_toDomain_status [simp]: "oe_status (outbox_toDomain r now) = ox_status r"
  by (simp add: outbox_toDomain_def entity.defs)

lemma outbox_toDomain_toOrm: "outbox_toDomain (outbox_toOrm e) (updated_at e) = e"
  by (simp add: outbox_toOrm_def outbox_toDomain_def new_entity_def entity.defs)

lemma settled_simps [simp]:
  "ent_id (settled now r e) = ent_id e" "oe_eventId (settled now r e) = oe_eventId e"
  by (auto simp: settled_def markProcessed_def recordAttemptFailure_def Let_def split: sum.split)

text \<open>The states an entry can be stored in.\<close>

definition outbox_row_ok :: "outbox_row \<Rightarrow> bool" where
  "outbox_row_ok r \<longleftrightarrow>
     0 \<le> ox_attempts r \<and> ox_attempts r \<le> MAX_ATTEMPTS \<and>
     (ox_status r = Failed \<longleftrightarrow> ox_attempts r = MAX_ATTEMPTS) \<and>
     (ox_status r = Processed \<longleftrightarrow> ox_processedAt r \<noteq> None)"

lemma outbox_create_ok: "outbox_row_ok (outbox_toOrm (outbox_create ev t i n1 n2))"
  by (simp add: outbox_row_ok_def outbox_create_def new_entity_def entity.defs MAX_ATTEMPTS_def)

lemma settled_ok:
  assumes "outbox_row_ok (outbox_toOrm e)" and "oe_status e = Pending"
  shows "outbox_row_ok (outbox_toOrm (settled now r e))"
  using assms
  by (cases r) (auto simp: outbox_row_ok_def settled_def markProcessed_def recordAttemptFailure_def
      Let_def MAX_ATTEMPTS_def)

lemma settled_processed: "oe_status e = Pending \<Longrightarrow> oe_status (settled now r e) = Processed \<longleftrightarrow> (\<exists>u. r = Inr u)"
  by (cases r) (auto simp: settled_def markProcessed_def recordAttemptFailure_def Let_def)

end
