(* ===== verification/OrganizationInterleaving.thy ===== *)
theory OrganizationInterleaving
  imports TenantCommands Overlap
begin

text \<open>
  Requests on organizations that overlap. Each handler of the tenant core reads first and writes
  last, and waits in between; nothing locks or versions the row it has read. A request is split
  here at its write, and the parts of different requests run in any order.
\<close>

section \<open>The handlers up to their write\<close>

definition update_prepare ::
  "'w organization_port \<Rightarrow> update_organization_command \<Rightarrow> (nat \<Rightarrow> time) \<Rightarrow> ('w, organization result) io" where
  "update_prepare P cmd tm =
     andThen (orgs_findById P (uoc_organizationId cmd)) (\<lambda>found.
       case found of
         None \<Rightarrow> ret (Fail (NotFoundException ''Organization'' (uoc_organizationId cmd)))
       | Some organization \<Rightarrow>
           andThen (lift (case uoc_name cmd of
                            None \<Rightarrow> Inr organization
                          | Some n \<Rightarrow> org_rename n (tm 0) organization)) (\<lambda>renamed.
           ret (Ok (case uoc_planTier cmd of
                      None \<Rightarrow> renamed
                    | Some t \<Rightarrow> org_changePlan t (tm 1) renamed))))"

definition suspend_prepare ::
  "'w organization_port \<Rightarrow> suspend_organization_command \<Rightarrow> (nat \<Rightarrow> string) \<Rightarrow> (nat \<Rightarrow> time)
     \<Rightarrow> ('w, organization result) io" where
  "suspend_prepare P cmd ids tm =
     andThen (orgs_findById P (soc_organizationId cmd)) (\<lambda>found.
       case found of
         None \<Rightarrow> ret (Fail (NotFoundException ''Organization'' (soc_organizationId cmd)))
       | Some organization \<Rightarrow>
           andThen (lift (org_suspend (soc_reason cmd)
               (case cmd_actorId cmd of Some a \<Rightarrow> a | None \<Rightarrow> ''system'') (cmd_correlationId cmd)
               (ids 0) (tm 0) (tm 1) (tm 2) organization)) (\<lambda>suspended. ret (Ok suspended)))"

definition create_prepare ::
  "'w organization_port \<Rightarrow> create_organization_command \<Rightarrow> (nat \<Rightarrow> string) \<Rightarrow> (nat \<Rightarrow> time)
     \<Rightarrow> ('w, organization result) io" where
  "create_prepare P cmd ids tm =
     andThen (orgs_existsBySlug P (coc_slug cmd) (forProvisioning ''CreateOrganizationHandler'' (tm 0)))
       (\<lambda>slugExists.
          if slugExists
          then ret (Fail (ConflictException
                 (''Organization with slug '' @ [CHR 0x27] @ coc_slug cmd @ [CHR 0x27] @ '' already exists'')))
          else
            andThen (lift (org_create (coc_name cmd) (coc_slug cmd) (coc_planTier cmd)
                (case cmd_actorId cmd of Some a \<Rightarrow> a | None \<Rightarrow> ids 0) (cmd_correlationId cmd)
                (ids 1) (ids 2) (tm 1) (tm 2) (tm 3))) (\<lambda>organization. ret (Ok organization)))"

text \<open>The handlers are these parts with a write and an answer after them.\<close>

lemma update_phases:
  "update_organization_execute P cmd tm =
     written (update_prepare P cmd tm) (\<lambda>org.
       andThen (orgs_save P org) (\<lambda>saved. ret (Ok (organization_dto_fromAggregate saved))))"
  by (rule ext) (simp add: update_organization_execute_def written_def update_prepare_def andThen_run Let_def
      split: prod.split sum.split option.split)

lemma suspend_phases:
  "suspend_organization_execute P publish cmd ids tm =
     written (suspend_prepare P cmd ids tm) (\<lambda>org.
       andThen (orgs_save P org) (\<lambda>saved.
       andThen (for_each (\<lambda>de. publish (integration_event TENANT_SUSPENDED de)) (domain_events saved)) (\<lambda>_.
       ret (Ok (organization_dto_fromAggregate (clearDomainEvents saved))))))"
  by (rule ext) (simp add: suspend_organization_execute_def written_def suspend_prepare_def andThen_run
      split: prod.split sum.split option.split)

lemma create_phases:
  "create_organization_execute P publish cmd ids tm =
     written (create_prepare P cmd ids tm) (\<lambda>org.
       andThen (orgs_provision P org (forProvisioning ''CreateOrganizationHandler'' (tm 0))) (\<lambda>saved.
       andThen (for_each (\<lambda>de. publish (integration_event TENANT_CREATED de)) (domain_events saved)) (\<lambda>_.
       ret (Ok (organization_dto_fromAggregate (clearDomainEvents saved))))))"
  by (rule ext) (simp add: create_organization_execute_def written_def create_prepare_def andThen_run Let_def
      split: prod.split sum.split)

section \<open>Steps\<close>

text \<open>What a request holds between its read and its write. A request that fails earlier holds nothing.\<close>

datatype held = Saving "string option" organization | Provisioning organization

inductive request_step :: "('w, org_row) table \<Rightarrow> 'w \<times> held list \<Rightarrow> 'w \<times> held list \<Rightarrow> bool" for T where
  update: "update_prepare (organization_repository T tid) ucmd tm w = (r, w')
    \<Longrightarrow> request_step T (w, hs) (w', hs @ holding (Saving tid) r)"
| suspend: "suspend_prepare (organization_repository T tid) scmd ids tm w = (r, w')
    \<Longrightarrow> request_step T (w, hs) (w', hs @ holding (Saving tid) r)"
| create: "create_prepare (organization_repository T tid) ccmd ids tm w = (r, w')
    \<Longrightarrow> request_step T (w, hs) (w', hs @ holding Provisioning r)"
| save: "orgs_save (organization_repository T tid) org w = (s, w')
    \<Longrightarrow> request_step T (w, hs @ Saving tid org # hs') (w', hs @ hs')"
| provision: "orgs_provision (organization_repository T tid) org ctx w = (s, w')
    \<Longrightarrow> request_step T (w, hs @ Provisioning org # hs') (w', hs @ hs')"

section \<open>What holds in every interleaving\<close>

text \<open>The rows of organizations the code can build, told by their columns.\<close>

definition org_row_ok :: "org_row \<Rightarrow> bool" where
  "org_row_ok r \<longleftrightarrow> slug_pattern (or_slug r) \<and> or_status r \<in> {PROVISIONING, ACTIVE, SUSPENDED}
     \<and> (or_provisionedAt r = None \<longleftrightarrow> or_status r = PROVISIONING)"

definition held_org :: "held \<Rightarrow> organization" where
  "held_org h = (case h of Saving _ org \<Rightarrow> org | Provisioning org \<Rightarrow> org)"

definition requests_ok :: "('w \<Rightarrow> org_row list) \<Rightarrow> 'w \<times> held list \<Rightarrow> bool" where
  "requests_ok rd s \<longleftrightarrow> (\<forall>r \<in> set (rd (fst s)). org_row_ok r) \<and> (\<forall>h \<in> set (snd s). org_inv (held_org h))"

lemma org_row_ok_toOrm: "org_inv org \<Longrightarrow> org_row_ok (org_toOrm org)"
  by (simp add: org_row_ok_def org_inv_def org_toOrm_def)

lemma org_row_ok_toDomain:
  assumes "org_row_ok r" and "org_toDomain r = Inr org"
  shows "org_inv org"
  using assms
  by (auto simp: org_row_ok_def org_toDomain_def org_inv_def org_reconstitute_def dest: slug_create_valid
      split: sum.splits)

lemma findById_stored:
  assumes T: "plain_store org_cols rd T" and run: "orgs_findById (organization_repository T tid) i w = (s, w')"
  shows "rd w' = rd w" and "s = Inr (Some org) \<Longrightarrow> \<exists>r \<in> set (rd w). org_toDomain r = Inr org"
proof -
  obtain x w1 where find: "find_one T (find_options [(''id'', SStr i)]) w = (x, w1)" by force
  have "w' = w \<and> (\<exists>e. s = Inl e) \<or> w' = w1 \<and> (s = Inr (Some org) \<longrightarrow> (\<exists>r. x = Inr (Some r) \<and> org_toDomain r = Inr org))"
    using run find
    by (auto simp: organization_repository_def org_findById_def org_toDomain_or_null_def andThen_run map_sum_def
        split: sum.splits option.splits)
  with plain_store_find_one [OF T find]
  show "rd w' = rd w" and "s = Inr (Some org) \<Longrightarrow> \<exists>r \<in> set (rd w). org_toDomain r = Inr org" by auto
qed

lemma found_inv:
  assumes "plain_store org_cols rd T" and "\<forall>r \<in> set (rd w). org_row_ok r"
    and "orgs_findById (organization_repository T tid) i w = (Inr (Some org), w')"
  shows "org_inv org"
  using findById_stored(2) [OF assms(1,3) refl] assms(2) org_row_ok_toDomain by blast

lemma save_stored:
  assumes "plain_store org_cols rd T" and "org_inv org" and "\<forall>r \<in> set (rd w). org_row_ok r"
  shows "orgs_save (organization_repository T tid) org w = (s, w') \<Longrightarrow> r \<in> set (rd w') \<Longrightarrow> org_row_ok r"
    and "orgs_provision (organization_repository T tid) org ctx w = (s, w') \<Longrightarrow> r \<in> set (rd w') \<Longrightarrow> org_row_ok r"
proof -
  have "org_row_ok r" if "r \<in> set (rd (snd (save_row T (org_toOrm org) w)))" for r
    using that assms(3) org_row_ok_toOrm [OF assms(2)] plain_store_save [OF assms(1), of "org_toOrm org" w]
    by (cases "save_row T (org_toOrm org) w"; cases "fst (save_row T (org_toOrm org) w)")
      (auto dest: upsert_mem)
  then show "orgs_save (organization_repository T tid) org w = (s, w') \<Longrightarrow> r \<in> set (rd w') \<Longrightarrow> org_row_ok r"
    and "orgs_provision (organization_repository T tid) org ctx w = (s, w') \<Longrightarrow> r \<in> set (rd w') \<Longrightarrow> org_row_ok r"
    using assms(3)
    by (auto simp: organization_repository_def org_save_def org_provision_def andThen_run
        split: sum.splits prod.splits)
qed

text \<open>The parts before a write change no row, and what they hold is an organization the code can build.\<close>

lemma changed_inv:
  assumes "org_inv org" and "(case name of None \<Rightarrow> Inr org | Some n \<Rightarrow> org_rename n t org) = Inr org'"
  shows "org_inv (case tier of None \<Rightarrow> org' | Some p \<Rightarrow> org_changePlan p t' org')"
proof -
  have "org_inv org'"
    using assms org_step_inv [OF org_step.rename] by (auto split: option.splits)
  then show ?thesis
    using org_step_inv [OF org_step.change_plan] by (auto split: option.split)
qed

lemma update_prepared:
  assumes T: "plain_store org_cols rd T" and run: "update_prepare (organization_repository T tid) cmd tm w = (r, w')"
    and rows: "\<forall>x \<in> set (rd w). org_row_ok x"
  shows "rd w' = rd w" and "r = Inr (Ok org) \<Longrightarrow> org_inv org"
proof -
  obtain s w1 where find: "orgs_findById (organization_repository T tid) (uoc_organizationId cmd) w = (s, w1)"
    by force
  have "w' = w1" and "r = Inr (Ok org) \<Longrightarrow> \<exists>old new. s = Inr (Some old)
      \<and> (case uoc_name cmd of None \<Rightarrow> Inr old | Some n \<Rightarrow> org_rename n (tm 0) old) = Inr new
      \<and> org = (case uoc_planTier cmd of None \<Rightarrow> new | Some t \<Rightarrow> org_changePlan t (tm 1) new)"
    using run find by (auto simp: update_prepare_def andThen_run split: sum.splits option.splits)
  with findById_stored(1) [OF T find] changed_inv [OF found_inv [OF T rows]] find
  show "rd w' = rd w" and "r = Inr (Ok org) \<Longrightarrow> org_inv org"
    by metis+
qed

lemma suspend_prepared:
  assumes T: "plain_store org_cols rd T" and run: "suspend_prepare (organization_repository T tid) cmd ids tm w = (r, w')"
    and rows: "\<forall>x \<in> set (rd w). org_row_ok x"
  shows "rd w' = rd w" and "r = Inr (Ok org) \<Longrightarrow> org_inv org"
proof -
  obtain s w1 where find: "orgs_findById (organization_repository T tid) (soc_organizationId cmd) w = (s, w1)"
    by force
  have "w' = w1" and "r = Inr (Ok org) \<Longrightarrow> \<exists>old. s = Inr (Some old) \<and> org_step old org"
    using run find
    by (auto simp: suspend_prepare_def andThen_run split: sum.splits option.splits intro: org_step.suspend)
  with findById_stored(1) [OF T find] found_inv [OF T rows] find
  show "rd w' = rd w" and "r = Inr (Ok org) \<Longrightarrow> org_inv org"
    by (auto dest: org_step_inv)
qed

text \<open>Counting rows leaves them as they are.\<close>

definition counts_stored :: "('w \<Rightarrow> 'row list) \<Rightarrow> ('w, 'row) table \<Rightarrow> bool" where
  "counts_stored rd T \<longleftrightarrow> (\<forall>q w. rd (snd (count_rows T q w)) = rd w)"

lemma counts_stored_list_table [simp]: "counts_stored rd (list_table cols ks rd' wr)"
  by (simp add: counts_stored_def list_table_def)

lemma create_prepared:
  assumes T: "counts_stored rd T" and run: "create_prepare (organization_repository T tid) cmd ids tm w = (r, w')"
  shows "rd w' = rd w" and "r = Inr (Ok org) \<Longrightarrow> org_inv org"
proof -
  have "w' = snd (count_rows T (qb_where (CEq ''slug'' (SStr (coc_slug cmd)))
      (systemQb (forProvisioning ''CreateOrganizationHandler'' (tm 0)))) w)"
    using run by (auto simp: create_prepare_def organization_repository_def org_existsBySlug_def andThen_run
        split: sum.splits prod.splits if_splits)
  with T show "rd w' = rd w" by (simp add: counts_stored_def)
  show "r = Inr (Ok org) \<Longrightarrow> org_inv org"
    using run by (auto simp: create_prepare_def andThen_run dest: org_create_inv
        split: sum.splits prod.splits if_splits)
qed

lemma request_step_ok:
  assumes T: "plain_store org_cols rd T" "counts_stored rd T"
    and step: "request_step T s s'" and ok: "requests_ok rd s"
  shows "requests_ok rd s'"
  using step ok
proof (cases rule: request_step.cases)
  case (update tid cmd tm w r w' hs)
  with ok update_prepared [OF T(1) update(3)] show ?thesis
    by (auto simp: requests_ok_def holding_def held_org_def split: sum.splits result.splits)
next
  case (suspend tid cmd ids tm w r w' hs)
  with ok suspend_prepared [OF T(1) suspend(3)] show ?thesis
    by (auto simp: requests_ok_def holding_def held_org_def split: sum.splits result.splits)
next
  case (create tid cmd ids tm w r w' hs)
  with ok create_prepared [OF T(2) create(3)] show ?thesis
    by (auto simp: requests_ok_def holding_def held_org_def split: sum.splits result.splits)
next
  case (save tid org w s w' hs hs')
  with ok have "org_inv org" and "\<forall>r \<in> set (rd w). org_row_ok r" by (auto simp: requests_ok_def held_org_def)
  from save_stored(1) [OF T(1) this save(3)] save ok show ?thesis by (auto simp: requests_ok_def)
next
  case (provision tid org ctx w s w' hs hs')
  with ok have "org_inv org" and "\<forall>r \<in> set (rd w). org_row_ok r" by (auto simp: requests_ok_def held_org_def)
  from save_stored(2) [OF T(1) this provision(3)] provision ok show ?thesis by (auto simp: requests_ok_def)
qed

lemma requests_run_ok:
  assumes "plain_store org_cols rd T" and "counts_stored rd T"
    and "(request_step T)\<^sup>*\<^sup>* s s'" and "requests_ok rd s"
  shows "requests_ok rd s'"
  using assms(3,4) by (induction rule: rtranclp_induct) (auto dest: request_step_ok [OF assms(1,2)])

section \<open>A table of organizations\<close>

text \<open>The organizations in a list, with the keys the entity declares unique.\<close>

definition org_table :: "(org_row list, org_row) table" where
  "org_table = list_table org_cols [''id'', ''slug''] (\<lambda>w. w) (\<lambda>rs w. rs)"

lemma org_table_plain: "plain_store org_cols (\<lambda>w. w) org_table" "counts_stored (\<lambda>w. w) org_table"
  unfolding org_table_def by (rule plain_store_list_table, simp) (rule counts_stored_list_table)

lemma org_table_unique:
  "distinct_keys org_cols [''id'', ''slug''] w \<Longrightarrow> distinct_keys org_cols [''id'', ''slug''] (snd (save_row org_table r w))"
  by (simp add: org_table_def list_table_def write_rows_def)

lemma request_step_unique:
  assumes "request_step org_table s s'" and "distinct_keys org_cols [''id'', ''slug''] (fst s)"
  shows "distinct_keys org_cols [''id'', ''slug''] (fst s')"
proof -
  have found: "w' = w" if "orgs_findById (organization_repository org_table tid) i w = (x, w')" for tid i w x w'
    using findById_stored(1) [OF org_table_plain(1) that] .
  from assms(1) have "fst s' = fst s \<or> (\<exists>r. fst s' = snd (save_row org_table r (fst s)))"
  proof (cases rule: request_step.cases)
    case (update tid cmd tm w r w' hs)
    then show ?thesis by (auto simp: update_prepare_def andThen_run dest: found split: prod.splits sum.splits option.splits)
  next
    case (suspend tid cmd ids tm w r w' hs)
    then show ?thesis by (auto simp: suspend_prepare_def andThen_run dest: found split: prod.splits sum.splits option.splits)
  next
    case (create tid cmd ids tm w r w' hs)
    then show ?thesis using create_prepared(1) [OF org_table_plain(2) create(3)] by simp
  next
    case (save tid org w x w' hs hs')
    then have "w' = w \<or> w' = snd (save_row org_table (org_toOrm org) w)"
      by (auto simp: organization_repository_def org_save_def andThen_run split: prod.splits sum.splits)
    with save show ?thesis by auto
  next
    case (provision tid org ctx w x w' hs hs')
    then have "w' = snd (save_row org_table (org_toOrm org) w)"
      by (auto simp: organization_repository_def org_provision_def andThen_run split: prod.splits sum.splits)
    with provision show ?thesis by auto
  qed
  with assms(2) show ?thesis by (auto dest: org_table_unique)
qed

lemma requests_unique:
  assumes "(request_step org_table)\<^sup>*\<^sup>* s s'" and "distinct_keys org_cols [''id'', ''slug''] (fst s)"
  shows "distinct_keys org_cols [''id'', ''slug''] (fst s')"
  using assms by (induction rule: rtranclp_induct) (auto dest: request_step_unique)

text \<open>A table with one organization.\<close>

lemma one_found:
  assumes "org_row_ok row" and "or_id row \<noteq> []"
  obtains org where "orgs_findById (organization_repository org_table (Some (or_id row))) (or_id row) [row]
      = (Inr (Some org), [row])"
    and "org_inv org" and "org_toOrm org = row" and "domain_events org = []"
proof -
  obtain org where org: "org_toDomain row = Inr org"
    using assms(1) slug_pattern_normal
    by (fastforce simp: org_toDomain_def org_row_ok_def slug_create_def)
  have guard: "guardTenantRoot org_repo_name (Some (or_id row)) (or_id row) = Inr ()" using assms(2) by simp
  have "orgs_findById (organization_repository org_table (Some (or_id row))) (or_id row) [row] = (Inr (Some org), [row])"
    using assms(2) org
    by (simp add: organization_repository_def org_findById_def org_table_def list_table_def andThen_run
        org_cols_def org_toDomain_or_null_def guard)
  with that org_row_ok_toDomain [OF assms(1) org] org_toOrm_toDomain [OF org] org_toDomain_events [OF org] assms(1)
  show ?thesis by (simp add: org_row_ok_def)
qed

lemma one_saved:
  assumes "org_inv org" and "ent_id org = or_id r" and "or_id r \<noteq> []"
  shows "orgs_save (organization_repository org_table (Some (or_id r))) org [r]
    = (Inr (clearDomainEvents org), [org_toOrm org])"
proof -
  have guard: "guardTenantRoot org_repo_name (Some (or_id r)) (or_id r) = Inr ()" using assms(3) by simp
  have "org_cols (org_toOrm org) ''id'' = org_cols r ''id''"
    using assms(2) by (simp add: org_cols_def org_toOrm_def)
  then show ?thesis
    using assms(2) org_toDomain_toOrm [OF assms(1)]
    by (simp add: guard organization_repository_def org_save_def org_table_def list_table_def write_rows_def andThen_run)
qed

lemma active_changed:
  assumes row: "org_row_ok row" "or_status row = ACTIVE" "or_id row \<noteq> []" "uoc_organizationId cmd = or_id row"
    and name: "uoc_name cmd = Some n" "2 \<le> length (trim n)" "length (trim n) \<le> 100"
  obtains changed where
    "update_prepare (organization_repository org_table (Some (or_id row))) cmd tm [row] = (Inr (Ok changed), [row])"
    and "org_inv changed" and "ent_id changed = or_id row" and "org_name changed = trim n" and "org_status changed = ACTIVE"
proof -
  obtain org where find: "orgs_findById (organization_repository org_table (Some (or_id row))) (or_id row) [row]
      = (Inr (Some org), [row])" and org: "org_inv org" "org_toOrm org = row"
    by (rule one_found [OF row(1,3)])
  obtain renamed where renamed: "org_rename n (tm 0) org = Inr renamed" "org_name renamed = trim n"
    using name by (cases "trim n = org_name org") (auto simp: org_rename_def Let_def)
  let ?changed = "case uoc_planTier cmd of None \<Rightarrow> renamed | Some t \<Rightarrow> org_changePlan t (tm 1) renamed"
  have "org_inv ?changed"
    using changed_inv [OF org(1), where name = "Some n" and t = "tm 0" and tier = "uoc_planTier cmd"] renamed by simp
  moreover have "org_status org = ACTIVE" "ent_id org = or_id row" using org(2) row(2) by (auto simp: org_toOrm_def)
  then have "org_status renamed = ACTIVE" "ent_id renamed = or_id row"
    using renamed(1) by (auto simp: org_rename_def Let_def split: if_splits)
  with renamed(2) have "org_status ?changed = ACTIVE" "ent_id ?changed = or_id row" "org_name ?changed = trim n"
    by (simp_all add: org_changePlan_def split: option.split)
  moreover have "update_prepare (organization_repository org_table (Some (or_id row))) cmd tm [row] = (Inr (Ok ?changed), [row])"
    using row(4) name(1) find renamed by (simp add: update_prepare_def andThen_run)
  ultimately show ?thesis by (intro that) simp_all
qed

lemma active_suspended:
  assumes row: "org_row_ok row" "or_status row = ACTIVE" "or_id row \<noteq> []" "soc_organizationId cmd = or_id row"
  obtains dto mid where
    "suspend_organization_execute (organization_repository org_table (Some (or_id row))) publish cmd ids tm [row]
       = (Inr (Ok dto), [mid])"
    and "dto_status dto = ''suspended''" and "or_id mid = or_id row" and "or_status mid = SUSPENDED"
proof -
  obtain org where find: "orgs_findById (organization_repository org_table (Some (or_id row))) (or_id row) [row]
      = (Inr (Some org), [row])" and org: "org_inv org" "org_toOrm org = row"
    by (rule one_found [OF row(1,3)])
  then have fields: "org_status org = ACTIVE" "ent_id org = or_id row" using row(2) by (auto simp: org_toOrm_def)
  then obtain susp where susp: "org_suspend (soc_reason cmd) (case cmd_actorId cmd of Some a \<Rightarrow> a | None \<Rightarrow> ''system'')
      (cmd_correlationId cmd) (ids 0) (tm 0) (tm 1) (tm 2) org = Inr susp"
    and susp': "org_status susp = SUSPENDED" "ent_id susp = or_id row"
    by (simp add: org_suspend_def Let_def)
  have "org_inv susp" by (rule org_step_inv [OF org_step.suspend [OF susp] org(1)])
  from one_saved [OF this susp'(2) row(3)]
  have "suspend_organization_execute (organization_repository org_table (Some (or_id row))) publish cmd ids tm [row]
      = (Inr (Ok (organization_dto_fromAggregate (clearDomainEvents susp))), [org_toOrm susp])"
    using row(4) find susp by (simp add: suspend_organization_execute_def andThen_run clearDomainEvents_def)
  with that susp' show ?thesis by (simp add: organization_dto_fromAggregate_def org_toOrm_def)
qed

end
