(* ===== verification/TenantProperties.thy ===== *)
theory TenantProperties
  imports Samples Outbox OrganizationInterleaving
begin

text \<open>
  The aggregates: the life of an organization and of a workflow execution, what survives
  storage, and what the organization handlers answer.
\<close>

section \<open>Life cycles\<close>

text \<open>
  C22: an organization only ever moves from provisioning to active, between active and
  suspended, or stays in its status. Every organization the code can build has a valid slug,
  the limits of its plan, and a provisioning date exactly when it left the first status; no
  operation changes its id, slug, owner or creation date.
\<close>

theorem organization_lifecycle:
  assumes "org_reachable org" and "org_step org org'"
  shows "org_inv org' \<and> (\<exists>a. lifecycle (org_status org) a (org_status org'))
    \<and> ent_id org' = ent_id org \<and> org_slug org' = org_slug org \<and> org_ownerId org' = org_ownerId org
    \<and> created_at org' = created_at org"
  using org_step_inv [OF assms(2) org_reachable_inv [OF assms(1)]] org_step_refines [OF assms(2)]
    org_step_frame [OF assms(2)] by blast

lemma sample_created:
  "\<exists>org. org_create ''Acme'' ''Acme'' FREE ''u1'' ''c'' ''t1'' ''e1'' 1 2 3 = Inr org \<and> org_status org = PROVISIONING"
  by (rule exI [of _ "projr (org_create ''Acme'' ''Acme'' FREE ''u1'' ''c'' ''t1'' ''e1'' 1 2 3)"]) code_simp

theorem organization_lifecycle_witness:
  "\<exists>org' :: organization. \<exists>a. org_inv org' \<and> lifecycle PROVISIONING a (org_status org') \<and> org_status org' = ACTIVE"
proof -
  obtain org where new: "org_create ''Acme'' ''Acme'' FREE ''u1'' ''c'' ''t1'' ''e1'' 1 2 3 = Inr org"
    and st: "org_status org = PROVISIONING"
    using sample_created by blast
  obtain org' where active: "org_markProvisioned ''p'' ''c'' ''e2'' 4 5 6 org = Inr org'" and st': "org_status org' = ACTIVE"
    using st by (simp add: org_markProvisioned_def Let_def)
  from organization_lifecycle [OF org_reachable.create [OF new] org_step.provision [OF active]] st st'
  show ?thesis by metis
qed

text \<open>
  C23: an execution starts once, is cancelled only while pending or running, and can be
  completed or failed from any status. Every execution the code can build has a completion
  date exactly in a terminal status, a duration only when it was started and ended, and no
  operation changes its id, tenant, definition, input or creation date.
\<close>

theorem execution_lifecycle:
  assumes "ex_reachable x" and "ex_step x y"
  shows "ex_inv y \<and> ex_lifecycle (ex_status x) (ex_status y) \<and> ent_id y = ent_id x
    \<and> ex_tenantId y = ex_tenantId x \<and> ex_definitionId y = ex_definitionId x \<and> ex_input y = ex_input x
    \<and> created_at y = created_at x"
  using ex_step_inv [OF assms(2) ex_reachable_inv [OF assms(1)]] ex_step_refines [OF assms(2)]
    ex_step_frame [OF assms(2)] by blast

theorem execution_lifecycle_witness:
  "ex_lifecycle Exec_pending Exec_completed"
proof -
  let ?x = "ex_create ''d'' ''t1'' ''c'' ''u1'' By_manual [] ''x'' 0 1"
  from execution_lifecycle [OF ex_reachable.create [of "''d''" "''t1''" "''c''" "''u1''" By_manual "[]" "''x''" 0 1]
      ex_step.complete [of ?x None 2 3]]
  have "ex_lifecycle (ex_status ?x) (ex_status (ex_complete None 2 3 ?x))" by blast
  then show ?thesis by (simp add: ex_create_def ex_complete_def entity.defs)
qed

section \<open>Storage\<close>

text \<open>
  C24: what the mappers write they read back. An organization the code built loses only its
  pending domain events, a user with a normalised address too; audit events, definitions,
  executions and outbox entries come back unchanged once the dates that the mapper leaves to
  the database are supplied.
\<close>

theorem mappers_round_trip:
  assumes "org_reachable org" and "user_inv u"
  shows "org_toDomain (org_toOrm org) = Inr (clearDomainEvents org)
    \<and> user_toDomain (created_at u) (updated_at u) (user_toOrm u) = Inr (clearDomainEvents u)
    \<and> audit_toDomain (created_at e) (updated_at e) (audit_toOrm e) = e
    \<and> definition_toDomain (created_at d) (updated_at d) (definition_toOrm d) = d
    \<and> execution_toDomain (created_at x) (updated_at x) (execution_toOrm x) = x
    \<and> outbox_toDomain (outbox_toOrm oe) (updated_at oe) = oe"
  by (intro conjI org_toDomain_toOrm org_reachable_inv [OF assms(1)] user_round_trip [OF assms(2)]
      audit_round_trip definition_round_trip execution_round_trip outbox_toDomain_toOrm)

theorem mappers_round_trip_witness:
  "\<exists>org. org_toDomain (org_toOrm org) = Inr (clearDomainEvents org)
     \<and> user_toDomain (created_at sample_user) (updated_at sample_user) (user_toOrm sample_user)
       = Inr (clearDomainEvents sample_user)"
proof -
  obtain org where new: "org_create ''Acme'' ''Acme'' FREE ''u1'' ''c'' ''t1'' ''e1'' 1 2 3 = Inr org"
    using sample_created by blast
  have "user_inv sample_user" by code_simp
  from mappers_round_trip [OF org_reachable.create [OF new] this] show ?thesis by blast
qed

section \<open>Organization handlers\<close>

text \<open>
  A created organization has the normalised slug, the requested plan, the caller as its owner
  (or an invented id without one), no provisioning date and the status provisioning.
\<close>

lemma created_organization:
  assumes "saves_org T"
    and "create_organization_execute (organization_repository T tid) publish cmd ids tm w = (Inr (Ok dto), w')"
  shows "slug_pattern (dto_slug dto) \<and> dto_slug dto = trim (toLowerCase (coc_slug cmd))
    \<and> dto_plan dto = tier_text (coc_planTier cmd) \<and> dto_organizationId dto = ids 1
    \<and> dto_ownerId dto = (case cmd_actorId cmd of Some a \<Rightarrow> a | None \<Rightarrow> ids 0)
    \<and> dto_status dto = ''provisioning'' \<and> dto_provisionedAt dto = None"
  using create_organization_result [OF assms] by simp

text \<open>
  C30: requests on organizations may overlap. From a table with one active organization, no
  interleaving of creations, changes and suspensions leaves a row that no organization has, or
  two rows with one id or slug. But a suspension can be lost: when a change of the name has read
  the organization before the suspension is stored, and saves it after the suspension was
  answered with success, the organization is active again.
\<close>

theorem overlapping_requests:
  assumes row: "org_row_ok row" "or_status row = ACTIVE" "or_id row \<noteq> []"
    and ids: "uoc_organizationId cmd = or_id row" "soc_organizationId scmd = or_id row"
    and name: "uoc_name cmd = Some n" "2 \<le> length (trim n)" "length (trim n) \<le> 100"
    and R: "R = organization_repository org_table (Some (or_id row))"
  shows "((request_step org_table)\<^sup>*\<^sup>* ([row], []) (w, hs)
        \<longrightarrow> (\<forall>r \<in> set w. org_row_ok r) \<and> distinct_keys org_cols [''id'', ''slug''] w)
    \<and> (\<exists>changed dto mid saved row'.
        update_prepare R cmd tm [row] = (Inr (Ok changed), [row])
      \<and> suspend_organization_execute R publish scmd ids' tm' [row] = (Inr (Ok dto), mid)
      \<and> dto_status dto = ''suspended''
      \<and> orgs_save R changed mid = (Inr saved, [row'])
      \<and> or_name row' = trim n \<and> or_status row' = ACTIVE)"
proof
  have "requests_ok (\<lambda>w. w) ([row], [])" using row(1) by (simp add: requests_ok_def)
  then show "(request_step org_table)\<^sup>*\<^sup>* ([row], []) (w, hs)
      \<longrightarrow> (\<forall>r \<in> set w. org_row_ok r) \<and> distinct_keys org_cols [''id'', ''slug''] w"
    using requests_run_ok [OF org_table_plain, of "([row], [])" "(w, hs)"] requests_unique [of "([row], [])" "(w, hs)"]
    by (auto simp: requests_ok_def)
next
  obtain changed where changed: "update_prepare R cmd tm [row] = (Inr (Ok changed), [row])" "org_inv changed"
    "ent_id changed = or_id row" "org_name changed = trim n" "org_status changed = ACTIVE"
    unfolding R by (rule active_changed [OF row ids(1) name])
  obtain dto mid where suspended: "suspend_organization_execute R publish scmd ids' tm' [row] = (Inr (Ok dto), [mid])"
    "dto_status dto = ''suspended''" "or_id mid = or_id row"
    unfolding R by (rule active_suspended [OF row ids(2)])
  have "orgs_save R changed [mid] = (Inr (clearDomainEvents changed), [org_toOrm changed])"
    using one_saved [OF changed(2), of mid] changed(3) suspended(3) row(3) unfolding R by simp
  with changed suspended show "\<exists>changed dto mid saved row'.
        update_prepare R cmd tm [row] = (Inr (Ok changed), [row])
      \<and> suspend_organization_execute R publish scmd ids' tm' [row] = (Inr (Ok dto), mid)
      \<and> dto_status dto = ''suspended''
      \<and> orgs_save R changed mid = (Inr saved, [row'])
      \<and> or_name row' = trim n \<and> or_status row' = ACTIVE"
    by (intro exI conjI) (assumption | simp add: org_toOrm_def)+
qed

theorem overlapping_requests_witness:
  "\<exists>dto mid changed saved row'.
     suspend_organization_execute (organization_repository org_table (Some ''t1'')) (\<lambda>_. ret ())
       (new_suspend_organization_command ''t1'' ''r'' ''t1'' None None ''f'' ''g'' 0) numbered_ids no_times
       [sample_org_row ''t1'' ''acme'' ACTIVE]
     = (Inr (Ok dto), mid)
     \<and> dto_status dto = ''suspended''
     \<and> orgs_save (organization_repository org_table (Some ''t1'')) changed mid = (Inr saved, [row'])
     \<and> or_name row' = ''Acme Inc'' \<and> or_status row' = ACTIVE"
proof -
  let ?row = "sample_org_row ''t1'' ''acme'' ACTIVE"
  let ?u = "new_update_organization_command ''t1'' (Some ''Acme Inc'') None ''t1'' None None ''f'' ''g'' 0"
  let ?s = "new_suspend_organization_command ''t1'' ''r'' ''t1'' None None ''f'' ''g'' 0"
  have row: "org_row_ok ?row" "or_status ?row = ACTIVE" "or_id ?row \<noteq> []"
    by code_simp+
  have id: "or_id ?row = ''t1''" by code_simp
  have ids: "uoc_organizationId ?u = or_id ?row" "soc_organizationId ?s = or_id ?row"
    by code_simp+
  have name: "uoc_name ?u = Some ''Acme Inc''" "2 \<le> length (trim ''Acme Inc'')" "length (trim ''Acme Inc'') \<le> 100"
    and trim: "trim ''Acme Inc'' = ''Acme Inc''"
    by code_simp+
  from overlapping_requests [OF row ids name refl, of w hs no_times "\<lambda>_. ret ()" numbered_ids no_times, THEN conjunct2]
  show ?thesis unfolding id trim by blast
qed

text \<open>
  C26: creating or suspending an organization never publishes an event: the answer and the
  world are the same whatever the event bus does. The aggregate that is saved comes back
  from storage without the events it collected.
\<close>

theorem organization_events_never_published:
  "create_organization_execute (organization_repository T tid) publish cmd ids tm w
     = create_organization_execute (organization_repository T tid) publish' cmd ids tm w
   \<and> suspend_organization_execute (organization_repository T tid) publish scmd ids tm w
     = suspend_organization_execute (organization_repository T tid) publish' scmd ids tm w"
  by (intro conjI org_repo.create_ignores_bus org_repo.suspend_ignores_bus)

lemma distinct_keys_clash:
  "r \<in> set rs \<Longrightarrow> k \<in> set ks \<Longrightarrow> cols r k = cols x k \<Longrightarrow> \<not> distinct_keys cols ks (rs @ [x])"
  by (induction rs) (auto simp: list_all_iff)

lemma upsert_fresh: "\<forall>r \<in> set rs. cols r ''id'' \<noteq> cols x ''id'' \<Longrightarrow> upsert cols x rs = rs @ [x]"
  by (induction rs) auto

text \<open>
  C27: the check for a taken slug looks for the text as the caller wrote it, the organization
  is stored under its normal form. So a slug that is not in normal form is never reported as
  taken: when its normal form is, the request fails on the unique key of the table instead.
\<close>

theorem slug_check_case_sensitive:
  assumes "\<forall>r \<in> set rows. slug_pattern (or_slug r) \<and> or_id r \<noteq> ids 1"
    and "trim (toLowerCase (coc_slug cmd)) \<noteq> coc_slug cmd"
    and "trim (toLowerCase (coc_slug cmd)) \<in> or_slug ` set rows"
  shows "\<exists>m. create_organization_execute (organization_repository (lone_table org_cols [''id'', ''slug'']) tid)
      publish cmd ids tm rows = (Inl (ServiceError m), rows)"
proof -
  let ?T = "lone_table org_cols [''id'', ''slug''] :: (org_row list, org_row) table"
  let ?n = "trim (toLowerCase (coc_slug cmd))"
  have "or_slug r \<noteq> coc_slug cmd" if "r \<in> set rows" for r
    using assms(1,2) that slug_pattern_normal [of "or_slug r"] by (metis toLowerCase_trim trim_idem toLowerCase_idem)
  then have "filter (\<lambda>r. sat_all (org_cols r) (qb_where (CEq ''slug'' (SStr (coc_slug cmd))) createQueryBuilder)) rows = []"
    by (simp add: filter_empty_conv org_cols_def)
  then have check: "org_existsBySlug ?T (coc_slug cmd) ctx rows = (Inr False, rows)" for ctx
    by (simp add: org_existsBySlug_def andThen_run lone_table_def list_table_def systemQb_def)
  from assms(3) obtain r where r: "r \<in> set rows" "or_slug r = ?n" by auto
  with assms(1) have "slug_create (coc_slug cmd) = Inr (TenantSlug ?n)"
    by (auto simp: slug_create_Inr_iff)
  then obtain org where org: "org_create (coc_name cmd) (coc_slug cmd) (coc_planTier cmd)
      (case cmd_actorId cmd of Some a \<Rightarrow> a | None \<Rightarrow> ids 0) (cmd_correlationId cmd) (ids 1) (ids 2) (tm 1) (tm 2) (tm 3)
      = Inr org" and fields: "ent_id org = ids 1" "slug_value (org_slug org) = ?n"
    by (simp add: org_create_def Let_def new_entity_def)
  let ?row = "org_toOrm org"
  have "\<forall>r \<in> set rows. org_cols r ''id'' \<noteq> org_cols ?row ''id''"
    using assms(1) by (simp add: org_cols_def org_toOrm_def fields)
  then have "upsert org_cols ?row rows = rows @ [?row]" by (rule upsert_fresh)
  moreover have "\<not> distinct_keys org_cols [''id'', ''slug''] (rows @ [?row])"
    by (rule distinct_keys_clash [OF r(1), of "''slug''"]) (simp_all add: org_cols_def org_toOrm_def fields r(2))
  ultimately have "org_provision ?T org ctx rows
      = (Inl (ServiceError ''duplicate key value violates unique constraint''), rows)" for ctx
    by (simp add: org_provision_def andThen_run lone_table_def list_table_def write_rows_def)
  with check org show ?thesis
    by (simp add: create_organization_execute_def organization_repository_def andThen_run Let_def)
qed

theorem slug_check_case_sensitive_witness:
  "\<exists>m. create_organization_execute (organization_repository (lone_table org_cols [''id'', ''slug'']) None) (\<lambda>_. ret ())
     (new_create_organization_command ''Acme'' ''ACME'' None ''system'' None None ''f'' ''g'' 0) numbered_ids no_times
     [sample_org_row ''t1'' ''acme'' ACTIVE] = (Inl (ServiceError m), [sample_org_row ''t1'' ''acme'' ACTIVE])"
  by (rule slug_check_case_sensitive) code_simp+

end
