(* ===== verification/OutboxDelivery.thy ===== *)
theory OutboxDelivery
  imports Outbox
begin

text \<open>
  What the outbox promises over time. The locale \<open>outbox_store\<close> is the contract of
  \<open>OutboxEntryRepositoryPort\<close> in terms of the rows it keeps; \<open>outbox_delivery\<close> adds the call
  that forwards an entry, with the event ids the receiving service has accepted. Both are
  interpreted on the repository over a table and on the HTTP client.
\<close>

section \<open>The contract of the repository\<close>

locale outbox_store =
  fixes R :: "'w outbox_port" and rows :: "'w \<Rightarrow> outbox_row list"
  assumes append_ok: "ob_append R e w = (Inr (), w') \<Longrightarrow> rows w' = rows w @ [outbox_toOrm e]"
    and append_failed: "ob_append R e w = (Inl x, w') \<Longrightarrow> rows w' = rows w"
    and pending_keeps: "ob_findPending R n w = (r, w') \<Longrightarrow> rows w' = rows w"
    and pending_only: "ob_findPending R n w = (Inr es, w') \<Longrightarrow> e \<in> set es
      \<Longrightarrow> outbox_toOrm e \<in> set (rows w) \<and> oe_status e = Pending"
    and pending_limit: "ob_findPending R n w = (Inr es, w') \<Longrightarrow> length es \<le> nat n"
    and save_ok: "ob_save R e w = (Inr (), w') \<Longrightarrow> rows w' = upsert outbox_cols (outbox_toOrm e) (rows w)"
    and save_failed: "ob_save R e w = (Inl x, w') \<Longrightarrow> rows w' = rows w"
begin

lemma append_rows: "r \<in> set (rows (snd (ob_append R e w))) \<Longrightarrow> r = outbox_toOrm e \<or> r \<in> set (rows w)"
  by (cases "ob_append R e w"; cases "fst (ob_append R e w)") (auto dest: append_ok append_failed)

lemma save_rows: "r \<in> set (rows (snd (ob_save R e w))) \<Longrightarrow> r = outbox_toOrm e \<or> r \<in> set (rows w)"
proof -
  assume r: "r \<in> set (rows (snd (ob_save R e w)))"
  obtain x w' where run: "ob_save R e w = (x, w')" by force
  show ?thesis
  proof (cases x)
    case (Inl y)
    with run r save_failed show ?thesis by simp
  next
    case (Inr u)
    with run save_ok have "rows w' = upsert outbox_cols (outbox_toOrm e) (rows w)" by simp
    with run r show ?thesis by (auto dest: upsert_mem)
  qed
qed

end

lemma outbox_cols_status: "outbox_cols r ''status'' = SStr ''pending'' \<longleftrightarrow> ox_status r = Pending"
  by (cases "ox_status r") (simp_all add: outbox_cols_def)

lemma outbox_store_of_table:
  assumes "plain_store outbox_cols rd T"
  shows "outbox_store (outbox_repository T now) rd"
proof unfold_locales
  fix n w es w' e
  assume "ob_findPending (outbox_repository T now) n w = (Inr es, w')"
  then obtain rs where f: "find_many T (qb_take n (qb_orderBy ''createdAt'' False
        (find_options [(''status'', SStr (outbox_status_text Pending))]))) w = (Inr rs, w')"
    and es: "es = map (\<lambda>r. outbox_toDomain r now) rs"
    by (auto simp: outbox_repository_def outbox_findPending_def andThen_run split: sum.splits prod.splits)
  show "length es \<le> nat n"
    using plain_store_find_many(3) [OF assms f] by (simp add: es qb_take_def)
  assume "e \<in> set es"
  with es obtain r where r: "r \<in> set rs" "e = outbox_toDomain r now" by auto
  with plain_store_find_many(2) [OF assms f] have "r \<in> set (rd w)" and "ox_status r = Pending"
    by (auto simp: outbox_cols_status)
  with r show "outbox_toOrm e \<in> set (rd w) \<and> oe_status e = Pending"
    by simp
next
  fix n w r w'
  assume "ob_findPending (outbox_repository T now) n w = (r, w')"
  then show "rd w' = rd w"
    by (auto simp: outbox_repository_def outbox_findPending_def andThen_run
        dest: plain_store_find_many(1) [OF assms] split: sum.splits prod.splits)
qed (auto simp: outbox_repository_def outbox_append_def outbox_save_def andThen_run
      dest: plain_store_insert [OF assms] plain_store_save [OF assms] split: sum.splits prod.splits)

section \<open>Forwarding to the event backbone\<close>

definition command_event_id :: "ingest_command \<Rightarrow> string option" where
  "command_event_id c = (case ic_metadata c of None \<Rightarrow> None | Some m \<Rightarrow> map_of m ''event_id'')"

lemma command_event_id_forward [simp]: "command_event_id (forward_command e) = Some (oe_eventId e)"
  by (simp add: command_event_id_def forward_command_def)

locale outbox_delivery = outbox_store +
  fixes send :: "ingest_command \<Rightarrow> ('a, unit) io" and accepted :: "'a \<Rightarrow> string set"
  assumes send_rows: "send c w = (r, w') \<Longrightarrow> rows w' = rows w"
    and send_ok: "send c w = (Inr (), w') \<Longrightarrow> command_event_id c = Some i \<Longrightarrow> i \<in> accepted w'"
    and send_mono: "send c w = (r, w') \<Longrightarrow> accepted w \<subseteq> accepted w'"
    and store_accepted: "accepted (snd (ob_append R e w)) = accepted w"
      "accepted (snd (ob_findPending R n w)) = accepted w"
      "accepted (snd (ob_save R e w)) = accepted w"
begin

definition delivered :: "'a \<Rightarrow> bool" where
  "delivered w \<longleftrightarrow> (\<forall>r \<in> set (rows w). outbox_row_ok r \<and>
     (ox_status r = Processed \<longrightarrow> ox_eventId r \<in> accepted w))"

lemma append_delivered:
  assumes "delivered w"
  shows "delivered (snd (ob_append R (outbox_create ev t i n1 n2) w))"
  using assms
  using outbox_create_ok [of ev t i n1 n2]
  by (auto simp: delivered_def store_accepted outbox_create_def entity.defs dest!: append_rows)

lemma process_entry_delivered:
  assumes "delivered w" and "outbox_row_ok (outbox_toOrm e)" and "oe_status e = Pending"
  shows "delivered (snd (process_entry R send now e w))"
proof (cases "send (forward_command e) w")
  case (Pair r w1)
  let ?w2 = "snd (ob_save R (settled now r e) w1)"
  have acc: "accepted w \<subseteq> accepted ?w2" "accepted ?w2 = accepted w1"
    using send_mono [OF Pair] by (simp_all add: store_accepted)
  have new: "oe_eventId e \<in> accepted w1" if "oe_status (settled now r e) = Processed"
    using that assms(3) Pair send_ok by (auto simp: settled_processed)
  show ?thesis
    using assms(1) acc new settled_ok [OF assms(2,3)]
    by (auto simp: delivered_def process_entry_run Pair send_rows [OF Pair] dest!: save_rows)
qed

lemma process_entries_delivered:
  assumes "delivered w" and "\<forall>(k, e) \<in> set es. outbox_row_ok (outbox_toOrm e) \<and> oe_status e = Pending"
  shows "delivered (snd (for_each (\<lambda>(k, e). process_entry R send (tm k) e) es w))"
  using assms
proof (induction es arbitrary: w)
  case (Cons x es)
  obtain k e where x: "x = (k, e)" by force
  let ?w = "snd (process_entry R send (tm k) e w)"
  have run: "process_entry R send (tm k) e w = (Inr (), ?w)"
    by (simp add: process_entry_run split: prod.split)
  have "delivered ?w"
    using Cons.prems x process_entry_delivered by auto
  with Cons.IH Cons.prems(2) have "delivered (snd (for_each (\<lambda>(k, e). process_entry R send (tm k) e) es ?w))"
    by simp
  then show ?case by (simp add: x andThen_run_Inr [where m = "process_entry R send (tm k) e", OF run])
qed simp

lemma processBatch_delivered:
  assumes "delivered w"
  shows "delivered (snd (processBatch R send tm w))"
proof (cases "ob_findPending R BATCH_SIZE w")
  case (Pair r w')
  have same: "rows w' = rows w" "accepted w' = accepted w"
    using pending_keeps [OF Pair] store_accepted(2) [of BATCH_SIZE w] by (simp_all add: Pair)
  with assms have d: "delivered w'" by (simp add: delivered_def)
  show ?thesis
  proof (cases r)
    case (Inl x)
    with Pair d show ?thesis by (simp add: processBatch_def andThen_run try_catch_run)
  next
    case (Inr es)
    have "outbox_row_ok (outbox_toOrm e) \<and> oe_status e = Pending" if "e \<in> set es" for e
      using pending_only [of BATCH_SIZE w es w' e] that Pair Inr assms by (auto simp: delivered_def)
    then have "\<forall>(k, e) \<in> set (enumerate 0 es). outbox_row_ok (outbox_toOrm e) \<and> oe_status e = Pending"
      by (auto simp: in_set_enumerate_eq)
    from process_entries_delivered [OF d this, of tm] Pair Inr show ?thesis
      by (simp add: processBatch_def andThen_run try_catch_run)
  qed
qed

end

section \<open>The repository and the client together\<close>

text \<open>
  A world for the interpretation: the outbox rows and the log of the receiving service, each
  request with its outcome. The service itself is any function of the log and the request.
\<close>

type_synonym exchange = "fetch_request \<times> (exn + fetch_response)"

type_synonym outbox_world = "outbox_row list \<times> exchange list"

definition outbox_list_table :: "string list \<Rightarrow> (outbox_world, outbox_row) table" where
  "outbox_list_table ks = list_table outbox_cols ks fst (\<lambda>rs w. (rs, snd w))"

definition logged_fetch :: "(exchange list \<Rightarrow> fetch_request \<Rightarrow> exn + fetch_response) \<Rightarrow> outbox_world fetch" where
  "logged_fetch answer req timeout w = (answer (snd w) req, (fst w, snd w @ [(req, answer (snd w) req)]))"

text \<open>The \<open>event_id\<close> in the metadata of a request the service answered with success.\<close>

fun body_event_id :: "json \<Rightarrow> string option" where
  "body_event_id (JObj ms) =
     (case map_of ms ''metadata'' of
        Some (JObj md) \<Rightarrow> (case map_of md ''event_id'' of Some (JStr s) \<Rightarrow> Some s | _ \<Rightarrow> None)
      | _ \<Rightarrow> None)"
| "body_event_id _ = None"

definition exchange_accepts :: "exchange \<Rightarrow> string option" where
  "exchange_accepts x =
     (case snd x of Inr r \<Rightarrow> if resp_ok r then body_event_id (fr_body (fst x)) else None | Inl _ \<Rightarrow> None)"

definition accepted_ids :: "outbox_world \<Rightarrow> string set" where
  "accepted_ids w = {i. Some i \<in> exchange_accepts ` set (snd w)}"

lemma ingest_metadata_event_id:
  assumes "command_event_id c = Some i"
  shows "map_of (ingest_metadata c) ''event_id'' = Some i"
proof -
  from assms obtain m where "ic_metadata c = Some m" and "map_of m ''event_id'' = Some i"
    by (auto simp: command_event_id_def split: option.splits)
  then show ?thesis by (simp add: ingest_metadata_def Let_def)
qed

lemma map_of_JStr: "map_of (map (\<lambda>(k, v). (k, JStr v)) m) k = map_option JStr (map_of m k)"
  by (induction m) auto

lemma ingest_request_event_id:
  "command_event_id c = Some i \<Longrightarrow> body_event_id (fr_body (ingest_request cfg c)) = Some i"
  by (simp add: ingest_request_def map_of_JStr ingest_metadata_event_id)

lemma snd_andThen_ret: "snd (andThen m (\<lambda>x. ret (f x)) w) = snd (m w)"
  by (auto simp: andThen_def split: prod.split sum.split)

text \<open>The entries a poll finds: the pending ones, the oldest first, as many as asked for.\<close>

definition pending_rows :: "outbox_row list \<Rightarrow> outbox_row list" where
  "pending_rows rows = sort_key ox_createdAt (filter (\<lambda>r. ox_status r = Pending) rows)"

lemma set_pending_rows [simp]: "set (pending_rows rows) = {r \<in> set rows. ox_status r = Pending}"
  by (auto simp: pending_rows_def)

lemma pending_rows_empty: "pending_rows rows = [] \<longleftrightarrow> (\<forall>r \<in> set rows. ox_status r \<noteq> Pending)"
  using set_pending_rows [of rows] by (metis (mono_tags, lifting) empty_set empty_Collect_eq set_empty)

lemma distinct_pending_rows: "distinct rows \<Longrightarrow> distinct (pending_rows rows)"
  by (simp add: pending_rows_def)

lemma findPending_listed:
  "ob_findPending (outbox_repository (outbox_list_table ks) now) n w
     = (Inr (map (\<lambda>r. outbox_toDomain r now) (take (nat n) (pending_rows (fst w)))), w)"
proof -
  have "(\<lambda>r. order_key False (outbox_cols r ''createdAt'')) = ox_createdAt"
    by (simp add: outbox_cols_def)
  then show ?thesis
    by (simp add: outbox_repository_def outbox_findPending_def outbox_list_table_def list_table_def
        andThen_run page_rows_def order_rows_def qb_take_def qb_orderBy_def find_options_def
        createQueryBuilder_def sat_all_def outbox_cols_status pending_rows_def)
qed

lemma processBatch_listed:
  "processBatch (outbox_repository (outbox_list_table ks) now) send tm w
     = for_each (\<lambda>(k, e). process_entry (outbox_repository (outbox_list_table ks) now) send (tm k) e)
         (enumerate 0 (map (\<lambda>r. outbox_toDomain r now) (take 50 (pending_rows (fst w))))) w"
  by (simp add: processBatch_def andThen_run try_catch_run findPending_listed BATCH_SIZE_def)

lemma list_table_keeps_log:
  "snd (snd (find_many (outbox_list_table ks) q w)) = snd w"
  "snd (snd (save_row (outbox_list_table ks) r w)) = snd w"
  "snd (snd (insert_rows (outbox_list_table ks) rs w)) = snd w"
  by (simp_all add: outbox_list_table_def list_table_def write_rows_def)

lemma repository_keeps_log:
  "snd (snd (ob_append (outbox_repository (outbox_list_table ks) now) e w)) = snd w"
  "snd (snd (ob_findPending (outbox_repository (outbox_list_table ks) now) n w)) = snd w"
  "snd (snd (ob_save (outbox_repository (outbox_list_table ks) now) e w)) = snd w"
  by (simp_all add: outbox_repository_def outbox_append_def outbox_findPending_def outbox_save_def
      snd_andThen_ret list_table_keeps_log)

lemma accepted_ids_log: "snd w' = snd w \<Longrightarrow> accepted_ids w' = accepted_ids w"
  by (simp add: accepted_ids_def)

lemma ingest_logged:
  assumes "ingest cfg (logged_fetch answer) c w = (r, w')"
  shows "fst w' = fst w" and "\<exists>xs. snd w' = snd w @ xs"
  using assms
  by (auto simp: ingest_def logged_fetch_def try_catch_run andThen_run
      split: if_splits sum.splits exn.splits)

text \<open>One request per entry, in their order, whatever the service and the database answer.\<close>

lemma map_enumerate: "map (\<lambda>(k, x). f x) (enumerate n xs) = map f xs"
  by (induction xs arbitrary: n) auto

lemma ingest_requests:
  "map fst (snd (snd (ingest cfg (logged_fetch answer) c w)))
     = map fst (snd w) @ (if cfg_baseUrl cfg = [] then [] else [ingest_request cfg c])"
  by (auto simp: ingest_def logged_fetch_def try_catch_run andThen_run split: sum.splits exn.splits)

lemma process_entries_requests:
  "map fst (snd (snd (for_each (\<lambda>(k, e).
        process_entry (outbox_repository (outbox_list_table ks) now) (ingest cfg (logged_fetch answer)) (tm k) e) es w)))
     = map fst (snd w) @ (if cfg_baseUrl cfg = [] then [] else map (\<lambda>(k, e). ingest_request cfg (forward_command e)) es)"
proof (induction es arbitrary: w)
  case (Cons x es)
  obtain k e where x: "x = (k, e)" by force
  let ?step = "process_entry (outbox_repository (outbox_list_table ks) now) (ingest cfg (logged_fetch answer)) (tm k) e"
  have run: "?step w = (Inr (), snd (?step w))"
    by (simp add: process_entry_run split: prod.split)
  have "snd (snd (?step w)) = snd (snd (ingest cfg (logged_fetch answer) (forward_command e) w))"
    by (simp add: process_entry_run repository_keeps_log split: prod.split)
  then have "map fst (snd (snd (?step w)))
      = map fst (snd w) @ (if cfg_baseUrl cfg = [] then [] else [ingest_request cfg (forward_command e)])"
    by (simp only: ingest_requests)
  then show ?case
    by (simp add: x andThen_run_Inr [where m = ?step, OF run] Cons.IH)
qed simp

interpretation outbox_repo: outbox_store "outbox_repository (outbox_list_table ks) now" fst for ks now
  unfolding outbox_list_table_def by (rule outbox_store_of_table, rule plain_store_list_table) simp

interpretation outbox_http: outbox_delivery "outbox_repository (outbox_list_table ks) now" fst
  "ingest cfg (logged_fetch answer)" accepted_ids for ks now cfg answer
proof unfold_locales
  fix c w r w'
  assume run: "ingest cfg (logged_fetch answer) c w = (r, w')"
  show "fst w' = fst w" using ingest_logged(1) [OF run] .
  show "accepted_ids w \<subseteq> accepted_ids w'"
    using ingest_logged(2) [OF run] by (auto simp: accepted_ids_def)
next
  fix c w w' i
  assume "ingest cfg (logged_fetch answer) c w = (Inr (), w')" and "command_event_id c = Some i"
  then show "i \<in> accepted_ids w'"
    by (force simp: ingest_ok_iff logged_fetch_def accepted_ids_def exchange_accepts_def
        ingest_request_event_id)
next
  fix e w n
  let ?R = "outbox_repository (outbox_list_table ks) now"
  show "accepted_ids (snd (ob_append ?R e w)) = accepted_ids w"
    "accepted_ids (snd (ob_findPending ?R n w)) = accepted_ids w"
    "accepted_ids (snd (ob_save ?R e w)) = accepted_ids w"
    by (rule accepted_ids_log, rule repository_keeps_log)+
qed

section \<open>Runs of the outbox\<close>

text \<open>
  The worlds that publishing events and polling can reach from an empty outbox, for a given
  configuration and a given receiving service. Every write may fail: on a violated unique key.
\<close>

inductive outbox_reach ::
  "string list \<Rightarrow> streaming_config \<Rightarrow> (exchange list \<Rightarrow> fetch_request \<Rightarrow> exn + fetch_response)
     \<Rightarrow> outbox_world \<Rightarrow> bool" for ks cfg answer where
  empty: "outbox_reach ks cfg answer ([], log)"
| publish: "outbox_reach ks cfg answer w
    \<Longrightarrow> outbox_reach ks cfg answer
         (snd (ob_append (outbox_repository (outbox_list_table ks) now) (outbox_create ev t i n1 n2) w))"
| poll: "outbox_reach ks cfg answer w
    \<Longrightarrow> outbox_reach ks cfg answer
         (snd (processBatch (outbox_repository (outbox_list_table ks) now)
                 (ingest cfg (logged_fetch answer)) tm w))"

lemma outbox_reach_delivered: "outbox_reach ks cfg answer w \<Longrightarrow> outbox_http.delivered w"
proof (induction rule: outbox_reach.induct)
  case (empty log)
  then show ?case by (simp add: outbox_http.delivered_def)
next
  case publish
  from publish.IH show ?case by (rule outbox_http.append_delivered)
next
  case poll
  from poll.IH show ?case by (rule outbox_http.processBatch_delivered)
qed

section \<open>A poll empties a short queue\<close>

text \<open>The keys the ORM entity declares unique.\<close>

definition outbox_unique :: "string list" where
  "outbox_unique = [''id'', ''eventId'']"

lemma distinct_keys_upsert:
  assumes "distinct_keys cols ks rows" and "r \<in> set rows" and "\<forall>k \<in> set ks. cols r' k = cols r k"
    and "''id'' \<in> set ks"
  shows "distinct_keys cols ks (upsert cols r' rows) \<and> set (upsert cols r' rows) = insert r' (set rows - {r})"
  using assms
proof (induction rows)
  case (Cons x rows)
  have id: "cols r' ''id'' = cols r ''id''" using Cons.prems by blast
  show ?case
  proof (cases "r \<in> set rows")
    case False
    with Cons.prems have "x = r" by auto
    with Cons.prems False id show ?thesis by (auto simp: list_all_iff)
  next
    case True
    with Cons.prems have "cols x ''id'' \<noteq> cols r ''id''" by (auto simp: list_all_iff)
    moreover from this have "x \<noteq> r" by auto
    ultimately show ?thesis
      using Cons True id by (auto simp: list_all_iff)
  qed
qed simp

lemma process_entry_accepted:
  assumes send: "send (forward_command e) w = (Inr (), (fst w, log'))"
    and rows: "distinct_keys outbox_cols outbox_unique (fst w)" "outbox_toOrm e \<in> set (fst w)"
  shows "\<exists>w'. process_entry (outbox_repository (outbox_list_table outbox_unique) now) send t e w = (Inr (), w')
    \<and> distinct_keys outbox_cols outbox_unique (fst w')
    \<and> set (fst w') = insert (outbox_toOrm (markProcessed t e)) (set (fst w) - {outbox_toOrm e})"
proof -
  let ?r = "outbox_toOrm (markProcessed t e)"
  have "\<forall>k \<in> set outbox_unique. outbox_cols ?r k = outbox_cols (outbox_toOrm e) k"
    by (simp add: outbox_unique_def outbox_cols_def outbox_toOrm_def markProcessed_def)
  from distinct_keys_upsert [OF rows this]
  have "distinct_keys outbox_cols outbox_unique (upsert outbox_cols ?r (fst w))"
    and "set (upsert outbox_cols ?r (fst w)) = insert ?r (set (fst w) - {outbox_toOrm e})"
    by (simp_all add: outbox_unique_def)
  then show ?thesis
    by (simp add: process_entry_run send settled_def outbox_repository_def outbox_save_def
        outbox_list_table_def list_table_def write_rows_def andThen_run)
qed

lemma process_entry_one:
  assumes "send (forward_command e) ([r], log) = (x, ([r], log'))" and "ent_id e = ox_id r"
  shows "process_entry (outbox_repository (outbox_list_table ks) now) send t e ([r], log)
    = (Inr (), ([outbox_toOrm (settled t x e)], log'))"
  using assms
  by (simp add: process_entry_run outbox_repository_def outbox_save_def outbox_list_table_def
      list_table_def write_rows_def andThen_run outbox_cols_def)

lemma process_entries_accepted:
  fixes cfg answer
  defines "send \<equiv> ingest cfg (logged_fetch answer)"
  assumes up: "cfg_baseUrl cfg \<noteq> []" "\<And>log req. \<exists>r. answer log req = Inr r \<and> resp_ok r"
  shows "distinct_keys outbox_cols outbox_unique (fst w) \<Longrightarrow> distinct (map (outbox_toOrm \<circ> snd) es)
    \<Longrightarrow> outbox_toOrm ` snd ` set es \<subseteq> set (fst w)
    \<Longrightarrow> \<forall>r \<in> set (fst w). ox_status r = Pending \<longrightarrow> r \<in> outbox_toOrm ` snd ` set es
    \<Longrightarrow> \<forall>r \<in> set (fst (snd (for_each (\<lambda>(k, e).
           process_entry (outbox_repository (outbox_list_table outbox_unique) now) send (tm k) e) es w))).
         ox_status r \<noteq> Pending"
proof (induction es arbitrary: w)
  case (Cons x es)
  obtain k e where x: "x = (k, e)" by force
  obtain r where r: "answer (snd w) (ingest_request cfg (forward_command e)) = Inr r" "resp_ok r"
    using up(2) by blast
  have send: "send (forward_command e) w
      = (Inr (), (fst w, snd w @ [(ingest_request cfg (forward_command e), Inr r)]))"
    unfolding send_def ingest_ok_iff using up(1) r by (simp add: logged_fetch_def)
  from Cons.prems have "outbox_toOrm e \<in> set (fst w)" by (simp add: x)
  from process_entry_accepted [where e = e and w = w and send = send, OF send Cons.prems(1) this, of now "tm k"] obtain w' where
    run: "process_entry (outbox_repository (outbox_list_table outbox_unique) now) send (tm k) e w = (Inr (), w')"
    and keys: "distinct_keys outbox_cols outbox_unique (fst w')"
    and rows: "set (fst w') = insert (outbox_toOrm (markProcessed (tm k) e)) (set (fst w) - {outbox_toOrm e})"
    by blast
  have sub: "outbox_toOrm ` snd ` set es \<subseteq> set (fst w')"
  proof (rule subsetI, elim imageE)
    fix r p q assume "p \<in> set es" and "q = snd p" and "r = outbox_toOrm q"
    then have "r = outbox_toOrm (snd p)" and "r \<in> outbox_toOrm ` snd ` set (x # es)" by auto
    moreover have "outbox_toOrm (snd p) \<noteq> outbox_toOrm e"
      using Cons.prems(2) \<open>p \<in> set es\<close> by (auto simp: x image_iff)
    ultimately show "r \<in> set (fst w')"
      using Cons.prems(3) rows by blast
  qed
  have pend: "\<forall>r \<in> set (fst w'). ox_status r = Pending \<longrightarrow> r \<in> outbox_toOrm ` snd ` set es"
    using Cons.prems(4) rows by (auto simp: x markProcessed_def)
  from Cons.IH [OF keys _ sub pend] Cons.prems(2)
  show ?case by (simp add: x andThen_run run)
qed simp

lemma poll_empties_queue:
  assumes up: "cfg_baseUrl cfg \<noteq> []" "\<And>log req. \<exists>r. answer log req = Inr r \<and> resp_ok r"
    and keys: "distinct_keys outbox_cols outbox_unique rows"
    and short: "length (filter (\<lambda>r. ox_status r = Pending) rows) \<le> 50"
  shows "\<forall>r \<in> set (fst (snd (processBatch (outbox_repository (outbox_list_table outbox_unique) now)
           (ingest cfg (logged_fetch answer)) tm (rows, log)))). ox_status r \<noteq> Pending"
proof -
  let ?R = "outbox_repository (outbox_list_table outbox_unique) now"
  let ?pend = "pending_rows rows"
  let ?es = "enumerate 0 (map (\<lambda>r. outbox_toDomain r now) ?pend)"
  have "length ?pend \<le> 50" using short by (simp add: pending_rows_def)
  then have batch: "processBatch ?R (ingest cfg (logged_fetch answer)) tm (rows, log)
      = for_each (\<lambda>(k, e). process_entry ?R (ingest cfg (logged_fetch answer)) (tm k) e) ?es (rows, log)"
    by (simp add: processBatch_listed)
  have rows_of: "map (outbox_toOrm \<circ> snd) ?es = ?pend"
    by (simp flip: map_map) (simp add: o_def)
  have "distinct rows"
    using keys by (induction rows) (auto simp: list_all_iff outbox_unique_def)
  have img: "outbox_toOrm ` snd ` set ?es = set ?pend"
    using arg_cong [OF rows_of, of set] by (simp only: set_map image_comp)
  show ?thesis
    unfolding batch
  proof (rule process_entries_accepted [OF up])
    show "distinct_keys outbox_cols outbox_unique (fst (rows, log))"
      using keys by simp
    show "distinct (map (outbox_toOrm \<circ> snd) ?es)"
      unfolding rows_of using \<open>distinct rows\<close> by (rule distinct_pending_rows)
    show "outbox_toOrm ` snd ` set ?es \<subseteq> set (fst (rows, log))"
      unfolding img by auto
    show "\<forall>r \<in> set (fst (rows, log)). ox_status r = Pending \<longrightarrow> r \<in> outbox_toOrm ` snd ` set ?es"
      unfolding img by simp
  qed
qed

end
