(* ===== verification/EventBus.thy ===== *)
theory EventBus
  imports OutboxDelivery "HOL-Library.AList"
begin

text \<open>
  The event bus, \<open>apps/api/src/modules/platform-events\<close>: the port \<open>IEventBus\<close>, the in-memory
  adapter, the Redis Streams adapter, the forwarding decorator that also writes to the
  outbox, and the factory that wires them.

  A handler is its name and its effect on the world. The \<open>Map\<close> of handlers keeps its entries
  in insertion order; it is the explicit state of the operations. Handlers that subscribe or
  unsubscribe while an event is being published are not modelled.
\<close>

section \<open>Handlers and subscriptions\<close>

record 'w event_handler =
  h_name :: string
  h_handle :: "tenant_aware_event \<Rightarrow> ('w, unit) io"

type_synonym 'w handler_map = "(string \<times> 'w event_handler list) list"

definition handlers_get :: "'w handler_map \<Rightarrow> string \<Rightarrow> 'w event_handler list" where
  "handlers_get m t = (case map_of m t of None \<Rightarrow> [] | Some hs \<Rightarrow> hs)"

definition add_handler :: "string \<Rightarrow> 'w event_handler \<Rightarrow> 'w handler_map \<Rightarrow> 'w handler_map" where
  "add_handler t h m = AList.update t (handlers_get m t @ [h]) m"

definition remove_handler :: "string \<Rightarrow> string \<Rightarrow> 'w handler_map \<Rightarrow> 'w handler_map" where
  "remove_handler t n m = AList.update t (filter (\<lambda>h. h_name h \<noteq> n) (handlers_get m t)) m"

text \<open>The port: each method on the current handlers.\<close>

record 'w event_bus =
  bus_publish :: "'w handler_map \<Rightarrow> tenant_aware_event \<Rightarrow> ('w, unit) io"
  bus_publishBatch :: "'w handler_map \<Rightarrow> tenant_aware_event list \<Rightarrow> ('w, unit) io"
  bus_subscribe :: "string \<Rightarrow> 'w event_handler \<Rightarrow> 'w handler_map \<Rightarrow> ('w, 'w handler_map) io"
  bus_unsubscribe :: "string \<Rightarrow> string \<Rightarrow> 'w handler_map \<Rightarrow> ('w, 'w handler_map) io"

text \<open>
  What every bus promises about subscriptions: a handler is added at the end of its own
  event type, unsubscribing removes the handlers of that name from that type only, and
  neither throws.
\<close>

locale event_bus_port =
  fixes B :: "'w event_bus"
  assumes subscribe_adds: "\<exists>m' w'. bus_subscribe B t h m w = (Inr m', w')
      \<and> handlers_get m' t = handlers_get m t @ [h] \<and> (\<forall>u. u \<noteq> t \<longrightarrow> handlers_get m' u = handlers_get m u)"
    and unsubscribe_removes: "\<exists>m' w'. bus_unsubscribe B t n m w = (Inr m', w')
      \<and> handlers_get m' t = filter (\<lambda>h. h_name h \<noteq> n) (handlers_get m t)
      \<and> (\<forall>u. u \<noteq> t \<longrightarrow> handlers_get m' u = handlers_get m u)"
begin

lemma subscribe_then_unsubscribe:
  "\<exists>m' w'. andThen (bus_subscribe B t h m) (bus_unsubscribe B t (h_name h)) w = (Inr m', w')
     \<and> handlers_get m' t = filter (\<lambda>g. h_name g \<noteq> h_name h) (handlers_get m t)
     \<and> (\<forall>u. u \<noteq> t \<longrightarrow> handlers_get m' u = handlers_get m u)"
proof -
  obtain m1 w1 where s: "bus_subscribe B t h m w = (Inr m1, w1)"
    "handlers_get m1 t = handlers_get m t @ [h]" "\<forall>u. u \<noteq> t \<longrightarrow> handlers_get m1 u = handlers_get m u"
    using subscribe_adds [of t h m w] by blast
  obtain m2 w2 where u: "bus_unsubscribe B t (h_name h) m1 w1 = (Inr m2, w2)"
    "handlers_get m2 t = filter (\<lambda>g. h_name g \<noteq> h_name h) (handlers_get m1 t)"
    "\<forall>u. u \<noteq> t \<longrightarrow> handlers_get m2 u = handlers_get m1 u"
    using unsubscribe_removes [of t "h_name h" m1 w1] by blast
  from s u show ?thesis by (simp add: andThen_run)
qed

end

lemma handlers_get_update: "handlers_get (AList.update t hs m) u = (if u = t then hs else handlers_get m u)"
  by (simp add: handlers_get_def update_conv)

lemma handlers_get_simps [simp]:
  "handlers_get [] t = []"
  "handlers_get (add_handler t h m) u = (if u = t then handlers_get m t @ [h] else handlers_get m u)"
  "handlers_get (remove_handler t n m) u
     = (if u = t then filter (\<lambda>h. h_name h \<noteq> n) (handlers_get m t) else handlers_get m u)"
  by (simp_all add: add_handler_def remove_handler_def handlers_get_update handlers_get_def update_conv)

section \<open>The in-memory adapter\<close>

definition inmem_publish :: "'w handler_map \<Rightarrow> tenant_aware_event \<Rightarrow> ('w, unit) io" where
  "inmem_publish m event =
     (let eventHandlers = handlers_get m (te_eventType event)
      in if eventHandlers = [] then ret ()
         else for_each (\<lambda>h. try_catch (h_handle h event) (\<lambda>_. ret ())) eventHandlers)"

definition inmem_publishBatch :: "'w handler_map \<Rightarrow> tenant_aware_event list \<Rightarrow> ('w, unit) io" where
  "inmem_publishBatch m events = for_each (inmem_publish m) events"

definition in_memory_bus :: "'w event_bus" where
  "in_memory_bus =
     \<lparr>bus_publish = inmem_publish, bus_publishBatch = inmem_publishBatch,
      bus_subscribe = (\<lambda>t h m. ret (add_handler t h m)),
      bus_unsubscribe = (\<lambda>t n m. ret (remove_handler t n m))\<rparr>"

definition inmem_onModuleDestroy :: "'w handler_map \<Rightarrow> 'w handler_map" where
  "inmem_onModuleDestroy m = []"

interpretation inmem_bus: event_bus_port in_memory_bus
  by unfold_locales (auto simp: in_memory_bus_def)

section \<open>The Redis Streams adapter\<close>

text \<open>
  The client of \<open>ioredis\<close> and the runtime's JSON text are arguments. A command gets its
  arguments as the code passes them, numbers as text; \<open>pipeline\<close> is a list of \<open>xadd\<close> calls
  executed together, whose single failures are reported in the result that the code ignores;
  \<open>xreadgroup\<close> answers the unread messages of one stream or \<open>null\<close>.
\<close>

record 'w redis_client =
  xadd :: "string list \<Rightarrow> ('w, unit) io"
  pipeline_exec :: "string list list \<Rightarrow> ('w, unit) io"
  xgroup :: "string list \<Rightarrow> ('w, unit) io"
  xreadgroup :: "string list \<Rightarrow> ('w, (string \<times> (string \<times> string list) list) list option) io"
  xack :: "string \<Rightarrow> string \<Rightarrow> string \<Rightarrow> ('w, unit) io"

record json_text =
  stringify :: "object \<Rightarrow> string"
  parse_object :: "string \<Rightarrow> exn + object"
  js_undefined :: string
  js_nan :: int

record redis_config =
  streamPrefix :: string
  consumerGroup :: string
  maxLen :: int

definition redis_fields :: "json_text \<Rightarrow> tenant_aware_event \<Rightarrow> string list" where
  "redis_fields J event =
     [''eventId'', te_eventId event, ''eventType'', te_eventType event,
      ''tenantId'', te_tenantId event, ''correlationId'', te_correlationId event,
      ''actorId'', (case te_actorId event of Some a \<Rightarrow> a | None \<Rightarrow> []),
      ''occurredAt'', te_occurredAt event, ''eventVersion'', show_int (te_eventVersion event),
      ''sourceService'', te_sourceService event, ''payload'', stringify J (te_payload event)]"

text \<open>\<open>xadd(key, 'MAXLEN', '~', n, '*', ...fields)\<close>: append, trimming to about \<open>n\<close> messages.\<close>

definition xadd_args :: "string \<Rightarrow> int \<Rightarrow> string list \<Rightarrow> string list" where
  "xadd_args key n fs = [key, ''MAXLEN'', ''~'', show_int n, ''*''] @ fs"

definition redis_publish ::
  "'w redis_client \<Rightarrow> redis_config \<Rightarrow> json_text \<Rightarrow> tenant_aware_event \<Rightarrow> ('w, unit) io" where
  "redis_publish C cfg J event =
     xadd C (xadd_args (streamPrefix cfg @ te_eventType event) (maxLen cfg) (redis_fields J event))"

definition redis_batch_fields :: "json_text \<Rightarrow> tenant_aware_event \<Rightarrow> string list" where
  "redis_batch_fields J event =
     [''eventId'', te_eventId event, ''eventType'', te_eventType event,
      ''tenantId'', te_tenantId event, ''correlationId'', te_correlationId event,
      ''occurredAt'', te_occurredAt event, ''payload'', stringify J (te_payload event)]"

definition redis_publishBatch ::
  "'w redis_client \<Rightarrow> redis_config \<Rightarrow> json_text \<Rightarrow> tenant_aware_event list \<Rightarrow> ('w, unit) io" where
  "redis_publishBatch C cfg J events =
     pipeline_exec C
       (map (\<lambda>event. xadd_args (streamPrefix cfg @ te_eventType event) (maxLen cfg) (redis_batch_fields J event)) events)"

definition redis_subscribe ::
  "'w redis_client \<Rightarrow> redis_config \<Rightarrow> string \<Rightarrow> 'w event_handler \<Rightarrow> 'w handler_map
     \<Rightarrow> ('w, 'w handler_map) io" where
  "redis_subscribe C cfg t h m =
     andThen (try_catch (xgroup C [''CREATE'', streamPrefix cfg @ t, consumerGroup cfg, ''$'', ''MKSTREAM'']) (\<lambda>_. ret ()))
       (\<lambda>_. ret (add_handler t h m))"

definition redis_unsubscribe ::
  "string \<Rightarrow> string \<Rightarrow> 'w handler_map \<Rightarrow> ('w, 'w handler_map) io" where
  "redis_unsubscribe t n m = ret (remove_handler t n m)"

definition redis_bus :: "'w redis_client \<Rightarrow> redis_config \<Rightarrow> json_text \<Rightarrow> 'w event_bus" where
  "redis_bus C cfg J =
     \<lparr>bus_publish = (\<lambda>m. redis_publish C cfg J), bus_publishBatch = (\<lambda>m. redis_publishBatch C cfg J),
      bus_subscribe = redis_subscribe C cfg, bus_unsubscribe = redis_unsubscribe\<rparr>"

interpretation redis_streams: event_bus_port "redis_bus C cfg J" for C cfg J
  by unfold_locales
    (auto simp: redis_bus_def redis_subscribe_def redis_unsubscribe_def andThen_run try_catch_run
      split: sum.split prod.split)

text \<open>
  Reading a message. A missing member is \<open>undefined\<close> and a version that does not parse \<open>NaN\<close>; the
  envelope has no room for either, so which values stand for them is left open. Messages this
  bus writes lead to neither.
\<close>

fun fields_obj :: "(string \<Rightarrow> string option) \<Rightarrow> string list \<Rightarrow> string \<Rightarrow> string option" where
  "fields_obj m [] = m"
| "fields_obj m [k] = m(k := None)"
| "fields_obj m (k # v # fs) = fields_obj (m(k \<mapsto> v)) fs"

definition is_digit :: "char \<Rightarrow> bool" where
  "is_digit c \<longleftrightarrow> 48 \<le> (of_char c :: nat) \<and> (of_char c :: nat) \<le> 57"

definition digits_value :: "string \<Rightarrow> int" where
  "digits_value s = foldl (\<lambda>a c. a * 10 + (of_char c - 48)) 0 s"

definition parseInt :: "string \<Rightarrow> int option" where
  "parseInt s =
     (let t = trim_left s;
          neg = (t \<noteq> [] \<and> hd t = CHR ''-'');
          u = (if t \<noteq> [] \<and> (hd t = CHR ''-'' \<or> hd t = CHR ''+'') then tl t else t);
          ds = takeWhile is_digit u
      in if ds = [] then None else Some (if neg then - digits_value ds else digits_value ds))"

definition or_else :: "'a option \<Rightarrow> 'a \<Rightarrow> 'a" where
  "or_else v d = (case v of Some x \<Rightarrow> x | None \<Rightarrow> d)"

definition deserializeEvent :: "json_text \<Rightarrow> string list \<Rightarrow> exn + tenant_aware_event" where
  "deserializeEvent J fs =
     (let obj = fields_obj Map.empty fs; member = (\<lambda>k. or_else (obj k) (js_undefined J))
      in map_sum id
           (\<lambda>payload.
              \<lparr>te_eventId = member ''eventId'', te_eventType = member ''eventType'',
               te_eventVersion = or_else (parseInt (or_else (obj ''eventVersion'') ''1'')) (js_nan J),
               te_tenantId = member ''tenantId'', te_correlationId = member ''correlationId'',
               te_actorId = (if truthy (obj ''actorId'') then obj ''actorId'' else None),
               te_causationId = None, te_traceId = None,
               te_sourceService = or_else (obj ''sourceService'') [], te_sourceVersion = None,
               te_occurredAt = member ''occurredAt'', te_payload = payload,
               te_isReplay = None, te_replayId = None, te_replayedAt = None,
               te_replayReason = None, te_replaySourceEventId = None\<rparr>)
           (parse_object J (or_else (obj ''payload'') ''{}'')))"

text \<open>\<open>JSON.stringify(event)\<close>: the text of the event as an object, absent members left out.\<close>

definition event_object :: "tenant_aware_event \<Rightarrow> object" where
  "event_object e =
     [(''eventId'', JStr (te_eventId e)), (''eventType'', JStr (te_eventType e)),
      (''tenantId'', JStr (te_tenantId e)), (''correlationId'', JStr (te_correlationId e))]
     @ opt_member ''actorId'' (te_actorId e)
     @ [(''occurredAt'', JStr (te_occurredAt e)), (''eventVersion'', JNum (te_eventVersion e)),
        (''sourceService'', JStr (te_sourceService e)), (''payload'', JObj (te_payload e))]"

definition sendToDeadLetterStream ::
  "'w redis_client \<Rightarrow> redis_config \<Rightarrow> json_text \<Rightarrow> tenant_aware_event \<Rightarrow> string \<Rightarrow> string \<Rightarrow> time
     \<Rightarrow> ('w, unit) io" where
  "sendToDeadLetterStream C cfg J event handlerName errorMessage now =
     xadd C (xadd_args (streamPrefix cfg @ ''dlq'') 1000
       [''originalEvent'', stringify J (event_object event), ''handlerName'', handlerName,
        ''errorMessage'', errorMessage, ''failedAt'', toISOString now])"

text \<open>The loop over the handlers, with \<open>allSucceeded\<close> so far; \<open>tm k\<close> dates the \<open>k\<close>-th dead letter.\<close>

fun run_handlers ::
  "(tenant_aware_event \<Rightarrow> string \<Rightarrow> string \<Rightarrow> time \<Rightarrow> ('w, unit) io) \<Rightarrow> tenant_aware_event
     \<Rightarrow> (nat \<times> 'w event_handler) list \<Rightarrow> (nat \<Rightarrow> time) \<Rightarrow> bool \<Rightarrow> ('w, bool) io" where
  "run_handlers dlq event [] tm allSucceeded = ret allSucceeded"
| "run_handlers dlq event ((k, h) # hs) tm allSucceeded =
     andThen
       (try_catch
          (andThen (h_handle h event) (\<lambda>_. ret allSucceeded))
          (\<lambda>err. andThen (dlq event (h_name h) (exn_message err) (tm k)) (\<lambda>_. ret False)))
       (run_handlers dlq event hs tm)"

definition dispatchToHandlers ::
  "'w redis_client \<Rightarrow> redis_config \<Rightarrow> json_text \<Rightarrow> tenant_aware_event \<Rightarrow> 'w event_handler list
     \<Rightarrow> string \<Rightarrow> string \<Rightarrow> (nat \<Rightarrow> time) \<Rightarrow> ('w, unit) io" where
  "dispatchToHandlers C cfg J event hs streamKey messageId tm =
     andThen (run_handlers (sendToDeadLetterStream C cfg J) event (enumerate 0 hs) tm True)
       (\<lambda>allSucceeded. if allSucceeded then xack C streamKey (consumerGroup cfg) messageId else ret ())"

text \<open>
  One turn of the consume loop: the streams of the event types that have handlers, in the
  order of the map; an error abandons the rest of the stream it happened in.
\<close>

definition consume_stream ::
  "'w redis_client \<Rightarrow> redis_config \<Rightarrow> json_text \<Rightarrow> (nat \<Rightarrow> time) \<Rightarrow> string \<times> 'w event_handler list
     \<Rightarrow> ('w, unit) io" where
  "consume_stream C cfg J tm entry =
     (let (eventType, hs) = entry; streamKey = streamPrefix cfg @ eventType
      in if hs = [] then ret ()
         else try_catch
           (andThen (xreadgroup C [''GROUP'', consumerGroup cfg, ''atlas-api-1'', ''COUNT'', ''10'', ''BLOCK'', ''0'',
                                    ''STREAMS'', streamKey, ''>'']) (\<lambda>results.
              case results of
                None \<Rightarrow> ret ()
              | Some rs \<Rightarrow>
                  for_each (\<lambda>(_, messages).
                    for_each (\<lambda>(messageId, fs).
                      andThen (lift (deserializeEvent J fs)) (\<lambda>event.
                        dispatchToHandlers C cfg J event hs streamKey messageId tm)) messages) rs))
           (\<lambda>_. ret ()))"

definition consumePendingMessages ::
  "'w redis_client \<Rightarrow> redis_config \<Rightarrow> json_text \<Rightarrow> (nat \<Rightarrow> time) \<Rightarrow> 'w handler_map \<Rightarrow> ('w, unit) io" where
  "consumePendingMessages C cfg J tm m = for_each (consume_stream C cfg J tm) m"

section \<open>The forwarding decorator\<close>

text \<open>
  \<open>env k\<close> is what the \<open>k\<close>-th outbox entry takes from its environment: its id, its creation
  date, and the second reading of the clock. \<open>parseDate\<close> is \<open>new Date(text)\<close>.
\<close>

type_synonym outbox_env = "nat \<Rightarrow> string \<times> time \<times> time"

definition writeToOutbox ::
  "'w outbox_port \<Rightarrow> (string \<Rightarrow> time) \<Rightarrow> string \<times> time \<times> time \<Rightarrow> tenant_aware_event \<Rightarrow> ('w, unit) io" where
  "writeToOutbox R parseDate e event =
     (let (fresh, now1, now2) = e
      in try_catch
           (ob_append R (outbox_create event (parseDate (te_occurredAt event)) fresh now1 now2))
           (\<lambda>_. ret ()))"

definition forwarding_publish ::
  "'w event_bus \<Rightarrow> 'w outbox_port \<Rightarrow> (string \<Rightarrow> time) \<Rightarrow> outbox_env \<Rightarrow> 'w handler_map
     \<Rightarrow> tenant_aware_event \<Rightarrow> ('w, unit) io" where
  "forwarding_publish inner R parseDate env m event =
     andThen (bus_publish inner m event) (\<lambda>_. writeToOutbox R parseDate (env 0) event)"

definition forwarding_publishBatch ::
  "'w event_bus \<Rightarrow> 'w outbox_port \<Rightarrow> (string \<Rightarrow> time) \<Rightarrow> outbox_env \<Rightarrow> 'w handler_map
     \<Rightarrow> tenant_aware_event list \<Rightarrow> ('w, unit) io" where
  "forwarding_publishBatch inner R parseDate env m events =
     andThen (bus_publishBatch inner m events)
       (\<lambda>_. for_each (\<lambda>(k, event). writeToOutbox R parseDate (env k) event) (enumerate 0 events))"

definition forwarding_bus ::
  "'w event_bus \<Rightarrow> 'w outbox_port \<Rightarrow> (string \<Rightarrow> time) \<Rightarrow> outbox_env \<Rightarrow> 'w event_bus" where
  "forwarding_bus inner R parseDate env =
     \<lparr>bus_publish = forwarding_publish inner R parseDate env,
      bus_publishBatch = forwarding_publishBatch inner R parseDate env,
      bus_subscribe = bus_subscribe inner, bus_unsubscribe = bus_unsubscribe inner\<rparr>"

text \<open>The decorator keeps the contract of the bus it wraps.\<close>

lemma forwarding_bus_port: "event_bus_port inner \<Longrightarrow> event_bus_port (forwarding_bus inner R parseDate env)"
  by (simp add: event_bus_port_def forwarding_bus_def)

interpretation forwarding_inmem: event_bus_port "forwarding_bus in_memory_bus R parseDate env"
  for R parseDate env
  by (rule forwarding_bus_port) (rule inmem_bus.event_bus_port_axioms)

text \<open>The factory of \<open>PlatformEventsModule.forRoot\<close>.\<close>

definition platform_event_bus ::
  "string \<Rightarrow> bool \<Rightarrow> 'w event_bus \<Rightarrow> 'w outbox_port \<Rightarrow> (string \<Rightarrow> time) \<Rightarrow> outbox_env \<Rightarrow> 'w event_bus" where
  "platform_event_bus adapter forwardingEnabled redisBus R parseDate env =
     (let innerBus = (if adapter = ''redis-streams'' then redisBus else in_memory_bus)
      in if forwardingEnabled then forwarding_bus innerBus R parseDate env else innerBus)"

lemma platform_event_bus_port:
  "event_bus_port (platform_event_bus adapter on (redis_bus C cfg J) R parseDate env)"
  by (simp add: platform_event_bus_def Let_def forwarding_bus_port inmem_bus.event_bus_port_axioms
      redis_streams.event_bus_port_axioms)

section \<open>What the buses deliver\<close>

text \<open>The world after each handler in turn has seen the event, whether it threw or not.\<close>

definition delivered_to :: "tenant_aware_event \<Rightarrow> 'w event_handler list \<Rightarrow> 'w \<Rightarrow> 'w" where
  "delivered_to event hs w = fold (\<lambda>h w. snd (h_handle h event w)) hs w"

lemma for_each_caught:
  "for_each (\<lambda>h. try_catch (h_handle h event) (\<lambda>_. ret ())) hs w = (Inr (), delivered_to event hs w)"
proof (induction hs arbitrary: w)
  case (Cons h hs)
  then show ?case
    by (auto simp: delivered_to_def andThen_run try_catch_run split: prod.split sum.split)
qed (simp add: delivered_to_def)

lemma inmem_publish_run:
  "inmem_publish m event w = (Inr (), delivered_to event (handlers_get m (te_eventType event)) w)"
  by (simp add: inmem_publish_def Let_def for_each_caught) (simp add: delivered_to_def)

lemma inmem_publishBatch_run:
  "inmem_publishBatch m es w
     = (Inr (), fold (\<lambda>e. delivered_to e (handlers_get m (te_eventType e))) es w)"
  by (induction es arbitrary: w) (simp_all add: inmem_publishBatch_def andThen_run inmem_publish_run)

lemma writeToOutbox_returns: "fst (writeToOutbox R parseDate e event w) = Inr ()"
  by (auto simp: writeToOutbox_def try_catch_run split: prod.split sum.split)

lemma forwarding_publish_result: "fst (forwarding_publish inner R pd env m event w) = fst (bus_publish inner m event w)"
  by (auto simp: forwarding_publish_def andThen_run writeToOutbox_returns split: prod.split sum.split)

lemma forwarding_publish_failed:
  "bus_publish inner m event w = (Inl e, w') \<Longrightarrow> forwarding_publish inner R pd env m event w = (Inl e, w')"
  by (simp add: forwarding_publish_def andThen_run)

lemma forwarding_publish_accepted:
  assumes "bus_publish inner m event w = (Inr u, w1)" and "env 0 = (i, n1, n2)"
  shows "forwarding_publish inner R pd env m event w
    = (Inr (), snd (ob_append R (outbox_create event (pd (te_occurredAt event)) i n1 n2) w1))"
  using assms
  by (auto simp: forwarding_publish_def writeToOutbox_def andThen_run try_catch_run
      split: prod.split sum.split)

section \<open>Reading back what was published\<close>

lemma digits_value_append: "digits_value (xs @ [c]) = digits_value xs * 10 + (of_char c - 48)"
  by (simp add: digits_value_def)

lemma digit_char: "d < 10 \<Longrightarrow> of_char (char_of (48 + d :: nat) :: char) = (48 + int d :: int)"
proof -
  assume "d < 10"
  then have "(of_char (char_of (48 + d) :: char) :: nat) = 48 + d" by simp
  then have "int (of_char (char_of (48 + d) :: char)) = 48 + int d" by simp
  then show ?thesis by (simp only: of_nat_of_char)
qed

lemma is_digit_char [simp]: "d < 10 \<Longrightarrow> is_digit (char_of (48 + d :: nat))"
  by (simp add: is_digit_def)

lemma digits_all: "list_all is_digit (digits n)"
  by (induction n rule: digits.induct) (simp add: digits.simps)

lemma digits_nonempty: "digits n \<noteq> []"
  by (simp add: digits.simps)

lemma digits_value_digits: "digits_value (digits n) = int n"
proof (induction n rule: digits.induct)
  case (1 n)
  show ?case
  proof (cases "n < 10")
    case True
    then show ?thesis by (simp add: digits.simps digits_value_def digit_char)
  next
    case False
    then have "digits n = digits (n div 10) @ [char_of (48 + n mod 10)]"
      by (simp add: digits.simps)
    with False 1 show ?thesis
      by (simp add: digits_value_append digit_char) presburger
  qed
qed

lemma parseInt_show_int: "parseInt (show_int i) = Some i"
proof -
  have digit: "\<not> is_space c" "c \<noteq> CHR ''-''" "c \<noteq> CHR ''+''" if "is_digit c" for c
    using that by (auto simp: is_digit_def is_space_def)
  have hd: "is_digit (hd (digits n))" for n
    using digits_all [of n] digits_nonempty [of n] by (cases "digits n") auto
  have trim: "trim_left (digits n) = digits n" for n
    using hd [of n] digits_nonempty [of n] digit(1) by (cases "digits n") (auto simp: trim_left_def)
  have tw: "takeWhile is_digit (digits n) = digits n" for n
    using digits_all [of n] by (simp add: list_all_iff takeWhile_eq_all_conv)
  have neg: "trim_left (CHR ''-'' # t) = CHR ''-'' # t" for t
    by (simp add: trim_left_def is_space_def)
  have "hd (digits n) \<noteq> CHR ''-''" "hd (digits n) \<noteq> CHR ''+''" for n
    using hd digit(2,3) by blast+
  then show ?thesis
    by (simp add: show_int_def parseInt_def Let_def trim tw neg digits_value_digits digits_nonempty)
qed

text \<open>What survives the stream: everything a message has a field for.\<close>

definition carried :: "tenant_aware_event \<Rightarrow> tenant_aware_event" where
  "carried e = e\<lparr>te_actorId := (if truthy (te_actorId e) then te_actorId e else None),
     te_causationId := None, te_traceId := None, te_sourceVersion := None, te_isReplay := None,
     te_replayId := None, te_replayedAt := None, te_replayReason := None,
     te_replaySourceEventId := None\<rparr>"

definition carried_in_batch :: "tenant_aware_event \<Rightarrow> tenant_aware_event" where
  "carried_in_batch e = (carried e)\<lparr>te_actorId := None, te_eventVersion := 1, te_sourceService := []\<rparr>"

lemma parseInt_1: "parseInt ''1'' = Some 1"
  by (simp add: parseInt_def trim_left_def is_space_def is_digit_def digits_value_def)

lemma deserialize_redis_fields:
  assumes "parse_object J (stringify J (te_payload e)) = Inr (te_payload e)"
  shows "deserializeEvent J (redis_fields J e) = Inr (carried e)"
  by (simp add: deserializeEvent_def redis_fields_def carried_def Let_def assms or_else_def
      parseInt_show_int truthy_def split: option.split)

lemma deserialize_batch_fields:
  assumes "parse_object J (stringify J (te_payload e)) = Inr (te_payload e)"
  shows "deserializeEvent J (redis_batch_fields J e) = Inr (carried_in_batch e)"
  by (simp add: deserializeEvent_def redis_batch_fields_def carried_in_batch_def carried_def Let_def
      assms or_else_def parseInt_1 truthy_def)

section \<open>Acknowledgement\<close>

text \<open>Every handler, run in turn, returns.\<close>

fun all_succeed :: "tenant_aware_event \<Rightarrow> 'w event_handler list \<Rightarrow> 'w \<Rightarrow> bool" where
  "all_succeed event [] w \<longleftrightarrow> True"
| "all_succeed event (h # hs) w \<longleftrightarrow>
     (case h_handle h event w of (Inr _, w') \<Rightarrow> all_succeed event hs w' | (Inl _, _) \<Rightarrow> False)"

lemma run_handlers_ok:
  "all_succeed event (map snd khs) w
     \<Longrightarrow> run_handlers dlq event khs tm b w = (Inr b, delivered_to event (map snd khs) w)"
proof (induction dlq event khs tm b arbitrary: w rule: run_handlers.induct)
  case (2 dlq event k h hs tm b)
  then show ?case
    by (auto simp: andThen_run try_catch_run delivered_to_def split: prod.splits sum.splits)
qed (simp add: delivered_to_def)

lemma run_handlers_false: "run_handlers dlq event khs tm False w = (Inr b, w') \<Longrightarrow> \<not> b"
proof (induction khs arbitrary: w)
  case (Cons kh khs)
  then show ?case
    by (cases kh) (auto simp: andThen_run try_catch_run split: prod.splits sum.splits)
qed simp

lemma run_handlers_failed:
  "\<not> all_succeed event (map snd khs) w \<Longrightarrow> run_handlers dlq event khs tm b w = (Inr b', w') \<Longrightarrow> \<not> b'"
proof (induction khs arbitrary: w)
  case (Cons kh khs)
  then show ?case
    by (cases kh)
      (auto simp: andThen_run try_catch_run split: prod.splits sum.splits dest: run_handlers_false)
qed simp

lemma dispatch_acked:
  assumes "all_succeed event hs w"
  shows "dispatchToHandlers C cfg J event hs key i tm w
    = xack C key (consumerGroup cfg) i (delivered_to event hs w)"
  using assms run_handlers_ok [of event "enumerate 0 hs" w "sendToDeadLetterStream C cfg J" tm True]
  by (simp add: dispatchToHandlers_def andThen_run)

lemma dispatch_not_acked:
  assumes "\<not> all_succeed event hs w"
  shows "dispatchToHandlers C cfg J event hs key i tm w
    = dispatchToHandlers (C\<lparr>xack := ack\<rparr>) cfg J event hs key i tm w"
proof -
  have dlq: "sendToDeadLetterStream (C\<lparr>xack := ack\<rparr>) cfg J = sendToDeadLetterStream C cfg J"
    by (intro ext) (simp add: sendToDeadLetterStream_def)
  show ?thesis
    using assms run_handlers_failed [of event "enumerate 0 hs" w "sendToDeadLetterStream C cfg J" tm True]
    by (auto simp: dispatchToHandlers_def andThen_run dlq split: prod.splits sum.splits)
qed

end
