(* ===== verification/AppConfig.thy ===== *)
theory AppConfig
  imports EventBus
begin

text \<open>
  The configuration, \<open>apps/api/src/app.config.ts\<close>: each \<open>registerAs\<close> factory as a function of
  the process environment. A number that does not parse (\<open>NaN\<close>) is \<open>None\<close>.
\<close>

type_synonym process_env = "string \<Rightarrow> string option"

record app_config =
  app_port :: "int option"
  app_host :: string
  app_name :: string
  app_env :: string
  app_logLevel :: string

definition appConfig :: "process_env \<Rightarrow> app_config" where
  "appConfig env =
     \<lparr>app_port = parseInt (or_else (env ''APP_PORT'') ''3000''),
      app_host = or_else (env ''APP_HOST'') ''0.0.0.0'', app_name = or_else (env ''APP_NAME'') ''atlas-api'',
      app_env = or_else (env ''NODE_ENV'') ''development'',
      app_logLevel = or_else (env ''LOG_LEVEL'') ''debug''\<rparr>"

record db_config =
  db_host :: string
  db_port :: "int option"
  db_username :: string
  db_password :: string
  db_database :: string
  db_ssl :: bool
  db_poolMax :: "int option"
  db_poolMin :: "int option"
  db_logging :: bool

definition dbConfig :: "process_env \<Rightarrow> db_config" where
  "dbConfig env =
     \<lparr>db_host = or_else (env ''DB_HOST'') ''localhost'', db_port = parseInt (or_else (env ''DB_PORT'') ''5432''),
      db_username = or_else (env ''DB_USERNAME'') ''atlas'',
      db_password = or_else (env ''DB_PASSWORD'') ''atlas_dev_password'',
      db_database = or_else (env ''DB_DATABASE'') ''atlas_dev'', db_ssl = (env ''DB_SSL'' = Some ''true''),
      db_poolMax = parseInt (or_else (env ''DB_POOL_MAX'') ''20''),
      db_poolMin = parseInt (or_else (env ''DB_POOL_MIN'') ''2''),
      db_logging = (env ''DB_LOGGING'' = Some ''true'')\<rparr>"

record redis_connection_config =
  rc_host :: string
  rc_port :: "int option"
  rc_password :: "string option"
  rc_db :: "int option"
  rc_keyPrefix :: string

definition redisConfig :: "process_env \<Rightarrow> redis_connection_config" where
  "redisConfig env =
     \<lparr>rc_host = or_else (env ''REDIS_HOST'') ''localhost'',
      rc_port = parseInt (or_else (env ''REDIS_PORT'') ''6379''), rc_password = env ''REDIS_PASSWORD'',
      rc_db = parseInt (or_else (env ''REDIS_DB'') ''0''),
      rc_keyPrefix = or_else (env ''REDIS_KEY_PREFIX'') ''atlas:''\<rparr>"

record jwt_config =
  jc_secret :: string
  jc_expiry :: string
  jc_refreshSecret :: string
  jc_refreshExpiry :: string

definition jwtConfig :: "process_env \<Rightarrow> jwt_config" where
  "jwtConfig env =
     \<lparr>jc_secret = or_else (env ''JWT_SECRET'') ''insecure-dev-secret-replace-in-prod'',
      jc_expiry = or_else (env ''JWT_EXPIRY'') ''15m'',
      jc_refreshSecret = or_else (env ''JWT_REFRESH_SECRET'') ''insecure-refresh-secret-replace-in-prod'',
      jc_refreshExpiry = or_else (env ''JWT_REFRESH_EXPIRY'') ''7d''\<rparr>"

record event_bus_config =
  eb_adapter :: string
  eb_streamPrefix :: string
  eb_consumerGroup :: string
  eb_maxLen :: "int option"

definition eventBusConfig :: "process_env \<Rightarrow> event_bus_config" where
  "eventBusConfig env =
     \<lparr>eb_adapter = or_else (env ''EVENT_BUS_ADAPTER'') ''memory'',
      eb_streamPrefix = or_else (env ''EVENT_BUS_STREAM_PREFIX'') ''atlas:events:'',
      eb_consumerGroup = or_else (env ''EVENT_BUS_CONSUMER_GROUP'') ''atlas-api'',
      eb_maxLen = parseInt (or_else (env ''EVENT_BUS_MAX_LEN'') ''10000'')\<rparr>"

record tenant_config =
  tcf_header :: string
  tcf_provisioningTimeoutMs :: "int option"

definition tenantConfig :: "process_env \<Rightarrow> tenant_config" where
  "tenantConfig env =
     \<lparr>tcf_header = or_else (env ''TENANT_HEADER'') ''x-tenant-id'',
      tcf_provisioningTimeoutMs = parseInt (or_else (env ''TENANT_PROVISIONING_TIMEOUT_MS'') ''30000'')\<rparr>"

record event_streaming_config =
  es_enabled :: bool
  es_baseUrl :: string
  es_apiToken :: string
  es_timeoutMs :: "int option"

definition eventStreamingConfig :: "process_env \<Rightarrow> event_streaming_config" where
  "eventStreamingConfig env =
     \<lparr>es_enabled = (env ''EVENT_STREAMING_ENABLED'' = Some ''true''),
      es_baseUrl = or_else (env ''EVENT_STREAMING_BASE_URL'') [],
      es_apiToken = or_else (env ''EVENT_STREAMING_API_TOKEN'') [],
      es_timeoutMs = parseInt (or_else (env ''EVENT_STREAMING_TIMEOUT_MS'') ''5000'')\<rparr>"

text \<open>The bus that the factory of the platform-events module wires for an environment.\<close>

definition configured_bus ::
  "process_env \<Rightarrow> 'w event_bus \<Rightarrow> 'w outbox_port \<Rightarrow> (string \<Rightarrow> time) \<Rightarrow> outbox_env \<Rightarrow> 'w event_bus" where
  "configured_bus env redisBus R parseDate oenv =
     platform_event_bus (eb_adapter (eventBusConfig env)) (es_enabled (eventStreamingConfig env))
       redisBus R parseDate oenv"

text \<open>
  \<open>OutboxProcessorService.onModuleInit\<close>: polling starts only when forwarding is enabled.
\<close>

definition outbox_polls :: "process_env \<Rightarrow> bool" where
  "outbox_polls env \<longleftrightarrow> es_enabled (eventStreamingConfig env)"

text \<open>With no variable set the platform runs the in-memory bus and never polls the outbox.\<close>

lemma default_bus: "configured_bus (\<lambda>_. None) redisBus R parseDate oenv = in_memory_bus"
  by (simp add: configured_bus_def eventBusConfig_def eventStreamingConfig_def platform_event_bus_def or_else_def)

lemma polling_bus_forwards:
  "outbox_polls env \<Longrightarrow> \<exists>inner \<in> {redisBus, in_memory_bus}.
     configured_bus env redisBus R parseDate oenv = forwarding_bus inner R parseDate oenv"
  by (simp add: outbox_polls_def configured_bus_def platform_event_bus_def Let_def)

section \<open>The connections made from it\<close>

text \<open>
  The options of the database connection in \<open>app.module.ts\<close> and those of the data source that
  the migration command uses, \<open>database/data-source.ts\<close>. With \<open>db_ssl\<close> the application
  connects over TLS without verifying the certificate.
\<close>

record postgres_options =
  pg_host :: string
  pg_port :: "int option"
  pg_username :: string
  pg_password :: string
  pg_database :: string
  pg_synchronize :: bool
  pg_logging :: bool

record app_database = postgres_options +
  pg_ssl_rejectUnauthorized :: "bool option"
  pg_entities :: "string list"
  pg_poolSize :: "int option"

definition app_database_options :: "process_env \<Rightarrow> app_database" where
  "app_database_options env =
     (let db = dbConfig env
      in \<lparr>pg_host = db_host db, pg_port = db_port db, pg_username = db_username db,
          pg_password = db_password db, pg_database = db_database db, pg_synchronize = False,
          pg_logging = db_logging db,
          pg_ssl_rejectUnauthorized = (if db_ssl db then Some False else None),
          pg_entities = [''organizations'', ''users'', ''audit_events'', ''workflow_definitions'',
            ''workflow_executions'', ''outbox_entries''],
          pg_poolSize = db_poolMax db\<rparr>)"

record migration_source = postgres_options +
  pg_entities_glob :: string
  pg_migrations :: string
  pg_migrationsTableName :: string

definition data_source :: "process_env \<Rightarrow> migration_source" where
  "data_source env =
     \<lparr>pg_host = or_else (env ''DB_HOST'') ''localhost'',
      pg_port = parseInt (or_else (env ''DB_PORT'') ''5432''),
      pg_username = or_else (env ''DB_USERNAME'') ''atlas'',
      pg_password = or_else (env ''DB_PASSWORD'') ''atlas_dev_password'',
      pg_database = or_else (env ''DB_DATABASE'') ''atlas_dev'', pg_synchronize = False,
      pg_logging = (env ''DB_LOGGING'' = Some ''true''),
      pg_entities_glob = ''apps/api/src/**/infrastructure/persistence/*.orm-entity.ts'',
      pg_migrations = ''database/migrations/*.ts'', pg_migrationsTableName = ''atlas_migrations''\<rparr>"

text \<open>
  In one environment the migrations run against the database of the application (\<open>Startup\<close> shows
  where their environments differ); but only the application heeds
  \<open>DB_SSL\<close>: the data source has no such option.
\<close>

lemma same_database:
  "postgres_options.truncate (data_source env) = postgres_options.truncate (app_database_options env)"
  by (simp add: data_source_def app_database_options_def dbConfig_def postgres_options.truncate_def Let_def)

text \<open>
  The limits handed to the throttler, which reads them without a conversion: a variable that is
  set stays text. Nothing applies them: no class of \<open>NestModules\<close> has the throttler's guard.
\<close>

datatype config_value = Text string | Number int

record throttler_limit =
  th_ttl :: config_value
  th_limit :: config_value

definition config_get :: "process_env \<Rightarrow> string \<Rightarrow> int \<Rightarrow> config_value" where
  "config_get env name fallback = (case env name of Some s \<Rightarrow> Text s | None \<Rightarrow> Number fallback)"

definition throttler_options :: "process_env \<Rightarrow> throttler_limit list" where
  "throttler_options env =
     [\<lparr>th_ttl = config_get env ''THROTTLE_TTL'' 60000, th_limit = config_get env ''THROTTLE_LIMIT'' 100\<rparr>]"

text \<open>Signing (\<open>identity.module.ts\<close>) and verifying (\<open>jwt.strategy.ts\<close>) of tokens.\<close>

record jwt_module_options =
  jm_secret :: string
  jm_expiresIn :: string

definition jwt_module :: "process_env \<Rightarrow> jwt_module_options" where
  "jwt_module env = \<lparr>jm_secret = jc_secret (jwtConfig env), jm_expiresIn = jc_expiry (jwtConfig env)\<rparr>"

record jwt_strategy_options =
  jo_ignoreExpiration :: bool
  jo_secretOrKey :: string

definition jwt_strategy :: "process_env \<Rightarrow> jwt_strategy_options" where
  "jwt_strategy env = \<lparr>jo_ignoreExpiration = False, jo_secretOrKey = jc_secret (jwtConfig env)\<rparr>"

lemma signed_tokens_verify: "jo_secretOrKey (jwt_strategy env) = jm_secret (jwt_module env)"
  by (simp add: jwt_strategy_def jwt_module_def)

text \<open>The server of \<open>main.ts\<close>: where it listens, whether it answers other origins, and the health route.\<close>

record server_options =
  srv_port :: "int option"
  srv_host :: string
  srv_defaultVersion :: string
  srv_trustProxy :: bool
  srv_cors :: bool

definition server :: "process_env \<Rightarrow> server_options" where
  "server env =
     (let app = appConfig env
      in \<lparr>srv_port = app_port app, srv_host = app_host app, srv_defaultVersion = ''1'',
          srv_trustProxy = True, srv_cors = (app_env app \<noteq> ''production'')\<rparr>)"

definition health_reply :: "process_env \<Rightarrow> int \<times> object" where
  "health_reply env =
     (200, [(''status'', JStr ''ok''), (''version'', JStr (or_else (env ''APP_VERSION'') ''0.1.0''))])"

text \<open>
  What the constructors of the Redis bus and of the HTTP client read. \<open>None\<close> is a number that
  does not parse.
\<close>

definition redis_bus_config :: "process_env \<Rightarrow> redis_config option" where
  "redis_bus_config env =
     (let c = eventBusConfig env
      in map_option (\<lambda>n. \<lparr>streamPrefix = eb_streamPrefix c, consumerGroup = eb_consumerGroup c, maxLen = n\<rparr>)
           (eb_maxLen c))"

definition streaming_client_config :: "process_env \<Rightarrow> streaming_config option" where
  "streaming_client_config env =
     (let c = eventStreamingConfig env
      in map_option (\<lambda>n. \<lparr>cfg_baseUrl = es_baseUrl c, cfg_apiToken = es_apiToken c, cfg_timeoutMs = n\<rparr>)
           (es_timeoutMs c))"

text \<open>Forwarding switched on without a base URL: every attempt of the processor fails.\<close>

lemma streaming_without_url:
  assumes "env ''EVENT_STREAMING_BASE_URL'' = None" and "streaming_client_config env = Some cfg"
  shows "\<exists>m. ingest cfg fetch c w = (Inl (PlainError m), w)"
proof -
  from assms have "cfg_baseUrl cfg = []"
    by (auto simp: streaming_client_config_def eventStreamingConfig_def or_else_def Let_def)
  then show ?thesis by (simp add: ingest_def)
qed

end
