(* ===== verification/Lifecycle.thy ===== *)
theory Lifecycle
  imports AppConfig
begin

text \<open>
  Start and stop of the background work: the constructors and the \<open>onModuleInit\<close> and
  \<open>onModuleDestroy\<close> hooks of the event buses and of the outbox processor, on the intervals and
  connections of the process.
\<close>

text \<open>
  The running intervals, each with its owner and period, the open connections, and the flag of
  the consume loop.
\<close>

record process =
  pr_intervals :: "(string \<times> int) list"
  pr_connections :: "string list"
  pr_consuming :: bool

definition idle :: process where
  "idle = \<lparr>pr_intervals = [], pr_connections = [], pr_consuming = False\<rparr>"

definition setInterval :: "string \<Rightarrow> int \<Rightarrow> process \<Rightarrow> process" where
  "setInterval who ms p = p\<lparr>pr_intervals := (who, ms) # pr_intervals p\<rparr>"

definition clearInterval :: "string \<Rightarrow> process \<Rightarrow> process" where
  "clearInterval who p = p\<lparr>pr_intervals := filter (\<lambda>(o', ms). o' \<noteq> who) (pr_intervals p)\<rparr>"

definition quit :: "string \<Rightarrow> process \<Rightarrow> process" where
  "quit c p = p\<lparr>pr_connections := removeAll c (pr_connections p)\<rparr>"

section \<open>Hooks\<close>

text \<open>The hooks an object has; an object without a hook has \<open>None\<close>.\<close>

record hooks =
  on_init :: "(process \<Rightarrow> process) option"
  on_destroy :: "(process \<Rightarrow> process) option"

definition redis_constructor :: "process \<Rightarrow> process" where
  "redis_constructor p = p\<lparr>pr_connections := ''publisher'' # ''consumer'' # pr_connections p\<rparr>"

definition startConsumeLoop :: "process \<Rightarrow> process" where
  "startConsumeLoop p = setInterval ''consume'' 100 (p\<lparr>pr_consuming := True\<rparr>)"

definition redis_onModuleInit :: "process \<Rightarrow> process" where
  "redis_onModuleInit p = startConsumeLoop p"

definition redis_onModuleDestroy :: "process \<Rightarrow> process" where
  "redis_onModuleDestroy p =
     quit ''consumer'' (quit ''publisher'' (clearInterval ''consume'' (p\<lparr>pr_consuming := False\<rparr>)))"

definition redis_hooks :: hooks where
  "redis_hooks = \<lparr>on_init = Some redis_onModuleInit, on_destroy = Some redis_onModuleDestroy\<rparr>"

text \<open>Destroying the in-memory bus clears its handlers, which the process does not see.\<close>

definition in_memory_hooks :: hooks where
  "in_memory_hooks = \<lparr>on_init = None, on_destroy = Some (\<lambda>p. p)\<rparr>"

definition forwarding_onModuleInit :: "hooks \<Rightarrow> process \<Rightarrow> process" where
  "forwarding_onModuleInit inner p = (case on_init inner of Some f \<Rightarrow> f p | None \<Rightarrow> p)"

definition forwarding_onModuleDestroy :: "hooks \<Rightarrow> process \<Rightarrow> process" where
  "forwarding_onModuleDestroy inner p = (case on_destroy inner of Some f \<Rightarrow> f p | None \<Rightarrow> p)"

definition forwarding_hooks :: "hooks \<Rightarrow> hooks" where
  "forwarding_hooks inner =
     \<lparr>on_init = Some (forwarding_onModuleInit inner), on_destroy = Some (forwarding_onModuleDestroy inner)\<rparr>"

definition POLL_INTERVAL_MS :: int where
  "POLL_INTERVAL_MS = 5000"

definition outbox_onModuleInit :: "bool \<Rightarrow> process \<Rightarrow> process" where
  "outbox_onModuleInit enabled p = (if \<not> enabled then p else setInterval ''outbox'' POLL_INTERVAL_MS p)"

definition outbox_onModuleDestroy :: "process \<Rightarrow> process" where
  "outbox_onModuleDestroy p = clearInterval ''outbox'' p"

section \<open>The whole process\<close>

text \<open>
  The bus the factory builds for an environment, with the process its constructor leaves; then
  the hooks of the bus and of the processor, at start and at shutdown.
\<close>

definition bus_hooks :: "process_env \<Rightarrow> hooks" where
  "bus_hooks env =
     (let inner = (if eb_adapter (eventBusConfig env) = ''redis-streams'' then redis_hooks else in_memory_hooks)
      in if es_enabled (eventStreamingConfig env) then forwarding_hooks inner else inner)"

definition run_hook :: "(process \<Rightarrow> process) option \<Rightarrow> process \<Rightarrow> process" where
  "run_hook h p = (case h of Some f \<Rightarrow> f p | None \<Rightarrow> p)"

definition started :: "process_env \<Rightarrow> process \<Rightarrow> process" where
  "started env p =
     outbox_onModuleInit (outbox_polls env)
       (run_hook (on_init (bus_hooks env))
         (if eb_adapter (eventBusConfig env) = ''redis-streams'' then redis_constructor p else p))"

definition stopped :: "process_env \<Rightarrow> process \<Rightarrow> process" where
  "stopped env p = outbox_onModuleDestroy (run_hook (on_destroy (bus_hooks env)) p)"

lemmas lifecycle_defs = started_def stopped_def bus_hooks_def run_hook_def outbox_onModuleInit_def
  outbox_onModuleDestroy_def forwarding_hooks_def forwarding_onModuleInit_def
  forwarding_onModuleDestroy_def redis_hooks_def in_memory_hooks_def redis_onModuleInit_def
  redis_onModuleDestroy_def startConsumeLoop_def redis_constructor_def setInterval_def
  clearInterval_def quit_def idle_def POLL_INTERVAL_MS_def outbox_polls_def Let_def

text \<open>Forwarding hides none of the hooks of the bus it wraps.\<close>

lemma forwarding_hooks_transparent:
  "run_hook (on_init (forwarding_hooks h)) p = run_hook (on_init h) p"
  "run_hook (on_destroy (forwarding_hooks h)) p = run_hook (on_destroy h) p"
  by (simp_all add: forwarding_hooks_def run_hook_def forwarding_onModuleInit_def forwarding_onModuleDestroy_def)

text \<open>What runs while the platform is up, by configuration; after shutdown nothing is left.\<close>

lemma started_intervals:
  "set (pr_intervals (started env idle)) =
     (if eb_adapter (eventBusConfig env) = ''redis-streams'' then {(''consume'', 100)} else {})
     \<union> (if es_enabled (eventStreamingConfig env) then {(''outbox'', 5000)} else {})"
  by (simp add: lifecycle_defs)

lemma stopped_idle: "stopped env (started env idle) = idle"
  by (simp add: lifecycle_defs)

end
