(* ===== verification/Schema.thy ===== *)
theory Schema
  imports Prelude
begin

text \<open>
  The database schema: the migrations of \<open>src/database/migrations\<close> as lists of statements with
  a small interpreter for the statements they use, and the column declarations of the
  \<open>*.orm-entity.ts\<close> classes, so that the two can be compared.
\<close>

section \<open>Columns\<close>

text \<open>A column of \<open>CREATE TABLE\<close>: name, type, whether it is required and unique, default, reference.\<close>

record sql_col =
  sc_name :: string
  sc_type :: string
  sc_required :: bool
  sc_unique :: bool
  sc_default :: "string option"
  sc_references :: "string option"

definition sql_column ::
  "string \<Rightarrow> string \<Rightarrow> bool \<Rightarrow> bool \<Rightarrow> string option \<Rightarrow> string option \<Rightarrow> sql_col" where
  "sql_column n t required u d r =
     \<lparr>sc_name = n, sc_type = t, sc_required = required, sc_unique = u, sc_default = d,
      sc_references = r\<rparr>"

text \<open>
  A column decorator: the property, the \<open>name\<close> option, and whether it is nullable and unique.
  Without a name the column is called like the property.
\<close>

record orm_col =
  oc_property :: string
  oc_name :: "string option"
  oc_nullable :: bool
  oc_unique :: bool

definition orm_column :: "string \<Rightarrow> string option \<Rightarrow> bool \<Rightarrow> bool \<Rightarrow> orm_col" where
  "orm_column p n nullable u = \<lparr>oc_property = p, oc_name = n, oc_nullable = nullable, oc_unique = u\<rparr>"

definition orm_column_name :: "orm_col \<Rightarrow> string" where
  "orm_column_name c = (case oc_name c of Some n \<Rightarrow> n | None \<Rightarrow> oc_property c)"

section \<open>The tables the migrations create\<close>

definition table_users :: "sql_col list" where
  "table_users =
     [sql_column ''id'' ''UUID'' True True (Some ''uuid_generate_v4()'') None,
      sql_column ''email'' ''VARCHAR(320)'' True True None None,
      sql_column ''password_hash'' ''VARCHAR(72)'' True False None None,
      sql_column ''display_name'' ''VARCHAR(100)'' True False None None,
      sql_column ''status'' ''VARCHAR(30)'' True False (Some ''pending_verification'') None,
      sql_column ''last_login_at'' ''TIMESTAMPTZ'' False False None None,
      sql_column ''email_verified_at'' ''TIMESTAMPTZ'' False False None None,
      sql_column ''created_at'' ''TIMESTAMPTZ'' True False (Some ''NOW()'') None,
      sql_column ''updated_at'' ''TIMESTAMPTZ'' True False (Some ''NOW()'') None]"

definition table_organizations :: "sql_col list" where
  "table_organizations =
     [sql_column ''id'' ''UUID'' True True None None,
      sql_column ''name'' ''VARCHAR(100)'' True False None None,
      sql_column ''slug'' ''VARCHAR(63)'' True True None None,
      sql_column ''plan_tier'' ''tenant_plan_tier_enum'' True False (Some ''free'') None,
      sql_column ''status'' ''tenant_status_enum'' True False (Some ''provisioning'') None,
      sql_column ''owner_id'' ''UUID'' True False None (Some ''users''),
      sql_column ''provisioned_at'' ''TIMESTAMPTZ'' False False None None,
      sql_column ''settings'' ''JSONB'' True False (Some ''{}'') None,
      sql_column ''created_at'' ''TIMESTAMPTZ'' True False (Some ''NOW()'') None,
      sql_column ''updated_at'' ''TIMESTAMPTZ'' True False (Some ''NOW()'') None]"

definition table_audit_events :: "sql_col list" where
  "table_audit_events =
     [sql_column ''id'' ''UUID'' True True (Some ''uuid_generate_v4()'') None,
      sql_column ''tenant_id'' ''UUID'' True False None None,
      sql_column ''actor_id'' ''UUID'' False False None None,
      sql_column ''actor_type'' ''VARCHAR(20)'' True False None None,
      sql_column ''action'' ''VARCHAR(100)'' True False None None,
      sql_column ''resource_type'' ''VARCHAR(100)'' True False None None,
      sql_column ''resource_id'' ''VARCHAR(255)'' True False None None,
      sql_column ''outcome'' ''VARCHAR(10)'' True False None None,
      sql_column ''metadata'' ''JSONB'' True False (Some ''{}'') None,
      sql_column ''correlation_id'' ''UUID'' True False None None,
      sql_column ''ip_address'' ''INET'' False False None None,
      sql_column ''user_agent'' ''TEXT'' False False None None,
      sql_column ''occurred_at'' ''TIMESTAMPTZ'' True False (Some ''NOW()'') None]"

definition table_workflow_definitions :: "sql_col list" where
  "table_workflow_definitions =
     [sql_column ''id'' ''UUID'' True True None None,
      sql_column ''tenant_id'' ''UUID'' True False None None,
      sql_column ''name'' ''VARCHAR(100)'' True False None None,
      sql_column ''description'' ''TEXT'' False False None None,
      sql_column ''trigger'' ''JSONB'' True False None None,
      sql_column ''steps'' ''JSONB'' True False (Some ''[]'') None,
      sql_column ''version'' ''INTEGER'' True False (Some ''1'') None,
      sql_column ''status'' ''VARCHAR(20)'' True False (Some ''draft'') None,
      sql_column ''created_by'' ''UUID'' True False None None,
      sql_column ''created_at'' ''TIMESTAMPTZ'' True False (Some ''NOW()'') None,
      sql_column ''updated_at'' ''TIMESTAMPTZ'' True False (Some ''NOW()'') None]"

definition table_workflow_executions :: "sql_col list" where
  "table_workflow_executions =
     [sql_column ''id'' ''UUID'' True True None None,
      sql_column ''definition_id'' ''UUID'' True False None (Some ''workflow_definitions''),
      sql_column ''tenant_id'' ''UUID'' True False None None,
      sql_column ''correlation_id'' ''UUID'' True False None None,
      sql_column ''triggered_by'' ''VARCHAR(255)'' True False None None,
      sql_column ''trigger_type'' ''VARCHAR(20)'' True False None None,
      sql_column ''input'' ''JSONB'' True False (Some ''{}'') None,
      sql_column ''status'' ''VARCHAR(20)'' True False (Some ''pending'') None,
      sql_column ''step_results'' ''JSONB'' True False (Some ''[]'') None,
      sql_column ''started_at'' ''TIMESTAMPTZ'' False False None None,
      sql_column ''completed_at'' ''TIMESTAMPTZ'' False False None None,
      sql_column ''duration_ms'' ''INTEGER'' False False None None,
      sql_column ''error_message'' ''TEXT'' False False None None,
      sql_column ''created_at'' ''TIMESTAMPTZ'' True False (Some ''NOW()'') None,
      sql_column ''updated_at'' ''TIMESTAMPTZ'' True False (Some ''NOW()'') None]"

definition table_outbox_entries :: "sql_col list" where
  "table_outbox_entries =
     [sql_column ''id'' ''UUID'' True True (Some ''uuid_generate_v4()'') None,
      sql_column ''event_id'' ''UUID'' True False None None,
      sql_column ''event_type'' ''VARCHAR(150)'' True False None None,
      sql_column ''tenant_id'' ''UUID'' True False None None,
      sql_column ''correlation_id'' ''UUID'' True False None None,
      sql_column ''payload'' ''JSONB'' True False (Some ''{}'') None,
      sql_column ''status'' ''outbox_status_enum'' True False (Some ''pending'') None,
      sql_column ''attempts'' ''INTEGER'' True False (Some ''0'') None,
      sql_column ''last_error'' ''TEXT'' False False None None,
      sql_column ''occurred_at'' ''TIMESTAMPTZ'' True False None None,
      sql_column ''created_at'' ''TIMESTAMPTZ'' True False (Some ''NOW()'') None,
      sql_column ''processed_at'' ''TIMESTAMPTZ'' False False None None]"

section \<open>Statements\<close>

datatype ddl =
    CreateExtension string
  | CreateEnum string "string list"
  | CreateTable string "sql_col list"
  | CreateIndex string string "string list"
  | CreateFunction string
  | CreateTrigger string string string
  | DropTable string
  | DropTrigger string string
  | DropFunction string
  | DropType string

record schema =
  sm_extensions :: "string list"
  sm_types :: "string list"
  sm_tables :: "(string \<times> sql_col list) list"
  sm_indexes :: "(string \<times> string) list"
  sm_functions :: "string list"
  sm_triggers :: "(string \<times> string \<times> string) list"

definition empty_schema :: schema where
  "empty_schema = \<lparr>sm_extensions = [], sm_types = [], sm_tables = [], sm_indexes = [],
     sm_functions = [], sm_triggers = []\<rparr>"

text \<open>The enumeration types, which are the type names that no built-in type has.\<close>

definition is_enum_name :: "string \<Rightarrow> bool" where
  "is_enum_name t \<longleftrightarrow> t \<in> set [''tenant_status_enum'', ''tenant_plan_tier_enum'', ''outbox_status_enum'']"

definition referenced_tables :: "sql_col list \<Rightarrow> string list" where
  "referenced_tables cs = concat (map (\<lambda>c. case sc_references c of None \<Rightarrow> [] | Some t \<Rightarrow> [t]) cs)"

text \<open>
  One statement: \<open>None\<close> when the database refuses it. A table needs its types and the tables
  it references; an index needs its table and columns; what others depend on cannot be
  dropped. Dropping with \<open>IF EXISTS\<close> tolerates absence.
\<close>

fun run_ddl :: "ddl \<Rightarrow> schema \<Rightarrow> schema option" where
  "run_ddl (CreateExtension e) s = Some (s\<lparr>sm_extensions := List.insert e (sm_extensions s)\<rparr>)"
| "run_ddl (CreateEnum t vs) s =
     (if t \<in> set (sm_types s) then None else Some (s\<lparr>sm_types := t # sm_types s\<rparr>))"
| "run_ddl (CreateTable t cs) s =
     (if t \<in> fst ` set (sm_tables s) \<or> \<not> distinct (map sc_name cs)
         \<or> list_ex (\<lambda>c. is_enum_name (sc_type c) \<and> sc_type c \<notin> set (sm_types s)) cs
         \<or> list_ex (\<lambda>r. r \<notin> fst ` set (sm_tables s)) (referenced_tables cs)
      then None else Some (s\<lparr>sm_tables := (t, cs) # sm_tables s\<rparr>))"
| "run_ddl (CreateIndex i t cs) s =
     (case map_of (sm_tables s) t of
        None \<Rightarrow> None
      | Some tcs \<Rightarrow>
          if i \<in> fst ` set (sm_indexes s) \<or> list_ex (\<lambda>c. c \<notin> sc_name ` set tcs) cs then None
          else Some (s\<lparr>sm_indexes := (i, t) # sm_indexes s\<rparr>))"
| "run_ddl (CreateFunction f) s = Some (s\<lparr>sm_functions := List.insert f (sm_functions s)\<rparr>)"
| "run_ddl (CreateTrigger g t f) s =
     (if t \<notin> fst ` set (sm_tables s) \<or> f \<notin> set (sm_functions s) \<or> g \<in> fst ` set (sm_triggers s) then None
      else Some (s\<lparr>sm_triggers := (g, t, f) # sm_triggers s\<rparr>))"
| "run_ddl (DropTable t) s =
     (if list_ex (\<lambda>(u, cs). u \<noteq> t \<and> t \<in> set (referenced_tables cs)) (sm_tables s) then None
      else Some (s\<lparr>sm_tables := filter (\<lambda>(u, cs). u \<noteq> t) (sm_tables s),
                   sm_indexes := filter (\<lambda>(i, u). u \<noteq> t) (sm_indexes s),
                   sm_triggers := filter (\<lambda>(g, u, f). u \<noteq> t) (sm_triggers s)\<rparr>))"
| "run_ddl (DropTrigger g t) s =
     (if t \<notin> fst ` set (sm_tables s) then Some s
      else Some (s\<lparr>sm_triggers := filter (\<lambda>(h, u, f). \<not> (h = g \<and> u = t)) (sm_triggers s)\<rparr>))"
| "run_ddl (DropFunction f) s =
     (if list_ex (\<lambda>(g, u, h). h = f) (sm_triggers s) then None
      else Some (s\<lparr>sm_functions := remove1 f (sm_functions s)\<rparr>))"
| "run_ddl (DropType t) s =
     (if list_ex (\<lambda>(u, cs). list_ex (\<lambda>c. sc_type c = t) cs) (sm_tables s) then None
      else Some (s\<lparr>sm_types := remove1 t (sm_types s)\<rparr>))"

fun run_migration :: "ddl list \<Rightarrow> schema \<Rightarrow> schema option" where
  "run_migration [] s = Some s"
| "run_migration (d # ds) s = (case run_ddl d s of None \<Rightarrow> None | Some s' \<Rightarrow> run_migration ds s')"

section \<open>The migrations\<close>

definition initial_up :: "ddl list" where
  "initial_up =
     [CreateExtension ''uuid-ossp'', CreateExtension ''pgcrypto'',
      CreateTable ''users'' table_users,
      CreateIndex ''idx_users_email'' ''users'' [''email''],
      CreateEnum ''tenant_status_enum''
        [''provisioning'', ''active'', ''suspended'', ''deprovisioning'', ''deleted''],
      CreateEnum ''tenant_plan_tier_enum'' [''free'', ''starter'', ''pro'', ''enterprise''],
      CreateTable ''organizations'' table_organizations,
      CreateIndex ''idx_organizations_slug'' ''organizations'' [''slug''],
      CreateTable ''audit_events'' table_audit_events,
      CreateIndex ''idx_audit_tenant_time'' ''audit_events'' [''tenant_id'', ''occurred_at''],
      CreateIndex ''idx_audit_tenant_action'' ''audit_events'' [''tenant_id'', ''action''],
      CreateIndex ''idx_audit_tenant_actor'' ''audit_events'' [''tenant_id'', ''actor_id''],
      CreateIndex ''idx_audit_tenant_resource'' ''audit_events''
        [''tenant_id'', ''resource_type'', ''resource_id''],
      CreateFunction ''prevent_audit_update'',
      CreateTrigger ''enforce_audit_immutability'' ''audit_events'' ''prevent_audit_update'',
      CreateTable ''workflow_definitions'' table_workflow_definitions,
      CreateIndex ''idx_workflow_def_tenant_status'' ''workflow_definitions'' [''tenant_id'', ''status''],
      CreateTable ''workflow_executions'' table_workflow_executions,
      CreateIndex ''idx_workflow_exec_tenant_status'' ''workflow_executions'' [''tenant_id'', ''status''],
      CreateIndex ''idx_workflow_exec_tenant_def'' ''workflow_executions'' [''tenant_id'', ''definition_id'']]"

definition initial_down :: "ddl list" where
  "initial_down =
     [DropTable ''workflow_executions'', DropTable ''workflow_definitions'',
      DropTrigger ''enforce_audit_immutability'' ''audit_events'',
      DropFunction ''prevent_audit_update'', DropTable ''audit_events'',
      DropTable ''organizations'', DropType ''tenant_plan_tier_enum'',
      DropType ''tenant_status_enum'', DropTable ''users'']"

definition outbox_up :: "ddl list" where
  "outbox_up =
     [CreateEnum ''outbox_status_enum'' [''pending'', ''processed'', ''failed''],
      CreateTable ''outbox_entries'' table_outbox_entries,
      CreateIndex ''idx_outbox_status_created'' ''outbox_entries'' [''status'', ''created_at''],
      CreateIndex ''idx_outbox_tenant_type'' ''outbox_entries'' [''tenant_id'', ''event_type''],
      CreateIndex ''idx_outbox_event_id'' ''outbox_entries'' [''event_id'']]"

definition outbox_down :: "ddl list" where
  "outbox_down = [DropTable ''outbox_entries'', DropType ''outbox_status_enum'']"

section \<open>The columns the entities declare\<close>

definition orm_organizations :: "orm_col list" where
  "orm_organizations =
     [orm_column ''id'' None False True,
      orm_column ''name'' None False False,
      orm_column ''slug'' None False True,
      orm_column ''planTier'' (Some ''plan_tier'') False False,
      orm_column ''status'' None False False,
      orm_column ''ownerId'' (Some ''owner_id'') False False,
      orm_column ''provisionedAt'' (Some ''provisioned_at'') True False,
      orm_column ''settings'' None False False,
      orm_column ''createdAt'' (Some ''created_at'') False False,
      orm_column ''updatedAt'' (Some ''updated_at'') False False]"

definition orm_users :: "orm_col list" where
  "orm_users =
     [orm_column ''id'' None False True,
      orm_column ''email'' None False True,
      orm_column ''passwordHash'' (Some ''password_hash'') False False,
      orm_column ''displayName'' (Some ''display_name'') False False,
      orm_column ''status'' None False False,
      orm_column ''lastLoginAt'' (Some ''last_login_at'') True False,
      orm_column ''emailVerifiedAt'' (Some ''email_verified_at'') True False,
      orm_column ''createdAt'' (Some ''created_at'') False False,
      orm_column ''updatedAt'' (Some ''updated_at'') False False]"

definition orm_audit_events :: "orm_col list" where
  "orm_audit_events =
     [orm_column ''id'' None False True,
      orm_column ''tenantId'' None False False,
      orm_column ''actorId'' None True False,
      orm_column ''actorType'' None False False,
      orm_column ''action'' None False False,
      orm_column ''resourceType'' (Some ''resource_type'') False False,
      orm_column ''resourceId'' (Some ''resource_id'') False False,
      orm_column ''outcome'' None False False,
      orm_column ''metadata'' None False False,
      orm_column ''correlationId'' (Some ''correlation_id'') False False,
      orm_column ''ipAddress'' (Some ''ip_address'') True False,
      orm_column ''userAgent'' (Some ''user_agent'') True False,
      orm_column ''occurredAt'' (Some ''occurred_at'') False False]"

definition orm_workflow_definitions :: "orm_col list" where
  "orm_workflow_definitions =
     [orm_column ''id'' None False True,
      orm_column ''tenantId'' None False False,
      orm_column ''name'' None False False,
      orm_column ''description'' None True False,
      orm_column ''trigger'' None False False,
      orm_column ''steps'' None False False,
      orm_column ''version'' None False False,
      orm_column ''status'' None False False,
      orm_column ''createdBy'' None False False,
      orm_column ''createdAt'' (Some ''created_at'') False False,
      orm_column ''updatedAt'' (Some ''updated_at'') False False]"

definition orm_workflow_executions :: "orm_col list" where
  "orm_workflow_executions =
     [orm_column ''id'' None False True,
      orm_column ''definitionId'' None False False,
      orm_column ''tenantId'' None False False,
      orm_column ''correlationId'' None False False,
      orm_column ''triggeredBy'' None False False,
      orm_column ''triggerType'' None False False,
      orm_column ''input'' None False False,
      orm_column ''status'' None False False,
      orm_column ''stepResults'' None False False,
      orm_column ''startedAt'' None True False,
      orm_column ''completedAt'' None True False,
      orm_column ''durationMs'' None True False,
      orm_column ''errorMessage'' None True False,
      orm_column ''createdAt'' (Some ''created_at'') False False,
      orm_column ''updatedAt'' (Some ''updated_at'') False False]"

definition orm_outbox_entries :: "orm_col list" where
  "orm_outbox_entries =
     [orm_column ''id'' None False True,
      orm_column ''eventId'' (Some ''event_id'') False True,
      orm_column ''eventType'' (Some ''event_type'') False False,
      orm_column ''eventVersion'' (Some ''event_version'') False False,
      orm_column ''tenantId'' (Some ''tenant_id'') False False,
      orm_column ''correlationId'' (Some ''correlation_id'') False False,
      orm_column ''actorId'' (Some ''actor_id'') True False,
      orm_column ''causationId'' (Some ''causation_id'') True False,
      orm_column ''traceId'' (Some ''trace_id'') True False,
      orm_column ''sourceService'' (Some ''source_service'') False False,
      orm_column ''sourceVersion'' (Some ''source_version'') True False,
      orm_column ''payload'' None False False,
      orm_column ''status'' None False False,
      orm_column ''attempts'' None False False,
      orm_column ''lastError'' (Some ''last_error'') True False,
      orm_column ''occurredAt'' (Some ''occurred_at'') False False,
      orm_column ''createdAt'' (Some ''created_at'') False False,
      orm_column ''processedAt'' (Some ''processed_at'') True False]"

text \<open>
  The columns an entity reads and writes that its table does not have, and the ones the table
  has that the entity does not know.
\<close>

definition missing_columns :: "orm_col list \<Rightarrow> sql_col list \<Rightarrow> string list" where
  "missing_columns orm cs = filter (\<lambda>n. n \<notin> sc_name ` set cs) (map orm_column_name orm)"

definition unknown_columns :: "orm_col list \<Rightarrow> sql_col list \<Rightarrow> string list" where
  "unknown_columns orm cs = filter (\<lambda>n. n \<notin> orm_column_name ` set orm) (map sc_name cs)"

text \<open>The columns both declare agree on being nullable and on being unique.\<close>

definition constraints_agree :: "orm_col list \<Rightarrow> sql_col list \<Rightarrow> bool" where
  "constraints_agree orm cs \<longleftrightarrow>
     list_all (\<lambda>c. list_all (\<lambda>p. orm_column_name p = sc_name c
        \<longrightarrow> oc_nullable p = (\<not> sc_required c) \<and> oc_unique p = sc_unique c) orm) cs"

text \<open>The column that the event-series query names in its raw \<open>to_char\<close> expression.\<close>

definition series_raw_column :: string where
  "series_raw_column = ''occurredAt''"

lemmas schema_defs = table_users_def table_organizations_def table_audit_events_def
  table_workflow_definitions_def table_workflow_executions_def table_outbox_entries_def
  orm_organizations_def orm_users_def orm_audit_events_def orm_workflow_definitions_def
  orm_workflow_executions_def orm_outbox_entries_def

section \<open>Checks\<close>

lemma run_migration_append:
  "run_migration (xs @ ys) s = (case run_migration xs s of None \<Rightarrow> None | Some s' \<Rightarrow> run_migration ys s')"
  by (induction xs arbitrary: s) (auto split: option.split)

lemma missing_users: "missing_columns orm_users table_users = []"
  by code_simp

lemma initial_up_runs: "run_migration initial_up empty_schema \<noteq> None"
  by code_simp

end
