(* ===== verification/OutboxDrain.thy ===== *)
theory OutboxDrain
  imports OutboxDelivery
begin

text \<open>
  Polling settles every entry. The attempts an outbox still allows its pending entries are a
  measure that each poll makes smaller while an entry is pending, whatever the receiving
  service answers; so after enough polls none is.
\<close>

section \<open>The attempts left\<close>

definition attempts_left :: "outbox_row \<Rightarrow> nat" where
  "attempts_left r = (if ox_status r = Pending then nat (MAX_ATTEMPTS - ox_attempts r) else 0)"

definition load :: "outbox_world \<Rightarrow> nat" where
  "load w = (\<Sum>r \<in> set (fst w). attempts_left r)"

definition sound_outbox :: "outbox_world \<Rightarrow> bool" where
  "sound_outbox w \<longleftrightarrow> distinct_keys outbox_cols outbox_unique (fst w) \<and> (\<forall>r \<in> set (fst w). outbox_row_ok r)"

lemma distinct_keys_distinct: "distinct_keys outbox_cols outbox_unique rows \<Longrightarrow> distinct rows"
  by (induction rows) (fastforce simp: list_all_iff outbox_unique_def)+

lemma attempts_left_pending: "outbox_row_ok r \<Longrightarrow> ox_status r = Pending \<longleftrightarrow> 0 < attempts_left r"
  by (auto simp: attempts_left_def outbox_row_ok_def)

lemma attempts_left_bound: "outbox_row_ok r \<Longrightarrow> attempts_left r \<le> 5"
  by (auto simp: attempts_left_def outbox_row_ok_def MAX_ATTEMPTS_def)

lemma attempts_left_settled:
  assumes "outbox_row_ok (outbox_toOrm e)" and "oe_status e = Pending"
  shows "attempts_left (outbox_toOrm (settled t r e)) < attempts_left (outbox_toOrm e)"
  using assms
  by (cases r) (auto simp: attempts_left_def outbox_row_ok_def settled_def markProcessed_def
      recordAttemptFailure_def MAX_ATTEMPTS_def Let_def)

lemma load_zero: "sound_outbox w \<Longrightarrow> load w = 0 \<longleftrightarrow> (\<forall>r \<in> set (fst w). ox_status r \<noteq> Pending)"
  by (auto simp: load_def sound_outbox_def attempts_left_pending)

lemma load_bound:
  assumes "sound_outbox w"
  shows "load w \<le> 5 * length (fst w)"
proof -
  have "load w \<le> (\<Sum>r \<in> set (fst w). 5)"
    unfolding load_def using assms by (intro sum_mono) (auto simp: sound_outbox_def attempts_left_bound)
  also have "\<dots> \<le> 5 * length (fst w)"
    using card_length [of "fst w"] by simp
  finally show ?thesis .
qed

lemma load_replace:
  assumes "set (fst w') = insert r' (set (fst w) - {r})" and "r \<in> set (fst w)"
    and "attempts_left r' < attempts_left r"
  shows "load w' < load w"
proof -
  have "load w' \<le> attempts_left r' + (\<Sum>x \<in> set (fst w) - {r}. attempts_left x)"
    unfolding load_def assms(1) by (cases "r' \<in> set (fst w) - {r}") (simp_all add: insert_absorb)
  also have "\<dots> < attempts_left r + (\<Sum>x \<in> set (fst w) - {r}. attempts_left x)"
    using assms(3) by simp
  also have "\<dots> = load w"
    unfolding load_def using assms(2) by (simp add: sum.remove)
  finally show ?thesis .
qed

section \<open>One entry\<close>

text \<open>A turn replaces the row of its entry, whether the call succeeds or not.\<close>

lemma process_entry_replaces:
  assumes send: "send (forward_command e) w = (x, (fst w, log'))"
    and w: "sound_outbox w" "outbox_toOrm e \<in> set (fst w)" "oe_status e = Pending"
  obtains w' where "process_entry (outbox_repository (outbox_list_table outbox_unique) now) send t e w = (Inr (), w')"
    and "sound_outbox w'" and "load w' < load w" and "ox_eventId ` set (fst w') = ox_eventId ` set (fst w)"
    and "set (fst w') = insert (outbox_toOrm (settled t x e)) (set (fst w) - {outbox_toOrm e})"
proof -
  let ?r = "outbox_toOrm (settled t x e)" and ?w = "(upsert outbox_cols (outbox_toOrm (settled t x e)) (fst w), log')"
  have keys: "\<forall>k \<in> set outbox_unique. outbox_cols ?r k = outbox_cols (outbox_toOrm e) k"
    by (simp add: outbox_unique_def outbox_cols_def)
  from w(1) have "distinct_keys outbox_cols outbox_unique (fst w)" by (simp add: sound_outbox_def)
  from distinct_keys_upsert [OF this w(2) keys]
  have up: "distinct_keys outbox_cols outbox_unique (fst ?w)"
    "set (fst ?w) = insert ?r (set (fst w) - {outbox_toOrm e})"
    by (simp_all add: outbox_unique_def)
  from w have ok: "outbox_row_ok (outbox_toOrm e)" by (simp add: sound_outbox_def)
  show ?thesis
  proof (rule that [of ?w])
    show "process_entry (outbox_repository (outbox_list_table outbox_unique) now) send t e w = (Inr (), ?w)"
      using up(1)
      by (simp add: process_entry_run send outbox_repository_def outbox_save_def
          outbox_list_table_def list_table_def write_rows_def andThen_run)
    show "sound_outbox ?w"
      using up w(1) settled_ok [OF ok w(3)] by (auto simp: sound_outbox_def)
    show "load ?w < load w"
      by (rule load_replace [OF up(2) w(2) attempts_left_settled [OF ok w(3)]])
    show "ox_eventId ` set (fst ?w) = ox_eventId ` set (fst w)"
      unfolding up(2) using w(2) by (force simp: image_iff)
    show "set (fst ?w) = insert ?r (set (fst w) - {outbox_toOrm e})"
      by (rule up(2))
  qed
qed

section \<open>One poll\<close>

lemma process_entries_drain:
  fixes cfg answer
  defines "send \<equiv> ingest cfg (logged_fetch answer)"
  assumes "sound_outbox w" and "distinct (map (outbox_toOrm \<circ> snd) es)"
    and "outbox_toOrm ` snd ` set es \<subseteq> set (fst w)" and "\<forall>(k, e) \<in> set es. oe_status e = Pending"
  shows "let w' = snd (for_each (\<lambda>(k, e).
           process_entry (outbox_repository (outbox_list_table outbox_unique) now) send (tm k) e) es w)
    in sound_outbox w' \<and> load w' + length es \<le> load w \<and> ox_eventId ` set (fst w') = ox_eventId ` set (fst w)"
  using assms(2-)
proof (induction es arbitrary: w)
  case (Cons x es)
  obtain k e where x: "x = (k, e)" by force
  obtain y w1 where run: "send (forward_command e) w = (y, w1)" by (metis surj_pair)
  then have "fst w1 = fst w" unfolding send_def by (rule ingest_logged(1))
  with run have send: "send (forward_command e) w = (y, (fst w, snd w1))" by (cases w1) simp
  have "outbox_toOrm e \<in> set (fst w)" and "oe_status e = Pending" using Cons.prems by (auto simp: x)
  from process_entry_replaces [where e = e and w = w and send = send and now = now and t = "tm k",
      OF send Cons.prems(1) this]
  obtain w' where step: "process_entry (outbox_repository (outbox_list_table outbox_unique) now) send (tm k) e w = (Inr (), w')"
    and w': "sound_outbox w'" "load w' < load w" "ox_eventId ` set (fst w') = ox_eventId ` set (fst w)"
    and rows: "set (fst w') = insert (outbox_toOrm (settled (tm k) y e)) (set (fst w) - {outbox_toOrm e})"
    by blast
  have "outbox_toOrm ` snd ` set es \<subseteq> set (fst w) - {outbox_toOrm e}"
    using Cons.prems(2,3) by (force simp: x image_iff)
  with rows have "outbox_toOrm ` snd ` set es \<subseteq> set (fst w')" by blast
  from Cons.IH [OF w'(1) _ this] Cons.prems(2,4) w'(2,3)
  show ?case by (auto simp: x andThen_run step Let_def)
qed simp

lemma poll_drains:
  fixes cfg answer
  assumes "sound_outbox w"
  shows "let w' = snd (processBatch (outbox_repository (outbox_list_table outbox_unique) now)
                         (ingest cfg (logged_fetch answer)) tm w)
    in sound_outbox w' \<and> load w' \<le> load w - 1 \<and> ox_eventId ` set (fst w') = ox_eventId ` set (fst w)"
proof -
  let ?R = "outbox_repository (outbox_list_table outbox_unique) now" and ?send = "ingest cfg (logged_fetch answer)"
  let ?found = "take 50 (pending_rows (fst w))"
  let ?es = "enumerate 0 (map (\<lambda>r. outbox_toDomain r now) ?found)"
  have batch: "processBatch ?R ?send tm w
      = for_each (\<lambda>(k, e). process_entry ?R ?send (tm k) e) ?es w"
    by (rule processBatch_listed)
  have rows_of: "map (outbox_toOrm \<circ> snd) ?es = ?found"
    by (simp flip: map_map) (simp add: o_def)
  have "distinct (fst w)"
    using assms by (auto simp: sound_outbox_def intro: distinct_keys_distinct)
  then have "distinct ?found" by (simp add: distinct_pending_rows)
  moreover have img: "outbox_toOrm ` snd ` set ?es = set ?found"
    using arg_cong [OF rows_of, of set] by (simp only: set_map image_comp)
  moreover have "set ?found \<subseteq> {r \<in> set (fst w). ox_status r = Pending}"
    using set_take_subset [of 50 "pending_rows (fst w)"] by simp
  ultimately have "let w' = snd (processBatch ?R ?send tm w)
    in sound_outbox w' \<and> load w' + length ?es \<le> load w \<and> ox_eventId ` set (fst w') = ox_eventId ` set (fst w)"
    unfolding batch
    by (intro process_entries_drain [OF assms]) (auto simp: rows_of in_set_enumerate_eq dest!: nth_mem)
  moreover have "length ?es = 0 \<Longrightarrow> load w = 0"
    using load_zero [OF assms] by (auto simp: pending_rows_empty min_def split: if_splits)
  ultimately show ?thesis by (cases "length ?es") (auto simp: Let_def)
qed

section \<open>A run of polls\<close>

definition polls ::
  "streaming_config \<Rightarrow> (exchange list \<Rightarrow> fetch_request \<Rightarrow> exn + fetch_response) \<Rightarrow> (nat \<Rightarrow> time)
     \<Rightarrow> (nat \<Rightarrow> nat \<Rightarrow> time) \<Rightarrow> nat \<Rightarrow> outbox_world \<Rightarrow> outbox_world" where
  "polls cfg answer now tm n w =
     fold (\<lambda>k w. snd (processBatch (outbox_repository (outbox_list_table outbox_unique) (now k))
                       (ingest cfg (logged_fetch answer)) (tm k) w)) [0..<n] w"

lemma polls_Suc:
  "polls cfg answer now tm (Suc n) w
     = snd (processBatch (outbox_repository (outbox_list_table outbox_unique) (now n))
         (ingest cfg (logged_fetch answer)) (tm n) (polls cfg answer now tm n w))"
  by (simp add: polls_def)

lemma polls_reach:
  "outbox_reach outbox_unique cfg answer w \<Longrightarrow> outbox_reach outbox_unique cfg answer (polls cfg answer now tm n w)"
proof (induction n)
  case 0
  then show ?case by (simp add: polls_def)
next
  case (Suc n)
  then show ?case unfolding polls_Suc by (intro outbox_reach.poll)
qed

lemma polls_drain:
  assumes "sound_outbox w"
  shows "sound_outbox (polls cfg answer now tm n w) \<and> load (polls cfg answer now tm n w) \<le> load w - n
    \<and> ox_eventId ` set (fst (polls cfg answer now tm n w)) = ox_eventId ` set (fst w)"
proof (induction n)
  case 0
  with assms show ?case by (simp add: polls_def)
next
  case (Suc n)
  then have "sound_outbox (polls cfg answer now tm n w)" by blast
  from poll_drains [OF this, of "now n" cfg answer "tm n"] Suc.IH
  show ?case by (auto simp: polls_Suc Let_def)
qed

text \<open>Publishing keeps the table sound.\<close>

lemma outbox_reach_sound: "outbox_reach outbox_unique cfg answer w \<Longrightarrow> sound_outbox w"
proof (induction rule: outbox_reach.induct)
  case (empty log)
  then show ?case by (simp add: sound_outbox_def)
next
  case (publish w now ev t i n1 n2)
  then show ?case
    using outbox_create_ok [of ev t i n1 n2]
    by (auto simp: sound_outbox_def outbox_repository_def outbox_append_def outbox_list_table_def
        list_table_def write_rows_def)
next
  case (poll w now tm)
  from poll_drains [OF poll.IH, of now cfg answer tm] show ?case by (simp add: Let_def)
qed

lemma distinct_keys_append:
  assumes "distinct_keys outbox_cols outbox_unique rows"
    and "ox_id r \<notin> ox_id ` set rows" and "ox_eventId r \<notin> ox_eventId ` set rows"
  shows "distinct_keys outbox_cols outbox_unique (rows @ [r])"
  using assms by (induction rows) (auto simp: outbox_unique_def outbox_cols_def list_all_iff)

section \<open>Everything settles\<close>

lemma polls_settle:
  assumes "outbox_reach outbox_unique cfg answer w" and "5 * length (fst w) \<le> n"
  shows "ox_eventId ` set (fst (polls cfg answer now tm n w)) = ox_eventId ` set (fst w) \<and>
    list_all (\<lambda>r. ox_status r = Processed \<and> ox_eventId r \<in> accepted_ids (polls cfg answer now tm n w)
        \<or> ox_status r = Failed \<and> ox_attempts r = 5) (fst (polls cfg answer now tm n w))"
proof -
  let ?w' = "polls cfg answer now tm n w"
  have sound: "sound_outbox w" by (rule outbox_reach_sound [OF assms(1)])
  from polls_drain [OF sound] load_bound [OF sound] assms(2)
  have drained: "sound_outbox ?w'" "load ?w' = 0" "ox_eventId ` set (fst ?w') = ox_eventId ` set (fst w)"
    by (metis diff_is_0_eq le_trans le_zero_eq)+
  have "outbox_http.delivered ?w'"
    by (rule outbox_reach_delivered [OF polls_reach [OF assms(1)]])
  moreover have "\<forall>r \<in> set (fst ?w'). ox_status r \<noteq> Pending"
    using drained load_zero by blast
  ultimately have "ox_status r = Processed \<and> ox_eventId r \<in> accepted_ids ?w' \<or> ox_status r = Failed \<and> ox_attempts r = 5"
    if "r \<in> set (fst ?w')" for r
    using that by (cases "ox_status r") (auto simp: outbox_http.delivered_def outbox_row_ok_def MAX_ATTEMPTS_def)
  with drained(3) show ?thesis by (simp add: list_all_iff)
qed

end
