(* ===== verification/OutboxInterleaving.thy ===== *)
theory OutboxInterleaving
  imports OutboxDelivery
begin

text \<open>
  Polls that overlap. The timer of the processor starts a poll every five seconds whether or not
  the previous one has returned, and several instances of the platform poll one table; nothing
  locks the entries a poll has fetched. A poll gives way at each call it waits for: the fetch,
  each forwarding request, each save. Between two of them any other poll or request may run.
\<close>

section \<open>Steps\<close>

text \<open>
  What a poll holds between two calls: the entries still to forward, or in addition the entry it
  has just settled and is about to save.
\<close>

datatype poller = Ready "outbox_entry list" | Saving outbox_entry "outbox_entry list"

inductive poll_step ::
  "'w outbox_port \<Rightarrow> (ingest_command \<Rightarrow> ('w, unit) io) \<Rightarrow> 'w \<times> poller list \<Rightarrow> 'w \<times> poller list \<Rightarrow> bool"
  for R send where
  publish: "poll_step R send (w, ps) (snd (ob_append R (outbox_create ev t i n1 n2) w), ps)"
| fetch: "ob_findPending R BATCH_SIZE w = (Inr es, w') \<Longrightarrow> poll_step R send (w, ps) (w', ps @ [Ready es])"
| forward: "k < length ps \<Longrightarrow> ps ! k = Ready (e # es) \<Longrightarrow> attempt_entry send t e w = (Inr e', w')
    \<Longrightarrow> poll_step R send (w, ps) (w', ps[k := Saving e' es])"
| store: "k < length ps \<Longrightarrow> ps ! k = Saving e es
    \<Longrightarrow> store_entry R e w = (u, w') \<Longrightarrow> poll_step R send (w, ps) (w', ps[k := Ready es])"

inductive_cases poll_stepE: "poll_step R send s s'"

section \<open>A poll on its own is a run of these steps\<close>

lemma forward_store:
  assumes "k < length ps" and "ps ! k = Ready (e # es)"
  shows "(poll_step R send)\<^sup>*\<^sup>* (w, ps) (snd (process_entry R send t e w), ps[k := Ready es])"
proof -
  obtain r w1 where send: "send (forward_command e) w = (r, w1)" by force
  let ?e = "settled t r e"
  let ?ps = "ps[k := Saving ?e es]"
  have "attempt_entry send t e w = (Inr ?e, w1)" by (simp add: attempt_entry_run send)
  then have "(poll_step R send)\<^sup>*\<^sup>* (w, ps) (w1, ?ps)"
    by (intro r_into_rtranclp poll_step.forward [OF assms])
  also have "poll_step R send (w1, ?ps) (snd (ob_save R ?e w1), ?ps[k := Ready es])"
    by (rule store [OF _ _ store_entry_run]) (use assms in simp_all)
  finally show ?thesis
    by (simp add: process_entry_run send)
qed

lemma entries_run:
  "(poll_step R send)\<^sup>*\<^sup>* (w, ps @ [Ready (map snd es)])
     (snd (for_each (\<lambda>(k, e). process_entry R send (tm k) e) es w), ps @ [Ready []])"
proof (induction es arbitrary: w)
  case (Cons x es)
  obtain k e where x: "x = (k, e)" by force
  let ?w = "snd (process_entry R send (tm k) e w)"
  have run: "process_entry R send (tm k) e w = (Inr (), ?w)"
    by (simp add: process_entry_run split: prod.split)
  have "(poll_step R send)\<^sup>*\<^sup>* (w, ps @ [Ready (map snd (x # es))]) (?w, ps @ [Ready (map snd es)])"
    using forward_store [of "length ps" "ps @ [Ready (map snd (x # es))]" e "map snd es" R send w "tm k"]
    by (simp add: x)
  also note Cons.IH [of ?w]
  finally show ?case
    by (simp add: x andThen_run_Inr [where m = "process_entry R send (tm k) e", OF run])
qed simp

lemma poll_runs:
  assumes "ob_findPending R BATCH_SIZE w = (Inr es, w')"
  shows "(poll_step R send)\<^sup>*\<^sup>* (w, ps) (snd (processBatch R send tm w), ps @ [Ready []])"
proof -
  have "(poll_step R send)\<^sup>*\<^sup>* (w, ps) (w', ps @ [Ready es])"
    by (rule r_into_rtranclp, rule fetch [OF assms])
  also have "(poll_step R send)\<^sup>*\<^sup>* (w', ps @ [Ready es])
      (snd (for_each (\<lambda>(k, e). process_entry R send (tm k) e) (enumerate 0 es) w'), ps @ [Ready []])"
    using entries_run [of R send w' ps "enumerate 0 es" tm] by simp
  finally show ?thesis
    using assms by (simp add: processBatch_def andThen_run try_catch_run)
qed

text \<open>Two polls that fetch the same entry before either of them saves it.\<close>

lemma two_polls_run:
  assumes find: "ob_findPending R BATCH_SIZE w = (Inr [e], w)"
  shows "(poll_step R send)\<^sup>*\<^sup>* (w, [])
     (snd (process_entry R send t2 e (snd (process_entry R send t1 e w))), [Ready [], Ready []])"
proof -
  let ?w = "snd (process_entry R send t1 e w)"
  have "(poll_step R send)\<^sup>*\<^sup>* (w, []) (w, [Ready [e], Ready [e]])"
    using poll_step.fetch [OF find, of send "[]"] poll_step.fetch [OF find, of send "[Ready [e]]"]
    by (simp add: converse_rtranclp_into_rtranclp)
  also have "(poll_step R send)\<^sup>*\<^sup>* (w, [Ready [e], Ready [e]]) (?w, [Ready [], Ready [e]])"
    using forward_store [of 0 "[Ready [e], Ready [e]]" e "[]" R send w t1] by simp
  also have "(poll_step R send)\<^sup>*\<^sup>* (?w, [Ready [], Ready [e]])
      (snd (process_entry R send t2 e ?w), [Ready [], Ready []])"
    using forward_store [of 1 "[Ready [], Ready [e]]" e "[]" R send ?w t2] by simp
  finally show ?thesis .
qed

section \<open>What holds in every interleaving\<close>

context outbox_delivery
begin

definition poller_ok :: "'a \<Rightarrow> poller \<Rightarrow> bool" where
  "poller_ok w p \<longleftrightarrow> (case p of
     Ready es \<Rightarrow> \<forall>e \<in> set es. outbox_row_ok (outbox_toOrm e) \<and> oe_status e = Pending
   | Saving e' es \<Rightarrow> outbox_row_ok (outbox_toOrm e') \<and> (oe_status e' = Processed \<longrightarrow> oe_eventId e' \<in> accepted w)
       \<and> (\<forall>e \<in> set es. outbox_row_ok (outbox_toOrm e) \<and> oe_status e = Pending))"

definition all_ok :: "'a \<times> poller list \<Rightarrow> bool" where
  "all_ok s \<longleftrightarrow> delivered (fst s) \<and> (\<forall>p \<in> set (snd s). poller_ok (fst s) p)"

lemma poller_ok_mono: "poller_ok w p \<Longrightarrow> accepted w \<subseteq> accepted w' \<Longrightarrow> poller_ok w' p"
  by (auto simp: poller_ok_def split: poller.splits)

lemma delivered_mono:
  "delivered w \<Longrightarrow> rows w' = rows w \<Longrightarrow> accepted w \<subseteq> accepted w' \<Longrightarrow> delivered w'"
  by (auto simp: delivered_def)

lemma all_ok_update:
  assumes "all_ok (w, ps)" and "delivered w'" and "accepted w \<subseteq> accepted w'" and "poller_ok w' p"
  shows "all_ok (w', ps[k := p])"
  using assms(1,2,4) poller_ok_mono [OF _ assms(3)] set_update_subset_insert [of ps k p]
  by (auto simp: all_ok_def)

lemma poll_publish_ok:
  assumes "all_ok (w, ps)"
  shows "all_ok (snd (ob_append R (outbox_create ev t i n1 n2) w), ps)"
proof -
  let ?w = "snd (ob_append R (outbox_create ev t i n1 n2) w)"
  have "poller_ok ?w p" if "poller_ok w p" for p
    by (rule poller_ok_mono [OF that]) (simp add: store_accepted)
  then show ?thesis
    using assms append_delivered by (auto simp: all_ok_def)
qed

lemma poll_fetch_ok:
  assumes "all_ok (w, ps)" and find: "ob_findPending R BATCH_SIZE w = (Inr es, w')"
  shows "all_ok (w', ps @ [Ready es])"
proof -
  have same: "rows w' = rows w" "accepted w' = accepted w"
    using find pending_keeps store_accepted(2) [of BATCH_SIZE w] by simp_all
  have d: "delivered w" using assms(1) by (simp add: all_ok_def)
  have "poller_ok w' (Ready es)"
    using pending_only [OF find] d by (auto simp: poller_ok_def delivered_def)
  moreover have "poller_ok w' p" if "poller_ok w p" for p
    by (rule poller_ok_mono [OF that]) (simp add: same)
  ultimately show ?thesis
    using assms(1) same delivered_mono [OF d same(1)] by (auto simp: all_ok_def)
qed

lemma poll_forward_ok:
  assumes "all_ok (w, ps)" and "k < length ps" and "ps ! k = Ready (e # es)"
    and "attempt_entry send t e w = (Inr e', w')"
  shows "all_ok (w', ps[k := Saving e' es])"
proof -
  obtain r where r: "send (forward_command e) w = (r, w')" "e' = settled t r e"
    using assms(4) by (auto simp: attempt_entry_run split: prod.splits)
  have "poller_ok w (Ready (e # es))"
    using assms(1-3) by (metis all_ok_def fst_conv nth_mem snd_conv)
  then have e: "outbox_row_ok (outbox_toOrm e)" "oe_status e = Pending"
    and es: "\<forall>e \<in> set es. outbox_row_ok (outbox_toOrm e) \<and> oe_status e = Pending"
    by (auto simp: poller_ok_def)
  have "oe_eventId e \<in> accepted w'" if "oe_status (settled t r e) = Processed"
    using that send_ok r(1) by (auto simp: settled_processed [OF e(2)])
  with settled_ok [OF e] es have "poller_ok w' (Saving e' es)"
    by (simp add: poller_ok_def r(2))
  moreover have "delivered w'"
    using assms(1) r(1) send_rows send_mono delivered_mono by (metis all_ok_def fst_conv)
  ultimately show ?thesis
    using assms(1) r(1) send_mono all_ok_update by metis
qed

lemma poll_store_ok:
  assumes "all_ok (w, ps)" and "k < length ps" and "ps ! k = Saving e es"
    and "store_entry R e w = (u, w')"
  shows "all_ok (w', ps[k := Ready es])"
proof -
  have w': "w' = snd (ob_save R e w)" using assms(4) by (simp add: store_entry_run)
  have p: "poller_ok w (Saving e es)"
    using assms(1-3) by (metis all_ok_def fst_conv nth_mem snd_conv)
  then have "delivered w'"
    using assms(1)
    by (auto simp: w' all_ok_def delivered_def poller_ok_def store_accepted dest!: save_rows)
  then show ?thesis
    using assms(1) p all_ok_update [of w ps w' "Ready es" k]
    by (simp add: poller_ok_def store_accepted w')
qed

lemma poll_step_ok: "poll_step R send s s' \<Longrightarrow> all_ok s \<Longrightarrow> all_ok s'"
  by (induction rule: poll_step.induct)
    (auto intro: poll_publish_ok poll_fetch_ok poll_forward_ok poll_store_ok)

end

section \<open>Reachable states\<close>

text \<open>
  The states any interleaving of requests and polls reaches from an empty outbox, with the
  entries the polls hold. It includes the states that polls one after another reach.
\<close>

inductive interleaved ::
  "string list \<Rightarrow> streaming_config \<Rightarrow> (exchange list \<Rightarrow> fetch_request \<Rightarrow> exn + fetch_response)
     \<Rightarrow> outbox_world \<times> poller list \<Rightarrow> bool" for ks cfg answer where
  empty: "interleaved ks cfg answer (([], log), [])"
| step: "interleaved ks cfg answer s
    \<Longrightarrow> poll_step (outbox_repository (outbox_list_table ks) now) (ingest cfg (logged_fetch answer)) s s'
    \<Longrightarrow> interleaved ks cfg answer s'"

lemma interleaved_ok: "interleaved ks cfg answer s \<Longrightarrow> outbox_http.all_ok s"
proof (induction rule: interleaved.induct)
  case (empty log)
  then show ?case by (simp add: outbox_http.all_ok_def outbox_http.delivered_def)
next
  case (step s now s')
  from step.hyps(2) step.IH show ?case by (rule outbox_http.poll_step_ok)
qed

lemma interleaved_run:
  assumes "(poll_step (outbox_repository (outbox_list_table ks) now) (ingest cfg (logged_fetch answer)))\<^sup>*\<^sup>* s s'"
    and "interleaved ks cfg answer s"
  shows "interleaved ks cfg answer s'"
  using assms by (induction rule: rtranclp_induct) (auto intro: interleaved.step)

lemma outbox_reach_interleaved: "outbox_reach ks cfg answer w \<Longrightarrow> \<exists>ps. interleaved ks cfg answer (w, ps)"
proof (induction rule: outbox_reach.induct)
  case (empty log)
  then show ?case by (blast intro: interleaved.empty)
next
  case publish
  then show ?case by (blast intro: interleaved.step poll_step.publish)
next
  case (poll w now tm)
  then obtain ps where "interleaved ks cfg answer (w, ps)" by blast
  with poll_runs [OF findPending_listed] show ?case by (blast intro: interleaved_run)
qed

end
