(* ===== verification/PayloadConformance.thy ===== *)
theory PayloadConformance
  imports Identity AuditTrail WorkflowExecution
begin

text \<open>
  The events the platform builds against the payload types of their contracts, one lemma per
  kind of event.
\<close>

lemmas conformance = meets_contract_def event_contracts_def event_type_defs conforms_def payload_types

lemma audit_recorded_conforms: "meets_contract (audit_recorded_event ae)"
  by (cases "ae_outcome ae") (simp_all add: conformance audit_recorded_event_def audit_event_recorded_payload_def)

lemma user_registered_conforms: "meets_contract (user_registered_event u c n1 n2)"
  by (simp add: conformance user_registered_event_def user_registered_payload_def)

lemma workflow_triggered_conforms: "meets_contract (workflow_triggered_event cmd d x n)"
  by (cases "ex_triggerType x") (simp_all add: conformance workflow_triggered_event_def workflow_triggered_payload_def)

lemma integration_event_simps [simp]:
  "te_eventType (integration_event t de) = t" "te_payload (integration_event t de) = de_payload de"
  by (simp_all add: integration_event_def)

lemma tenant_created_conforms:
  assumes "org_create name slug tier ownerId corr i j t1 t2 t3 = Inr (org :: organization)"
  shows "\<exists>e. domain_events org = [e] \<and> meets_contract (integration_event TENANT_CREATED e)"
  using assms
  by (auto simp: org_create_def Let_def addDomainEvent_def new_domain_event_def conformance
      tenant_created_payload_def split: sum.splits)

lemma tenant_provisioned_differs:
  assumes "org_markProvisioned project corr i t1 t2 t3 org = Inr (org' :: organization)"
  shows "\<exists>e. domain_events org' = domain_events org @ [e] \<and> \<not> meets_contract (integration_event TENANT_PROVISIONED e)"
  using assms
  by (auto simp: org_markProvisioned_def Let_def addDomainEvent_def new_domain_event_def touch_def
      conformance tenant_provisioned_payload_def split: if_splits)

lemma tenant_suspended_conforms:
  assumes "org_suspend reason who corr i t1 t2 t3 org = Inr (org' :: organization)"
  shows "\<exists>e. domain_events org' = domain_events org @ [e] \<and> meets_contract (integration_event TENANT_SUSPENDED e)"
  using assms
  by (auto simp: org_suspend_def Let_def addDomainEvent_def new_domain_event_def touch_def
      conformance tenant_suspended_payload_def split: if_splits)

end
