(* ===== verification/EventProperties.thy ===== *)
theory EventProperties
  imports Samples Lifecycle Schema OutboxDrain OutboxInterleaving PayloadConformance
begin

text \<open>
  Events from the bus to the event backbone and back, the database schema, and the dashboard
  series.
\<close>

section \<open>The outbox\<close>

text \<open>
  C28: in every state that publishing and polling reach from an empty outbox, however polls
  overlap and whatever the receiving service answers, an entry is marked processed only if the
  service accepted an event with its id; an entry has failed exactly when its five attempts are
  used up.
\<close>

theorem outbox_no_loss:
  assumes "interleaved ks cfg answer (w, ps)" and "r \<in> set (fst w)"
  shows "outbox_row_ok r \<and> (ox_status r = Processed \<longrightarrow> ox_eventId r \<in> accepted_ids w)"
  using interleaved_ok [OF assms(1)] assms(2) by (simp add: outbox_http.all_ok_def outbox_http.delivered_def)

definition sample_streaming :: streaming_config where
  "sample_streaming = \<lparr>cfg_baseUrl = ''http://events'', cfg_apiToken = ''t'', cfg_timeoutMs = 5000\<rparr>"

definition answering :: "int \<Rightarrow> exchange list \<Rightarrow> fetch_request \<Rightarrow> exn + fetch_response" where
  "answering status log req = Inr \<lparr>resp_status = status, resp_text = Inr []\<rparr>"

definition sample_event :: "string \<Rightarrow> tenant_aware_event" where
  "sample_event i = user_registered_event (sample_user\<lparr>ent_id := i\<rparr>) ''c'' 0 0"

definition sample_outbox_row :: "string \<Rightarrow> outbox_row" where
  "sample_outbox_row i = outbox_toOrm (outbox_create (sample_event i) 1 (''o'' @ i) 2 3)"

theorem outbox_no_loss_witness:
  "''e1'' \<in> accepted_ids (snd (processBatch (outbox_repository (outbox_list_table outbox_unique) 0)
       (ingest sample_streaming (logged_fetch (answering 202))) int ([sample_outbox_row ''e1''], [])))"
proof -
  let ?R = "outbox_repository (outbox_list_table outbox_unique) 0"
  let ?w = "snd (processBatch ?R (ingest sample_streaming (logged_fetch (answering 202))) int ([sample_outbox_row ''e1''], []))"
  have "snd (ob_append ?R (outbox_create (sample_event ''e1'') 1 ''oe1'' 2 3) ([], [])) = ([sample_outbox_row ''e1''], [])"
    by code_simp
  then have "outbox_reach outbox_unique sample_streaming (answering 202) ([sample_outbox_row ''e1''], [])"
    using outbox_reach.publish [OF outbox_reach.empty] by metis
  then have reach: "outbox_reach outbox_unique sample_streaming (answering 202) ?w"
    by (rule outbox_reach.poll)
  have "list_ex (\<lambda>r. ox_status r = Processed \<and> ox_eventId r = ''e1'') (fst ?w)"
    by code_simp
  then obtain r where "r \<in> set (fst ?w)" "ox_status r = Processed" "ox_eventId r = ''e1''"
    by (auto simp only: list_ex_iff)
  moreover from reach obtain ps where "interleaved outbox_unique sample_streaming (answering 202) (?w, ps)"
    using outbox_reach_interleaved by blast
  ultimately show ?thesis using outbox_no_loss by metis
qed



text \<open>A poll of an outbox with one entry.\<close>

lemma poll_one_refused:
  assumes "cfg_baseUrl cfg \<noteq> []" and "\<And>log req r. answer log req = Inr r \<Longrightarrow> \<not> resp_ok r" and "ox_status r = Pending"
  shows "\<exists>m log'. processBatch (outbox_repository (outbox_list_table outbox_unique) now)
      (ingest cfg (logged_fetch answer)) tm ([r], log)
    = (Inr (), ([outbox_toOrm (recordAttemptFailure m MAX_ATTEMPTS (outbox_toDomain r now))], log'))"
proof -
  let ?R = "outbox_repository (outbox_list_table outbox_unique) now" and ?e = "outbox_toDomain r now"
  have find: "ob_findPending ?R BATCH_SIZE ([r], log) = (Inr [?e], ([r], log))"
    using assms(3)
    by (simp add: findPending_listed pending_rows_def BATCH_SIZE_def)
  obtain x w1 where send: "ingest cfg (logged_fetch answer) (forward_command ?e) ([r], log) = (x, w1)"
    by (metis surj_pair)
  have "fst w1 = [r]" using ingest_logged(1) [OF send] by simp
  moreover have "\<not> (\<exists>u. x = Inr u)"
    using send assms(2) ingest_ok_iff [of cfg "logged_fetch answer" "forward_command ?e" "([r], log)" w1]
    by (auto simp: logged_fetch_def)
  then obtain y where y: "x = Inl y" by (cases x) auto
  ultimately obtain log' where w1: "w1 = ([r], log')" by (cases w1) auto
  have "ent_id ?e = ox_id r" using outbox_toOrm_simps(1) [of ?e] by simp
  with send w1 have "process_entry ?R (ingest cfg (logged_fetch answer)) (tm 0) ?e ([r], log)
      = (Inr (), ([outbox_toOrm (recordAttemptFailure (exn_message y) MAX_ATTEMPTS ?e)], log'))"
    by (simp add: process_entry_one settled_def y)
  with find show ?thesis
    by (auto simp: processBatch_def andThen_run try_catch_run)
qed

lemma poll_one_settled:
  assumes "ox_status r \<noteq> Pending"
  shows "processBatch (outbox_repository (outbox_list_table outbox_unique) now) send tm ([r], log)
    = (Inr (), ([r], log))"
proof -
  let ?R = "outbox_repository (outbox_list_table outbox_unique) now"
  have "ob_findPending ?R BATCH_SIZE ([r], log) = (Inr [], ([r], log))"
    using assms
    by (simp add: findPending_listed pending_rows_def BATCH_SIZE_def)
  then show ?thesis by (simp add: processBatch_def andThen_run try_catch_run)
qed

lemma refused_row:
  "oe_attempts (recordAttemptFailure m MAX_ATTEMPTS (outbox_toDomain r now)) = ox_attempts r + 1"
  "oe_eventId (recordAttemptFailure m MAX_ATTEMPTS (outbox_toDomain r now)) = ox_eventId r"
  "oe_status (recordAttemptFailure m MAX_ATTEMPTS (outbox_toDomain r now))
     = (if ox_attempts r + 1 \<ge> 5 then Failed else ox_status r)"
  by (simp_all add: recordAttemptFailure_def outbox_toDomain_def entity.defs MAX_ATTEMPTS_def Let_def)

text \<open>
  While the service refuses, an entry is tried at most five times. After \<open>n\<close> polls it
  has \<open>min n 5\<close> attempts; it stays pending before the fifth and is failed from then on, and
  no later poll picks it up again.
\<close>

lemma retries_bounded:
  assumes "cfg_baseUrl cfg \<noteq> []" and "\<And>log req r. answer log req = Inr r \<Longrightarrow> \<not> resp_ok r"
  shows "\<exists>row log'. polls cfg answer now tm n ([outbox_toOrm (outbox_create ev t i n1 n2)], log) = ([row], log')
    \<and> ox_attempts row = min (int n) 5 \<and> ox_status row = (if n < 5 then Pending else Failed)
    \<and> ox_eventId row = te_eventId ev"
proof (induction n)
  case 0
  show ?case by (simp add: polls_def outbox_create_def entity.defs)
next
  case (Suc n)
  let ?start = "([outbox_toOrm (outbox_create ev t i n1 n2)], log)"
  from Suc obtain row log' where row: "polls cfg answer now tm n ?start = ([row], log')"
    "ox_attempts row = min (int n) 5" "ox_status row = (if n < 5 then Pending else Failed)"
    "ox_eventId row = te_eventId ev"
    by blast
  have step: "polls cfg answer now tm (Suc n) ?start
      = snd (processBatch (outbox_repository (outbox_list_table outbox_unique) (now n))
          (ingest cfg (logged_fetch answer)) (tm n) ([row], log'))"
    using row(1) by (simp add: polls_def)
  show ?case
  proof (cases "n < 5")
    case True
    with row(3) have "ox_status row = Pending" by simp
    have "\<exists>m log''. processBatch (outbox_repository (outbox_list_table outbox_unique) (now n))
        (ingest cfg (logged_fetch answer)) (tm n) ([row], log')
      = (Inr (), ([outbox_toOrm (recordAttemptFailure m MAX_ATTEMPTS (outbox_toDomain row (now n)))], log''))"
      by (rule poll_one_refused [OF assms(1) _ \<open>ox_status row = Pending\<close>]) (rule assms(2))
    then obtain m log'' where
      "polls cfg answer now tm (Suc n) ?start
        = ([outbox_toOrm (recordAttemptFailure m MAX_ATTEMPTS (outbox_toDomain row (now n)))], log'')"
      unfolding step by auto
    then show ?thesis
      using True row by (auto simp: refused_row)
  next
    case False
    with row(3) have "ox_status row \<noteq> Pending" by simp
    from poll_one_settled [OF this] step have "polls cfg answer now tm (Suc n) ?start = ([row], log')" by simp
    then show ?thesis using False row by auto
  qed
qed

lemma retries_bounded_witness:
  "\<exists>row log'. polls sample_streaming (answering 503) (\<lambda>k. 0) (\<lambda>k j. 0) 7
      ([outbox_toOrm (outbox_create (sample_event ''e1'') 1 ''o1'' 2 3)], []) = ([row], log')
    \<and> ox_attempts row = 5 \<and> ox_status row = Failed \<and> ox_eventId row = te_eventId (sample_event ''e1'')"
proof -
  have up: "cfg_baseUrl sample_streaming \<noteq> []"
    by (simp add: sample_streaming_def)
  have refuse: "\<not> resp_ok r" if "answering 503 log req = Inr r" for log req r
    using that by (auto simp: answering_def resp_ok_def)
  have "\<exists>row log'. polls sample_streaming (answering 503) (\<lambda>k. 0) (\<lambda>k j. 0) 7
      ([outbox_toOrm (outbox_create (sample_event ''e1'') 1 ''o1'' 2 3)], []) = ([row], log')
    \<and> ox_attempts row = min (int 7) 5 \<and> ox_status row = (if (7 :: nat) < 5 then Pending else Failed)
    \<and> ox_eventId row = te_eventId (sample_event ''e1'')"
    by (rule retries_bounded [OF up refuse])
  then show ?thesis by simp
qed

text \<open>
  C31: what the platform publishes has the type its contract declares: the audit, registration
  and workflow events always, and the events of a created and of a suspended organization. The
  event of a provisioned organization does not: it lacks the required \<open>resourcesCreated\<close>.
\<close>

theorem payloads_meet_contracts:
  assumes "org_create name slug tier ownerId c1 i1 j1 t1 t2 t3 = Inr (org1 :: organization)"
    and "org_markProvisioned project c2 i2 t4 t5 t6 org1 = Inr org2"
    and "org_suspend reason who c3 i3 t7 t8 t9 org2 = Inr org3"
  shows "meets_contract (audit_recorded_event ae) \<and> meets_contract (user_registered_event u c n1 n2)
    \<and> meets_contract (workflow_triggered_event cmd d x n3)
    \<and> (\<exists>e1 e2 e3. domain_events org3 = [e1, e2, e3]
        \<and> meets_contract (integration_event TENANT_CREATED e1)
        \<and> \<not> meets_contract (integration_event TENANT_PROVISIONED e2)
        \<and> meets_contract (integration_event TENANT_SUSPENDED e3))"
  using tenant_created_conforms [OF assms(1)] tenant_provisioned_differs [OF assms(2)]
    tenant_suspended_conforms [OF assms(3)]
  by (auto simp: audit_recorded_conforms user_registered_conforms workflow_triggered_conforms)

theorem payloads_meet_contracts_witness:
  "\<exists>org1 org2 org3 e1 e2 e3. org_create ''Acme'' ''acme'' FREE ''u1'' ''c'' ''o1'' ''e1'' 1 2 3 = Inr (org1 :: organization)
    \<and> org_markProvisioned ''p1'' ''c'' ''e2'' 4 5 6 org1 = Inr org2
    \<and> org_suspend ''unpaid'' ''u1'' ''c'' ''e3'' 7 8 9 org2 = Inr org3
    \<and> domain_events org3 = [e1, e2, e3]"
proof -
  have "slug_create ''acme'' = Inr (TenantSlug ''acme'')" by code_simp
  then obtain org1 :: organization where one: "org_create ''Acme'' ''acme'' FREE ''u1'' ''c'' ''o1'' ''e1'' 1 2 3 = Inr org1"
    and "org_status org1 = PROVISIONING"
    by (simp add: org_create_def Let_def)
  then obtain org2 where two: "org_markProvisioned ''p1'' ''c'' ''e2'' 4 5 6 org1 = Inr org2" and "org_status org2 = ACTIVE"
    by (simp add: org_markProvisioned_def Let_def touch_def)
  then obtain org3 where three: "org_suspend ''unpaid'' ''u1'' ''c'' ''e3'' 7 8 9 org2 = Inr org3"
    by (simp add: org_suspend_def Let_def)
  from payloads_meet_contracts [OF one two three, THEN conjunct2, THEN conjunct2, THEN conjunct2]
  obtain e1 e2 e3 where "domain_events org3 = [e1, e2, e3]" by blast
  with one two three show ?thesis by blast
qed

section \<open>From the bus to the backbone\<close>





text \<open>
  The in-memory bus never fails. Every handler of the event's type runs, in the order of
  subscription and each in the world the previous one left, also after one that threw; a batch
  delivers its events one after the other.
\<close>

lemma in_memory_delivers_all:
  "inmem_publish m event w = (Inr (), delivered_to event (handlers_get m (te_eventType event)) w)
   \<and> inmem_publishBatch m events w
     = (Inr (), fold (\<lambda>e. delivered_to e (handlers_get m (te_eventType e))) events w)"
  by (simp add: inmem_publish_run inmem_publishBatch_run)

text \<open>
  C34: an event published on a Redis stream comes back with everything a message has a field
  for; the batch form also loses the actor, the version and the source service.
\<close>

theorem redis_round_trip:
  assumes "parse_object J (stringify J (te_payload e)) = Inr (te_payload e)"
  shows "deserializeEvent J (redis_fields J e) = Inr (carried e)
    \<and> deserializeEvent J (redis_batch_fields J e) = Inr (carried_in_batch e)"
  by (intro conjI deserialize_redis_fields deserialize_batch_fields assms)

text \<open>For the witness, a text form of objects whose members are strings without \<open>=\<close> and \<open>;\<close>.\<close>

fun split_on :: "char \<Rightarrow> string \<Rightarrow> string list" where
  "split_on c [] = [[]]"
| "split_on c (x # xs) =
     (if x = c then [] # split_on c xs
      else (case split_on c xs of [] \<Rightarrow> [[x]] | y # ys \<Rightarrow> (x # y) # ys))"

definition flat_text :: json_text where
  "flat_text =
     \<lparr>stringify = (\<lambda>ob. concat (map (\<lambda>(k, v). case v of JStr s \<Rightarrow> k @ ''='' @ s @ '';'' | _ \<Rightarrow> []) ob)),
      parse_object = (\<lambda>t. Inr (map (\<lambda>m. (takeWhile (\<lambda>c. c \<noteq> CHR ''='') m,
         JStr (tl (dropWhile (\<lambda>c. c \<noteq> CHR ''='') m)))) (butlast (split_on (CHR '';'') t)))), js_undefined = [], js_nan = 0\<rparr>"

theorem redis_round_trip_witness:
  "deserializeEvent flat_text (redis_fields flat_text (sample_event ''e1'')) = Inr (carried (sample_event ''e1''))"
proof -
  have "parse_object flat_text (stringify flat_text (te_payload (sample_event ''e1'')))
      = Inr (te_payload (sample_event ''e1''))"
    by code_simp
  then show ?thesis by (rule redis_round_trip [THEN conjunct1])
qed

text \<open>
  C35: a message is acknowledged exactly when all handlers succeed on it: then the last thing
  that happens is the acknowledgement, and otherwise the acknowledgement is not called, so
  replacing it by any other operation changes nothing.
\<close>

theorem acknowledged_iff_handled:
  "if all_succeed event hs w
   then dispatchToHandlers C cfg J event hs key i tm w = xack C key (consumerGroup cfg) i (delivered_to event hs w)
   else dispatchToHandlers C cfg J event hs key i tm w
      = dispatchToHandlers (C\<lparr>xack := ack\<rparr>) cfg J event hs key i tm w"
proof (cases "all_succeed event hs w")
  case True
  from dispatch_acked [OF True] True show ?thesis by (simp only: if_True)
next
  case False
  from dispatch_not_acked [OF False] False show ?thesis by (simp only: if_False)
qed


text \<open>
  C37: polls that overlap send twice, and the last one to save wins. When two polls have fetched
  the same entry, the service accepts the first request and refuses the second, the entry ends
  up not processed but pending again, or failed on its fifth attempt, though its event was
  accepted. Nothing locks the entries a poll has fetched.
\<close>

theorem overlapping_polls_resend:
  assumes "cfg_baseUrl cfg \<noteq> []" and "ox_status r = Pending"
    and req: "req = ingest_request cfg (forward_command (outbox_toDomain r now))"
    and "answer log req = Inr good" and "resp_ok good"
    and "answer (log @ [(req, Inr good)]) req = Inr bad" and "\<not> resp_ok bad"
  shows "\<exists>row. (poll_step (outbox_repository (outbox_list_table outbox_unique) now) (ingest cfg (logged_fetch answer)))\<^sup>*\<^sup>*
        (([r], log), []) (([row], log @ [(req, Inr good), (req, Inr bad)]), [Ready [], Ready []])
    \<and> ox_eventId row \<in> accepted_ids ([row], log @ [(req, Inr good), (req, Inr bad)])
    \<and> ox_status row = (if ox_attempts r + 1 \<ge> 5 then Failed else Pending)"
proof -
  let ?R = "outbox_repository (outbox_list_table outbox_unique) now" and ?send = "ingest cfg (logged_fetch answer)"
  let ?e = "outbox_toDomain r now"
  let ?w = "([r], log)"
  let ?w1 = "([outbox_toOrm (markProcessed 0 ?e)], log @ [(req, Inr good)])"
  have id: "ent_id ?e = ox_id r" using outbox_toOrm_simps(1) [of ?e] by simp
  then have id1: "ent_id (markProcessed 0 ?e) = ox_id r" by (simp add: markProcessed_def)
  have find: "ob_findPending ?R BATCH_SIZE ?w = (Inr [?e], ?w)"
    using assms(2) by (simp add: findPending_listed pending_rows_def BATCH_SIZE_def)
  have "?send (forward_command ?e) ?w = (Inr (), ([r], log @ [(req, Inr good)]))"
    unfolding ingest_ok_iff using assms by (simp add: logged_fetch_def)
  then have first: "snd (process_entry ?R ?send 0 ?e ?w) = ?w1"
    by (simp add: process_entry_one id settled_def)
  obtain m where "?send (forward_command ?e) ?w1 = (Inl (PlainError m), (fst ?w1, log @ [(req, Inr good), (req, Inr bad)]))"
    using assms(1,6,7) req by (simp add: ingest_def logged_fetch_def andThen_run try_catch_run)
  then have second: "snd (process_entry ?R ?send 0 ?e ?w1) = ([outbox_toOrm (recordAttemptFailure m MAX_ATTEMPTS ?e)],
      log @ [(req, Inr good), (req, Inr bad)])"
    by (simp add: process_entry_one id id1 settled_def)
  let ?row = "outbox_toOrm (recordAttemptFailure m MAX_ATTEMPTS ?e)"
  have "exchange_accepts (req, Inr good) = Some (ox_eventId ?row)"
    using assms(5) outbox_toOrm_simps(2) [of ?e]
    by (simp add: exchange_accepts_def req ingest_request_event_id refused_row)
  then have "ox_eventId ?row \<in> accepted_ids ([?row], log @ [(req, Inr good), (req, Inr bad)])"
    by (simp add: accepted_ids_def)
  with two_polls_run [OF find, of ?send 0 0] assms(2) show ?thesis
    by (intro exI [of _ ?row]) (simp add: first second refused_row)
qed

theorem overlapping_polls_resend_witness:
  "\<exists>w ps. interleaved outbox_unique sample_streaming
       (\<lambda>log. answering (if log = [] then 202 else 503) log) (w, ps)
     \<and> list_all (\<lambda>r. ox_status r = Pending \<and> ox_eventId r \<in> accepted_ids w) (fst w) \<and> fst w \<noteq> []"
proof -
  let ?answer = "\<lambda>log. answering (if log = [] then 202 else 503) log"
  let ?r = "sample_outbox_row ''e1''"
  let ?req = "ingest_request sample_streaming (forward_command (outbox_toDomain ?r 0))"
  let ?good = "\<lparr>resp_status = 202, resp_text = Inr []\<rparr>" and ?bad = "\<lparr>resp_status = 503, resp_text = Inr []\<rparr>"
  let ?R = "outbox_repository (outbox_list_table outbox_unique) 0"
  have publish: "snd (ob_append ?R (outbox_create (sample_event ''e1'') 1 ''oe1'' 2 3) ([], [])) = ([?r], [])"
    by code_simp
  have start: "interleaved outbox_unique sample_streaming ?answer (([?r], []), [])"
    using interleaved.step [OF interleaved.empty poll_step.publish] unfolding publish [symmetric] .
  have up: "cfg_baseUrl sample_streaming \<noteq> []" "ox_status ?r = Pending" by code_simp+
  have answers: "?answer [] ?req = Inr ?good" "resp_ok ?good"
    "?answer ([] @ [(?req, Inr ?good)]) ?req = Inr ?bad" "\<not> resp_ok ?bad"
    by (simp_all add: answering_def resp_ok_def)
  have few: "\<not> ox_attempts ?r + 1 \<ge> 5" by code_simp
  from overlapping_polls_resend [where answer = ?answer and r = ?r and now = 0, OF up refl answers] few
  obtain row where
    run: "(poll_step ?R (ingest sample_streaming (logged_fetch ?answer)))\<^sup>*\<^sup>*
        (([?r], []), []) (([row], [] @ [(?req, Inr ?good), (?req, Inr ?bad)]), [Ready [], Ready []])"
    and row: "ox_eventId row \<in> accepted_ids ([row], [] @ [(?req, Inr ?good), (?req, Inr ?bad)])" "ox_status row = Pending"
    by (auto simp del: append_Nil)
  from interleaved_run [OF run start] row show ?thesis
    by (intro exI conjI) auto
qed

text \<open>
  The envelope of an event reaches the backbone whole: the request that forwards the outbox entry
  of an event carries its id, tenant, version, source, actor, causation, trace and source version
  as metadata, the optional ones when they are set.
\<close>

lemma envelope_reaches_backbone:
  "map_of (ingest_metadata (forward_command (outbox_create ev t i n1 n2)))
     = [''event_id'' \<mapsto> te_eventId ev, ''tenant_id'' \<mapsto> te_tenantId ev,
        ''event_version'' \<mapsto> show_int (te_eventVersion ev), ''source_service'' \<mapsto> te_sourceService ev]
       ++ (if truthy (te_actorId ev) then [''actor_id'' \<mapsto> the (te_actorId ev)] else Map.empty)
       ++ (if truthy (te_causationId ev) then [''causation_id'' \<mapsto> the (te_causationId ev)] else Map.empty)
       ++ (if truthy (te_traceId ev) then [''trace_id'' \<mapsto> the (te_traceId ev)] else Map.empty)
       ++ (if truthy (te_sourceVersion ev) then [''source_version'' \<mapsto> the (te_sourceVersion ev)] else Map.empty)"
  by (auto simp: ingest_metadata_def forward_command_def outbox_create_def entity.defs Let_def fun_eq_iff map_add_def)

section \<open>The schema\<close>

text \<open>
  Both migrations run on an empty database in their order, and running them down again in
  reverse order leaves no table, type, index, function or trigger behind.
\<close>

lemma migrations_reversible:
  "map_option (\<lambda>s. (sm_tables s, sm_types s, sm_indexes s, sm_functions s, sm_triggers s))
     (run_migration (initial_up @ outbox_up @ outbox_down @ initial_down) empty_schema) = Some ([], [], [], [], [])"
  by code_simp


section \<open>The dashboard series\<close>


end
