(* ===== verification/NestClasses.thy ===== *)
theory NestClasses
  imports Main
begin

text \<open>
  The classes Nest creates: what the constructor of each asks for, and the guards a controller
  declares. The container is a library; what the platform hands it is the data below, and
  \<open>NestModules\<close> says what it makes of it.
\<close>

text \<open>
  A constructor asks for a class of the platform or for something a library provides: one of its
  services, or the TypeORM repository of an entity (\<open>@InjectRepository\<close>).
\<close>

datatype library_token = Service string | RepositoryOf string

datatype token = Own string | Library library_token

abbreviation service :: "string \<Rightarrow> token" where
  "service s \<equiv> Library (Service s)"

abbreviation repository :: "string \<Rightarrow> token" where
  "repository e \<equiv> Library (RepositoryOf e)"

datatype nest_class = NestClass (cls_name: string) (cls_params: "token list") (cls_guards: "nest_class list")

section \<open>Guards and middleware\<close>

text \<open>The guards, of which \<open>ApiKeyGuard\<close> is used nowhere, and the middleware.\<close>

definition JwtAuthGuard_class :: nest_class where
  "JwtAuthGuard_class =
     NestClass ''JwtAuthGuard'' [service ''Reflector''] []"

definition RbacGuard_class :: nest_class where
  "RbacGuard_class =
     NestClass ''RbacGuard'' [service ''Reflector''] []"

definition ApiKeyGuard_class :: nest_class where
  "ApiKeyGuard_class =
     NestClass ''ApiKeyGuard'' [service ''Reflector''] []"

definition TenantContextService_class :: nest_class where
  "TenantContextService_class =
     NestClass ''TenantContextService'' [] []"

definition TenantContextMiddleware_class :: nest_class where
  "TenantContextMiddleware_class =
     NestClass ''TenantContextMiddleware''
       [Own ''TenantContextService'', service ''ConfigService''] []"

definition JwtStrategy_class :: nest_class where
  "JwtStrategy_class =
     NestClass ''JwtStrategy'' [service ''ConfigService''] []"

section \<open>Tenant core\<close>

definition OrganizationMapper_class :: nest_class where
  "OrganizationMapper_class =
     NestClass ''OrganizationMapper'' [] []"

definition OrganizationRepository_class :: nest_class where
  "OrganizationRepository_class =
     NestClass ''OrganizationRepository''
       [repository ''OrganizationOrmEntity'', Own ''TenantContextService'', Own ''OrganizationMapper''] []"

definition CreateOrganizationHandler_class :: nest_class where
  "CreateOrganizationHandler_class =
     NestClass ''CreateOrganizationHandler''
       [Own ''OrganizationRepositoryPort'', Own ''IEventBus''] []"

definition UpdateOrganizationHandler_class :: nest_class where
  "UpdateOrganizationHandler_class =
     NestClass ''UpdateOrganizationHandler'' [Own ''OrganizationRepositoryPort''] []"

definition SuspendOrganizationHandler_class :: nest_class where
  "SuspendOrganizationHandler_class =
     NestClass ''SuspendOrganizationHandler''
       [Own ''OrganizationRepositoryPort'', Own ''IEventBus''] []"

definition TenantCoreController_class :: nest_class where
  "TenantCoreController_class =
     NestClass ''TenantCoreController''
       [Own ''CreateOrganizationHandler'', Own ''UpdateOrganizationHandler'',
        Own ''SuspendOrganizationHandler''] [JwtAuthGuard_class, RbacGuard_class]"

section \<open>Identity\<close>

definition UserRepository_class :: nest_class where
  "UserRepository_class =
     NestClass ''UserRepository'' [repository ''UserOrmEntity''] []"

definition RegisterUserHandler_class :: nest_class where
  "RegisterUserHandler_class =
     NestClass ''RegisterUserHandler'' [Own ''UserRepositoryPort'', Own ''IEventBus''] []"

definition AuthenticateHandler_class :: nest_class where
  "AuthenticateHandler_class =
     NestClass ''AuthenticateHandler''
       [Own ''UserRepositoryPort'', Own ''OrganizationRepositoryPort'', service ''JwtService''] []"

definition IdentityController_class :: nest_class where
  "IdentityController_class =
     NestClass ''IdentityController''
       [Own ''RegisterUserHandler'', Own ''AuthenticateHandler''] [JwtAuthGuard_class]"

section \<open>Audit\<close>

definition AuditEventRepository_class :: nest_class where
  "AuditEventRepository_class =
     NestClass ''AuditEventRepository''
       [repository ''AuditEventOrmEntity'', Own ''TenantContextService''] []"

definition RecordAuditEventHandler_class :: nest_class where
  "RecordAuditEventHandler_class =
     NestClass ''RecordAuditEventHandler'' [Own ''AuditEventRepositoryPort'', Own ''IEventBus''] []"

definition AuditController_class :: nest_class where
  "AuditController_class =
     NestClass ''AuditController''
       [Own ''AuditEventRepositoryPort''] [JwtAuthGuard_class, RbacGuard_class]"

section \<open>Workflow\<close>

definition WorkflowDefinitionRepository_class :: nest_class where
  "WorkflowDefinitionRepository_class =
     NestClass ''WorkflowDefinitionRepository''
       [repository ''WorkflowDefinitionOrmEntity'', Own ''TenantContextService''] []"

definition WorkflowExecutionRepository_class :: nest_class where
  "WorkflowExecutionRepository_class =
     NestClass ''WorkflowExecutionRepository''
       [repository ''WorkflowExecutionOrmEntity'',
        Own ''TenantContextService''] []"

definition TriggerWorkflowHandler_class :: nest_class where
  "TriggerWorkflowHandler_class =
     NestClass ''TriggerWorkflowHandler''
       [Own ''WorkflowDefinitionRepositoryPort'', Own ''WorkflowExecutionRepositoryPort'', Own ''IEventBus''] []"

definition CancelWorkflowExecutionHandler_class :: nest_class where
  "CancelWorkflowExecutionHandler_class =
     NestClass ''CancelWorkflowExecutionHandler'' [Own ''WorkflowExecutionRepositoryPort''] []"

definition ListWorkflowExecutionsHandler_class :: nest_class where
  "ListWorkflowExecutionsHandler_class =
     NestClass ''ListWorkflowExecutionsHandler'' [Own ''WorkflowExecutionRepositoryPort''] []"

definition GetWorkflowExecutionHandler_class :: nest_class where
  "GetWorkflowExecutionHandler_class =
     NestClass ''GetWorkflowExecutionHandler'' [Own ''WorkflowExecutionRepositoryPort''] []"

definition WorkflowController_class :: nest_class where
  "WorkflowController_class =
     NestClass ''WorkflowController''
       [Own ''ListWorkflowExecutionsHandler'', Own ''GetWorkflowExecutionHandler'',
        Own ''CancelWorkflowExecutionHandler''] [JwtAuthGuard_class, RbacGuard_class]"

section \<open>Dashboard\<close>

definition GetDashboardMetricsHandler_class :: nest_class where
  "GetDashboardMetricsHandler_class =
     NestClass ''GetDashboardMetricsHandler''
       [repository ''AuditEventOrmEntity'', repository ''WorkflowExecutionOrmEntity'',
        repository ''OrganizationOrmEntity'', Own ''TenantContextService''] []"

definition GetEventSeriesHandler_class :: nest_class where
  "GetEventSeriesHandler_class =
     NestClass ''GetEventSeriesHandler''
       [repository ''AuditEventOrmEntity'', repository ''WorkflowExecutionOrmEntity'',
        Own ''TenantContextService''] []"

definition DashboardController_class :: nest_class where
  "DashboardController_class =
     NestClass ''DashboardController''
       [Own ''GetDashboardMetricsHandler'', Own ''GetEventSeriesHandler'', Own ''TenantContextService''] [JwtAuthGuard_class, RbacGuard_class]"

section \<open>Events and outbox\<close>

definition EventStreamingHttpClient_class :: nest_class where
  "EventStreamingHttpClient_class =
     NestClass ''EventStreamingHttpClient'' [service ''ConfigService''] []"

definition OutboxEntryRepository_class :: nest_class where
  "OutboxEntryRepository_class =
     NestClass ''OutboxEntryRepository'' [repository ''OutboxEntryOrmEntity''] []"

definition OutboxProcessorService_class :: nest_class where
  "OutboxProcessorService_class =
     NestClass ''OutboxProcessorService''
       [Own ''OutboxEntryRepositoryPort'', Own ''EventStreamingHttpClient'', service ''ConfigService''] []"

end
