(* ===== verification/NestModules.thy ===== *)
theory NestModules
  imports NestClasses
begin

text \<open>
  How the application is wired: the modules with their imports, providers and exports, which
  provider a constructor argument resolves to, what the container can create, and what runs at
  all: the providers some controller, guard, middleware, timer or script holds.
\<close>

section \<open>Modules\<close>

text \<open>The modules of the libraries; \<open>Feature\<close> is \<open>TypeOrmModule.forFeature\<close> with its entities.\<close>

datatype library = NestCore | ConfigLib | JwtLib | PassportLib | ThrottlerLib | TypeOrmRoot | Feature "string list"

datatype import = Module string | Lib library | GlobalLib library

text \<open>A provider binds a token to a class, or to a factory with the tokens it is called with.\<close>

datatype provider = UseClass (provided: string) nest_class | UseFactory (provided: string) "token list"

datatype export = Token string | Reexport library

record nest_module =
  md_name :: string
  md_imports :: "import list"
  md_controllers :: "nest_class list"
  md_providers :: "provider list"
  md_exports :: "export list"
  md_global :: bool
  md_middleware :: "nest_class list"

text \<open>A class that stands for itself in a list of providers.\<close>

definition itself :: "nest_class \<Rightarrow> provider" where
  "itself c = UseClass (cls_name c) c"

definition TenantContextModule :: nest_module where
  "TenantContextModule =
     \<lparr>md_name = ''TenantContextModule'', md_imports = [], md_controllers = [],
      md_providers = [itself TenantContextService_class],
      md_exports = [Token ''TenantContextService''], md_global = True, md_middleware = []\<rparr>"

definition TenantCoreModule :: nest_module where
  "TenantCoreModule =
     \<lparr>md_name = ''TenantCoreModule'', md_imports = [Lib (Feature [''OrganizationOrmEntity''])],
      md_controllers = [TenantCoreController_class],
      md_providers =
        [itself OrganizationMapper_class,
         UseClass ''OrganizationRepositoryPort'' OrganizationRepository_class,
         itself CreateOrganizationHandler_class, itself UpdateOrganizationHandler_class,
         itself SuspendOrganizationHandler_class],
      md_exports = [Token ''OrganizationRepositoryPort''], md_global = False, md_middleware = []\<rparr>"

definition IdentityModule :: nest_module where
  "IdentityModule =
     \<lparr>md_name = ''IdentityModule'',
      md_imports = [Lib (Feature [''UserOrmEntity'']), Lib PassportLib, Module ''TenantCoreModule'', Lib JwtLib],
      md_controllers = [IdentityController_class],
      md_providers =
        [UseClass ''UserRepositoryPort'' UserRepository_class, itself JwtStrategy_class,
         itself RegisterUserHandler_class, itself AuthenticateHandler_class],
      md_exports = [Token ''UserRepositoryPort'', Reexport JwtLib], md_global = False, md_middleware = []\<rparr>"

definition AuditModule :: nest_module where
  "AuditModule =
     \<lparr>md_name = ''AuditModule'', md_imports = [Lib (Feature [''AuditEventOrmEntity''])],
      md_controllers = [AuditController_class],
      md_providers =
        [UseClass ''AuditEventRepositoryPort'' AuditEventRepository_class, itself RecordAuditEventHandler_class],
      md_exports = [Token ''AuditEventRepositoryPort'', Token ''RecordAuditEventHandler''],
      md_global = False, md_middleware = []\<rparr>"

definition WorkflowModule :: nest_module where
  "WorkflowModule =
     \<lparr>md_name = ''WorkflowModule'',
      md_imports = [Lib (Feature [''WorkflowDefinitionOrmEntity'', ''WorkflowExecutionOrmEntity''])],
      md_controllers = [WorkflowController_class],
      md_providers =
        [UseClass ''WorkflowDefinitionRepositoryPort'' WorkflowDefinitionRepository_class,
         UseClass ''WorkflowExecutionRepositoryPort'' WorkflowExecutionRepository_class,
         itself TriggerWorkflowHandler_class, itself CancelWorkflowExecutionHandler_class,
         itself ListWorkflowExecutionsHandler_class, itself GetWorkflowExecutionHandler_class],
      md_exports = [Token ''TriggerWorkflowHandler''], md_global = False, md_middleware = []\<rparr>"

definition DashboardModule :: nest_module where
  "DashboardModule =
     \<lparr>md_name = ''DashboardModule'',
      md_imports =
        [Lib (Feature [''AuditEventOrmEntity'', ''WorkflowExecutionOrmEntity'', ''OrganizationOrmEntity''])],
      md_controllers = [DashboardController_class],
      md_providers = [itself GetDashboardMetricsHandler_class, itself GetEventSeriesHandler_class],
      md_exports = [], md_global = False, md_middleware = []\<rparr>"

definition OutboxModule :: nest_module where
  "OutboxModule =
     \<lparr>md_name = ''OutboxModule'', md_imports = [Lib (Feature [''OutboxEntryOrmEntity'']), Lib ConfigLib],
      md_controllers = [],
      md_providers =
        [UseClass ''OutboxEntryRepositoryPort'' OutboxEntryRepository_class,
         itself EventStreamingHttpClient_class, itself OutboxProcessorService_class],
      md_exports = [Token ''OutboxEntryRepositoryPort''], md_global = False, md_middleware = []\<rparr>"

text \<open>What the factory of the event bus builds is \<open>platform_event_bus\<close> in the theory \<open>EventBus\<close>.\<close>

definition PlatformEventsModule_forRoot :: nest_module where
  "PlatformEventsModule_forRoot =
     \<lparr>md_name = ''PlatformEventsModule'', md_imports = [Lib ConfigLib, Lib (Feature [''OutboxEntryOrmEntity''])],
      md_controllers = [],
      md_providers =
        [UseClass ''OutboxEntryRepositoryPort'' OutboxEntryRepository_class,
         itself EventStreamingHttpClient_class,
         UseFactory ''IEventBus'' [service ''ConfigService'', Own ''OutboxEntryRepositoryPort'']],
      md_exports = [Token ''IEventBus''], md_global = True, md_middleware = []\<rparr>"

definition AppModule :: nest_module where
  "AppModule =
     \<lparr>md_name = ''AppModule'',
      md_imports =
        [GlobalLib ConfigLib, Lib ThrottlerLib, Lib TypeOrmRoot, Module ''TenantContextModule'',
         Module ''PlatformEventsModule'', Module ''OutboxModule'', Module ''TenantCoreModule'',
         Module ''IdentityModule'', Module ''AuditModule'', Module ''WorkflowModule'', Module ''DashboardModule''],
      md_controllers = [], md_providers = [], md_exports = [], md_global = False,
      md_middleware = [TenantContextMiddleware_class]\<rparr>"

definition application :: "nest_module list" where
  "application =
     [AppModule, TenantContextModule, PlatformEventsModule_forRoot, OutboxModule, TenantCoreModule,
      IdentityModule, AuditModule, WorkflowModule, DashboardModule]"

section \<open>Resolution\<close>

text \<open>
  A module sees its own providers, then what the modules it imports export, then what the global
  modules export. Library modules likewise; the core of Nest and a library module imported as
  global are seen everywhere.
\<close>

definition module_named :: "nest_module list \<Rightarrow> string \<Rightarrow> nest_module option" where
  "module_named app n = find (\<lambda>m. md_name m = n) app"

definition visible_modules :: "nest_module list \<Rightarrow> nest_module \<Rightarrow> nest_module list" where
  "visible_modules app m =
     concat (map (\<lambda>i. case i of
         Module n \<Rightarrow> (case module_named app n of Some k \<Rightarrow> [k] | None \<Rightarrow> [])
       | _ \<Rightarrow> []) (md_imports m)) @ filter md_global app"

definition provider_of :: "string \<Rightarrow> nest_module \<Rightarrow> provider option" where
  "provider_of t m = find (\<lambda>p. provided p = t) (md_providers m)"

definition resolve :: "nest_module list \<Rightarrow> nest_module \<Rightarrow> string \<Rightarrow> (nest_module \<times> provider) option" where
  "resolve app m t =
     (case provider_of t m of
        Some p \<Rightarrow> Some (m, p)
      | None \<Rightarrow>
          (case find (\<lambda>n. Token t \<in> set (md_exports n)) (visible_modules app m) of
             None \<Rightarrow> None
           | Some n \<Rightarrow> map_option (Pair n) (provider_of t n)))"

definition libraries :: "nest_module list \<Rightarrow> nest_module \<Rightarrow> library list" where
  "libraries app m =
     NestCore
     # concat (map (\<lambda>k. concat (map (\<lambda>i. case i of GlobalLib l \<Rightarrow> [l] | _ \<Rightarrow> []) (md_imports k))) app)
     @ concat (map (\<lambda>i. case i of Lib l \<Rightarrow> [l] | _ \<Rightarrow> []) (md_imports m))
     @ concat (map (\<lambda>k. concat (map (\<lambda>e. case e of Reexport l \<Rightarrow> [l] | _ \<Rightarrow> []) (md_exports k)))
         (visible_modules app m))"

definition needs :: "provider \<Rightarrow> token list" where
  "needs p = (case p of UseClass _ c \<Rightarrow> cls_params c | UseFactory _ ts \<Rightarrow> ts)"

text \<open>What the classes a module creates for requests ask for, guards and middleware included.\<close>

definition request_tokens :: "nest_module \<Rightarrow> token list" where
  "request_tokens m =
     concat (map (\<lambda>c. cls_params c @ concat (map cls_params (cls_guards c))) (md_controllers m @ md_middleware m))"

section \<open>What the container can create\<close>

text \<open>
  \<open>lib l\<close> is what a library module provides, an argument. A token can be created when it
  resolves and all that its provider needs can be created before it, in the provider's module:
  the least such relation, so nothing waits for itself.
\<close>

inductive creatable :: "(library \<Rightarrow> library_token list) \<Rightarrow> nest_module list \<Rightarrow> nest_module \<Rightarrow> token \<Rightarrow> bool"
  for lib app where
  library: "l \<in> set (libraries app m) \<Longrightarrow> s \<in> set (lib l) \<Longrightarrow> creatable lib app m (Library s)"
| provider: "resolve app m t = Some (n, p) \<Longrightarrow> \<forall>d \<in> set (needs p). creatable lib app n d
    \<Longrightarrow> creatable lib app m (Own t)"

inductive_cases creatable_ownE: "creatable lib app m (Own t)"

text \<open>The same with a bound on the depth, to compute it.\<close>

fun created_within :: "(library \<Rightarrow> library_token list) \<Rightarrow> nest_module list \<Rightarrow> nat \<Rightarrow> nest_module \<Rightarrow> token \<Rightarrow> bool" where
  "created_within lib app n m (Library s) = list_ex (\<lambda>l. s \<in> set (lib l)) (libraries app m)"
| "created_within lib app 0 m (Own t) = False"
| "created_within lib app (Suc n) m (Own t) =
     (case resolve app m t of
        None \<Rightarrow> False
      | Some (k, p) \<Rightarrow> list_all (created_within lib app n k) (needs p))"

lemma created_within_creatable: "created_within lib app n m d \<Longrightarrow> creatable lib app m d"
proof (induction lib app n m d rule: created_within.induct)
  case (1 lib app n m s)
  then show ?case by (auto simp: list_ex_iff intro: creatable.library)
next
  case (3 lib app n m t)
  then show ?case
    by (auto simp: list_all_iff split: option.splits intro!: creatable.provider)
qed simp

lemma creatable_mono:
  assumes "creatable lib app m d" and "\<And>l. set (lib l) \<subseteq> set (lib' l)"
  shows "creatable lib' app m d"
  using assms(1)
proof (induction rule: creatable.induct)
  case (library l m s)
  then show ?case using assms(2) by (blast intro: creatable.library)
next
  case (provider m t n p)
  then show ?case by (blast intro: creatable.provider)
qed

text \<open>Documented exports: the reflector, the configuration, the signer of tokens, the repositories.\<close>

fun documented_exports :: "library \<Rightarrow> library_token list" where
  "documented_exports NestCore = [Service ''Reflector'']"
| "documented_exports ConfigLib = [Service ''ConfigService'']"
| "documented_exports JwtLib = [Service ''JwtService'']"
| "documented_exports (Feature es) = map RepositoryOf es"
| "documented_exports _ = []"

definition ready :: "nest_module \<Rightarrow> bool" where
  "ready m \<longleftrightarrow>
     list_all (\<lambda>p. created_within documented_exports application 4 m (Own (provided p))) (md_providers m)
     \<and> list_all (created_within documented_exports application 4 m) (request_tokens m)"

lemma ready_AppModule: "ready AppModule" by code_simp
lemma ready_TenantContextModule: "ready TenantContextModule" by code_simp
lemma ready_PlatformEventsModule_forRoot: "ready PlatformEventsModule_forRoot" by code_simp
lemma ready_OutboxModule: "ready OutboxModule" by code_simp
lemma ready_TenantCoreModule: "ready TenantCoreModule" by code_simp
lemma ready_IdentityModule: "ready IdentityModule" by code_simp
lemma ready_AuditModule: "ready AuditModule" by code_simp
lemma ready_WorkflowModule: "ready WorkflowModule" by code_simp
lemma ready_DashboardModule: "ready DashboardModule" by code_simp

lemma application_ready: "m \<in> set application \<Longrightarrow> ready m"
  by (auto simp: application_def ready_AppModule ready_TenantContextModule ready_PlatformEventsModule_forRoot ready_OutboxModule
      ready_TenantCoreModule ready_IdentityModule ready_AuditModule ready_WorkflowModule ready_DashboardModule)

section \<open>What is in use\<close>

text \<open>
  A provider runs only when something holds it. Requests start at the controllers, their guards
  and the middleware; a few providers run by themselves: the processor and the event bus by their
  hooks, the strategy because passport calls it; and the bootstrap script fetches two by name.
\<close>

definition self_starting :: "string list" where
  "self_starting = [''OutboxProcessorService'', ''IEventBus'', ''JwtStrategy'']"

definition script_tokens :: "string list" where
  "script_tokens = [''UserRepositoryPort'', ''OrganizationRepositoryPort'']"

definition start_tokens :: "nest_module \<Rightarrow> token list" where
  "start_tokens m = request_tokens m
     @ map Own (filter (\<lambda>t. t \<in> set (self_starting @ script_tokens)) (map provided (md_providers m)))"

inductive in_use :: "nest_module list \<Rightarrow> nest_module \<Rightarrow> token \<Rightarrow> bool" for app where
  start: "m \<in> set app \<Longrightarrow> d \<in> set (start_tokens m) \<Longrightarrow> in_use app m d"
| needed: "in_use app m (Own t) \<Longrightarrow> resolve app m t = Some (n, p) \<Longrightarrow> d \<in> set (needs p) \<Longrightarrow> in_use app n d"

lemma find_SomeD: "find P xs = Some x \<Longrightarrow> x \<in> set xs \<and> P x"
  by (auto simp: find_Some_iff)

lemma resolve_provider:
  assumes "resolve app m t = Some (n, p)" and "m \<in> set app"
  shows "n \<in> set app" and "p \<in> set (md_providers n)" and "provided p = t"
proof -
  have vis: "k \<in> set app" if "k \<in> set (visible_modules app m)" for k
    using that unfolding visible_modules_def module_named_def
    by (auto dest: find_SomeD find_SomeD [OF sym] split: import.splits option.splits)
  have holds: "q \<in> set (md_providers k) \<and> provided q = t" if "provider_of t k = Some q" for k q
    using that by (auto simp: provider_of_def dest: find_SomeD)
  have "n \<in> set app \<and> provider_of t n = Some p"
    using assms by (auto simp: resolve_def dest: find_SomeD intro: vis split: option.splits)
  with holds show "n \<in> set app" and "p \<in> set (md_providers n)" and "provided p = t" by auto
qed

lemma in_use_module: "in_use app m d \<Longrightarrow> m \<in> set app"
  by (induction rule: in_use.induct) (auto dest: resolve_provider)

text \<open>A set of tokens that holds the start and is closed under needs holds all that is in use.\<close>

lemma in_use_within:
  assumes start: "\<And>m d. m \<in> set app \<Longrightarrow> d \<in> set (start_tokens m) \<Longrightarrow> d \<in> U"
    and closed: "\<And>m p d. m \<in> set app \<Longrightarrow> p \<in> set (md_providers m) \<Longrightarrow> Own (provided p) \<in> U
      \<Longrightarrow> d \<in> set (needs p) \<Longrightarrow> d \<in> U"
  shows "in_use app m d \<Longrightarrow> d \<in> U"
proof (induction rule: in_use.induct)
  case (needed m t n p d)
  from resolve_provider [OF needed.hyps(2) in_use_module [OF needed.hyps(1)]] needed show ?case
    by (metis closed)
qed (rule start)

text \<open>The tokens behind a token, to a depth.\<close>

fun behind :: "nest_module list \<Rightarrow> nat \<Rightarrow> nest_module \<Rightarrow> token \<Rightarrow> token list" where
  "behind app (Suc n) m (Own t) =
     Own t # (case resolve app m t of
                None \<Rightarrow> []
              | Some (k, p) \<Rightarrow> concat (map (behind app n k) (needs p)))"
| "behind app n m d = [d]"

lemma behind_in_use: "e \<in> set (behind app n m d) \<Longrightarrow> in_use app m d \<Longrightarrow> \<exists>k. in_use app k e"
proof (induction app n m d rule: behind.induct)
  case (1 app n m t)
  show ?case
  proof (cases "resolve app m t")
    case None
    with 1 show ?thesis by auto
  next
    case (Some r)
    obtain k p where r: "r = (k, p)" by force
    from 1(2) Some r consider "e = Own t" | d where "d \<in> set (needs p)" "e \<in> set (behind app n k d)"
      by auto
    then show ?thesis
    proof cases
      case 2
      with 1(1) [OF Some r [symmetric]] in_use.needed [OF 1(3) Some [unfolded r]] show ?thesis by blast
    qed (use 1(3) in blast)
  qed
qed auto

end
