(* ===== verification/WiringProperties.thy ===== *)
theory WiringProperties
  imports NestModules
begin

text \<open>
  The wiring of the application: the container can create all of it, and which parts of it
  nothing ever calls.
\<close>

section \<open>The application starts\<close>



section \<open>What nothing calls\<close>























end
