(* ===== verification/Startup.thy ===== *)
theory Startup
  imports Bootstrap AppConfig
begin

text \<open>
  How the three programs of the repository begin and end: the API (\<open>main.ts\<close>), the migrations
  (\<open>database/data-source.ts\<close>) and the bootstrap script. Each first completes the environment of
  the process from files. The dotenv package and the configuration module of Nest are arguments;
  their documented behaviour is a named hypothesis over the contents \<open>files\<close> of the files.
\<close>

section \<open>The environment\<close>

text \<open>\<open>dotenv.config({ path, override })\<close>: the environment of the process afterwards.\<close>

type_synonym dotenv = "string \<Rightarrow> bool \<Rightarrow> process_env \<Rightarrow> process_env"

text \<open>The configuration module with the paths of \<open>envFilePath\<close>.\<close>

type_synonym config_module = "string list \<Rightarrow> process_env \<Rightarrow> process_env"

definition script_environment :: "dotenv \<Rightarrow> process_env \<Rightarrow> process_env" where
  "script_environment config env = config ''.env.local'' False (config ''.env'' False env)"

definition migration_environment :: "dotenv \<Rightarrow> process_env \<Rightarrow> process_env" where
  "migration_environment config env = config ''.env'' False env"

definition app_environment :: "config_module \<Rightarrow> process_env \<Rightarrow> process_env" where
  "app_environment forRoot env = forRoot [''.env'', ''.env.local''] env"

text \<open>
  Documented: dotenv never changes a variable that is set unless told to override, and the
  configuration module takes a variable from the first file that has it, after the process.
\<close>

definition dotenv_documented :: "(string \<Rightarrow> process_env) \<Rightarrow> dotenv \<Rightarrow> bool" where
  "dotenv_documented files config \<longleftrightarrow>
     (\<forall>path env v. config path False env v = (case env v of Some x \<Rightarrow> Some x | None \<Rightarrow> files path v))"

fun first_file :: "(string \<Rightarrow> process_env) \<Rightarrow> string list \<Rightarrow> process_env" where
  "first_file files [] v = None"
| "first_file files (p # ps) v = (case files p v of Some x \<Rightarrow> Some x | None \<Rightarrow> first_file files ps v)"

definition config_module_documented :: "(string \<Rightarrow> process_env) \<Rightarrow> config_module \<Rightarrow> bool" where
  "config_module_documented files forRoot \<longleftrightarrow>
     (\<forall>ps env v. forRoot ps env v = (case env v of Some x \<Rightarrow> Some x | None \<Rightarrow> first_file files ps v))"

text \<open>Both hypotheses can hold.\<close>

definition load_file :: "(string \<Rightarrow> process_env) \<Rightarrow> dotenv" where
  "load_file files path override env v =
     (case (files path v, env v) of
        (None, x) \<Rightarrow> x
      | (Some x, None) \<Rightarrow> Some x
      | (Some x, Some y) \<Rightarrow> Some (if override then x else y))"

lemma load_file_documented: "dotenv_documented files (load_file files)"
  by (simp add: dotenv_documented_def load_file_def split: option.split)

lemma environment_order:
  assumes "dotenv_documented files config"
  shows "script_environment config env v =
    (case env v of Some x \<Rightarrow> Some x | None \<Rightarrow> first_file files [''.env'', ''.env.local''] v)"
  using assms by (simp add: script_environment_def dotenv_documented_def split: option.split)

text \<open>The script configures itself as the application does; a variable of the shell wins over both files.\<close>

lemma script_and_app_agree:
  assumes "dotenv_documented files config" and "config_module_documented files forRoot"
  shows "script_environment config env = app_environment forRoot env"
  by (rule ext) (use assms(2) in \<open>simp add: environment_order [OF assms(1)] app_environment_def
      config_module_documented_def\<close>)

text \<open>
  The migrations do not read \<open>.env.local\<close>: a variable that is only there holds for the
  application and not for them, so that they may run on another database.
\<close>

lemma migrations_miss_local:
  assumes "dotenv_documented files config" and "config_module_documented files forRoot"
    and "env v = None" and "files ''.env'' v = None" and "files ''.env.local'' v = Some x"
  shows "app_environment forRoot env v = Some x" and "migration_environment config env v = None"
  using assms
  by (simp_all add: app_environment_def migration_environment_def dotenv_documented_def config_module_documented_def)

lemma migrations_other_database:
  assumes "dotenv_documented files config" and "config_module_documented files forRoot"
    and "env ''DB_DATABASE'' = None" and "files ''.env'' ''DB_DATABASE'' = None"
    and "files ''.env.local'' ''DB_DATABASE'' = Some x" and "x \<noteq> ''atlas_dev''"
  shows "pg_database (app_database_options (app_environment forRoot env))
    \<noteq> pg_database (data_source (migration_environment config env))"
  using migrations_miss_local [where env = env, OF assms(1-5)] assms(6)
  by (simp add: app_database_options_def dbConfig_def data_source_def or_else_def Let_def)

section \<open>The bootstrap script\<close>

definition bootstrap_script ::
  "dotenv \<Rightarrow> (exn \<Rightarrow> string) \<Rightarrow> ('w, 'w app_context) io \<Rightarrow> 'w bcrypt \<Rightarrow> (nat \<Rightarrow> string) \<Rightarrow> (nat \<Rightarrow> time)
     \<Rightarrow> process_env \<Rightarrow> 'w \<Rightarrow> (int \<times> string) \<times> 'w" where
  "bootstrap_script config stack createApplicationContext B ids tm env w =
     (case bootstrap_run (script_environment config env) createApplicationContext B ids tm w of
        (r, w') \<Rightarrow> (bootstrap_exit stack r, w'))"

text \<open>A production setting in the shell or in \<open>.env\<close> stops the script, whatever \<open>.env.local\<close> says.\<close>

lemma script_refuses_production:
  assumes "dotenv_documented files config"
    and "readConfig (script_environment config env) = Inr cfg"
    and "env ''NODE_ENV'' = None" and "files ''.env'' ''NODE_ENV'' = Some ''production''"
    and "script_environment config env ''BOOTSTRAP_ALLOW_PROD'' \<noteq> Some ''true''"
  shows "fst (fst (bootstrap_script config stack create B ids tm env w)) = 1
    \<and> snd (bootstrap_script config stack create B ids tm env w) = w"
proof -
  have "script_environment config env ''NODE_ENV'' = Some ''production''"
    by (simp add: environment_order [OF assms(1)] assms(3,4))
  from bootstrap_refuses_production [OF assms(2) this assms(5), of create B ids tm w]
  show ?thesis
    by (auto simp: bootstrap_script_def bootstrap_exit_def)
qed

section \<open>The API\<close>

text \<open>
  \<open>bootstrap().catch(...)\<close> of \<open>main.ts\<close>: the exit code, or \<open>None\<close> while the server runs.
  \<open>create\<close> makes the application, whose configuration completes the environment, and \<open>listen\<close>
  opens the port.
\<close>

definition api_main ::
  "config_module \<Rightarrow> ('w, unit) io \<Rightarrow> (server_options \<Rightarrow> ('w, unit) io) \<Rightarrow> process_env \<Rightarrow> ('w, int option) io" where
  "api_main forRoot create listen env =
     try_catch
       (andThen create (\<lambda>_.
        andThen (listen (server (app_environment forRoot env))) (\<lambda>_. ret None)))
       (\<lambda>err. ret (Some 1))"

lemma api_main_runs:
  "(\<exists>w'. api_main forRoot create listen env w = (Inr None, w')) \<longleftrightarrow>
     (\<exists>w1 w2. create w = (Inr (), w1) \<and> listen (server (app_environment forRoot env)) w1 = (Inr (), w2))"
  by (auto simp: api_main_def try_catch_run andThen_run split: sum.splits prod.splits)

lemma api_main_never_throws: "\<exists>r. fst (api_main forRoot create listen env w) = Inr r"
  by (simp add: api_main_def try_catch_run andThen_run split: sum.splits prod.splits)

end
