(* ===== verification/Spec2Isabelle.thy ===== *)
theory Spec2Isabelle
  imports IsolationProperties RepositoryProperties IdentityProperties TenantProperties EventProperties
    WiringProperties Startup
begin

text \<open>
  A verification development for ATLAS, a multi-tenant SaaS platform written in TypeScript
  (NestJS, TypeORM, PostgreSQL, Redis).

  \<^bold>\<open>The program.\<close> A request enters through \<open>app.module.ts\<close>: the tenant-context middleware puts the
  tenant of the \<open>x-tenant-id\<close> header into an async-local store, the guards check token and role,
  the validation pipe checks body and query, and the controller builds a command or query for a
  handler. Handlers work on aggregates through repositories; the repositories take the tenant
  from the store and scope every query by it. Handlers publish integration events on the event
  bus; when forwarding is on, the bus also writes them to the outbox, from which a processor
  sends them to an external event backbone. A script creates the first tenant and its admin.

  \<^bold>\<open>Theories and sources.\<close> Paths are below \<open>src/\<close>.

  \<^item> \<open>Prelude\<close>: JavaScript text and date functions, JSON values, the program type \<open>io\<close> (a function
    from a world to an error or a value and the next world) with \<open>andThen\<close>, \<open>try_catch\<close> and
    \<open>for_each\<close>, and the collections of facts about it.
  \<^item> \<open>SharedKernel\<close>: \<open>libs/shared-kernel/src\<close>. \<open>TenantRepository\<close>: its \<open>tenant-aware.repository.ts\<close>.
  \<^item> \<open>TenantContext\<close>: \<open>apps/api/src/common/tenant-context\<close> and the correlation-id interceptor.
  \<^item> \<open>Orm\<close>: the queries the code builds with TypeORM, as data with an evaluator, and the record
    of operations a table offers. \<open>Paging\<close>: what the order, the offset and the limit of a query mean
    for a list read page after page.
  \<^item> \<open>EventContracts\<close>: \<open>libs/event-contracts/src\<close>, the envelope, the event types and the payload
    interfaces; \<open>PayloadConformance\<close> compares with them what the handlers build.
  \<^item> \<open>Organization\<close>, \<open>OrganizationRepository\<close>, \<open>TenantCommands\<close>: \<open>modules/tenant-core\<close>, from the
    aggregate to the controller. \<open>OrganizationInterleaving\<close>: its requests that overlap, as steps
    between the calls of the database they wait for. \<open>AccountInterleaving\<close> and
    \<open>ExecutionInterleaving\<close>: the same for registrations and logins and for triggers and
    cancellations, with atomic specifications they refine; \<open>Overlap\<close>: what the three share.
  \<^item> \<open>Identity\<close>: \<open>modules/identity\<close>. \<open>AuditTrail\<close>: \<open>modules/audit\<close>. \<open>WorkflowDefinition\<close>,
    \<open>WorkflowExecution\<close>: \<open>modules/workflow\<close>. \<open>Dashboard\<close>: \<open>modules/dashboard\<close>.
  \<^item> \<open>EventBus\<close>, \<open>EventStreamingClient\<close>: \<open>modules/platform-events\<close>. \<open>Outbox\<close>, \<open>OutboxDelivery\<close>,
    \<open>OutboxInterleaving\<close>, \<open>OutboxDrain\<close>: \<open>modules/outbox\<close>, the run of publishing and polling against
    a service, polls that overlap as steps between the calls they wait for, and the measure by which
    polls one after another settle every entry.
  \<^item> \<open>Guards\<close>: \<open>common/guards\<close>, \<open>common/filters\<close>, the JWT strategy. \<open>Http\<close>: the routes of the
    controllers and the way of a request. \<open>AppConfig\<close>: \<open>app.config.ts\<close> and the connections and
    the server configured from it. \<open>NestClasses\<close>: the constructors the dependency injection fills
    and the guards of the controllers. \<open>NestModules\<close>: the modules of the application, how a token is
    resolved in one, which providers can be created and which a request or a hook of the start
    can reach. \<open>Lifecycle\<close>: start and stop of buses and processor. \<open>Schema\<close>:
    \<open>database/migrations\<close> and the column declarations of the entities. \<open>Bootstrap\<close>:
    \<open>scripts/bootstrap-platform-admin.ts\<close>.
  \<^item> \<open>Startup\<close>: the files the environment of a process is completed from, and how \<open>main.ts\<close> and the
    bootstrap script begin and end.
  \<^item> \<open>Samples\<close>: the concrete requests, rows, tables and accounts the witnesses use.

  \<^bold>\<open>How the code is rendered.\<close> A class is a record (or a datatype for a value object), a method a
  function on it; a throw is the left side of a sum. The store is an optional context. A fresh
  uuid and a reading of the clock are arguments (\<open>ids k\<close>, \<open>tm k\<close> in the order of the calls). A
  port is a record of operations, instantiated by the model's own repository. A table is a
  record of operations too: what the database does is only assumed, by the hypotheses
  \<open>where_sound\<close> (a read returns rows that satisfy the conditions), \<open>finds_all\<close>,
  \<open>reads_matching\<close>, \<open>pages_sorted\<close> (a page is cut from the matching rows in the order asked for) and
  \<open>plain_store\<close> (reads and writes are those of a list of rows), each of which
  \<open>list_table\<close> and \<open>lone_table\<close> satisfy. In the same way \<open>bcrypt_documented\<close> says that a hash
  verifies its own text and \<open>passport_reports\<close> that passport calls \<open>handleRequest\<close> with the
  validated payload or with \<open>false\<close>, \<open>users_apart\<close> and \<open>unique_emails\<close> that
  bcrypt and the lookups of organizations write no user and the address column is unique,
  \<open>dotenv_documented\<close> and \<open>config_module_documented\<close> which file
  a variable is taken from.

  \<^bold>\<open>What is proved.\<close> \<open>IsolationProperties\<close>: what a request can see
  and change, by tenant header, token and role. \<open>RepositoryProperties\<close>: isolation and
  effect of the repositories, pages of a list, the choice and start of workflows, executions under
  overlapping requests. \<open>IdentityProperties\<close>: login, registration, bootstrap, accounts
  under overlapping requests. \<open>TenantProperties\<close>: the life cycles of organizations and
  executions with their invariants, round trips of the mappers, creation of organizations.
  \<open>EventProperties\<close>: delivery, order, retry and loss-freedom of the outbox, the buses,
  the schema, the event series. \<open>WiringProperties\<close>: the application starts, and which
  of its providers are ever used. Contracts between components are locales: \<open>Outbox\<close>,
  \<open>EventBus\<close>, \<open>TenantCommands\<close> and others state what a client needs of a
  port, and interpretations on the model's repositories and buses discharge them.

  \<^bold>\<open>Bounds.\<close> No definition uses fuel: all loops of the code run over lists or a fixed count. Numbers
  of the code that stay integers are \<open>int\<close>. The page and the limit of a list of executions are
  checked by the validation the controller declares; those of the audit list are not checked by
  the code, and the model covers the whole numbers among them, zero and negative ones included.

  \<^bold>\<open>Not modelled.\<close> Logging; the counting of the throttler library (its options are modelled, and
  that no guard of it is installed); when a timer fires (in \<open>OutboxDrain\<close> a run is a sequence of
  polls, in \<open>OutboxInterleaving\<close> a poll may start at any time); the bootstrap script running beside
  requests; fractional and NaN page numbers of the audit list; the brand types of identifiers,
  which the type checker erases. The concurrent queries of \<open>Promise.all\<close> run in the order they are
  written. Text is a list of 8-bit characters.
\<close>

end
